(* ===== verification/Prelude.thy ===== *)
theory Prelude
  imports Main "HOL-Library.Word"
begin

text \<open>
  Shared vocabulary of the development: the C integer types as words of their width, the
  ways in which a call into the emulator can fail to return (the values of \<open>stop\<close>), byte
  lists in memory, and the word lemmas that relate the wrap-around arithmetic of the
  emulated processor to arithmetic on \<open>nat\<close> and \<open>int\<close>.

  Conventions for C. Unsigned arithmetic wraps, so \<open>uint32_t\<close> is \<open>32 word\<close>. A signed value
  is kept as the word of the same width and read with \<open>sint\<close>. Conversions between widths are
  \<open>ucast\<close> and \<open>scast\<close>; the compilers the program is written for define the conversion to a
  signed type as reduction modulo the width, a signed \<open><<\<close> as the unsigned one and a signed
  \<open>>>\<close> as arithmetic. What C leaves undefined with no such guarantee (a shift count outside
  the width, overflow of a signed product or negation, a quotient that does not fit, an
  access outside an allocated object) is the value \<open>UB\<close> of \<open>stop\<close>. \<open>size_t\<close> has 64 bits
  on the hosts concerned; no sum of a 32-bit address and a buffer length reaches \<open>2 ^ 64\<close>,
  so sizes are \<open>nat\<close>.
\<close>

unbundle bit_operations_syntax

type_synonym u8 = "8 word"
type_synonym u16 = "16 word"
type_synonym u32 = "32 word"
type_synonym u64 = "64 word"

section \<open>Ways a call does not return normally\<close>

text \<open>
  \<open>HostOOB\<close>: a host pointer obtained from \<open>guest_to_host\<close> is used beyond the guest memory.
  \<open>ShiftRange\<close>: a shift count that is negative or not below the width of the promoted operand.
  \<open>SignedOverflow\<close>: a signed sum, product, negation or left shift that does not fit its type.
  \<open>DivOverflow\<close>: a signed quotient that does not fit its type.
  \<open>FloatRange\<close>: a floating value converted to an integer type that cannot hold its integral part.
\<close>

datatype ub_kind = HostOOB | ShiftRange | SignedOverflow | DivOverflow | FloatRange

text \<open>
  \<open>Exit n\<close> is a call of \<open>exit(n)\<close>; \<open>OutOfFuel\<close> says that the recursion of the opcode
  dispatcher went deeper than the bound the model was given.
\<close>

datatype stop = Exit u32 | UB ub_kind | OutOfFuel

type_synonym 'a result = "stop + 'a"

fun bind_result :: "'a result \<Rightarrow> ('a \<Rightarrow> 'b result) \<Rightarrow> 'b result" where
  "bind_result (Inl e) f = Inl e"
| "bind_result (Inr x) f = f x"

section \<open>Bytes in memory\<close>

definition load_bytes :: "nat \<Rightarrow> nat \<Rightarrow> (nat \<Rightarrow> u8) \<Rightarrow> u8 list" where
  "load_bytes off n m = map (\<lambda>i. m (off + i)) [0..<n]"

definition store_bytes :: "nat \<Rightarrow> u8 list \<Rightarrow> (nat \<Rightarrow> u8) \<Rightarrow> nat \<Rightarrow> u8" where
  "store_bytes off bs m = (\<lambda>i. if off \<le> i \<and> i < off + length bs then bs ! (i - off) else m i)"

text \<open>Little-endian encodings of the three access widths.\<close>

definition enc8 :: "u8 \<Rightarrow> u8 list" where
  "enc8 v = [v]"

definition dec8 :: "u8 list \<Rightarrow> u8" where
  "dec8 bs = bs ! 0"

definition enc16 :: "u16 \<Rightarrow> u8 list" where
  "enc16 v = [ucast v, ucast (drop_bit 8 v)]"

definition dec16 :: "u8 list \<Rightarrow> u16" where
  "dec16 bs = ucast (bs ! 0) OR push_bit 8 (ucast (bs ! 1))"

definition enc32 :: "u32 \<Rightarrow> u8 list" where
  "enc32 v = [ucast v, ucast (drop_bit 8 v), ucast (drop_bit 16 v), ucast (drop_bit 24 v)]"

definition dec32 :: "u8 list \<Rightarrow> u32" where
  "dec32 bs = ucast (bs ! 0) OR push_bit 8 (ucast (bs ! 1))
     OR push_bit 16 (ucast (bs ! 2)) OR push_bit 24 (ucast (bs ! 3))"

section \<open>Results\<close>

named_theorems frame \<open>what an operation leaves unchanged\<close>

lemma bind_result_Inr_iff:
  "bind_result r f = Inr y \<longleftrightarrow> (\<exists>x. r = Inr x \<and> f x = Inr y)"
  by (cases r) auto

section \<open>Bytes and encodings\<close>

lemma length_load_bytes [simp]: "length (load_bytes off n m) = n"
  by (simp add: load_bytes_def)

lemma nth_load_bytes [simp]: "i < n \<Longrightarrow> load_bytes off n m ! i = m (off + i)"
  by (simp add: load_bytes_def)

lemma load_store_bytes:
  "load_bytes off (length bs) (store_bytes off bs m) = bs"
  by (rule nth_equalityI) (auto simp: store_bytes_def)

lemma load_store_bytes_disjoint:
  "off + length bs \<le> off' \<or> off' + n \<le> off \<Longrightarrow>
   load_bytes off' n (store_bytes off bs m) = load_bytes off' n m"
  by (rule nth_equalityI) (auto simp: store_bytes_def)

lemma store_bytes_commute:
  "off + length bs \<le> off' \<or> off' + length bs' \<le> off \<Longrightarrow>
   store_bytes off bs (store_bytes off' bs' m) = store_bytes off' bs' (store_bytes off bs m)"
  by (rule ext) (auto simp: store_bytes_def)

lemma store_bytes_outside:
  "i < off \<or> off + length bs \<le> i \<Longrightarrow> store_bytes off bs m i = m i"
  by (auto simp: store_bytes_def)

lemma store_bytes_Nil [simp]: "store_bytes off [] m = m"
  by (auto simp: store_bytes_def fun_eq_iff)

lemma store_bytes_append:
  "store_bytes off (xs @ ys) m = store_bytes (off + length xs) ys (store_bytes off xs m)"
  by (rule ext) (auto simp: store_bytes_def nth_append)

lemma enc_length [simp]:
  "length (enc8 b) = 1" "length (enc16 h) = 2" "length (enc32 v) = 4"
  by (simp_all add: enc8_def enc16_def enc32_def)

lemma dec_enc8 [simp]: "dec8 (enc8 v) = v"
  by (simp add: dec8_def enc8_def)

lemma dec_enc16 [simp]: "dec16 (enc16 v) = v"
  by (rule bit_word_eqI) (auto simp: dec16_def enc16_def bit_simps)

lemma dec_enc32 [simp]: "dec32 (enc32 v) = v"
proof (rule bit_word_eqI)
  fix n
  assume "n < LENGTH(32)"
  then show "bit (dec32 (enc32 v)) n \<longleftrightarrow> bit v n"
    by (cases "n < 24"; cases "n < 16") (auto simp: dec32_def enc32_def bit_simps)
qed

section \<open>Addresses that do not wrap\<close>

lemma unat_add_small:
  fixes a :: u32
  assumes "unat a + n < 2 ^ 32"
  shows "unat (a + of_nat n) = unat a + n"
  using assms by (simp add: unat_word_ariths unat_of_nat)

lemma unat_add_const:
  fixes a :: u32
  shows "unat a + 1 < 2 ^ 32 \<Longrightarrow> unat (a + 1) = unat a + 1"
    and "unat a + 2 < 2 ^ 32 \<Longrightarrow> unat (a + 2) = unat a + 2"
    and "unat a + 3 < 2 ^ 32 \<Longrightarrow> unat (a + 3) = unat a + 3"
  using unat_add_small [of a 1] unat_add_small [of a 2] unat_add_small [of a 3] by simp_all

lemma upt_0_Suc: "[0..<Suc n] = 0 # map Suc [0..<n]"
  by (simp add: upt_conv_Cons map_Suc_upt del: upt_Suc)

lemma load_store_inside:
  "p \<le> p' \<Longrightarrow> p' + n \<le> p + length bs \<Longrightarrow>
   load_bytes p' n (store_bytes p bs m) = take n (drop (p' - p) bs)"
  by (rule nth_equalityI) (auto simp: store_bytes_def)

lemma load_bytes_Suc: "load_bytes p (Suc n) m = m p # load_bytes (Suc p) n m"
  by (simp add: load_bytes_def upt_conv_Cons map_Suc_upt [symmetric] del: upt_Suc)

section \<open>Alignment\<close>

lemma unat_align_down:
  fixes w :: "'a :: len word"
  shows "unat (w AND NOT (mask k)) = unat w div 2 ^ k * 2 ^ k"
proof -
  have "w AND NOT (mask k) = push_bit k (drop_bit k w)"
    by (rule bit_word_eqI) (auto simp: bit_simps)
  then have "unat (w AND NOT (mask k)) = take_bit LENGTH('a) (push_bit k (drop_bit k (unat w)))"
    by (simp only: unsigned_push_bit_eq unsigned_drop_bit_eq take_bit_nat_eq_self unsigned_less)
  then have "unat (w AND NOT (mask k)) = take_bit LENGTH('a) (unat w div 2 ^ k * 2 ^ k)"
    by (simp only: push_bit_eq_mult drop_bit_eq_div)
  moreover have "unat w div 2 ^ k * 2 ^ k < 2 ^ LENGTH('a)"
    using div_times_less_eq_dividend [of "unat w" "2 ^ k"] unsigned_less [of w] by (rule le_less_trans)
  ultimately show ?thesis by (simp add: take_bit_nat_eq_self)
qed

lemma align_masks:
  "(0xF :: u32) = mask 4" "(0xFFF :: u32) = mask 12" "(0x00FFFFFF :: u32) = mask 24"
  by (simp_all add: mask_eq_exp_minus_1)

lemma align_down_bounds:
  "w div d * d \<le> w" "0 < d \<Longrightarrow> w < w div d * d + d" for w d :: nat
  using dividend_less_div_times [of d w] by (simp_all add: add.commute)

end
