(* ===== verification/Mem.thy ===== *)
theory Mem
  imports Prelude
begin

text \<open>
  The guest memory of \<open>src/mem/mem.c\<close>: the static globals as a record, the bounds check,
  the byte, half-word and word accessors, and the host-side uses of the pointer that
  \<open>guest_to_host\<close> hands out. \<open>g_mem\<close> is the allocated block as a function from offsets to
  bytes; offsets from \<open>g_size\<close> on are outside the block. The debugging global
  \<open>g_watch_addr\<close> is never read and is left out, as are the diagnostics on stderr.
\<close>

section \<open>State and operations\<close>

record mem_state =
  g_mem :: "nat \<Rightarrow> u8"
  g_size :: nat
  g_last_eip :: u32

text \<open>\<open>calloc\<close> may fail; whether it does is the first argument.\<close>

definition init_mem :: "bool \<Rightarrow> nat \<Rightarrow> 'a mem_state_scheme \<Rightarrow> 'a mem_state_scheme result" where
  "init_mem calloc_ok sz s =
     (if \<not> calloc_ok then Inl (Exit 1)
      else Inr (s\<lparr>g_mem := (\<lambda>_. 0), g_size := sz\<rparr>))"

text \<open>After \<open>free_mem\<close> the pointer is NULL; with size 0 no offset passes the bounds check.\<close>

definition free_mem :: "'a mem_state_scheme \<Rightarrow> 'a mem_state_scheme" where
  "free_mem s = s\<lparr>g_mem := (\<lambda>_. 0), g_size := 0\<rparr>"

definition mem_size :: "'a mem_state_scheme \<Rightarrow> nat" where
  "mem_size s = g_size s"

definition check_bounds :: "u32 \<Rightarrow> nat \<Rightarrow> 'a mem_state_scheme \<Rightarrow> bool" where
  "check_bounds addr width s = (if unat addr + width > g_size s then False else True)"

text \<open>A host pointer into the block is its offset, NULL is \<open>None\<close>.\<close>

definition guest_to_host :: "u32 \<Rightarrow> 'a mem_state_scheme \<Rightarrow> nat option" where
  "guest_to_host addr s = (if \<not> check_bounds addr 1 s then None else Some (unat addr))"

definition mem_read8 :: "u32 \<Rightarrow> 'a mem_state_scheme \<Rightarrow> u8" where
  "mem_read8 addr s = (if \<not> check_bounds addr 1 s then 0 else g_mem s (unat addr))"

definition mem_read16 :: "u32 \<Rightarrow> 'a mem_state_scheme \<Rightarrow> u16" where
  "mem_read16 addr s =
     (if \<not> check_bounds addr 2 s then 0
      else ucast (g_mem s (unat addr)) OR push_bit 8 (ucast (g_mem s (unat (addr + 1)))))"

definition mem_read32 :: "u32 \<Rightarrow> 'a mem_state_scheme \<Rightarrow> u32" where
  "mem_read32 addr s =
     (if \<not> check_bounds addr 4 s then 0
      else ucast (g_mem s (unat addr))
        OR push_bit 8 (ucast (g_mem s (unat (addr + 1))))
        OR push_bit 16 (ucast (g_mem s (unat (addr + 2))))
        OR push_bit 24 (ucast (g_mem s (unat (addr + 3)))))"

definition mem_write8 :: "u32 \<Rightarrow> u8 \<Rightarrow> 'a mem_state_scheme \<Rightarrow> 'a mem_state_scheme" where
  "mem_write8 addr val s =
     (if \<not> check_bounds addr 1 s then s
      else s\<lparr>g_mem := (g_mem s)(unat addr := val)\<rparr>)"

definition mem_write16 :: "u32 \<Rightarrow> u16 \<Rightarrow> 'a mem_state_scheme \<Rightarrow> 'a mem_state_scheme" where
  "mem_write16 addr val s =
     (if \<not> check_bounds addr 2 s then s
      else s\<lparr>g_mem := (g_mem s)
             (unat addr := ucast val,
              unat (addr + 1) := ucast (drop_bit 8 val))\<rparr>)"

definition mem_write32 :: "u32 \<Rightarrow> u32 \<Rightarrow> 'a mem_state_scheme \<Rightarrow> 'a mem_state_scheme" where
  "mem_write32 addr val s =
     (if \<not> check_bounds addr 4 s then s
      else s\<lparr>g_mem := (g_mem s)
             (unat addr := ucast val,
              unat (addr + 1) := ucast (drop_bit 8 val),
              unat (addr + 2) := ucast (drop_bit 16 val),
              unat (addr + 3) := ucast (drop_bit 24 val))\<rparr>)"

definition mem_copy_in :: "u32 \<Rightarrow> u8 list \<Rightarrow> 'a mem_state_scheme \<Rightarrow> 'a mem_state_scheme" where
  "mem_copy_in guest_dst host_src s =
     (if \<not> check_bounds guest_dst (length host_src) s then s
      else s\<lparr>g_mem := store_bytes (unat guest_dst) host_src (g_mem s)\<rparr>)"

text \<open>
  What host code does through a pointer into the block: \<open>memcpy\<close> or a struct store to it,
  \<open>memset\<close> of it, and reads from it. None of these checks a length, so running past the
  block is undefined.
\<close>

definition host_store :: "nat \<Rightarrow> u8 list \<Rightarrow> 'a mem_state_scheme \<Rightarrow> 'a mem_state_scheme result" where
  "host_store p bs s =
     (if bs \<noteq> [] \<and> p + length bs > g_size s then Inl (UB HostOOB)
      else Inr (s\<lparr>g_mem := store_bytes p bs (g_mem s)\<rparr>))"

definition host_memset :: "nat \<Rightarrow> u8 \<Rightarrow> nat \<Rightarrow> 'a mem_state_scheme \<Rightarrow> 'a mem_state_scheme result" where
  "host_memset p v n s =
     (if n \<noteq> 0 \<and> p + n > g_size s then Inl (UB HostOOB)
      else Inr (s\<lparr>g_mem := (\<lambda>i. if p \<le> i \<and> i < p + n then v else g_mem s i)\<rparr>))"

definition host_load :: "nat \<Rightarrow> nat \<Rightarrow> 'a mem_state_scheme \<Rightarrow> u8 list result" where
  "host_load p n s =
     (if n \<noteq> 0 \<and> p + n > g_size s then Inl (UB HostOOB)
      else Inr (load_bytes p n (g_mem s)))"

section \<open>The contract of a sized access\<close>

text \<open>
  The three access widths share one contract: inside the bounds an access transfers the
  little-endian encoding of the value at its address and nothing else, outside the bounds a
  read gives a default and a write is dropped. What clients need follows once for all
  widths. The block is at most \<open>2 ^ 32\<close> bytes, so that an address inside it does not wrap
  when the accessor adds an offset to it.
\<close>

locale sized_access =
  fixes rd :: "u32 \<Rightarrow> 'a mem_state_scheme \<Rightarrow> 'v"
    and wr :: "u32 \<Rightarrow> 'v \<Rightarrow> 'a mem_state_scheme \<Rightarrow> 'a mem_state_scheme"
    and width :: nat
    and enc :: "'v \<Rightarrow> u8 list"
    and dec :: "u8 list \<Rightarrow> 'v"
    and dflt :: 'v
  assumes enc_len: "length (enc v) = width"
    and dec_enc: "dec (enc v) = v"
    and rd_in: "g_size s \<le> 2 ^ 32 \<Longrightarrow> unat a + width \<le> g_size s \<Longrightarrow>
      rd a s = dec (load_bytes (unat a) width (g_mem s))"
    and rd_out: "g_size s < unat a + width \<Longrightarrow> rd a s = dflt"
    and wr_in: "g_size s \<le> 2 ^ 32 \<Longrightarrow> unat a + width \<le> g_size s \<Longrightarrow>
      wr a v s = s\<lparr>g_mem := store_bytes (unat a) (enc v) (g_mem s)\<rparr>"
    and wr_out: "g_size s < unat a + width \<Longrightarrow> wr a v s = s"
begin

lemma wr_size: "g_size s \<le> 2 ^ 32 \<Longrightarrow> g_size (wr a v s) = g_size s"
  by (cases "unat a + width \<le> g_size s") (simp_all add: wr_in wr_out)

lemma rd_wr_same:
  assumes "g_size s \<le> 2 ^ 32" and "unat a + width \<le> g_size s"
  shows "rd a (wr a v s) = v"
proof -
  have "rd a (wr a v s) = dec (load_bytes (unat a) width (store_bytes (unat a) (enc v) (g_mem s)))"
    using assms by (simp add: wr_in rd_in)
  then show ?thesis
    using load_store_bytes [of "unat a" "enc v" "g_mem s"] by (simp add: enc_len dec_enc)
qed

lemma wr_outside:
  assumes "g_size s \<le> 2 ^ 32" and "i < unat a \<or> unat a + width \<le> i"
  shows "g_mem (wr a v s) i = g_mem s i"
  using assms
  by (cases "unat a + width \<le> g_size s") (simp_all add: wr_in wr_out store_bytes_outside enc_len)

lemma wr_beyond:
  assumes "g_size s \<le> 2 ^ 32" and "g_size s \<le> i"
  shows "g_mem (wr a v s) i = g_mem s i"
proof (cases "unat a + width \<le> g_size s")
  case True
  with assms show ?thesis by (intro wr_outside) auto
next
  case False
  then show ?thesis by (simp add: wr_out)
qed

lemma rd_load_cong:
  assumes "g_size s \<le> 2 ^ 32" and "g_size t = g_size s"
    and "load_bytes (unat a) width (g_mem t) = load_bytes (unat a) width (g_mem s)"
  shows "rd a t = rd a s"
  using assms by (cases "unat a + width \<le> g_size s") (simp_all add: rd_in rd_out)

end

text \<open>Two widths together: an access does not see a write to bytes it does not touch.\<close>

locale sized_access_pair =
  r: sized_access rd wr width enc dec dflt + w: sized_access rd' wr' width' enc' dec' dflt'
  for rd :: "u32 \<Rightarrow> 'a mem_state_scheme \<Rightarrow> 'v" and wr width enc dec dflt
    and rd' :: "u32 \<Rightarrow> 'a mem_state_scheme \<Rightarrow> 'u" and wr' width' enc' dec' dflt'
begin

lemma rd_wr_disjoint:
  assumes "g_size s \<le> 2 ^ 32"
    and "unat b + width' \<le> unat a \<or> unat a + width \<le> unat b"
  shows "rd a (wr' b v s) = rd a s"
proof (cases "unat b + width' \<le> g_size s")
  case True
  have "load_bytes (unat a) width (g_mem (wr' b v s)) = load_bytes (unat a) width (g_mem s)"
    using assms True by (simp add: w.wr_in load_store_bytes_disjoint w.enc_len)
  with assms show ?thesis by (intro r.rd_load_cong) (simp_all add: w.wr_size)
next
  case False
  then show ?thesis by (simp add: w.wr_out)
qed

end

section \<open>The accessors meet the contract\<close>

lemma check_bounds_iff: "check_bounds a n s \<longleftrightarrow> unat a + n \<le> g_size s"
  by (simp add: check_bounds_def)

lemma store_bytes2:
  "store_bytes p [a, b] m = m(p := a, Suc p := b)"
  by (auto simp: store_bytes_def fun_eq_iff nth_Cons split: nat.splits)

lemma store_bytes4:
  "store_bytes p [a, b, c, d] m = m(p := a, p + 1 := b, p + 2 := c, p + 3 := d)"
  by (auto simp: store_bytes_def fun_eq_iff nth_Cons split: nat.splits)

interpretation acc8: sized_access mem_read8 mem_write8 1 enc8 dec8 0
  by unfold_locales
    (auto simp: mem_read8_def mem_write8_def check_bounds_iff dec8_def enc8_def
      store_bytes_def load_bytes_def fun_eq_iff intro!: mem_state.equality)

lemma mem_access16_in:
  assumes "g_size s \<le> 2 ^ 32" and "unat a + 2 \<le> g_size s"
  shows "mem_read16 a s = dec16 (load_bytes (unat a) 2 (g_mem s))"
    and "mem_write16 a h s = s\<lparr>g_mem := store_bytes (unat a) (enc16 h) (g_mem s)\<rparr>"
  using assms
  by (auto simp: mem_read16_def mem_write16_def check_bounds_iff dec16_def enc16_def
      store_bytes2 unat_add_const)

lemma mem_access32_in:
  assumes "g_size s \<le> 2 ^ 32" and "unat a + 4 \<le> g_size s"
  shows "mem_read32 a s = dec32 (load_bytes (unat a) 4 (g_mem s))"
    and "mem_write32 a v s = s\<lparr>g_mem := store_bytes (unat a) (enc32 v) (g_mem s)\<rparr>"
  using assms
  by (auto simp: mem_read32_def mem_write32_def check_bounds_iff dec32_def enc32_def
      store_bytes4 unat_add_const)

interpretation acc16: sized_access mem_read16 mem_write16 2 enc16 dec16 0
  by unfold_locales
    (simp_all add: mem_access16_in, simp_all add: mem_read16_def mem_write16_def check_bounds_iff)

interpretation acc32: sized_access mem_read32 mem_write32 4 enc32 dec32 0
  by unfold_locales
    (simp_all add: mem_access32_in, simp_all add: mem_read32_def mem_write32_def check_bounds_iff)

interpretation acc32_32: sized_access_pair
  mem_read32 mem_write32 4 enc32 dec32 0 mem_read32 mem_write32 4 enc32 dec32 0
  by unfold_locales

interpretation acc8_32: sized_access_pair
  mem_read8 mem_write8 1 enc8 dec8 0 mem_read32 mem_write32 4 enc32 dec32 0
  by unfold_locales

interpretation acc32_8: sized_access_pair
  mem_read32 mem_write32 4 enc32 dec32 0 mem_read8 mem_write8 1 enc8 dec8 0
  by unfold_locales

interpretation acc8_8: sized_access_pair
  mem_read8 mem_write8 1 enc8 dec8 0 mem_read8 mem_write8 1 enc8 dec8 0
  by unfold_locales

lemma mem_write_size [simp, frame]:
  "g_size (mem_write8 a b s) = g_size s" "g_size (mem_write16 a h s) = g_size s"
  "g_size (mem_write32 a v s) = g_size s" "g_size (mem_copy_in a bs s) = g_size s"
  "g_last_eip (mem_write8 a b s) = g_last_eip s" "g_last_eip (mem_write16 a h s) = g_last_eip s"
  "g_last_eip (mem_write32 a v s) = g_last_eip s" "g_last_eip (mem_copy_in a bs s) = g_last_eip s"
  by (simp_all add: mem_write8_def mem_write16_def mem_write32_def mem_copy_in_def)

text \<open>\<open>memset\<close> is the store of a constant string.\<close>

lemma host_memset_store: "host_memset p b n s = host_store p (replicate n b) s"
  by (auto simp: host_memset_def host_store_def store_bytes_def fun_eq_iff
      intro!: arg_cong [where f = "\<lambda>m. s\<lparr>g_mem := m\<rparr>"])

end
