(* ===== verification/Cpu.thy ===== *)
theory Cpu
  imports Mem
begin

text \<open>
  The processor state of \<open>src/cpu/cpu.h\<close> and the globals of \<open>src/cpu/ops.c\<close>, with the flag
  and byte-register helpers every instruction handler uses. The C code keeps one \<open>i386\<close>
  struct beside the globals of each file; the model keeps them in one record that extends
  the memory record, so a handler takes and returns a single state. The operations are
  stated for any extension of the record, so that the system-call state can be added later.
\<close>

section \<open>State\<close>

record i386 = mem_state +
  regs :: "u32 list"
  eip :: u32
  eflags :: u32
  halted :: bool
  cycles :: u32

text \<open>\<open>cycles\<close> is a statistics counter of type \<open>int\<close>; it is kept modulo \<open>2 ^ 32\<close>.\<close>

record XMMReg =
  lo :: u64
  hi :: u64

text \<open>The x87 registers hold C doubles, here as the 64 bits of their representation.\<close>

record ops_state = i386 +
  g_operand_size_16 :: bool
  g_gs_base :: u32
  g_seg_override :: u32
  fpu_stack :: "u64 list"
  fpu_top :: u32
  mmx_regs :: "u64 list"
  xmm_regs :: "XMMReg list"

abbreviation (input) REG_EAX :: nat where "REG_EAX \<equiv> 0"
abbreviation (input) REG_ECX :: nat where "REG_ECX \<equiv> 1"
abbreviation (input) REG_EDX :: nat where "REG_EDX \<equiv> 2"
abbreviation (input) REG_EBX :: nat where "REG_EBX \<equiv> 3"
abbreviation (input) REG_ESP :: nat where "REG_ESP \<equiv> 4"
abbreviation (input) REG_EBP :: nat where "REG_EBP \<equiv> 5"
abbreviation (input) REG_ESI :: nat where "REG_ESI \<equiv> 6"
abbreviation (input) REG_EDI :: nat where "REG_EDI \<equiv> 7"

definition FLAG_CF :: u32 where "FLAG_CF = push_bit 0 1"
definition FLAG_PF :: u32 where "FLAG_PF = push_bit 2 1"
definition FLAG_ZF :: u32 where "FLAG_ZF = push_bit 6 1"
definition FLAG_SF :: u32 where "FLAG_SF = push_bit 7 1"
definition FLAG_OF :: u32 where "FLAG_OF = push_bit 11 1"

section \<open>Operations\<close>

text \<open>\<open>memset\<close> of the struct, then bit 1 of EFLAGS.\<close>

definition init_cpu :: "'a i386_scheme \<Rightarrow> 'a i386_scheme" where
  "init_cpu s = s\<lparr>regs := replicate 8 0, eip := 0, eflags := 0x00000002,
                  halted := False, cycles := 0\<rparr>"

definition set_gs_base :: "u32 \<Rightarrow> 'a ops_state_scheme \<Rightarrow> 'a ops_state_scheme" where
  "set_gs_base base s = s\<lparr>g_gs_base := base\<rparr>"

definition get_gs_base :: "'a ops_state_scheme \<Rightarrow> u32" where
  "get_gs_base s = g_gs_base s"

text \<open>The C idioms \<open>cpu->regs[i]\<close>, \<open>cpu->regs[i] = v\<close>, \<open>cpu->cycles += n\<close>, \<open>cpu->halted = 1\<close>.\<close>

definition reg :: "'a i386_scheme \<Rightarrow> nat \<Rightarrow> u32" where
  "reg s i = regs s ! i"

definition set_reg :: "nat \<Rightarrow> u32 \<Rightarrow> 'a i386_scheme \<Rightarrow> 'a i386_scheme" where
  "set_reg i v s = s\<lparr>regs := (regs s)[i := v]\<rparr>"

definition add_cycles :: "u32 \<Rightarrow> 'a i386_scheme \<Rightarrow> 'a i386_scheme" where
  "add_cycles n s = s\<lparr>cycles := cycles s + n\<rparr>"

definition halt :: "'a i386_scheme \<Rightarrow> 'a i386_scheme" where
  "halt s = s\<lparr>halted := True\<rparr>"

text \<open>The C idioms \<open>mem_read8(cpu->eip++)\<close> and \<open>mem_read16/32(cpu->eip); cpu->eip += 2/4\<close>.\<close>

definition fetch8 :: "'a i386_scheme \<Rightarrow> u8 \<times> 'a i386_scheme" where
  "fetch8 s = (mem_read8 (eip s) s, s\<lparr>eip := eip s + 1\<rparr>)"

definition fetch16 :: "'a i386_scheme \<Rightarrow> u16 \<times> 'a i386_scheme" where
  "fetch16 s = (mem_read16 (eip s) s, s\<lparr>eip := eip s + 2\<rparr>)"

definition fetch32 :: "'a i386_scheme \<Rightarrow> u32 \<times> 'a i386_scheme" where
  "fetch32 s = (mem_read32 (eip s) s, s\<lparr>eip := eip s + 4\<rparr>)"

definition set_cf :: "bool \<Rightarrow> 'a i386_scheme \<Rightarrow> 'a i386_scheme" where
  "set_cf cf s =
     (if cf then s\<lparr>eflags := eflags s OR FLAG_CF\<rparr> else s\<lparr>eflags := eflags s AND NOT FLAG_CF\<rparr>)"

definition set_pf :: "u32 \<Rightarrow> 'a i386_scheme \<Rightarrow> 'a i386_scheme" where
  "set_pf result s =
     (let b = (ucast result :: u8);
          b = b XOR drop_bit 4 b;
          b = b XOR drop_bit 2 b;
          b = b XOR drop_bit 1 b
      in if \<not> (b AND 1 \<noteq> 0) then s\<lparr>eflags := eflags s OR FLAG_PF\<rparr>
         else s\<lparr>eflags := eflags s AND NOT FLAG_PF\<rparr>)"

definition set_zf :: "u32 \<Rightarrow> 'a i386_scheme \<Rightarrow> 'a i386_scheme" where
  "set_zf result s =
     (if result = 0 then s\<lparr>eflags := eflags s OR FLAG_ZF\<rparr>
      else s\<lparr>eflags := eflags s AND NOT FLAG_ZF\<rparr>)"

definition set_sf :: "u32 \<Rightarrow> 'a i386_scheme \<Rightarrow> 'a i386_scheme" where
  "set_sf result s =
     (if result AND 0x80000000 \<noteq> 0 then s\<lparr>eflags := eflags s OR FLAG_SF\<rparr>
      else s\<lparr>eflags := eflags s AND NOT FLAG_SF\<rparr>)"

definition set_of_add :: "u32 \<Rightarrow> u32 \<Rightarrow> u32 \<Rightarrow> 'a i386_scheme \<Rightarrow> 'a i386_scheme" where
  "set_of_add a b result s =
     (let ovf = drop_bit 31 (NOT (a XOR b) AND (a XOR result))
      in if ovf \<noteq> 0 then s\<lparr>eflags := eflags s OR FLAG_OF\<rparr>
         else s\<lparr>eflags := eflags s AND NOT FLAG_OF\<rparr>)"

definition set_of_sub :: "u32 \<Rightarrow> u32 \<Rightarrow> u32 \<Rightarrow> 'a i386_scheme \<Rightarrow> 'a i386_scheme" where
  "set_of_sub a b result s =
     (let ovf = drop_bit 31 ((a XOR b) AND (a XOR result))
      in if ovf \<noteq> 0 then s\<lparr>eflags := eflags s OR FLAG_OF\<rparr>
         else s\<lparr>eflags := eflags s AND NOT FLAG_OF\<rparr>)"

definition get_cf :: "'a i386_scheme \<Rightarrow> u32" where
  "get_cf s = drop_bit 0 (eflags s) AND 1"

definition get_pf :: "'a i386_scheme \<Rightarrow> u32" where
  "get_pf s = drop_bit 2 (eflags s) AND 1"

definition get_zf :: "'a i386_scheme \<Rightarrow> u32" where
  "get_zf s = drop_bit 6 (eflags s) AND 1"

definition get_sf :: "'a i386_scheme \<Rightarrow> u32" where
  "get_sf s = drop_bit 7 (eflags s) AND 1"

definition get_of :: "'a i386_scheme \<Rightarrow> u32" where
  "get_of s = drop_bit 11 (eflags s) AND 1"

definition get_reg8 :: "'a i386_scheme \<Rightarrow> nat \<Rightarrow> u8" where
  "get_reg8 s r = (if r < 4 then ucast (reg s r) else ucast (drop_bit 8 (reg s (r - 4))))"

definition set_reg8 :: "nat \<Rightarrow> u8 \<Rightarrow> 'a i386_scheme \<Rightarrow> 'a i386_scheme" where
  "set_reg8 r val s =
     (if r < 4 then set_reg r ((reg s r AND 0xFFFFFF00) OR ucast val) s
      else set_reg (r - 4) ((reg s (r - 4) AND 0xFFFF00FF) OR push_bit 8 (ucast val)) s)"

text \<open>Reference notions for the flags: parity of a byte, and what a signed 32-bit word can hold.\<close>

definition parity_even :: "u8 \<Rightarrow> bool" where
  "parity_even b \<longleftrightarrow> even (length (filter (bit b) [0..<8]))"

definition fits32 :: "int \<Rightarrow> bool" where
  "fits32 x \<longleftrightarrow> - (2 ^ 31) \<le> x \<and> x < 2 ^ 31"

section \<open>What the helpers leave unchanged\<close>

lemma set_cf_frame [simp, frame]:
  "g_mem (set_cf b s) = g_mem s" "g_size (set_cf b s) = g_size s"
  "g_last_eip (set_cf b s) = g_last_eip s" "regs (set_cf b s) = regs s"
  "eip (set_cf b s) = eip s" "halted (set_cf b s) = halted s" "cycles (set_cf b s) = cycles s"
  "g_operand_size_16 (set_cf b s) = g_operand_size_16 s" "g_gs_base (set_cf b s) = g_gs_base s"
  "g_seg_override (set_cf b s) = g_seg_override s" "fpu_stack (set_cf b s) = fpu_stack s"
  "fpu_top (set_cf b s) = fpu_top s" "mmx_regs (set_cf b s) = mmx_regs s"
  "xmm_regs (set_cf b s) = xmm_regs s"
  by (simp_all add: set_cf_def Let_def)

lemma set_pf_frame [simp, frame]:
  "g_mem (set_pf r s) = g_mem s" "g_size (set_pf r s) = g_size s"
  "g_last_eip (set_pf r s) = g_last_eip s" "regs (set_pf r s) = regs s"
  "eip (set_pf r s) = eip s" "halted (set_pf r s) = halted s" "cycles (set_pf r s) = cycles s"
  "g_operand_size_16 (set_pf r s) = g_operand_size_16 s" "g_gs_base (set_pf r s) = g_gs_base s"
  "g_seg_override (set_pf r s) = g_seg_override s" "fpu_stack (set_pf r s) = fpu_stack s"
  "fpu_top (set_pf r s) = fpu_top s" "mmx_regs (set_pf r s) = mmx_regs s"
  "xmm_regs (set_pf r s) = xmm_regs s"
  by (simp_all add: set_pf_def Let_def)

lemma set_zf_frame [simp, frame]:
  "g_mem (set_zf r s) = g_mem s" "g_size (set_zf r s) = g_size s"
  "g_last_eip (set_zf r s) = g_last_eip s" "regs (set_zf r s) = regs s"
  "eip (set_zf r s) = eip s" "halted (set_zf r s) = halted s" "cycles (set_zf r s) = cycles s"
  "g_operand_size_16 (set_zf r s) = g_operand_size_16 s" "g_gs_base (set_zf r s) = g_gs_base s"
  "g_seg_override (set_zf r s) = g_seg_override s" "fpu_stack (set_zf r s) = fpu_stack s"
  "fpu_top (set_zf r s) = fpu_top s" "mmx_regs (set_zf r s) = mmx_regs s"
  "xmm_regs (set_zf r s) = xmm_regs s"
  by (simp_all add: set_zf_def Let_def)

lemma set_sf_frame [simp, frame]:
  "g_mem (set_sf r s) = g_mem s" "g_size (set_sf r s) = g_size s"
  "g_last_eip (set_sf r s) = g_last_eip s" "regs (set_sf r s) = regs s"
  "eip (set_sf r s) = eip s" "halted (set_sf r s) = halted s" "cycles (set_sf r s) = cycles s"
  "g_operand_size_16 (set_sf r s) = g_operand_size_16 s" "g_gs_base (set_sf r s) = g_gs_base s"
  "g_seg_override (set_sf r s) = g_seg_override s" "fpu_stack (set_sf r s) = fpu_stack s"
  "fpu_top (set_sf r s) = fpu_top s" "mmx_regs (set_sf r s) = mmx_regs s"
  "xmm_regs (set_sf r s) = xmm_regs s"
  by (simp_all add: set_sf_def Let_def)

lemma set_of_add_frame [simp, frame]:
  "g_mem (set_of_add x y r s) = g_mem s" "g_size (set_of_add x y r s) = g_size s"
  "g_last_eip (set_of_add x y r s) = g_last_eip s" "regs (set_of_add x y r s) = regs s"
  "eip (set_of_add x y r s) = eip s" "halted (set_of_add x y r s) = halted s"
  "cycles (set_of_add x y r s) = cycles s"
  "g_operand_size_16 (set_of_add x y r s) = g_operand_size_16 s"
  "g_gs_base (set_of_add x y r s) = g_gs_base s"
  "g_seg_override (set_of_add x y r s) = g_seg_override s"
  "fpu_stack (set_of_add x y r s) = fpu_stack s" "fpu_top (set_of_add x y r s) = fpu_top s"
  "mmx_regs (set_of_add x y r s) = mmx_regs s" "xmm_regs (set_of_add x y r s) = xmm_regs s"
  by (simp_all add: set_of_add_def Let_def)

lemma set_of_sub_frame [simp, frame]:
  "g_mem (set_of_sub x y r s) = g_mem s" "g_size (set_of_sub x y r s) = g_size s"
  "g_last_eip (set_of_sub x y r s) = g_last_eip s" "regs (set_of_sub x y r s) = regs s"
  "eip (set_of_sub x y r s) = eip s" "halted (set_of_sub x y r s) = halted s"
  "cycles (set_of_sub x y r s) = cycles s"
  "g_operand_size_16 (set_of_sub x y r s) = g_operand_size_16 s"
  "g_gs_base (set_of_sub x y r s) = g_gs_base s"
  "g_seg_override (set_of_sub x y r s) = g_seg_override s"
  "fpu_stack (set_of_sub x y r s) = fpu_stack s" "fpu_top (set_of_sub x y r s) = fpu_top s"
  "mmx_regs (set_of_sub x y r s) = mmx_regs s" "xmm_regs (set_of_sub x y r s) = xmm_regs s"
  by (simp_all add: set_of_sub_def Let_def)

lemma set_reg_frame [simp, frame]:
  "g_mem (set_reg i v s) = g_mem s" "g_size (set_reg i v s) = g_size s"
  "g_last_eip (set_reg i v s) = g_last_eip s" "eip (set_reg i v s) = eip s"
  "eflags (set_reg i v s) = eflags s" "halted (set_reg i v s) = halted s"
  "cycles (set_reg i v s) = cycles s" "g_operand_size_16 (set_reg i v s) = g_operand_size_16 s"
  "g_gs_base (set_reg i v s) = g_gs_base s" "g_seg_override (set_reg i v s) = g_seg_override s"
  "fpu_stack (set_reg i v s) = fpu_stack s" "fpu_top (set_reg i v s) = fpu_top s"
  "mmx_regs (set_reg i v s) = mmx_regs s" "xmm_regs (set_reg i v s) = xmm_regs s"
  by (simp_all add: set_reg_def)

lemma set_reg8_frame [simp, frame]:
  "g_mem (set_reg8 i w s) = g_mem s" "g_size (set_reg8 i w s) = g_size s"
  "g_last_eip (set_reg8 i w s) = g_last_eip s" "eip (set_reg8 i w s) = eip s"
  "eflags (set_reg8 i w s) = eflags s" "halted (set_reg8 i w s) = halted s"
  "cycles (set_reg8 i w s) = cycles s"
  "g_operand_size_16 (set_reg8 i w s) = g_operand_size_16 s"
  "g_gs_base (set_reg8 i w s) = g_gs_base s"
  "g_seg_override (set_reg8 i w s) = g_seg_override s"
  "fpu_stack (set_reg8 i w s) = fpu_stack s" "fpu_top (set_reg8 i w s) = fpu_top s"
  "mmx_regs (set_reg8 i w s) = mmx_regs s" "xmm_regs (set_reg8 i w s) = xmm_regs s"
  by (simp_all add: set_reg8_def)

lemma add_cycles_frame [simp, frame]:
  "g_mem (add_cycles n s) = g_mem s" "g_size (add_cycles n s) = g_size s"
  "g_last_eip (add_cycles n s) = g_last_eip s" "regs (add_cycles n s) = regs s"
  "eip (add_cycles n s) = eip s" "eflags (add_cycles n s) = eflags s"
  "halted (add_cycles n s) = halted s"
  "g_operand_size_16 (add_cycles n s) = g_operand_size_16 s"
  "g_gs_base (add_cycles n s) = g_gs_base s"
  "g_seg_override (add_cycles n s) = g_seg_override s"
  "fpu_stack (add_cycles n s) = fpu_stack s" "fpu_top (add_cycles n s) = fpu_top s"
  "mmx_regs (add_cycles n s) = mmx_regs s" "xmm_regs (add_cycles n s) = xmm_regs s"
  by (simp_all add: add_cycles_def)

lemma halt_frame [simp, frame]:
  "g_mem (halt s) = g_mem s" "g_size (halt s) = g_size s" "g_last_eip (halt s) = g_last_eip s"
  "regs (halt s) = regs s" "eip (halt s) = eip s" "eflags (halt s) = eflags s"
  "cycles (halt s) = cycles s" "g_operand_size_16 (halt s) = g_operand_size_16 s"
  "g_gs_base (halt s) = g_gs_base s" "g_seg_override (halt s) = g_seg_override s"
  "fpu_stack (halt s) = fpu_stack s" "fpu_top (halt s) = fpu_top s"
  "mmx_regs (halt s) = mmx_regs s" "xmm_regs (halt s) = xmm_regs s"
  by (simp_all add: halt_def)

lemma mem_write8_frame [simp, frame]:
  "regs (mem_write8 a b s) = regs s" "eip (mem_write8 a b s) = eip s"
  "eflags (mem_write8 a b s) = eflags s" "halted (mem_write8 a b s) = halted s"
  "cycles (mem_write8 a b s) = cycles s"
  "g_operand_size_16 (mem_write8 a b s) = g_operand_size_16 s"
  "g_gs_base (mem_write8 a b s) = g_gs_base s"
  "g_seg_override (mem_write8 a b s) = g_seg_override s"
  "fpu_stack (mem_write8 a b s) = fpu_stack s" "fpu_top (mem_write8 a b s) = fpu_top s"
  "mmx_regs (mem_write8 a b s) = mmx_regs s" "xmm_regs (mem_write8 a b s) = xmm_regs s"
  by (simp_all add: mem_write8_def)

lemma mem_write16_frame [simp, frame]:
  "regs (mem_write16 a h s) = regs s" "eip (mem_write16 a h s) = eip s"
  "eflags (mem_write16 a h s) = eflags s" "halted (mem_write16 a h s) = halted s"
  "cycles (mem_write16 a h s) = cycles s"
  "g_operand_size_16 (mem_write16 a h s) = g_operand_size_16 s"
  "g_gs_base (mem_write16 a h s) = g_gs_base s"
  "g_seg_override (mem_write16 a h s) = g_seg_override s"
  "fpu_stack (mem_write16 a h s) = fpu_stack s" "fpu_top (mem_write16 a h s) = fpu_top s"
  "mmx_regs (mem_write16 a h s) = mmx_regs s" "xmm_regs (mem_write16 a h s) = xmm_regs s"
  by (simp_all add: mem_write16_def)

lemma mem_write32_frame [simp, frame]:
  "regs (mem_write32 a v s) = regs s" "eip (mem_write32 a v s) = eip s"
  "eflags (mem_write32 a v s) = eflags s" "halted (mem_write32 a v s) = halted s"
  "cycles (mem_write32 a v s) = cycles s"
  "g_operand_size_16 (mem_write32 a v s) = g_operand_size_16 s"
  "g_gs_base (mem_write32 a v s) = g_gs_base s"
  "g_seg_override (mem_write32 a v s) = g_seg_override s"
  "fpu_stack (mem_write32 a v s) = fpu_stack s" "fpu_top (mem_write32 a v s) = fpu_top s"
  "mmx_regs (mem_write32 a v s) = mmx_regs s" "xmm_regs (mem_write32 a v s) = xmm_regs s"
  by (simp_all add: mem_write32_def)

lemma mem_copy_in_frame [simp, frame]:
  "regs (mem_copy_in a bs s) = regs s" "eip (mem_copy_in a bs s) = eip s"
  "eflags (mem_copy_in a bs s) = eflags s" "halted (mem_copy_in a bs s) = halted s"
  "cycles (mem_copy_in a bs s) = cycles s"
  "g_operand_size_16 (mem_copy_in a bs s) = g_operand_size_16 s"
  "g_gs_base (mem_copy_in a bs s) = g_gs_base s"
  "g_seg_override (mem_copy_in a bs s) = g_seg_override s"
  "fpu_stack (mem_copy_in a bs s) = fpu_stack s" "fpu_top (mem_copy_in a bs s) = fpu_top s"
  "mmx_regs (mem_copy_in a bs s) = mmx_regs s" "xmm_regs (mem_copy_in a bs s) = xmm_regs s"
  by (simp_all add: mem_copy_in_def)

lemma mem_read_cong:
  assumes "g_mem t = g_mem s" and "g_size t = g_size s"
  shows "mem_read8 a t = mem_read8 a s" and "mem_read16 a t = mem_read16 a s"
    and "mem_read32 a t = mem_read32 a s"
  using assms by (simp_all add: mem_read8_def mem_read16_def mem_read32_def check_bounds_def)

lemma mem_read_frame [simp, frame]:
  "mem_read8 a (s\<lparr>regs := x_regs\<rparr>) = mem_read8 a s"
  "mem_read16 a (s\<lparr>regs := x_regs\<rparr>) = mem_read16 a s"
  "mem_read32 a (s\<lparr>regs := x_regs\<rparr>) = mem_read32 a s"
  "mem_read8 a (s\<lparr>eip := x_eip\<rparr>) = mem_read8 a s"
  "mem_read16 a (s\<lparr>eip := x_eip\<rparr>) = mem_read16 a s"
  "mem_read32 a (s\<lparr>eip := x_eip\<rparr>) = mem_read32 a s"
  "mem_read8 a (s\<lparr>eflags := x_eflags\<rparr>) = mem_read8 a s"
  "mem_read16 a (s\<lparr>eflags := x_eflags\<rparr>) = mem_read16 a s"
  "mem_read32 a (s\<lparr>eflags := x_eflags\<rparr>) = mem_read32 a s"
  "mem_read8 a (s\<lparr>halted := x_halted\<rparr>) = mem_read8 a s"
  "mem_read16 a (s\<lparr>halted := x_halted\<rparr>) = mem_read16 a s"
  "mem_read32 a (s\<lparr>halted := x_halted\<rparr>) = mem_read32 a s"
  "mem_read8 a (s\<lparr>cycles := x_cycles\<rparr>) = mem_read8 a s"
  "mem_read16 a (s\<lparr>cycles := x_cycles\<rparr>) = mem_read16 a s"
  "mem_read32 a (s\<lparr>cycles := x_cycles\<rparr>) = mem_read32 a s"
  "mem_read8 a (s\<lparr>g_operand_size_16 := x_g_operand_size_16\<rparr>) = mem_read8 a s"
  "mem_read16 a (s\<lparr>g_operand_size_16 := x_g_operand_size_16\<rparr>) = mem_read16 a s"
  "mem_read32 a (s\<lparr>g_operand_size_16 := x_g_operand_size_16\<rparr>) = mem_read32 a s"
  "mem_read8 a (s\<lparr>g_gs_base := x_g_gs_base\<rparr>) = mem_read8 a s"
  "mem_read16 a (s\<lparr>g_gs_base := x_g_gs_base\<rparr>) = mem_read16 a s"
  "mem_read32 a (s\<lparr>g_gs_base := x_g_gs_base\<rparr>) = mem_read32 a s"
  "mem_read8 a (s\<lparr>g_seg_override := x_g_seg_override\<rparr>) = mem_read8 a s"
  "mem_read16 a (s\<lparr>g_seg_override := x_g_seg_override\<rparr>) = mem_read16 a s"
  "mem_read32 a (s\<lparr>g_seg_override := x_g_seg_override\<rparr>) = mem_read32 a s"
  "mem_read8 a (s\<lparr>fpu_stack := x_fpu_stack\<rparr>) = mem_read8 a s"
  "mem_read16 a (s\<lparr>fpu_stack := x_fpu_stack\<rparr>) = mem_read16 a s"
  "mem_read32 a (s\<lparr>fpu_stack := x_fpu_stack\<rparr>) = mem_read32 a s"
  "mem_read8 a (s\<lparr>fpu_top := x_fpu_top\<rparr>) = mem_read8 a s"
  "mem_read16 a (s\<lparr>fpu_top := x_fpu_top\<rparr>) = mem_read16 a s"
  "mem_read32 a (s\<lparr>fpu_top := x_fpu_top\<rparr>) = mem_read32 a s"
  "mem_read8 a (s\<lparr>mmx_regs := x_mmx_regs\<rparr>) = mem_read8 a s"
  "mem_read16 a (s\<lparr>mmx_regs := x_mmx_regs\<rparr>) = mem_read16 a s"
  "mem_read32 a (s\<lparr>mmx_regs := x_mmx_regs\<rparr>) = mem_read32 a s"
  "mem_read8 a (s\<lparr>xmm_regs := x_xmm_regs\<rparr>) = mem_read8 a s"
  "mem_read16 a (s\<lparr>xmm_regs := x_xmm_regs\<rparr>) = mem_read16 a s"
  "mem_read32 a (s\<lparr>xmm_regs := x_xmm_regs\<rparr>) = mem_read32 a s"
  "mem_read8 a (set_cf b s) = mem_read8 a s" "mem_read8 a (set_pf r s) = mem_read8 a s"
  "mem_read8 a (set_zf r s) = mem_read8 a s" "mem_read8 a (set_sf r s) = mem_read8 a s"
  "mem_read8 a (set_of_add x y r s) = mem_read8 a s"
  "mem_read8 a (set_of_sub x y r s) = mem_read8 a s"
  "mem_read8 a (set_reg i v s) = mem_read8 a s" "mem_read8 a (set_reg8 i w s) = mem_read8 a s"
  "mem_read8 a (add_cycles n s) = mem_read8 a s" "mem_read8 a (halt s) = mem_read8 a s"
  "mem_read16 a (set_cf b s) = mem_read16 a s" "mem_read16 a (set_pf r s) = mem_read16 a s"
  "mem_read16 a (set_zf r s) = mem_read16 a s" "mem_read16 a (set_sf r s) = mem_read16 a s"
  "mem_read16 a (set_of_add x y r s) = mem_read16 a s"
  "mem_read16 a (set_of_sub x y r s) = mem_read16 a s"
  "mem_read16 a (set_reg i v s) = mem_read16 a s"
  "mem_read16 a (set_reg8 i w s) = mem_read16 a s"
  "mem_read16 a (add_cycles n s) = mem_read16 a s" "mem_read16 a (halt s) = mem_read16 a s"
  "mem_read32 a (set_cf b s) = mem_read32 a s" "mem_read32 a (set_pf r s) = mem_read32 a s"
  "mem_read32 a (set_zf r s) = mem_read32 a s" "mem_read32 a (set_sf r s) = mem_read32 a s"
  "mem_read32 a (set_of_add x y r s) = mem_read32 a s"
  "mem_read32 a (set_of_sub x y r s) = mem_read32 a s"
  "mem_read32 a (set_reg i v s) = mem_read32 a s"
  "mem_read32 a (set_reg8 i w s) = mem_read32 a s"
  "mem_read32 a (add_cycles n s) = mem_read32 a s" "mem_read32 a (halt s) = mem_read32 a s"
  by (rule mem_read_cong; simp)+

section \<open>Flags\<close>

lemmas flag_masks = FLAG_CF_def FLAG_PF_def FLAG_ZF_def FLAG_SF_def FLAG_OF_def

lemma and_1_bit: "w AND 1 = of_bool (bit w 0)" for w :: "'a::len word"
  by (rule bit_word_eqI) (auto simp: bit_simps)

lemma get_flag_bit:
  "get_cf s = of_bool (bit (eflags s) 0)" "get_pf s = of_bool (bit (eflags s) 2)"
  "get_zf s = of_bool (bit (eflags s) 6)" "get_sf s = of_bool (bit (eflags s) 7)"
  "get_of s = of_bool (bit (eflags s) 11)"
  by (simp_all add: get_cf_def get_pf_def get_zf_def get_sf_def get_of_def and_1_bit
      bit_drop_bit_eq)

text \<open>Each setter writes its own bit of EFLAGS and no other.\<close>

lemma bit_set_flag:
  fixes e :: u32
  shows "bit (e OR push_bit k 1) i \<longleftrightarrow> (i = k \<and> k < 32) \<or> bit e i"
    and "bit (e AND NOT (push_bit k 1)) i \<longleftrightarrow> i \<noteq> k \<and> bit e i"
  by (auto simp: bit_simps dest: bit_imp_le_length)

lemma and_push_bit_1:
  fixes w :: "'a::len word"
  shows "w AND push_bit k 1 \<noteq> 0 \<longleftrightarrow> bit w k"
proof -
  have "w AND push_bit k 1 = (if bit w k then push_bit k 1 else 0)"
    by (rule bit_word_eqI) (auto simp: bit_simps)
  moreover have "bit w k \<Longrightarrow> push_bit k 1 \<noteq> (0 :: 'a word)"
    using bit_imp_le_length [of w k] by simp
  ultimately show ?thesis by auto
qed

lemma bit31_test:
  fixes w :: u32
  shows "w AND 0x80000000 \<noteq> 0 \<longleftrightarrow> bit w 31" and "drop_bit 31 w \<noteq> 0 \<longleftrightarrow> bit w 31"
  using and_push_bit_1 [of w 31] drop_bit_eq_zero_iff_not_bit_last [of w] by simp_all

lemma bit_put_flag:
  fixes e :: u32
  assumes "k < 32"
  shows "bit (if b then e OR push_bit k 1 else e AND NOT (push_bit k 1)) i \<longleftrightarrow>
    (if i = k then b else bit e i)"
  using assms by (cases b; cases "i = k") (simp_all add: bit_set_flag del: push_bit_of_1)

lemma eflags_set:
  "eflags (set_cf b s) = (if b then eflags s OR push_bit 0 1 else eflags s AND NOT (push_bit 0 1))"
  "eflags (set_zf r s) =
     (if r = 0 then eflags s OR push_bit 6 1 else eflags s AND NOT (push_bit 6 1))"
  "eflags (set_sf r s) =
     (if bit r 31 then eflags s OR push_bit 7 1 else eflags s AND NOT (push_bit 7 1))"
  "eflags (set_of_add x y r s) =
     (if (bit x 31 \<longleftrightarrow> bit y 31) \<and> bit x 31 \<noteq> bit r 31
      then eflags s OR push_bit 11 1 else eflags s AND NOT (push_bit 11 1))"
  "eflags (set_of_sub x y r s) =
     (if bit x 31 \<noteq> bit y 31 \<and> bit x 31 \<noteq> bit r 31
      then eflags s OR push_bit 11 1 else eflags s AND NOT (push_bit 11 1))"
  by (simp_all only: set_cf_def set_zf_def set_sf_def set_of_add_def set_of_sub_def Let_def
      bit31_test flag_masks bit_not_iff bit_and_iff bit_xor_iff) auto

lemma bit_eflags_set [simp]:
  "bit (eflags (set_cf b s)) i \<longleftrightarrow> (if i = 0 then b else bit (eflags s) i)"
  "bit (eflags (set_zf r s)) i \<longleftrightarrow> (if i = 6 then r = 0 else bit (eflags s) i)"
  "bit (eflags (set_sf r s)) i \<longleftrightarrow> (if i = 7 then bit r 31 else bit (eflags s) i)"
  "bit (eflags (set_of_add x y r s)) i \<longleftrightarrow>
     (if i = 11 then (bit x 31 \<longleftrightarrow> bit y 31) \<and> bit x 31 \<noteq> bit r 31 else bit (eflags s) i)"
  "bit (eflags (set_of_sub x y r s)) i \<longleftrightarrow>
     (if i = 11 then bit x 31 \<noteq> bit y 31 \<and> bit x 31 \<noteq> bit r 31 else bit (eflags s) i)"
  by (simp_all only: eflags_set bit_put_flag)

text \<open>The folded exclusive-or of \<open>set_pf\<close> computes the parity of the low byte.\<close>

lemma xor_fold_parity:
  fixes b :: u8
  defines "b1 \<equiv> b XOR drop_bit 4 b"
  defines "b2 \<equiv> b1 XOR drop_bit 2 b1"
  shows "\<not> (b2 XOR drop_bit 1 b2) AND 1 \<noteq> 0 \<longleftrightarrow> parity_even b"
proof -
  have "bit (b2 XOR drop_bit 1 b2) 0 \<longleftrightarrow> odd (length (filter (bit b) [0..<8]))"
    by (simp add: b1_def b2_def bit_simps upt_rec) (auto simp: numeral_eq_Suc)
  then show ?thesis by (simp add: parity_even_def and_1_bit)
qed

lemma bit_eflags_set_pf [simp]:
  "bit (eflags (set_pf r s)) i \<longleftrightarrow> (if i = 2 then parity_even (ucast r) else bit (eflags s) i)"
proof -
  have "eflags (set_pf r s) = (if parity_even (ucast r)
      then eflags s OR push_bit 2 1 else eflags s AND NOT (push_bit 2 1))"
    by (simp only: set_pf_def Let_def xor_fold_parity flag_masks) simp
  then show ?thesis by (simp only: bit_put_flag)
qed

section \<open>Carry, borrow and overflow as facts about numbers\<close>

lemma bit31_uint: "bit w 31 \<longleftrightarrow> 2 ^ 31 \<le> uint w" for w :: u32
proof -
  have "bit w 31 \<longleftrightarrow> odd (uint w div 2 ^ 31)"
    using bit_uint_iff [of w 31] bit_iff_odd [of "uint w" 31] by simp
  moreover have "uint w div 2 ^ 31 = (if 2 ^ 31 \<le> uint w then 1 else 0)"
    using uint_lt2p [of w] uint_ge_0 [of w]
    by (simp add: div_pos_geq div_pos_pos_trivial)
  ultimately show ?thesis by simp
qed

lemma mod_2_32_once:
  fixes x :: int
  assumes "0 \<le> x" and "x < 2 * 2 ^ 32"
  shows "x mod 2 ^ 32 = (if x < 2 ^ 32 then x else x - 2 ^ 32)"
proof (cases "x < 2 ^ 32")
  case True
  then show ?thesis using assms by (simp add: mod_pos_pos_trivial)
next
  case False
  have "x mod 2 ^ 32 = (x - 2 ^ 32 + 2 ^ 32) mod 2 ^ 32" by simp
  also have "\<dots> = (x - 2 ^ 32) mod 2 ^ 32" by (simp only: mod_add_self2)
  also have "\<dots> = x - 2 ^ 32" using assms False by (intro mod_pos_pos_trivial) simp_all
  finally show ?thesis using False by simp
qed

lemma mod_2_32_neg:
  fixes x :: int
  assumes "- (2 ^ 32) \<le> x" and "x < 2 ^ 32"
  shows "x mod 2 ^ 32 = (if x < 0 then x + 2 ^ 32 else x)"
proof (cases "x < 0")
  case True
  have "x mod 2 ^ 32 = (x + 2 ^ 32) mod 2 ^ 32" by (simp only: mod_add_self2)
  also have "\<dots> = x + 2 ^ 32" using assms True by (intro mod_pos_pos_trivial) simp_all
  finally show ?thesis using True by simp
next
  case False
  then show ?thesis using assms by (simp add: mod_pos_pos_trivial)
qed

lemma sint_u32: "sint w = uint w - (if bit w 31 then 2 ^ 32 else 0)" for w :: u32
proof -
  have u: "uint w = sint w mod 2 ^ 32"
    using uint_sint [of w] by (simp add: take_bit_eq_mod)
  have n: "bit w 31 \<longleftrightarrow> sint w < 0" using bit_last_iff [of w] by simp
  have "- (2 ^ 32) \<le> sint w" "sint w < 2 ^ 32" using sint_ge [of w] sint_lt [of w] by simp_all
  then show ?thesis by (simp only: u mod_2_32_neg n) simp
qed

lemma uint_add_carry:
  fixes a b c :: u32
  assumes "c \<le> 1"
  shows "uint (a + b + c) = (if uint a + uint b + uint c < 2 ^ 32
     then uint a + uint b + uint c else uint a + uint b + uint c - 2 ^ 32)"
proof -
  have "uint c \<le> 1" using assms by (simp add: word_le_def)
  then have "0 \<le> uint a + uint b + uint c" "uint a + uint b + uint c < 2 * 2 ^ 32"
    using uint_lt2p [of a] uint_lt2p [of b] by simp_all
  moreover have "uint (a + b + c) = (uint a + uint b + uint c) mod 2 ^ 32"
    by (simp add: uint_word_ariths mod_simps)
  ultimately show ?thesis by (simp only: mod_2_32_once)
qed

lemma uint_sub_borrow:
  fixes a b c :: u32
  assumes "c \<le> 1"
  shows "uint (a - b - c) = (if uint a - uint b - uint c < 0
     then uint a - uint b - uint c + 2 ^ 32 else uint a - uint b - uint c)"
proof -
  have "uint c \<le> 1" using assms by (simp add: word_le_def)
  moreover note uint_lt2p [of a] uint_lt2p [of b] uint_ge_0 [of a] uint_ge_0 [of b] uint_ge_0 [of c]
  ultimately have "- (2 ^ 32) \<le> uint a - uint b - uint c" "uint a - uint b - uint c < 2 ^ 32"
    unfolding word_size by (simp_all del: uint_ge_0; linarith)+
  moreover have "uint (a - b - c) = (uint a - uint b - uint c) mod 2 ^ 32"
    by (simp add: uint_word_ariths mod_simps)
  ultimately show ?thesis by (simp only: mod_2_32_neg)
qed

lemma carry_word: "(w :: u32) \<le> 1 \<Longrightarrow> w = 0 \<or> w = 1"
  by (auto simp: word_le_def word_uint_eq_iff) (use uint_ge_0 [of w] in linarith)

text \<open>The same facts on the unsigned values, where \<open>s\<close> reads one as a signed number.\<close>

lemma int_add_flags:
  fixes A B C R :: int
  defines "s \<equiv> (\<lambda>x. x - (if 2 ^ 31 \<le> x then 2 ^ 32 else 0))"
  assumes "0 \<le> A" "A < 2 ^ 32" "0 \<le> B" "B < 2 ^ 32" "0 \<le> C" "C \<le> 1"
    and "R = (if A + B + C < 2 ^ 32 then A + B + C else A + B + C - 2 ^ 32)"
  shows "R < A \<or> (C \<noteq> 0 \<and> R = A) \<longleftrightarrow> 2 ^ 32 \<le> A + B + C"
    and "(2 ^ 31 \<le> A \<longleftrightarrow> 2 ^ 31 \<le> B) \<and> (2 ^ 31 \<le> A) \<noteq> (2 ^ 31 \<le> R) \<longleftrightarrow>
      \<not> fits32 (s A + s B + C)"
  using assms(2-) by (auto simp: fits32_def s_def split: if_splits)

lemma int_sub_flags:
  fixes A B C R :: int
  defines "s \<equiv> (\<lambda>x. x - (if 2 ^ 31 \<le> x then 2 ^ 32 else 0))"
  assumes "0 \<le> A" "A < 2 ^ 32" "0 \<le> B" "B < 2 ^ 32" "0 \<le> C" "C \<le> 1"
    and "R = (if A - B - C < 0 then A - B - C + 2 ^ 32 else A - B - C)"
  shows "(2 ^ 31 \<le> A) \<noteq> (2 ^ 31 \<le> B) \<and> (2 ^ 31 \<le> A) \<noteq> (2 ^ 31 \<le> R) \<longleftrightarrow>
      \<not> fits32 (s A - s B - C)"
  using assms(2-) by (auto simp: fits32_def s_def split: if_splits)

lemma u32_bounds: "0 \<le> uint w" "uint w < 2 ^ 32" for w :: u32
  using uint_lt2p [of w] by simp_all

lemma carry_add:
  fixes a b c :: u32
  assumes "c \<le> 1"
  shows "a + b + c < a \<or> (c \<noteq> 0 \<and> a + b + c = a) \<longleftrightarrow> 2 ^ 32 \<le> uint a + uint b + uint c"
  using int_add_flags(1) [OF u32_bounds [of a] u32_bounds [of b] u32_bounds(1) [of c] _
      uint_add_carry [OF assms, of a b]] assms
  by (simp add: word_less_def word_uint_eq_iff word_le_def)

lemma borrow_sub:
  fixes a b c :: u32
  assumes "c \<le> 1"
  shows "a < b + c \<or> (c \<noteq> 0 \<and> b = 0xFFFFFFFF) \<longleftrightarrow> uint a < uint b + uint c"
proof -
  consider "c = 0" | "c = 1" using carry_word [OF assms] by blast
  then show ?thesis
  proof cases
    case 1
    then show ?thesis by (simp add: word_less_def)
  next
    case 2
    show ?thesis
      unfolding 2 using uint_add_carry [of 1 b 0] u32_bounds [of a] u32_bounds [of b]
      by (auto simp: word_less_def word_uint_eq_iff split: if_splits)
  qed
qed

lemma overflow_add:
  fixes a b c :: u32
  assumes "c \<le> 1"
  shows "(bit a 31 \<longleftrightarrow> bit b 31) \<and> bit a 31 \<noteq> bit (a + b + c) 31 \<longleftrightarrow>
    \<not> fits32 (sint a + sint b + uint c)"
  using int_add_flags(2) [OF u32_bounds [of a] u32_bounds [of b] u32_bounds(1) [of c] _
      uint_add_carry [OF assms, of a b]] assms
  by (simp add: sint_u32 bit31_uint word_le_def)

lemma overflow_sub:
  fixes a b c :: u32
  assumes "c \<le> 1"
  shows "bit a 31 \<noteq> bit b 31 \<and> bit a 31 \<noteq> bit (a - b - c) 31 \<longleftrightarrow>
    \<not> fits32 (sint a - sint b - uint c)"
  using int_sub_flags [OF u32_bounds [of a] u32_bounds [of b] u32_bounds(1) [of c] _
      uint_sub_borrow [OF assms, of a b]] assms
  by (simp add: sint_u32 bit31_uint word_le_def)

section \<open>Reading registers and flags back\<close>

lemma reg_frame [simp]:
  fixes s :: "'a ops_state_scheme"
  shows "reg (set_cf c s) i = reg s i" "reg (set_pf w s) i = reg s i" "reg (set_zf w s) i = reg s i"
    "reg (set_sf w s) i = reg s i" "reg (set_of_add x y w s) i = reg s i"
    "reg (set_of_sub x y w s) i = reg s i" "reg (add_cycles w s) i = reg s i"
    "reg (halt s) i = reg s i" "reg (mem_write32 a w s) i = reg s i"
  by (simp_all add: reg_def)

lemma reg_update [simp]:
  fixes s :: "'a ops_state_scheme"
  shows "reg (s\<lparr>eip := w\<rparr>) i = reg s i" "reg (s\<lparr>g_seg_override := w\<rparr>) i = reg s i"
    "reg (s\<lparr>xmm_regs := xs\<rparr>) i = reg s i" "reg (s\<lparr>mmx_regs := qs\<rparr>) i = reg s i"
    "reg (mem_write8 a b s) i = reg s i" "reg (mem_write16 a h s) i = reg s i"
  by (simp_all add: reg_def)

lemma length_regs_set_reg [simp]: "length (regs (set_reg i v s)) = length (regs s)"
  by (simp add: set_reg_def)

lemma reg_set_reg: "i < length (regs s) \<Longrightarrow> reg (set_reg i v s) j = (if j = i then v else reg s j)"
  by (simp add: reg_def set_reg_def)

lemma get_cf_le_1: "get_cf s \<le> 1"
  by (simp add: get_flag_bit)

lemma sint_neg_bit31: "sint (w :: u32) < 0 \<longleftrightarrow> bit w 31"
  using bit_last_iff [of w] by simp

lemma mem_write_cong:
  assumes "g_mem t = g_mem s" and "g_size t = g_size s"
  shows "g_mem (mem_write8 a b t) = g_mem (mem_write8 a b s)"
    and "g_mem (mem_write16 a h t) = g_mem (mem_write16 a h s)"
    and "g_mem (mem_write32 a v t) = g_mem (mem_write32 a v s)"
  using assms by (simp_all add: mem_write8_def mem_write16_def mem_write32_def check_bounds_def)

lemma mem_write_frame [simp]:
  fixes s :: "'a ops_state_scheme"
  shows "g_mem (mem_write8 a b (set_reg i w s)) = g_mem (mem_write8 a b s)"
    and "g_mem (mem_write32 a v (set_reg i w s)) = g_mem (mem_write32 a v s)"
    and "g_mem (mem_write32 a v (s\<lparr>eip := w\<rparr>)) = g_mem (mem_write32 a v s)"
  by (rule mem_write_cong; simp)+

end
