(* ===== verification/Decode.thy ===== *)
theory Decode
  imports Cpu
begin

text \<open>
  Operand decoding of \<open>src/cpu/ops.c\<close>: the ModR/M and SIB bytes, the effective address with
  its one-shot segment override, and the 32-bit and 128-bit operand accessors. The three
  \<open>sib_*\<close> fields of the C struct are uninitialised when there is no SIB byte; they are 0
  here, and no code reads them then.
\<close>

section \<open>ModR/M\<close>

record ModRM =
  mrm_mod :: u8
  mrm_reg :: u8
  mrm_rm :: u8
  has_sib :: bool
  has_disp :: bool
  disp :: u32
  sib_base :: u8
  sib_index :: u8
  sib_scale :: u8

abbreviation (input) rg :: "ModRM \<Rightarrow> nat" where "rg m \<equiv> unat (mrm_reg m)"
abbreviation (input) rm :: "ModRM \<Rightarrow> nat" where "rm m \<equiv> unat (mrm_rm m)"

definition parse_modrm :: "'a ops_state_scheme \<Rightarrow> ModRM \<times> 'a ops_state_scheme" where
  "parse_modrm s =
     (let (mrm, s) = fetch8 s;
          out = \<lparr>mrm_mod = drop_bit 6 mrm AND 0x03, mrm_reg = drop_bit 3 mrm AND 0x07,
                 mrm_rm = mrm AND 0x07, has_sib = False, has_disp = False, disp = 0,
                 sib_base = 0, sib_index = 0, sib_scale = 0\<rparr>
      in if mrm_mod out \<noteq> 3 then
           let (out, s) =
                 (if mrm_rm out = 4 then
                    let (sib, s) = fetch8 s
                    in (out\<lparr>has_sib := True, sib_scale := drop_bit 6 sib AND 0x03,
                            sib_index := drop_bit 3 sib AND 0x07, sib_base := sib AND 0x07\<rparr>, s)
                  else (out, s))
           in if mrm_mod out = 1 then
                let (d, s) = fetch8 s in (out\<lparr>has_disp := True, disp := scast d\<rparr>, s)
              else if mrm_mod out = 2 then
                let (d, s) = fetch32 s in (out\<lparr>has_disp := True, disp := d\<rparr>, s)
              else if mrm_mod out = 0 then
                (if mrm_rm out = 5 \<or> (has_sib out \<and> sib_base out = 5) then
                   let (d, s) = fetch32 s in (out\<lparr>has_disp := True, disp := d\<rparr>, s)
                 else (out, s))
              else (out, s)
         else (out, s))"

definition resolve_rm_addr :: "ModRM \<Rightarrow> 'a ops_state_scheme \<Rightarrow> u32 \<times> 'a ops_state_scheme" where
  "resolve_rm_addr mrm s =
     (if mrm_mod mrm = 3 then (0, s)
      else
        let addr =
              (if has_sib mrm then
                 let addr = (if sib_base mrm = 5 \<and> mrm_mod mrm = 0 then 0
                             else reg s (unat (sib_base mrm)))
                 in (if sib_index mrm \<noteq> 4
                     then addr + push_bit (unat (sib_scale mrm)) (reg s (unat (sib_index mrm)))
                     else addr)
               else (if mrm_mod mrm = 0 \<and> mrm_rm mrm = 5 then 0 else reg s (rm mrm)));
            addr = (if has_disp mrm then addr + disp mrm else addr);
            addr = addr + g_seg_override s
        in (addr, s\<lparr>g_seg_override := 0\<rparr>))"

definition read_rm32 :: "ModRM \<Rightarrow> 'a ops_state_scheme \<Rightarrow> u32 \<times> 'a ops_state_scheme" where
  "read_rm32 mrm s =
     (if mrm_mod mrm = 3 then (reg s (rm mrm), s)
      else let (addr, s) = resolve_rm_addr mrm s in (mem_read32 addr s, s))"

definition write_rm32 :: "ModRM \<Rightarrow> u32 \<Rightarrow> 'a ops_state_scheme \<Rightarrow> 'a ops_state_scheme" where
  "write_rm32 mrm val s =
     (if mrm_mod mrm = 3 then set_reg (rm mrm) val s
      else let (addr, s) = resolve_rm_addr mrm s in mem_write32 addr val s)"

text \<open>
  The byte and half-word forms are written out in each handler:
  \<open>(mrm.mod == 3) ? get_reg8(cpu, mrm.rm) : mem_read8(resolve_rm_addr(cpu, &mrm))\<close> and its
  counterparts. They are named here once.
\<close>

definition read_rm8 :: "ModRM \<Rightarrow> 'a ops_state_scheme \<Rightarrow> u8 \<times> 'a ops_state_scheme" where
  "read_rm8 mrm s =
     (if mrm_mod mrm = 3 then (get_reg8 s (rm mrm), s)
      else let (addr, s) = resolve_rm_addr mrm s in (mem_read8 addr s, s))"

definition write_rm8 :: "ModRM \<Rightarrow> u8 \<Rightarrow> 'a ops_state_scheme \<Rightarrow> 'a ops_state_scheme" where
  "write_rm8 mrm val s =
     (if mrm_mod mrm = 3 then set_reg8 (rm mrm) val s
      else let (addr, s) = resolve_rm_addr mrm s in mem_write8 addr val s)"

definition read_rm16 :: "ModRM \<Rightarrow> 'a ops_state_scheme \<Rightarrow> u16 \<times> 'a ops_state_scheme" where
  "read_rm16 mrm s =
     (if mrm_mod mrm = 3 then (ucast (reg s (rm mrm)), s)
      else let (addr, s) = resolve_rm_addr mrm s in (mem_read16 addr s, s))"

definition write_rm16 :: "ModRM \<Rightarrow> u16 \<Rightarrow> 'a ops_state_scheme \<Rightarrow> 'a ops_state_scheme" where
  "write_rm16 mrm val s =
     (if mrm_mod mrm = 3
      then set_reg (rm mrm) ((reg s (rm mrm) AND 0xFFFF0000) OR ucast val) s
      else let (addr, s) = resolve_rm_addr mrm s in mem_write16 addr val s)"

definition mem_read64 :: "u32 \<Rightarrow> 'a mem_state_scheme \<Rightarrow> u64" where
  "mem_read64 addr s = ucast (mem_read32 addr s) OR push_bit 32 (ucast (mem_read32 (addr + 4) s))"

definition mem_write64 :: "u32 \<Rightarrow> u64 \<Rightarrow> 'a mem_state_scheme \<Rightarrow> 'a mem_state_scheme" where
  "mem_write64 addr val s =
     (let s = mem_write32 addr (ucast val) s
      in mem_write32 (addr + 4) (ucast (drop_bit 32 val)) s)"

definition read_xmm_src :: "ModRM \<Rightarrow> 'a ops_state_scheme \<Rightarrow> XMMReg \<times> 'a ops_state_scheme" where
  "read_xmm_src mrm s =
     (if mrm_mod mrm = 3 then (xmm_regs s ! rm mrm, s)
      else let (addr, s) = resolve_rm_addr mrm s
           in (\<lparr>lo = mem_read64 addr s, hi = mem_read64 (addr + 8) s\<rparr>, s))"

definition write_xmm_dst :: "ModRM \<Rightarrow> XMMReg \<Rightarrow> 'a ops_state_scheme \<Rightarrow> 'a ops_state_scheme" where
  "write_xmm_dst mrm val s =
     (if mrm_mod mrm = 3 then s\<lparr>xmm_regs := (xmm_regs s)[rm mrm := val]\<rparr>
      else let (addr, s) = resolve_rm_addr mrm s;
               s = mem_write64 addr (lo val) s
           in mem_write64 (addr + 8) (hi val) s)"

section \<open>What decoding changes\<close>

text \<open>\<open>parse_modrm\<close> moves EIP and nothing else, \<open>resolve_rm_addr\<close> clears the segment override.\<close>

lemma parse_modrm_state: "snd (parse_modrm s) = s\<lparr>eip := eip (snd (parse_modrm s))\<rparr>"
  by (simp add: parse_modrm_def fetch8_def fetch32_def Let_def)

lemma resolve_state:
  "snd (resolve_rm_addr m s) = s\<lparr>g_seg_override := g_seg_override (snd (resolve_rm_addr m s))\<rparr>"
  by (simp add: resolve_rm_addr_def Let_def)

lemma read_rm_state:
  "snd (read_rm32 m s) = s\<lparr>g_seg_override := g_seg_override (snd (read_rm32 m s))\<rparr>"
  "snd (read_rm16 m s) = s\<lparr>g_seg_override := g_seg_override (snd (read_rm16 m s))\<rparr>"
  "snd (read_rm8 m s) = s\<lparr>g_seg_override := g_seg_override (snd (read_rm8 m s))\<rparr>"
  using resolve_state [of m s] by (simp_all add: read_rm32_def read_rm16_def read_rm8_def split_beta)

lemma parse_modrm_frame [simp, frame]:
  "g_mem (snd (parse_modrm s)) = g_mem s" "g_size (snd (parse_modrm s)) = g_size s"
  "regs (snd (parse_modrm s)) = regs s" "eflags (snd (parse_modrm s)) = eflags s"
  "halted (snd (parse_modrm s)) = halted s" "g_gs_base (snd (parse_modrm s)) = g_gs_base s"
  "g_operand_size_16 (snd (parse_modrm s)) = g_operand_size_16 s"
  "g_seg_override (snd (parse_modrm s)) = g_seg_override s"
  "mmx_regs (snd (parse_modrm s)) = mmx_regs s" "xmm_regs (snd (parse_modrm s)) = xmm_regs s"
  "fpu_stack (snd (parse_modrm s)) = fpu_stack s" "fpu_top (snd (parse_modrm s)) = fpu_top s"
  by (subst parse_modrm_state, simp)+

lemma resolve_frame [simp, frame]:
  "g_mem (snd (resolve_rm_addr m s)) = g_mem s" "g_size (snd (resolve_rm_addr m s)) = g_size s"
  "regs (snd (resolve_rm_addr m s)) = regs s" "eflags (snd (resolve_rm_addr m s)) = eflags s"
  "eip (snd (resolve_rm_addr m s)) = eip s" "halted (snd (resolve_rm_addr m s)) = halted s"
  "mmx_regs (snd (resolve_rm_addr m s)) = mmx_regs s"
  "xmm_regs (snd (resolve_rm_addr m s)) = xmm_regs s"
  "fpu_stack (snd (resolve_rm_addr m s)) = fpu_stack s" "fpu_top (snd (resolve_rm_addr m s)) = fpu_top s"
  by (subst resolve_state, simp)+

lemma read_rm32_frame [simp, frame]:
  "g_mem (snd (read_rm32 m s)) = g_mem s" "g_size (snd (read_rm32 m s)) = g_size s"
  "regs (snd (read_rm32 m s)) = regs s" "eflags (snd (read_rm32 m s)) = eflags s"
  "eip (snd (read_rm32 m s)) = eip s" "halted (snd (read_rm32 m s)) = halted s"
  by (subst read_rm_state, simp)+

lemma read_rm8_frame [simp, frame]:
  "g_mem (snd (read_rm8 m s)) = g_mem s" "g_size (snd (read_rm8 m s)) = g_size s"
  "regs (snd (read_rm8 m s)) = regs s" "eflags (snd (read_rm8 m s)) = eflags s"
  "eip (snd (read_rm8 m s)) = eip s" "halted (snd (read_rm8 m s)) = halted s"
  by (subst read_rm_state, simp)+

lemma decode_reg_frame [simp]:
  "reg (snd (parse_modrm s)) i = reg s i" "reg (snd (resolve_rm_addr m s)) i = reg s i"
  "reg (snd (read_rm32 m s)) i = reg s i" "reg (snd (read_rm8 m s)) i = reg s i"
  by (simp_all add: reg_def)

lemma decode_cf_frame [simp]:
  "get_cf (snd (parse_modrm s)) = get_cf s" "get_cf (snd (read_rm32 m s)) = get_cf s"
  "get_cf (snd (read_rm8 m s)) = get_cf s"
  by (simp_all add: get_cf_def)

lemma decode_mem_frame [simp]:
  "mem_read8 a (snd (parse_modrm s)) = mem_read8 a s"
  "mem_read32 a (snd (parse_modrm s)) = mem_read32 a s"
  "mem_read8 a (snd (resolve_rm_addr m s)) = mem_read8 a s"
  "mem_read16 a (snd (resolve_rm_addr m s)) = mem_read16 a s"
  "mem_read32 a (snd (resolve_rm_addr m s)) = mem_read32 a s"
  "mem_read32 a (snd (read_rm32 m s)) = mem_read32 a s"
  by (rule mem_read_cong; simp)+

text \<open>The fields of a parsed ModR/M byte index their tables.\<close>

lemma modrm_field_bounds:
  "drop_bit 6 (w :: u8) AND 3 < 4" "drop_bit 3 w AND 7 < 8" "w AND 7 < 8"
  using word_and_le1 [of "drop_bit 6 w" 3] word_and_le1 [of "drop_bit 3 w" 7] word_and_le1 [of w 7]
  by (simp_all add: order_le_less_trans [of _ 3 4] order_le_less_trans [of _ 7 8])

lemma parse_modrm_bounds:
  "mrm_mod (fst (parse_modrm s)) < 4" "mrm_reg (fst (parse_modrm s)) < 8"
  "mrm_rm (fst (parse_modrm s)) < 8" "sib_base (fst (parse_modrm s)) < 8"
  "sib_index (fst (parse_modrm s)) < 8" "sib_scale (fst (parse_modrm s)) < 4"
  by (simp_all add: parse_modrm_def fetch8_def fetch32_def Let_def modrm_field_bounds)

lemma parse_modrm_index [simp]:
  "unat (mrm_reg (fst (parse_modrm s))) < 8" "unat (mrm_rm (fst (parse_modrm s))) < 8"
  using parse_modrm_bounds(2,3) [of s] by (simp_all add: word_less_nat_alt)

text \<open>The register number and the operand of an instruction whose ModR/M byte is at EIP.\<close>

abbreviation modrm_reg :: "'a ops_state_scheme \<Rightarrow> nat" where
  "modrm_reg s \<equiv> unat (mrm_reg (fst (parse_modrm s)))"

abbreviation operand32 :: "'a ops_state_scheme \<Rightarrow> u32" where
  "operand32 s \<equiv> fst (read_rm32 (fst (parse_modrm s)) (snd (parse_modrm s)))"

abbreviation modrm_end :: "'a ops_state_scheme \<Rightarrow> u32" where
  "modrm_end s \<equiv> eip (snd (parse_modrm s))"

section \<open>Operands that can be written\<close>

text \<open>The location of an operand: a register, or a word of memory inside the block.\<close>

definition operand_ok :: "ModRM \<Rightarrow> 'a ops_state_scheme \<Rightarrow> bool" where
  "operand_ok m s \<longleftrightarrow> mrm_mod m = 3 \<or> unat (fst (resolve_rm_addr m s)) + 4 \<le> g_size s"

lemma resolve_cong:
  assumes "regs t = regs s" and "g_seg_override t = g_seg_override s"
  shows "fst (resolve_rm_addr m t) = fst (resolve_rm_addr m s)"
  using assms by (simp add: resolve_rm_addr_def Let_def reg_def)

lemma read_rm32_cong:
  assumes "regs t = regs s" and "g_seg_override t = g_seg_override s"
    and "g_mem t = g_mem s" and "g_size t = g_size s"
  shows "fst (read_rm32 m t) = fst (read_rm32 m s)"
  using resolve_cong [OF assms(1,2), of m] assms
  by (simp add: read_rm32_def split_beta reg_def mem_read32_def check_bounds_def)

lemma read_write_rm32:
  assumes "g_size s \<le> 2 ^ 32" and "length (regs s) = 8" and "unat (mrm_rm m) < 8"
    and "operand_ok m s" and "g_seg_override s = 0"
  shows "fst (read_rm32 m (write_rm32 m v s)) = v"
proof (cases "mrm_mod m = 3")
  case True
  then show ?thesis using assms(2,3) by (simp add: read_rm32_def write_rm32_def reg_set_reg)
next
  case False
  define a where "a = fst (resolve_rm_addr m s)"
  define t where "t = mem_write32 a v (snd (resolve_rm_addr m s))"
  have "g_seg_override (snd (resolve_rm_addr m s)) = 0"
    using False by (simp add: resolve_rm_addr_def Let_def)
  then have "fst (resolve_rm_addr m t) = a"
    using assms(5) unfolding a_def t_def by (intro resolve_cong) (simp_all)
  moreover have "mem_read32 a t = v"
    using assms(1,4) False unfolding t_def a_def operand_ok_def
    by (intro acc32.rd_wr_same) simp_all
  ultimately show ?thesis
    using False by (simp add: read_rm32_def write_rm32_def split_beta t_def [symmetric]
      a_def [symmetric])
qed

lemma write_rm32_frame [simp, frame]:
  "g_size (write_rm32 m v s) = g_size s" "eflags (write_rm32 m v s) = eflags s"
  "eip (write_rm32 m v s) = eip s" "halted (write_rm32 m v s) = halted s"
  by (simp_all add: write_rm32_def split_beta)

lemma read_rm32_override [simp]:
  "g_seg_override s = 0 \<Longrightarrow> g_seg_override (snd (read_rm32 m s)) = 0"
  by (simp add: read_rm32_def resolve_rm_addr_def split_beta Let_def)

lemma read_again:
  assumes "regs t = regs (write_rm32 m v s)" and "g_mem t = g_mem (write_rm32 m v s)"
    and "g_seg_override t = g_seg_override (write_rm32 m v s)" and "g_size t = g_size s"
    and "g_size s \<le> 2 ^ 32" and "length (regs s) = 8" and "unat (mrm_rm m) < 8"
    and "operand_ok m s" and "g_seg_override s = 0"
  shows "fst (read_rm32 m t) = v"
  using read_rm32_cong [of t "write_rm32 m v s" m] read_write_rm32 [OF assms(5-9)] assms(1-4)
  by simp

lemma operand_ok_read [simp]:
  "g_seg_override s = 0 \<Longrightarrow> operand_ok m (snd (read_rm32 m' s)) = operand_ok m s"
  using resolve_cong [of "snd (read_rm32 m' s)" s m] by (simp add: operand_ok_def)

lemma read_modified:
  fixes s :: "'a ops_state_scheme"
  defines "m \<equiv> fst (parse_modrm s)" and "s2 \<equiv> snd (read_rm32 (fst (parse_modrm s)) (snd (parse_modrm s)))"
  assumes "regs t = regs (write_rm32 m v s2)" and "g_mem t = g_mem (write_rm32 m v s2)"
    and "g_seg_override t = g_seg_override (write_rm32 m v s2)" and "g_size t = g_size s"
    and "g_size s \<le> 2 ^ 32" and "length (regs s) = 8"
    and "operand_ok m (snd (parse_modrm s))" and "g_seg_override s = 0"
  shows "fst (read_rm32 m t) = v"
  using assms(3-) by (intro read_again [where s = s2]) (simp_all add: m_def s2_def)

end
