(* ===== verification/Ops_Alu.thy ===== *)
theory Ops_Alu
  imports Decode
begin

text \<open>
  Arithmetic and logic handlers of \<open>src/cpu/ops.c\<close>: ADD, ADC, SUB, SBB, CMP, AND, OR, XOR,
  TEST, INC, DEC and the immediate groups 0x80, 0x81 and 0x83. A handler is a function on
  the state, its statements in the order of the source; the parameter \<open>op\<close> is the opcode.
\<close>

section \<open>Handlers\<close>

definition op_add_rm8_r8 :: "u8 \<Rightarrow> 'a ops_state_scheme \<Rightarrow> 'a ops_state_scheme" where
  "op_add_rm8_r8 op s =
     (let (mrm, s) = parse_modrm s;
          (a, s) = read_rm8 mrm s;
          b = get_reg8 s (rg mrm);
          result = a + b;
          s = write_rm8 mrm result s;
          s = set_cf (result < a) s;
          s = set_zf (ucast result) s;
          s = set_sf (ucast result) s;
          s = set_pf (ucast result) s;
          s = set_of_add (ucast a) (ucast b) (ucast result) s
      in add_cycles 2 s)"

definition op_add_rm32_r32 :: "u8 \<Rightarrow> 'a ops_state_scheme \<Rightarrow> 'a ops_state_scheme" where
  "op_add_rm32_r32 op s =
     (let (mrm, s) = parse_modrm s;
          (a, s) = read_rm32 mrm s;
          b = reg s (rg mrm);
          result = a + b;
          s = write_rm32 mrm result s;
          s = set_cf (result < a) s;
          s = set_zf result s;
          s = set_sf result s;
          s = set_pf result s;
          s = set_of_add a b result s
      in add_cycles 2 s)"

definition op_add_r8_rm8 :: "u8 \<Rightarrow> 'a ops_state_scheme \<Rightarrow> 'a ops_state_scheme" where
  "op_add_r8_rm8 op s =
     (let (mrm, s) = parse_modrm s;
          a = get_reg8 s (rg mrm);
          (b, s) = read_rm8 mrm s;
          result = a + b;
          s = set_reg8 (rg mrm) result s;
          s = set_cf (result < a) s;
          s = set_zf (ucast result) s;
          s = set_sf (ucast result) s;
          s = set_pf (ucast result) s;
          s = set_of_add (ucast a) (ucast b) (ucast result) s
      in add_cycles 2 s)"

definition op_add_r32_rm32 :: "u8 \<Rightarrow> 'a ops_state_scheme \<Rightarrow> 'a ops_state_scheme" where
  "op_add_r32_rm32 op s =
     (let (mrm, s) = parse_modrm s;
          a = reg s (rg mrm);
          (b, s) = read_rm32 mrm s;
          result = a + b;
          s = set_reg (rg mrm) result s;
          s = set_cf (result < a) s;
          s = set_zf result s;
          s = set_sf result s;
          s = set_pf result s;
          s = set_of_add a b result s
      in add_cycles 2 s)"

definition op_add_eax_imm32 :: "u8 \<Rightarrow> 'a ops_state_scheme \<Rightarrow> 'a ops_state_scheme" where
  "op_add_eax_imm32 op s =
     (let a = reg s REG_EAX;
          (b, s) = fetch32 s;
          result = a + b;
          s = set_reg REG_EAX result s;
          s = set_cf (result < a) s;
          s = set_zf result s;
          s = set_sf result s;
          s = set_pf result s;
          s = set_of_add a b result s
      in add_cycles 1 s)"

definition op_or_rm32_r32 :: "u8 \<Rightarrow> 'a ops_state_scheme \<Rightarrow> 'a ops_state_scheme" where
  "op_or_rm32_r32 op s =
     (let (mrm, s) = parse_modrm s;
          (a, s) = read_rm32 mrm s;
          result = a OR reg s (rg mrm);
          s = write_rm32 mrm result s;
          s = set_zf result s;
          s = set_sf result s;
          s = set_pf result s;
          s = set_cf False s
      in add_cycles 2 s)"

definition op_adc_rm8_r8 :: "u8 \<Rightarrow> 'a ops_state_scheme \<Rightarrow> 'a ops_state_scheme" where
  "op_adc_rm8_r8 op s =
     (let (mrm, s) = parse_modrm s;
          (a, s) = read_rm8 mrm s;
          b = get_reg8 s (rg mrm);
          cf = (ucast (get_cf s) :: u8);
          result = a + b + cf;
          s = write_rm8 mrm result s;
          s = set_cf (result < a \<or> (cf \<noteq> 0 \<and> result = a)) s;
          s = set_zf (ucast result) s;
          s = set_sf (ucast result) s;
          s = set_pf (ucast result) s;
          s = set_of_add (ucast a) (ucast b) (ucast result) s
      in add_cycles 2 s)"

definition op_adc_r8_rm8 :: "u8 \<Rightarrow> 'a ops_state_scheme \<Rightarrow> 'a ops_state_scheme" where
  "op_adc_r8_rm8 op s =
     (let (mrm, s) = parse_modrm s;
          a = get_reg8 s (rg mrm);
          (b, s) = read_rm8 mrm s;
          cf = (ucast (get_cf s) :: u8);
          result = a + b + cf;
          s = set_reg8 (rg mrm) result s;
          s = set_cf (result < a \<or> (cf \<noteq> 0 \<and> result = a)) s;
          s = set_zf (ucast result) s;
          s = set_sf (ucast result) s;
          s = set_pf (ucast result) s;
          s = set_of_add (ucast a) (ucast b) (ucast result) s
      in add_cycles 2 s)"

definition op_or_r32_rm32 :: "u8 \<Rightarrow> 'a ops_state_scheme \<Rightarrow> 'a ops_state_scheme" where
  "op_or_r32_rm32 op s =
     (let (mrm, s) = parse_modrm s;
          (b, s) = read_rm32 mrm s;
          result = reg s (rg mrm) OR b;
          s = set_reg (rg mrm) result s;
          s = set_zf result s;
          s = set_sf result s;
          s = set_cf False s;
          s = set_pf result s
      in add_cycles 2 s)"

definition op_or_al_imm8 :: "u8 \<Rightarrow> 'a ops_state_scheme \<Rightarrow> 'a ops_state_scheme" where
  "op_or_al_imm8 op s =
     (let a = (ucast (reg s REG_EAX) :: u8);
          (b, s) = fetch8 s;
          result = a OR b;
          s = set_reg8 REG_EAX result s;
          s = set_zf (ucast result) s;
          s = set_sf (ucast result) s;
          s = set_pf (ucast result) s;
          s = set_cf False s
      in add_cycles 1 s)"

definition op_or_eax_imm32 :: "u8 \<Rightarrow> 'a ops_state_scheme \<Rightarrow> 'a ops_state_scheme" where
  "op_or_eax_imm32 op s =
     (let (imm, s) = fetch32 s;
          result = reg s REG_EAX OR imm;
          s = set_reg REG_EAX result s;
          s = set_zf result s;
          s = set_sf result s;
          s = set_pf result s;
          s = set_cf False s
      in add_cycles 1 s)"

definition op_adc_rm32_r32 :: "u8 \<Rightarrow> 'a ops_state_scheme \<Rightarrow> 'a ops_state_scheme" where
  "op_adc_rm32_r32 op s =
     (let (mrm, s) = parse_modrm s;
          (a, s) = read_rm32 mrm s;
          b = reg s (rg mrm);
          cf = get_cf s;
          result = a + b + cf;
          s = write_rm32 mrm result s;
          s = set_cf (result < a \<or> (cf \<noteq> 0 \<and> result = a)) s;
          s = set_zf result s;
          s = set_sf result s;
          s = set_pf result s;
          s = set_of_add a b result s
      in add_cycles 2 s)"

definition op_adc_r32_rm32 :: "u8 \<Rightarrow> 'a ops_state_scheme \<Rightarrow> 'a ops_state_scheme" where
  "op_adc_r32_rm32 op s =
     (let (mrm, s) = parse_modrm s;
          a = reg s (rg mrm);
          (b, s) = read_rm32 mrm s;
          cf = get_cf s;
          result = a + b + cf;
          s = set_reg (rg mrm) result s;
          s = set_cf (result < a \<or> (cf \<noteq> 0 \<and> result = a)) s;
          s = set_zf result s;
          s = set_sf result s;
          s = set_pf result s;
          s = set_of_add a b result s
      in add_cycles 2 s)"

definition op_sbb_rm32_r32 :: "u8 \<Rightarrow> 'a ops_state_scheme \<Rightarrow> 'a ops_state_scheme" where
  "op_sbb_rm32_r32 op s =
     (let (mrm, s) = parse_modrm s;
          (a, s) = read_rm32 mrm s;
          b = reg s (rg mrm);
          cf = get_cf s;
          result = a - b - cf;
          s = write_rm32 mrm result s;
          s = set_cf (a < b + cf \<or> (cf \<noteq> 0 \<and> b = 0xFFFFFFFF)) s;
          s = set_zf result s;
          s = set_sf result s;
          s = set_pf result s;
          s = set_of_sub a b result s
      in add_cycles 2 s)"

definition op_sbb_r32_rm32 :: "u8 \<Rightarrow> 'a ops_state_scheme \<Rightarrow> 'a ops_state_scheme" where
  "op_sbb_r32_rm32 op s =
     (let (mrm, s) = parse_modrm s;
          a = reg s (rg mrm);
          (b, s) = read_rm32 mrm s;
          cf = get_cf s;
          result = a - b - cf;
          s = set_reg (rg mrm) result s;
          s = set_cf (a < b + cf \<or> (cf \<noteq> 0 \<and> b = 0xFFFFFFFF)) s;
          s = set_zf result s;
          s = set_sf result s;
          s = set_pf result s;
          s = set_of_sub a b result s
      in add_cycles 2 s)"

definition op_and_rm8_r8 :: "u8 \<Rightarrow> 'a ops_state_scheme \<Rightarrow> 'a ops_state_scheme" where
  "op_and_rm8_r8 op s =
     (let (mrm, s) = parse_modrm s;
          (a, s) = read_rm8 mrm s;
          b = get_reg8 s (rg mrm);
          result = a AND b;
          s = write_rm8 mrm result s;
          s = set_zf (ucast result) s;
          s = set_sf (ucast result) s;
          s = set_pf (ucast result) s;
          s = set_cf False s
      in add_cycles 2 s)"

definition op_and_rm32_r32 :: "u8 \<Rightarrow> 'a ops_state_scheme \<Rightarrow> 'a ops_state_scheme" where
  "op_and_rm32_r32 op s =
     (let (mrm, s) = parse_modrm s;
          (a, s) = read_rm32 mrm s;
          result = a AND reg s (rg mrm);
          s = write_rm32 mrm result s;
          s = set_zf result s;
          s = set_sf result s;
          s = set_pf result s;
          s = set_cf False s
      in add_cycles 2 s)"

definition op_and_r8_rm8 :: "u8 \<Rightarrow> 'a ops_state_scheme \<Rightarrow> 'a ops_state_scheme" where
  "op_and_r8_rm8 op s =
     (let (mrm, s) = parse_modrm s;
          a = get_reg8 s (rg mrm);
          (b, s) = read_rm8 mrm s;
          result = a AND b;
          s = set_reg8 (rg mrm) result s;
          s = set_zf (ucast result) s;
          s = set_sf (ucast result) s;
          s = set_pf (ucast result) s;
          s = set_cf False s
      in add_cycles 2 s)"

definition op_and_r32_rm32 :: "u8 \<Rightarrow> 'a ops_state_scheme \<Rightarrow> 'a ops_state_scheme" where
  "op_and_r32_rm32 op s =
     (let (mrm, s) = parse_modrm s;
          (b, s) = read_rm32 mrm s;
          result = reg s (rg mrm) AND b;
          s = set_reg (rg mrm) result s;
          s = set_zf result s;
          s = set_sf result s;
          s = set_pf result s;
          s = set_cf False s
      in add_cycles 2 s)"

definition op_and_al_imm8 :: "u8 \<Rightarrow> 'a ops_state_scheme \<Rightarrow> 'a ops_state_scheme" where
  "op_and_al_imm8 op s =
     (let a = (ucast (reg s REG_EAX) :: u8);
          (b, s) = fetch8 s;
          result = a AND b;
          s = set_reg8 REG_EAX result s;
          s = set_zf (ucast result) s;
          s = set_sf (ucast result) s;
          s = set_pf (ucast result) s;
          s = set_cf False s
      in add_cycles 1 s)"

definition op_and_eax_imm32 :: "u8 \<Rightarrow> 'a ops_state_scheme \<Rightarrow> 'a ops_state_scheme" where
  "op_and_eax_imm32 op s =
     (let (imm, s) = fetch32 s;
          result = reg s REG_EAX AND imm;
          s = set_reg REG_EAX result s;
          s = set_zf result s;
          s = set_sf result s;
          s = set_pf result s;
          s = set_cf False s
      in add_cycles 1 s)"

definition op_sub_rm32_r32 :: "u8 \<Rightarrow> 'a ops_state_scheme \<Rightarrow> 'a ops_state_scheme" where
  "op_sub_rm32_r32 op s =
     (let (mrm, s) = parse_modrm s;
          (a, s) = read_rm32 mrm s;
          b = reg s (rg mrm);
          result = a - b;
          s = write_rm32 mrm result s;
          s = set_cf (a < b) s;
          s = set_zf result s;
          s = set_sf result s;
          s = set_pf result s;
          s = set_of_sub a b result s
      in add_cycles 2 s)"

definition op_sub_r32_rm32 :: "u8 \<Rightarrow> 'a ops_state_scheme \<Rightarrow> 'a ops_state_scheme" where
  "op_sub_r32_rm32 op s =
     (let (mrm, s) = parse_modrm s;
          a = reg s (rg mrm);
          (b, s) = read_rm32 mrm s;
          result = a - b;
          s = set_reg (rg mrm) result s;
          s = set_cf (a < b) s;
          s = set_zf result s;
          s = set_sf result s;
          s = set_pf result s;
          s = set_of_sub a b result s
      in add_cycles 2 s)"

definition op_sub_eax_imm32 :: "u8 \<Rightarrow> 'a ops_state_scheme \<Rightarrow> 'a ops_state_scheme" where
  "op_sub_eax_imm32 op s =
     (let a = reg s REG_EAX;
          (b, s) = fetch32 s;
          result = a - b;
          s = set_reg REG_EAX result s;
          s = set_cf (a < b) s;
          s = set_zf result s;
          s = set_sf result s;
          s = set_pf result s;
          s = set_of_sub a b result s
      in add_cycles 1 s)"

definition op_xor_rm8_r8 :: "u8 \<Rightarrow> 'a ops_state_scheme \<Rightarrow> 'a ops_state_scheme" where
  "op_xor_rm8_r8 op s =
     (let (mrm, s) = parse_modrm s;
          (a, s) = read_rm8 mrm s;
          b = get_reg8 s (rg mrm);
          result = a XOR b;
          s = write_rm8 mrm result s;
          s = set_zf (ucast result) s;
          s = set_sf (ucast result) s;
          s = set_pf (ucast result) s;
          s = set_cf False s
      in add_cycles 2 s)"

definition op_xor_rm32_r32 :: "u8 \<Rightarrow> 'a ops_state_scheme \<Rightarrow> 'a ops_state_scheme" where
  "op_xor_rm32_r32 op s =
     (let (mrm, s) = parse_modrm s;
          (a, s) = read_rm32 mrm s;
          result = a XOR reg s (rg mrm);
          s = write_rm32 mrm result s;
          s = set_zf result s;
          s = set_sf result s;
          s = set_pf result s
      in add_cycles 2 s)"

definition op_xor_r32_rm32 :: "u8 \<Rightarrow> 'a ops_state_scheme \<Rightarrow> 'a ops_state_scheme" where
  "op_xor_r32_rm32 op s =
     (let (mrm, s) = parse_modrm s;
          (b, s) = read_rm32 mrm s;
          result = reg s (rg mrm) XOR b;
          s = set_reg (rg mrm) result s;
          s = set_zf result s;
          s = set_sf result s;
          s = set_pf result s;
          s = set_cf False s
      in add_cycles 2 s)"

definition op_xor_al_imm8 :: "u8 \<Rightarrow> 'a ops_state_scheme \<Rightarrow> 'a ops_state_scheme" where
  "op_xor_al_imm8 op s =
     (let a = (ucast (reg s REG_EAX) :: u8);
          (b, s) = fetch8 s;
          result = a XOR b;
          s = set_reg8 REG_EAX result s;
          s = set_zf (ucast result) s;
          s = set_sf (ucast result) s;
          s = set_pf (ucast result) s;
          s = set_cf False s
      in add_cycles 1 s)"

definition op_cmp_rm8_r8 :: "u8 \<Rightarrow> 'a ops_state_scheme \<Rightarrow> 'a ops_state_scheme" where
  "op_cmp_rm8_r8 op s =
     (let (mrm, s) = parse_modrm s;
          (a, s) = read_rm8 mrm s;
          b = get_reg8 s (rg mrm);
          result = a - b;
          s = set_cf (a < b) s;
          s = set_zf (ucast result) s;
          s = set_sf (ucast result) s;
          s = set_pf (ucast result) s;
          s = set_of_sub (ucast a) (ucast b) (ucast result) s
      in add_cycles 2 s)"

definition op_cmp_rm32_r32 :: "u8 \<Rightarrow> 'a ops_state_scheme \<Rightarrow> 'a ops_state_scheme" where
  "op_cmp_rm32_r32 op s =
     (let (mrm, s) = parse_modrm s;
          (a, s) = read_rm32 mrm s;
          b = reg s (rg mrm);
          result = a - b;
          s = set_cf (a < b) s;
          s = set_zf result s;
          s = set_sf result s;
          s = set_pf result s;
          s = set_of_sub a b result s
      in add_cycles 2 s)"

definition op_cmp_r8_rm8 :: "u8 \<Rightarrow> 'a ops_state_scheme \<Rightarrow> 'a ops_state_scheme" where
  "op_cmp_r8_rm8 op s =
     (let (mrm, s) = parse_modrm s;
          a = get_reg8 s (rg mrm);
          (b, s) = read_rm8 mrm s;
          result = a - b;
          s = set_cf (a < b) s;
          s = set_zf (ucast result) s;
          s = set_sf (ucast result) s;
          s = set_pf (ucast result) s;
          s = set_of_sub (ucast a) (ucast b) (ucast result) s
      in add_cycles 2 s)"

definition op_cmp_r32_rm32 :: "u8 \<Rightarrow> 'a ops_state_scheme \<Rightarrow> 'a ops_state_scheme" where
  "op_cmp_r32_rm32 op s =
     (let (mrm, s) = parse_modrm s;
          a = reg s (rg mrm);
          (b, s) = read_rm32 mrm s;
          result = a - b;
          s = set_cf (a < b) s;
          s = set_zf result s;
          s = set_sf result s;
          s = set_pf result s;
          s = set_of_sub a b result s
      in add_cycles 2 s)"

definition op_cmp_al_imm8 :: "u8 \<Rightarrow> 'a ops_state_scheme \<Rightarrow> 'a ops_state_scheme" where
  "op_cmp_al_imm8 op s =
     (let a = (ucast (reg s REG_EAX) :: u8);
          (b, s) = fetch8 s;
          result = a - b;
          s = set_cf (a < b) s;
          s = set_zf (ucast result) s;
          s = set_sf (ucast result) s;
          s = set_pf (ucast result) s;
          s = set_of_sub (ucast a) (ucast b) (ucast result) s
      in add_cycles 1 s)"

definition op_cmp_eax_imm32 :: "u8 \<Rightarrow> 'a ops_state_scheme \<Rightarrow> 'a ops_state_scheme" where
  "op_cmp_eax_imm32 op s =
     (let a = reg s REG_EAX;
          (b, s) = fetch32 s;
          result = a - b;
          s = set_cf (a < b) s;
          s = set_zf result s;
          s = set_sf result s;
          s = set_pf result s;
          s = set_of_sub a b result s
      in add_cycles 1 s)"

definition op_inc_r32 :: "u8 \<Rightarrow> 'a ops_state_scheme \<Rightarrow> 'a ops_state_scheme" where
  "op_inc_r32 op s =
     (let r = unat (op AND 0x07);
          a = reg s r;
          result = a + 1;
          s = set_reg r result s;
          s = set_zf result s;
          s = set_sf result s;
          s = set_pf result s;
          s = set_of_add a 1 result s
      in add_cycles 1 s)"

definition op_dec_r32 :: "u8 \<Rightarrow> 'a ops_state_scheme \<Rightarrow> 'a ops_state_scheme" where
  "op_dec_r32 op s =
     (let r = unat (op AND 0x07);
          a = reg s r;
          result = a - 1;
          s = set_reg r result s;
          s = set_zf result s;
          s = set_sf result s;
          s = set_pf result s;
          s = set_of_sub a 1 result s
      in add_cycles 1 s)"

definition op_80_group :: "u8 \<Rightarrow> 'a ops_state_scheme \<Rightarrow> 'a ops_state_scheme" where
  "op_80_group op s =
     (let (mrm, s) = parse_modrm s;
          (imm, s) = fetch8 s;
          (a, s) = read_rm8 mrm s;
          finish = (\<lambda>result s.
            let s = write_rm8 mrm result s;
                s = set_zf (ucast result) s;
                s = set_sf (ucast result) s;
                s = set_pf (ucast result) s
            in add_cycles 2 s)
      in if mrm_reg mrm = 0 then
           let result = a + imm; s = set_cf (result < a) s;
               s = set_of_add (ucast a) (ucast imm) (ucast result) s in finish result s
         else if mrm_reg mrm = 1 then
           let result = a OR imm; s = set_cf False s in finish result s
         else if mrm_reg mrm = 2 then
           let result = a + imm; s = set_cf (result < a) s;
               s = set_of_add (ucast a) (ucast imm) (ucast result) s in finish result s
         else if mrm_reg mrm = 3 then
           let result = a - imm; s = set_cf (a < imm) s;
               s = set_of_sub (ucast a) (ucast imm) (ucast result) s in finish result s
         else if mrm_reg mrm = 4 then
           let result = a AND imm; s = set_cf False s in finish result s
         else if mrm_reg mrm = 5 then
           let result = a - imm; s = set_cf (a < imm) s;
               s = set_of_sub (ucast a) (ucast imm) (ucast result) s in finish result s
         else if mrm_reg mrm = 6 then
           let result = a XOR imm; s = set_cf False s in finish result s
         else if mrm_reg mrm = 7 then
           let result = a - imm; s = set_cf (a < imm) s;
               s = set_of_sub (ucast a) (ucast imm) (ucast result) s;
               s = set_zf (ucast result) s;
               s = set_sf (ucast result) s;
               s = set_pf (ucast result) s
           in add_cycles 2 s
         else halt s)"

definition op_81 :: "u8 \<Rightarrow> 'a ops_state_scheme \<Rightarrow> 'a ops_state_scheme" where
  "op_81 op s =
     (let (mrm, s) = parse_modrm s
      in if g_operand_size_16 s then
           let (imm, s) = fetch16 s;
               (a, s) = read_rm16 mrm s
           in let finish = (\<lambda>result s.
             let s = write_rm16 mrm result s;
                 s = set_zf (ucast result) s;
                 s = set_sf (push_bit 16 (ucast result)) s
             in add_cycles 2 s)
           in if mrm_reg mrm = 0 then finish (a + imm) s
              else if mrm_reg mrm = 1 then finish (a OR imm) s
              else if mrm_reg mrm = 4 then finish (a AND imm) s
              else if mrm_reg mrm = 5 then finish (a - imm) s
              else if mrm_reg mrm = 6 then finish (a XOR imm) s
              else if mrm_reg mrm = 7 then
                let result = a - imm;
                    s = set_cf (a < imm) s;
                    s = set_zf (ucast result) s;
                    s = set_sf (push_bit 16 (ucast result)) s
                in add_cycles 2 s
              else halt s
         else
           let (imm, s) = fetch32 s
           in let (a, s) = read_rm32 mrm s;
               finish = (\<lambda>result s.
                 let s = set_zf result s; s = set_sf result s in add_cycles 2 s)
           in if mrm_reg mrm = 0 then
                let result = a + imm; s = write_rm32 mrm result s; s = set_cf (result < a) s;
                    s = set_of_add a imm result s in finish result s
              else if mrm_reg mrm = 1 then
                let result = a OR imm; s = write_rm32 mrm result s; s = set_cf False s
                in finish result s
              else if mrm_reg mrm = 4 then
                let result = a AND imm; s = write_rm32 mrm result s; s = set_cf False s
                in finish result s
              else if mrm_reg mrm = 5 then
                let result = a - imm; s = write_rm32 mrm result s; s = set_cf (a < imm) s;
                    s = set_of_sub a imm result s in finish result s
              else if mrm_reg mrm = 6 then
                let result = a XOR imm; s = write_rm32 mrm result s; s = set_cf False s
                in finish result s
              else if mrm_reg mrm = 7 then
                let result = a - imm; s = set_cf (a < imm) s;
                    s = set_of_sub a imm result s in finish result s
              else halt s)"

definition op_83 :: "u8 \<Rightarrow> 'a ops_state_scheme \<Rightarrow> 'a ops_state_scheme" where
  "op_83 op s =
     (let (mrm, s) = parse_modrm s;
          (raw, s) = fetch8 s;
          imm = (scast raw :: u32)
      in if g_operand_size_16 s then
           let imm16 = (scast raw :: u16);
               (a, s) = read_rm16 mrm s
           in let finish = (\<lambda>result s.
             let s = write_rm16 mrm result s;
                 s = set_zf (ucast result) s;
                 s = set_sf (push_bit 16 (ucast result)) s
             in add_cycles 2 s)
           in if mrm_reg mrm = 0 then finish (a + imm16) s
              else if mrm_reg mrm = 1 then finish (a OR imm16) s
              else if mrm_reg mrm = 4 then finish (a AND imm16) s
              else if mrm_reg mrm = 5 then finish (a - imm16) s
              else if mrm_reg mrm = 6 then finish (a XOR imm16) s
              else if mrm_reg mrm = 7 then
                let result = a - imm16;
                    s = set_cf (a < imm16) s;
                    s = set_zf (ucast result) s;
                    s = set_sf (push_bit 16 (ucast result)) s
                in add_cycles 2 s
              else halt s
         else
           let (a, s) = read_rm32 mrm s;
               finish = (\<lambda>result s.
                 let s = set_zf result s; s = set_sf result s in add_cycles 2 s)
           in if mrm_reg mrm = 0 then
                let result = a + imm; s = write_rm32 mrm result s; s = set_cf (result < a) s;
                    s = set_of_add a imm result s in finish result s
              else if mrm_reg mrm = 1 then
                let result = a OR imm; s = write_rm32 mrm result s; s = set_cf False s
                in finish result s
              else if mrm_reg mrm = 2 then
                let result = a + imm + get_cf s; s = write_rm32 mrm result s;
                    s = set_cf (result < a) s; s = set_of_add a imm result s in finish result s
              else if mrm_reg mrm = 3 then
                let result = a - imm - get_cf s; s = write_rm32 mrm result s;
                    s = set_cf (a < imm + get_cf s) s; s = set_of_sub a imm result s
                in finish result s
              else if mrm_reg mrm = 4 then
                let result = a AND imm; s = write_rm32 mrm result s; s = set_cf False s
                in finish result s
              else if mrm_reg mrm = 5 then
                let result = a - imm; s = write_rm32 mrm result s; s = set_cf (a < imm) s;
                    s = set_of_sub a imm result s in finish result s
              else if mrm_reg mrm = 6 then
                let result = a XOR imm; s = write_rm32 mrm result s; s = set_cf False s
                in finish result s
              else if mrm_reg mrm = 7 then
                let result = a - imm; s = set_cf (a < imm) s;
                    s = set_of_sub a imm result s in finish result s
              else halt s)"

definition op_test_rm8_r8 :: "u8 \<Rightarrow> 'a ops_state_scheme \<Rightarrow> 'a ops_state_scheme" where
  "op_test_rm8_r8 op s =
     (let (mrm, s) = parse_modrm s;
          (a, s) = read_rm8 mrm s;
          b = get_reg8 s (rg mrm);
          result = a AND b;
          s = set_zf (ucast result) s;
          s = set_sf (ucast result) s;
          s = set_pf (ucast result) s;
          s = set_cf False s
      in add_cycles 2 s)"

definition op_test_rm32_r32 :: "u8 \<Rightarrow> 'a ops_state_scheme \<Rightarrow> 'a ops_state_scheme" where
  "op_test_rm32_r32 op s =
     (let (mrm, s) = parse_modrm s;
          (a, s) = read_rm32 mrm s;
          result = a AND reg s (rg mrm);
          s = set_zf result s;
          s = set_sf result s;
          s = set_pf result s
      in add_cycles 2 s)"

definition op_test_al_imm8 :: "u8 \<Rightarrow> 'a ops_state_scheme \<Rightarrow> 'a ops_state_scheme" where
  "op_test_al_imm8 op s =
     (let (imm, s) = fetch8 s;
          result = (ucast (reg s REG_EAX) :: u8) AND imm;
          s = set_zf (ucast result) s;
          s = set_sf (ucast result) s;
          s = set_pf (ucast result) s;
          s = set_cf False s
      in add_cycles 1 s)"

definition op_test_eax_imm32 :: "u8 \<Rightarrow> 'a ops_state_scheme \<Rightarrow> 'a ops_state_scheme" where
  "op_test_eax_imm32 op s =
     (let (imm, s) = fetch32 s;
          result = reg s REG_EAX AND imm;
          s = set_zf result s;
          s = set_sf result s;
          s = set_pf result s;
          s = set_cf False s
      in add_cycles 1 s)"

end
