(* ===== verification/Ops_Move.thy ===== *)
theory Ops_Move
  imports Decode
begin

text \<open>
  Data movement handlers of \<open>src/cpu/ops.c\<close>: MOV, MOVZX, MOVSX, XCHG, LEA, the stack, the
  single-step string instructions, CPUID and the instructions without an effect.
\<close>

section \<open>Handlers\<close>

definition op_push_sreg :: "u8 \<Rightarrow> 'a ops_state_scheme \<Rightarrow> 'a ops_state_scheme" where
  "op_push_sreg op s =
     (let s = set_reg REG_ESP (reg s REG_ESP - 4) s;
          s = mem_write32 (reg s REG_ESP) 0 s
      in add_cycles 1 s)"

definition op_pop_sreg :: "u8 \<Rightarrow> 'a ops_state_scheme \<Rightarrow> 'a ops_state_scheme" where
  "op_pop_sreg op s =
     (let s = set_reg REG_ESP (reg s REG_ESP + 4) s
      in add_cycles 1 s)"

definition op_push_r32 :: "u8 \<Rightarrow> 'a ops_state_scheme \<Rightarrow> 'a ops_state_scheme" where
  "op_push_r32 op s =
     (let r = unat (op AND 0x07);
          s = set_reg REG_ESP (reg s REG_ESP - 4) s;
          s = mem_write32 (reg s REG_ESP) (reg s r) s
      in add_cycles 1 s)"

definition op_pop_r32 :: "u8 \<Rightarrow> 'a ops_state_scheme \<Rightarrow> 'a ops_state_scheme" where
  "op_pop_r32 op s =
     (let r = unat (op AND 0x07);
          s = set_reg r (mem_read32 (reg s REG_ESP) s) s;
          s = set_reg REG_ESP (reg s REG_ESP + 4) s
      in add_cycles 1 s)"

definition op_push_imm32 :: "u8 \<Rightarrow> 'a ops_state_scheme \<Rightarrow> 'a ops_state_scheme" where
  "op_push_imm32 op s =
     (let (imm, s) = fetch32 s;
          s = set_reg REG_ESP (reg s REG_ESP - 4) s;
          s = mem_write32 (reg s REG_ESP) imm s
      in add_cycles 1 s)"

definition op_push_imm8 :: "u8 \<Rightarrow> 'a ops_state_scheme \<Rightarrow> 'a ops_state_scheme" where
  "op_push_imm8 op s =
     (let (b, s) = fetch8 s;
          imm = (scast b :: u32);
          s = set_reg REG_ESP (reg s REG_ESP - 4) s;
          s = mem_write32 (reg s REG_ESP) imm s
      in add_cycles 1 s)"

definition op_movzx_r32_rm8 :: "u8 \<Rightarrow> 'a ops_state_scheme \<Rightarrow> 'a ops_state_scheme" where
  "op_movzx_r32_rm8 op s =
     (let (mrm, s) = parse_modrm s;
          (val, s) = read_rm8 mrm s;
          s = set_reg (rg mrm) (ucast val) s
      in add_cycles 2 s)"

definition op_movzx_r32_rm16 :: "u8 \<Rightarrow> 'a ops_state_scheme \<Rightarrow> 'a ops_state_scheme" where
  "op_movzx_r32_rm16 op s =
     (let (mrm, s) = parse_modrm s;
          (val, s) = read_rm16 mrm s;
          s = set_reg (rg mrm) (ucast val) s
      in add_cycles 2 s)"

definition op_movsx_r32_rm8 :: "u8 \<Rightarrow> 'a ops_state_scheme \<Rightarrow> 'a ops_state_scheme" where
  "op_movsx_r32_rm8 op s =
     (let (mrm, s) = parse_modrm s;
          (val, s) = read_rm8 mrm s;
          s = set_reg (rg mrm) (scast val) s
      in add_cycles 2 s)"

definition op_movsx_r32_rm16 :: "u8 \<Rightarrow> 'a ops_state_scheme \<Rightarrow> 'a ops_state_scheme" where
  "op_movsx_r32_rm16 op s =
     (let (mrm, s) = parse_modrm s;
          (val, s) = read_rm16 mrm s;
          s = set_reg (rg mrm) (scast val) s
      in add_cycles 2 s)"

definition op_xchg_rm32_r32 :: "u8 \<Rightarrow> 'a ops_state_scheme \<Rightarrow> 'a ops_state_scheme" where
  "op_xchg_rm32_r32 op s =
     (let (mrm, s) = parse_modrm s;
          (a, s) = read_rm32 mrm s;
          b = reg s (rg mrm);
          s = write_rm32 mrm b s;
          s = set_reg (rg mrm) a s
      in add_cycles 2 s)"

definition op_mov_rm8_r8 :: "u8 \<Rightarrow> 'a ops_state_scheme \<Rightarrow> 'a ops_state_scheme" where
  "op_mov_rm8_r8 op s =
     (let (mrm, s) = parse_modrm s;
          val = get_reg8 s (rg mrm);
          s = write_rm8 mrm val s
      in add_cycles 2 s)"

definition op_mov_rm32_r32 :: "u8 \<Rightarrow> 'a ops_state_scheme \<Rightarrow> 'a ops_state_scheme" where
  "op_mov_rm32_r32 op s =
     (let (mrm, s) = parse_modrm s;
          s = (if g_operand_size_16 s then write_rm16 mrm (ucast (reg s (rg mrm))) s
               else write_rm32 mrm (reg s (rg mrm)) s)
      in add_cycles 2 s)"

definition op_mov_r8_rm8 :: "u8 \<Rightarrow> 'a ops_state_scheme \<Rightarrow> 'a ops_state_scheme" where
  "op_mov_r8_rm8 op s =
     (let (mrm, s) = parse_modrm s;
          (val, s) = read_rm8 mrm s;
          s = set_reg8 (rg mrm) val s
      in add_cycles 2 s)"

definition op_mov_r32_rm32 :: "u8 \<Rightarrow> 'a ops_state_scheme \<Rightarrow> 'a ops_state_scheme" where
  "op_mov_r32_rm32 op s =
     (let (mrm, s) = parse_modrm s;
          s = (if g_operand_size_16 s then
                 let (val, s) = read_rm16 mrm s
                 in set_reg (rg mrm) ((reg s (rg mrm) AND 0xFFFF0000) OR ucast val) s
               else let (val, s) = read_rm32 mrm s in set_reg (rg mrm) val s)
      in add_cycles 2 s)"

definition op_lea_r32_m :: "u8 \<Rightarrow> 'a ops_state_scheme \<Rightarrow> 'a ops_state_scheme" where
  "op_lea_r32_m op s =
     (let (mrm, s) = parse_modrm s;
          (addr, s) = resolve_rm_addr mrm s;
          s = set_reg (rg mrm) addr s
      in add_cycles 1 s)"

definition op_mov_sreg_rm16 :: "u8 \<Rightarrow> 'a ops_state_scheme \<Rightarrow> 'a ops_state_scheme" where
  "op_mov_sreg_rm16 op s =
     (let (mrm, s) = parse_modrm s
      in add_cycles 2 s)"

definition op_nop :: "u8 \<Rightarrow> 'a ops_state_scheme \<Rightarrow> 'a ops_state_scheme" where
  "op_nop op s = add_cycles 1 s"

definition op_xchg_eax_r32 :: "u8 \<Rightarrow> 'a ops_state_scheme \<Rightarrow> 'a ops_state_scheme" where
  "op_xchg_eax_r32 op s =
     (let r = unat (op AND 0x07);
          tmp = reg s REG_EAX;
          s = set_reg REG_EAX (reg s r) s;
          s = set_reg r tmp s
      in add_cycles 2 s)"

definition op_cdq :: "u8 \<Rightarrow> 'a ops_state_scheme \<Rightarrow> 'a ops_state_scheme" where
  "op_cdq op s =
     (let s = set_reg REG_EDX (if reg s REG_EAX AND 0x80000000 \<noteq> 0 then 0xFFFFFFFF else 0) s
      in add_cycles 1 s)"

definition op_mov_eax_mem :: "u8 \<Rightarrow> 'a ops_state_scheme \<Rightarrow> 'a ops_state_scheme" where
  "op_mov_eax_mem op s =
     (let (addr, s) = fetch32 s;
          addr = addr + g_seg_override s;
          s = s\<lparr>g_seg_override := 0\<rparr>;
          s = set_reg REG_EAX (mem_read32 addr s) s
      in add_cycles 2 s)"

definition op_mov_mem_al :: "u8 \<Rightarrow> 'a ops_state_scheme \<Rightarrow> 'a ops_state_scheme" where
  "op_mov_mem_al op s =
     (let (addr, s) = fetch32 s;
          addr = addr + g_seg_override s;
          s = s\<lparr>g_seg_override := 0\<rparr>;
          s = mem_write8 addr (ucast (reg s REG_EAX)) s
      in add_cycles 2 s)"

definition op_mov_mem_eax :: "u8 \<Rightarrow> 'a ops_state_scheme \<Rightarrow> 'a ops_state_scheme" where
  "op_mov_mem_eax op s =
     (let (addr, s) = fetch32 s;
          addr = addr + g_seg_override s;
          s = s\<lparr>g_seg_override := 0\<rparr>;
          s = mem_write32 addr (reg s REG_EAX) s
      in add_cycles 2 s)"

definition op_movsb :: "u8 \<Rightarrow> 'a ops_state_scheme \<Rightarrow> 'a ops_state_scheme" where
  "op_movsb op s =
     (let s = mem_write8 (reg s REG_EDI) (mem_read8 (reg s REG_ESI) s) s;
          s = set_reg REG_ESI (reg s REG_ESI + 1) s;
          s = set_reg REG_EDI (reg s REG_EDI + 1) s
      in add_cycles 2 s)"

definition op_movsd :: "u8 \<Rightarrow> 'a ops_state_scheme \<Rightarrow> 'a ops_state_scheme" where
  "op_movsd op s =
     (let s = mem_write32 (reg s REG_EDI) (mem_read32 (reg s REG_ESI) s) s;
          s = set_reg REG_ESI (reg s REG_ESI + 4) s;
          s = set_reg REG_EDI (reg s REG_EDI + 4) s
      in add_cycles 2 s)"

definition op_cmpsb :: "u8 \<Rightarrow> 'a ops_state_scheme \<Rightarrow> 'a ops_state_scheme" where
  "op_cmpsb op s =
     (let a = mem_read8 (reg s REG_ESI) s;
          s = set_reg REG_ESI (reg s REG_ESI + 1) s;
          b = mem_read8 (reg s REG_EDI) s;
          s = set_reg REG_EDI (reg s REG_EDI + 1) s;
          result = a - b;
          s = set_cf (a < b) s;
          s = set_zf (ucast result) s;
          s = set_sf (ucast result) s;
          s = set_of_sub (ucast a) (ucast b) (ucast result) s
      in add_cycles 2 s)"

definition op_stosb :: "u8 \<Rightarrow> 'a ops_state_scheme \<Rightarrow> 'a ops_state_scheme" where
  "op_stosb op s =
     (let s = mem_write8 (reg s REG_EDI) (ucast (reg s REG_EAX)) s;
          s = set_reg REG_EDI (reg s REG_EDI + 1) s
      in add_cycles 2 s)"

definition op_stosd :: "u8 \<Rightarrow> 'a ops_state_scheme \<Rightarrow> 'a ops_state_scheme" where
  "op_stosd op s =
     (let s = mem_write32 (reg s REG_EDI) (reg s REG_EAX) s;
          s = set_reg REG_EDI (reg s REG_EDI + 4) s
      in add_cycles 2 s)"

definition op_scasb :: "u8 \<Rightarrow> 'a ops_state_scheme \<Rightarrow> 'a ops_state_scheme" where
  "op_scasb op s =
     (let a = (ucast (reg s REG_EAX) :: u8);
          b = mem_read8 (reg s REG_EDI) s;
          s = set_reg REG_EDI (reg s REG_EDI + 1) s;
          result = a - b;
          s = set_cf (a < b) s;
          s = set_zf (ucast result) s;
          s = set_sf (ucast result) s;
          s = set_of_sub (ucast a) (ucast b) (ucast result) s
      in add_cycles 2 s)"

definition op_mov_r32_imm32 :: "u8 \<Rightarrow> 'a ops_state_scheme \<Rightarrow> 'a ops_state_scheme" where
  "op_mov_r32_imm32 op s =
     (let r = unat (op AND 0x07);
          (imm, s) = fetch32 s;
          s = set_reg r imm s
      in add_cycles 1 s)"

definition op_mov_rm8_imm8 :: "u8 \<Rightarrow> 'a ops_state_scheme \<Rightarrow> 'a ops_state_scheme" where
  "op_mov_rm8_imm8 op s =
     (let (mrm, s) = parse_modrm s;
          (imm, s) = fetch8 s;
          s = write_rm8 mrm imm s
      in add_cycles 2 s)"

definition op_mov_rm32_imm32 :: "u8 \<Rightarrow> 'a ops_state_scheme \<Rightarrow> 'a ops_state_scheme" where
  "op_mov_rm32_imm32 op s =
     (let (mrm, s) = parse_modrm s;
          (imm, s) = fetch32 s;
          s = write_rm32 mrm imm s
      in add_cycles 2 s)"

definition op_cli :: "u8 \<Rightarrow> 'a ops_state_scheme \<Rightarrow> 'a ops_state_scheme" where
  "op_cli op s = add_cycles 1 s"

definition op_sti :: "u8 \<Rightarrow> 'a ops_state_scheme \<Rightarrow> 'a ops_state_scheme" where
  "op_sti op s = add_cycles 1 s"

definition op_cld :: "u8 \<Rightarrow> 'a ops_state_scheme \<Rightarrow> 'a ops_state_scheme" where
  "op_cld op s = add_cycles 1 s"

definition op_hlt :: "u8 \<Rightarrow> 'a ops_state_scheme \<Rightarrow> 'a ops_state_scheme" where
  "op_hlt op s =
     (let s = halt s
      in add_cycles 1 s)"

definition op_cpuid :: "u8 \<Rightarrow> 'a ops_state_scheme \<Rightarrow> 'a ops_state_scheme" where
  "op_cpuid op s =
     (let leaf = reg s REG_EAX;
          put = (\<lambda>eax ebx ecx edx s.
            set_reg REG_EDX edx (set_reg REG_ECX ecx (set_reg REG_EBX ebx (set_reg REG_EAX eax s))));
          s = (if leaf = 0 then put 7 0x756E6547 0x6C65746E 0x49656E69 s
               else if leaf = 1 then put 0x00000623 0x00000000 0x00000000 0x0783FBFF s
               else if leaf = 2 then put 0 0 0 0 s
               else if leaf = 7 then put 0 0 0 0 s
               else if leaf = 0x80000000 then put 0x80000001 0 0 0 s
               else if leaf = 0x80000001 then put 0 0 0 0 s
               else put 0 0 0 0 s)
      in add_cycles 10 s)"

end
