(* ===== verification/Ops_Ctl.thy ===== *)
theory Ops_Ctl
  imports Decode
begin

text \<open>
  Control transfer of \<open>src/cpu/ops.c\<close>: the condition codes with CMOVcc, Jcc and SETcc, calls,
  returns, jumps, LEAVE and the 0xFF group.
\<close>

section \<open>Handlers\<close>

text \<open>
  The four condition-code handlers switch over the same sixteen conditions, each at its own
  base opcode; \<open>None\<close> is the default branch.
\<close>

definition cc_switch :: "u8 \<Rightarrow> u8 \<Rightarrow> 'a ops_state_scheme \<Rightarrow> bool option" where
  "cc_switch base op s =
     (if op = base + 0x0 then Some (get_of s \<noteq> 0)
      else if op = base + 0x1 then Some (\<not> get_of s \<noteq> 0)
      else if op = base + 0x2 then Some (get_cf s \<noteq> 0)
      else if op = base + 0x3 then Some (\<not> get_cf s \<noteq> 0)
      else if op = base + 0x4 then Some (get_zf s \<noteq> 0)
      else if op = base + 0x5 then Some (\<not> get_zf s \<noteq> 0)
      else if op = base + 0x6 then Some (get_cf s \<noteq> 0 \<or> get_zf s \<noteq> 0)
      else if op = base + 0x7 then Some (\<not> get_cf s \<noteq> 0 \<and> \<not> get_zf s \<noteq> 0)
      else if op = base + 0x8 then Some (get_sf s \<noteq> 0)
      else if op = base + 0x9 then Some (\<not> get_sf s \<noteq> 0)
      else if op = base + 0xA then Some (get_pf s \<noteq> 0)
      else if op = base + 0xB then Some (\<not> get_pf s \<noteq> 0)
      else if op = base + 0xC then Some (get_sf s \<noteq> get_of s)
      else if op = base + 0xD then Some (get_sf s = get_of s)
      else if op = base + 0xE then Some (get_zf s \<noteq> 0 \<or> get_sf s \<noteq> get_of s)
      else if op = base + 0xF then Some (\<not> get_zf s \<noteq> 0 \<and> get_sf s = get_of s)
      else None)"

definition op_cmovcc :: "u8 \<Rightarrow> 'a ops_state_scheme \<Rightarrow> 'a ops_state_scheme" where
  "op_cmovcc op s =
     (let (mrm, s) = parse_modrm s;
          (src, s) = read_rm32 mrm s
      in case cc_switch 0x40 op s of
           None \<Rightarrow> halt s
         | Some taken \<Rightarrow>
             let s = (if taken then set_reg (rg mrm) src s else s) in add_cycles 2 s)"

definition op_jcc_near :: "u8 \<Rightarrow> 'a ops_state_scheme \<Rightarrow> 'a ops_state_scheme" where
  "op_jcc_near op s =
     (let (offset, s) = fetch32 s
      in case cc_switch 0x80 op s of
           None \<Rightarrow> halt s
         | Some taken \<Rightarrow>
             let s = (if taken then s\<lparr>eip := eip s + offset\<rparr> else s) in add_cycles 1 s)"

definition op_setcc :: "u8 \<Rightarrow> 'a ops_state_scheme \<Rightarrow> 'a ops_state_scheme" where
  "op_setcc op s =
     (let (mrm, s) = parse_modrm s
      in case cc_switch 0x90 op s of
           None \<Rightarrow> halt s
         | Some val \<Rightarrow>
             let s = write_rm8 mrm (of_bool val) s in add_cycles 2 s)"

definition op_jcc_short :: "u8 \<Rightarrow> 'a ops_state_scheme \<Rightarrow> 'a ops_state_scheme" where
  "op_jcc_short op s =
     (let (offset, s) = fetch8 s
      in case cc_switch 0x70 op s of
           None \<Rightarrow> halt s
         | Some taken \<Rightarrow>
             let s = (if taken then s\<lparr>eip := eip s + scast offset\<rparr> else s) in add_cycles 1 s)"

definition op_ret_imm16 :: "u8 \<Rightarrow> 'a ops_state_scheme \<Rightarrow> 'a ops_state_scheme" where
  "op_ret_imm16 op s =
     (let (imm, s) = fetch16 s;
          s = s\<lparr>eip := mem_read32 (reg s REG_ESP) s\<rparr>;
          s = set_reg REG_ESP (reg s REG_ESP + (4 + ucast imm)) s
      in add_cycles 5 s)"

definition op_ret :: "u8 \<Rightarrow> 'a ops_state_scheme \<Rightarrow> 'a ops_state_scheme" where
  "op_ret op s =
     (let s = s\<lparr>eip := mem_read32 (reg s REG_ESP) s\<rparr>;
          s = set_reg REG_ESP (reg s REG_ESP + 4) s
      in add_cycles 5 s)"

definition op_leave :: "u8 \<Rightarrow> 'a ops_state_scheme \<Rightarrow> 'a ops_state_scheme" where
  "op_leave op s =
     (let s = (if g_operand_size_16 s then
                 let s = set_reg REG_ESP ((reg s REG_ESP AND 0xFFFF0000)
                           OR (reg s REG_EBP AND 0x0000FFFF)) s;
                     val = mem_read16 (reg s REG_ESP) s;
                     s = set_reg REG_ESP (reg s REG_ESP + 2) s
                 in set_reg REG_EBP ((reg s REG_EBP AND 0xFFFF0000) OR ucast val) s
               else
                 let s = set_reg REG_ESP (reg s REG_EBP) s;
                     s = set_reg REG_EBP (mem_read32 (reg s REG_ESP) s) s
                 in set_reg REG_ESP (reg s REG_ESP + 4) s)
      in add_cycles 3 s)"

definition op_jecxz :: "u8 \<Rightarrow> 'a ops_state_scheme \<Rightarrow> 'a ops_state_scheme" where
  "op_jecxz op s =
     (let (offset, s) = fetch8 s;
          s = (if reg s REG_ECX = 0 then s\<lparr>eip := eip s + scast offset\<rparr> else s)
      in add_cycles 1 s)"

definition op_call_rel32 :: "u8 \<Rightarrow> 'a ops_state_scheme \<Rightarrow> 'a ops_state_scheme" where
  "op_call_rel32 op s =
     (let (offset, s) = fetch32 s;
          s = set_reg REG_ESP (reg s REG_ESP - 4) s;
          s = mem_write32 (reg s REG_ESP) (eip s) s;
          s = s\<lparr>eip := eip s + offset\<rparr>
      in add_cycles 5 s)"

definition op_jmp_near :: "u8 \<Rightarrow> 'a ops_state_scheme \<Rightarrow> 'a ops_state_scheme" where
  "op_jmp_near op s =
     (let (offset, s) = fetch32 s;
          s = s\<lparr>eip := eip s + offset\<rparr>
      in add_cycles 1 s)"

definition op_jmp_short :: "u8 \<Rightarrow> 'a ops_state_scheme \<Rightarrow> 'a ops_state_scheme" where
  "op_jmp_short op s =
     (let (offset, s) = fetch8 s;
          s = s\<lparr>eip := eip s + scast offset\<rparr>
      in add_cycles 1 s)"

definition op_ff_group :: "u8 \<Rightarrow> 'a ops_state_scheme \<Rightarrow> 'a ops_state_scheme" where
  "op_ff_group op s =
     (let (mrm, s) = parse_modrm s
      in if mrm_reg mrm = 0 then
           let (val, s) = read_rm32 mrm s; result = val + 1; s = write_rm32 mrm result s;
               s = set_zf result s; s = set_sf result s; s = set_pf result s;
               s = set_of_add val 1 result s in add_cycles 2 s
         else if mrm_reg mrm = 1 then
           let (val, s) = read_rm32 mrm s; result = val - 1; s = write_rm32 mrm result s;
               s = set_zf result s; s = set_sf result s; s = set_pf result s;
               s = set_of_sub val 1 result s in add_cycles 2 s
         else if mrm_reg mrm = 2 then
           let (target, s) = read_rm32 mrm s; s = set_reg REG_ESP (reg s REG_ESP - 4) s;
               s = mem_write32 (reg s REG_ESP) (eip s) s; s = s\<lparr>eip := target\<rparr>
           in add_cycles 5 s
         else if mrm_reg mrm = 4 then
           let (target, s) = read_rm32 mrm s; s = s\<lparr>eip := target\<rparr> in add_cycles 3 s
         else if mrm_reg mrm = 6 then
           let (val, s) = read_rm32 mrm s; s = set_reg REG_ESP (reg s REG_ESP - 4) s;
               s = mem_write32 (reg s REG_ESP) val s in add_cycles 2 s
         else if mrm_reg mrm = 7 then
           let (val, s) = read_rm16 mrm s; s = set_reg REG_ESP (reg s REG_ESP - 4) s;
               s = mem_write32 (reg s REG_ESP) (scast val) s in add_cycles 2 s
         else halt s)"

end
