(* ===== verification/Ops_Arith.thy ===== *)
theory Ops_Arith
  imports Decode "HOL-Library.Signed_Division"
begin

text \<open>
  Multiplication and division of \<open>src/cpu/ops.c\<close> (IMUL, the groups 0xF6 and 0xF7), SHLD and
  CMPXCHG. A handler whose C code can run into undefined behaviour returns a \<open>result\<close>.
\<close>

section \<open>Handlers\<close>

definition op_shld_rm32_r32_imm8 :: "u8 \<Rightarrow> 'a ops_state_scheme \<Rightarrow> 'a ops_state_scheme" where
  "op_shld_rm32_r32_imm8 op s =
     (let (mrm, s) = parse_modrm s;
          (imm, s) = fetch8 s;
          count = unat (imm AND 0x1F);
          (dst, s) = read_rm32 mrm s;
          src = reg s (rg mrm)
      in if count = 0 then s
         else
           let result = push_bit count dst OR drop_bit (32 - count) src;
               s = write_rm32 mrm result s;
               s = set_cf (drop_bit (32 - count) dst AND 1 \<noteq> 0) s;
               s = set_zf result s;
               s = set_sf result s;
               s = set_pf result s;
               s = set_of_sub dst src result s
           in add_cycles 3 s)"

definition op_cmpxchg_rm32_r32 :: "u8 \<Rightarrow> 'a ops_state_scheme \<Rightarrow> 'a ops_state_scheme" where
  "op_cmpxchg_rm32_r32 op s =
     (let (mrm, s) = parse_modrm s;
          (dst, s) = read_rm32 mrm s;
          eax = reg s REG_EAX;
          src = reg s (rg mrm);
          result = eax - dst;
          s = set_zf result s;
          s = set_sf result s;
          s = set_cf (eax < dst) s;
          s = set_of_sub eax dst result s;
          s = (if eax = dst then write_rm32 mrm src s else set_reg REG_EAX dst s)
      in add_cycles 6 s)"

text \<open>The three IMUL forms with a register destination multiply in \<open>int32_t\<close>.\<close>

definition imul_finish :: "nat \<Rightarrow> u32 \<Rightarrow> u32 \<Rightarrow> 'a ops_state_scheme \<Rightarrow> 'a ops_state_scheme result" where
  "imul_finish dst a b s =
     (if \<not> fits32 (sint a * sint b) then Inl (UB SignedOverflow)
      else
        let result = a * b;
            s = set_reg dst result s;
            s = set_zf result s;
            s = set_sf result s
        in Inr (add_cycles 10 s))"

definition op_imul_r32_rm32 :: "u8 \<Rightarrow> 'a ops_state_scheme \<Rightarrow> 'a ops_state_scheme result" where
  "op_imul_r32_rm32 op s =
     (let (mrm, s) = parse_modrm s;
          a = reg s (rg mrm);
          (b, s) = read_rm32 mrm s
      in imul_finish (rg mrm) a b s)"

definition op_imul_r32_rm32_imm32 :: "u8 \<Rightarrow> 'a ops_state_scheme \<Rightarrow> 'a ops_state_scheme result" where
  "op_imul_r32_rm32_imm32 op s =
     (let (mrm, s) = parse_modrm s;
          (a, s) = read_rm32 mrm s;
          (b, s) = fetch32 s
      in imul_finish (rg mrm) a b s)"

definition op_imul_r32_rm32_imm8 :: "u8 \<Rightarrow> 'a ops_state_scheme \<Rightarrow> 'a ops_state_scheme result" where
  "op_imul_r32_rm32_imm8 op s =
     (let (mrm, s) = parse_modrm s;
          (a, s) = read_rm32 mrm s;
          (imm, s) = fetch8 s;
          b = (scast imm :: u32)
      in imul_finish (rg mrm) a b s)"

definition op_f6_group :: "u8 \<Rightarrow> 'a ops_state_scheme \<Rightarrow> 'a ops_state_scheme" where
  "op_f6_group op s =
     (let (mrm, s) = parse_modrm s
      in if mrm_reg mrm = 0 \<or> mrm_reg mrm = 1 then
           let (imm, s) = fetch8 s; (a, s) = read_rm8 mrm s; result = a AND imm;
               s = set_zf (ucast result) s; s = set_sf (ucast result) s;
               s = set_pf (ucast result) s; s = set_cf False s in add_cycles 2 s
         else if mrm_reg mrm = 2 then
           let s = (if mrm_mod mrm = 3 then set_reg8 (rm mrm) (NOT (get_reg8 s (rm mrm))) s
                    else let (addr, s) = resolve_rm_addr mrm s
                         in mem_write8 addr (NOT (mem_read8 addr s)) s)
           in add_cycles 2 s
         else if mrm_reg mrm = 3 then
           let (val, s) = read_rm8 mrm s; result = - val; s = write_rm8 mrm result s;
               s = set_cf (val \<noteq> 0) s; s = set_zf (ucast result) s;
               s = set_sf (ucast result) s in add_cycles 2 s
         else if mrm_reg mrm = 4 then
           let (b, s) = read_rm8 mrm s;
               result = (ucast (reg s REG_EAX AND 0xFF) :: u16) * ucast b;
               s = set_reg REG_EAX ((reg s REG_EAX AND 0xFFFF0000) OR ucast result) s;
               s = set_cf (drop_bit 8 result \<noteq> 0) s in add_cycles 10 s
         else if mrm_reg mrm = 5 then
           let (b, s) = read_rm8 mrm s;
               result = (scast (ucast (reg s REG_EAX AND 0xFF) :: u8) :: u16) * scast b;
               s = set_reg REG_EAX ((reg s REG_EAX AND 0xFFFF0000) OR ucast result) s;
               s = set_cf (signed_drop_bit 8 result \<noteq>
                     (if result AND 0x80 \<noteq> 0 then - 1 else 0)) s in add_cycles 10 s
         else if mrm_reg mrm = 6 then
           let (divisor, s) = read_rm8 mrm s
           in if divisor = 0 then halt s
              else
                let dividend = (ucast (reg s REG_EAX AND 0xFFFF) :: u16);
                    s = set_reg REG_EAX ((reg s REG_EAX AND 0xFFFF0000)
                          OR push_bit 8 (ucast (dividend mod ucast divisor))
                          OR ucast (dividend div ucast divisor)) s in add_cycles 20 s
         else if mrm_reg mrm = 7 then
           let (divisor, s) = read_rm8 mrm s
           in if divisor = 0 then halt s
              else
                let dividend = (ucast (reg s REG_EAX AND 0xFFFF) :: u16);
                    r = (word_of_int (sint dividend smod sint divisor) :: u8);
                    q = (word_of_int (sint dividend sdiv sint divisor) :: u8);
                    s = set_reg REG_EAX ((reg s REG_EAX AND 0xFFFF0000)
                          OR push_bit 8 (ucast r) OR ucast q) s in add_cycles 20 s
         else halt s)"

definition op_f7_group :: "u8 \<Rightarrow> 'a ops_state_scheme \<Rightarrow> 'a ops_state_scheme result" where
  "op_f7_group op s =
     (let (mrm, s) = parse_modrm s
      in if mrm_reg mrm = 0 \<or> mrm_reg mrm = 1 then
           let (imm, s) = fetch32 s; (a, s) = read_rm32 mrm s; result = a AND imm;
               s = set_zf result s; s = set_sf result s; s = set_pf result s;
               s = set_cf False s in Inr (add_cycles 2 s)
         else if mrm_reg mrm = 2 then
           let (val, s) = read_rm32 mrm s; s = write_rm32 mrm (NOT val) s in Inr (add_cycles 2 s)
         else if mrm_reg mrm = 3 then
           let (val, s) = read_rm32 mrm s
           in if \<not> fits32 (- sint val) then Inl (UB SignedOverflow)
              else
                let result = - val; s = write_rm32 mrm result s; s = set_cf (val \<noteq> 0) s;
                    s = set_zf result s; s = set_sf result s; s = set_of_sub 0 val result s
                in Inr (add_cycles 2 s)
         else if mrm_reg mrm = 4 then
           let (b, s) = read_rm32 mrm s; result = (ucast (reg s REG_EAX) :: u64) * ucast b;
               s = set_reg REG_EAX (ucast (result AND 0xFFFFFFFF)) s;
               s = set_reg REG_EDX (ucast (drop_bit 32 result)) s;
               s = set_cf (reg s REG_EDX \<noteq> 0) s in Inr (add_cycles 10 s)
         else if mrm_reg mrm = 5 then
           let (b, s) = read_rm32 mrm s; result = (scast (reg s REG_EAX) :: u64) * scast b;
               s = set_reg REG_EAX (ucast (result AND 0xFFFFFFFF)) s;
               s = set_reg REG_EDX (ucast (drop_bit 32 result)) s;
               s = set_cf (reg s REG_EDX \<noteq> 0) s in Inr (add_cycles 10 s)
         else if mrm_reg mrm = 6 then
           let (divisor, s) = read_rm32 mrm s
           in if divisor = 0 then Inr (add_cycles 20 s)
              else
                let dividend = push_bit 32 (ucast (reg s REG_EDX) :: u64) OR ucast (reg s REG_EAX);
                    s = set_reg REG_EAX (ucast (dividend div ucast divisor)) s;
                    s = set_reg REG_EDX (ucast (dividend mod ucast divisor)) s
                in Inr (add_cycles 20 s)
         else if mrm_reg mrm = 7 then
           let (divisor, s) = read_rm32 mrm s
           in if divisor = 0 then Inr (halt s)
              else
                let dividend = push_bit 32 (ucast (reg s REG_EDX) :: u64) OR ucast (reg s REG_EAX)
                in if sint dividend = - (2 ^ 63) \<and> sint divisor = - 1 then Inl (UB DivOverflow)
                   else
                     let s = set_reg REG_EAX (word_of_int (sint dividend sdiv sint divisor)) s;
                         s = set_reg REG_EDX (word_of_int (sint dividend smod sint divisor)) s
                     in Inr (add_cycles 20 s)
         else Inr (halt s))"

end
