(* ===== verification/Ops_Shift.thy ===== *)
theory Ops_Shift
  imports Decode
begin

text \<open>
  The shift and rotate groups 0xC0, 0xC1, 0xD0 to 0xD3 of \<open>src/cpu/ops.c\<close>.
\<close>

section \<open>Handlers\<close>

text \<open>
  The bodies of groups 0xC0 and 0xD2 from the fetch of the operand on are the same, with the
  count from an immediate or from CL; so are those of groups 0xC1 and 0xD3. A count of 0 in
  the 32-bit rotates shifts by 32, and a count above 8 in the 8-bit rotates and SHL gives a
  negative shift count; both are undefined in C.
\<close>

definition shift_group8 :: "ModRM \<Rightarrow> nat \<Rightarrow> 'a ops_state_scheme \<Rightarrow> 'a ops_state_scheme result" where
  "shift_group8 mrm count s =
     (let (val, s) = read_rm8 mrm s;
          finish = (\<lambda>result s.
            let s = write_rm8 mrm result s;
                s = set_pf (ucast result) s
            in Inr (add_cycles 2 s))
      in if mrm_reg mrm = 0 then
           if count > 8 then Inl (UB ShiftRange)
           else
             let result = push_bit count val OR drop_bit (8 - count) val;
                 s = set_cf (result AND 1 \<noteq> 0) s in finish result s
         else if mrm_reg mrm = 1 then
           if count > 8 then Inl (UB ShiftRange)
           else
             let result = drop_bit count val OR push_bit (8 - count) val;
                 s = set_cf (drop_bit 7 result AND 1 \<noteq> 0) s in finish result s
         else if mrm_reg mrm = 4 \<or> mrm_reg mrm = 6 then
           if count > 8 then Inl (UB ShiftRange)
           else
             let result = push_bit count val;
                 s = set_cf (if count \<noteq> 0 then drop_bit (8 - count) val AND 1 \<noteq> 0 else False) s;
                 s = set_zf (ucast result) s;
                 s = set_sf (ucast result) s in finish result s
         else if mrm_reg mrm = 5 then
           let result = drop_bit count val;
               s = set_cf (if count \<noteq> 0 then drop_bit (count - 1) val AND 1 \<noteq> 0 else False) s;
               s = set_zf (ucast result) s;
               s = set_sf (ucast result) s in finish result s
         else if mrm_reg mrm = 7 then
           let result = signed_drop_bit count val;
               s = set_cf (if count \<noteq> 0 then drop_bit (count - 1) val AND 1 \<noteq> 0 else False) s;
               s = set_zf (ucast result) s;
               s = set_sf (ucast result) s in finish result s
         else Inr (halt s))"

definition shift_group32 :: "ModRM \<Rightarrow> nat \<Rightarrow> 'a ops_state_scheme \<Rightarrow> 'a ops_state_scheme result" where
  "shift_group32 mrm count s =
     (let (val, s) = read_rm32 mrm s;
          finish = (\<lambda>result s. let s = write_rm32 mrm result s in Inr (add_cycles 2 s))
      in if mrm_reg mrm = 0 then
           if count = 0 then Inl (UB ShiftRange)
           else
             let result = push_bit count val OR drop_bit (32 - count) val;
                 s = set_cf (result AND 1 \<noteq> 0) s in finish result s
         else if mrm_reg mrm = 1 then
           if count = 0 then Inl (UB ShiftRange)
           else
             let result = drop_bit count val OR push_bit (32 - count) val;
                 s = set_cf (drop_bit 31 result AND 1 \<noteq> 0) s in finish result s
         else if mrm_reg mrm = 4 \<or> mrm_reg mrm = 6 then
           let result = push_bit count val;
               s = set_cf (if count \<noteq> 0 then drop_bit (32 - count) val AND 1 \<noteq> 0 else False) s;
               s = set_zf result s;
               s = set_sf result s in finish result s
         else if mrm_reg mrm = 5 then
           let result = drop_bit count val;
               s = set_cf (if count \<noteq> 0 then drop_bit (count - 1) val AND 1 \<noteq> 0 else False) s;
               s = set_zf result s;
               s = set_sf result s in finish result s
         else if mrm_reg mrm = 7 then
           let result = signed_drop_bit count val;
               s = set_cf (if count \<noteq> 0 then drop_bit (count - 1) val AND 1 \<noteq> 0 else False) s;
               s = set_zf result s;
               s = set_sf result s in finish result s
         else Inr (halt s))"

definition op_c0_group :: "u8 \<Rightarrow> 'a ops_state_scheme \<Rightarrow> 'a ops_state_scheme result" where
  "op_c0_group op s =
     (let (mrm, s) = parse_modrm s;
          (imm, s) = fetch8 s;
          count = unat (imm AND 0x1F)
      in shift_group8 mrm count s)"

definition op_c1_group :: "u8 \<Rightarrow> 'a ops_state_scheme \<Rightarrow> 'a ops_state_scheme result" where
  "op_c1_group op s =
     (let (mrm, s) = parse_modrm s;
          (imm, s) = fetch8 s;
          count = unat (imm AND 0x1F)
      in shift_group32 mrm count s)"

definition op_d0_group :: "u8 \<Rightarrow> 'a ops_state_scheme \<Rightarrow> 'a ops_state_scheme" where
  "op_d0_group op s =
     (let (mrm, s) = parse_modrm s;
          (val, s) = read_rm8 mrm s;
          finish = (\<lambda>result s.
            let s = write_rm8 mrm result s;
                s = set_pf (ucast result) s
            in add_cycles 2 s)
      in if mrm_reg mrm = 0 then
           let result = push_bit 1 val OR drop_bit 7 val;
               s = set_cf (result AND 1 \<noteq> 0) s in finish result s
         else if mrm_reg mrm = 1 then
           let result = drop_bit 1 val OR push_bit 7 val;
               s = set_cf (drop_bit 7 result AND 1 \<noteq> 0) s in finish result s
         else if mrm_reg mrm = 4 \<or> mrm_reg mrm = 6 then
           let s = set_cf (drop_bit 7 val AND 1 \<noteq> 0) s; result = push_bit 1 val;
               s = set_zf (ucast result) s; s = set_sf (ucast result) s in finish result s
         else if mrm_reg mrm = 5 then
           let s = set_cf (val AND 1 \<noteq> 0) s; result = drop_bit 1 val;
               s = set_zf (ucast result) s; s = set_sf (ucast result) s in finish result s
         else if mrm_reg mrm = 7 then
           let s = set_cf (val AND 1 \<noteq> 0) s; result = signed_drop_bit 1 val;
               s = set_zf (ucast result) s; s = set_sf (ucast result) s in finish result s
         else halt s)"

definition op_d1_group :: "u8 \<Rightarrow> 'a ops_state_scheme \<Rightarrow> 'a ops_state_scheme" where
  "op_d1_group op s =
     (let (mrm, s) = parse_modrm s;
          (val, s) = read_rm32 mrm s;
          finish = (\<lambda>result s. let s = write_rm32 mrm result s in add_cycles 2 s)
      in if mrm_reg mrm = 0 then
           let result = push_bit 1 val OR drop_bit 31 val;
               s = set_cf (result AND 1 \<noteq> 0) s in finish result s
         else if mrm_reg mrm = 1 then
           let result = drop_bit 1 val OR push_bit 31 val;
               s = set_cf (drop_bit 31 result AND 1 \<noteq> 0) s in finish result s
         else if mrm_reg mrm = 4 \<or> mrm_reg mrm = 6 then
           let s = set_cf (drop_bit 31 val AND 1 \<noteq> 0) s; result = push_bit 1 val;
               s = set_zf result s; s = set_sf result s in finish result s
         else if mrm_reg mrm = 5 then
           let s = set_cf (val AND 1 \<noteq> 0) s; result = drop_bit 1 val;
               s = set_zf result s; s = set_sf result s in finish result s
         else if mrm_reg mrm = 7 then
           let s = set_cf (val AND 1 \<noteq> 0) s; result = signed_drop_bit 1 val;
               s = set_zf result s; s = set_sf result s in finish result s
         else halt s)"

definition op_d2_group :: "u8 \<Rightarrow> 'a ops_state_scheme \<Rightarrow> 'a ops_state_scheme result" where
  "op_d2_group op s =
     (let (mrm, s) = parse_modrm s;
          count = unat (reg s REG_ECX AND 0x1F)
      in shift_group8 mrm count s)"

definition op_d3_group :: "u8 \<Rightarrow> 'a ops_state_scheme \<Rightarrow> 'a ops_state_scheme result" where
  "op_d3_group op s =
     (let (mrm, s) = parse_modrm s;
          count = unat (reg s REG_ECX AND 0x1F)
      in shift_group32 mrm count s)"

end
