(* ===== verification/Ops_Simd.thy ===== *)
theory Ops_Simd
  imports Decode
begin

text \<open>
  The MMX and SSE handlers of the 0x0F table of \<open>src/cpu/ops.c\<close>.
\<close>

section \<open>Handlers\<close>

text \<open>
  The C code writes out in each MMX handler how the 64-bit source is read (from an MMX register
  or from memory); \<open>read_mm64\<close> names it. \<open>set_mm\<close>, \<open>set_xmm\<close>, \<open>set_xmm_lo\<close> and \<open>set_xmm_hi\<close>
  are the assignments to \<open>mmx_regs[i]\<close>, \<open>xmm_regs[i]\<close> and its two halves.
\<close>

definition read_mm64 :: "ModRM \<Rightarrow> 'a ops_state_scheme \<Rightarrow> u64 \<times> 'a ops_state_scheme" where
  "read_mm64 mrm s =
     (if mrm_mod mrm = 3 then (mmx_regs s ! rm mrm, s)
      else let (addr, s) = resolve_rm_addr mrm s in (mem_read64 addr s, s))"

definition set_mm :: "nat \<Rightarrow> u64 \<Rightarrow> 'a ops_state_scheme \<Rightarrow> 'a ops_state_scheme" where
  "set_mm i v s = s\<lparr>mmx_regs := (mmx_regs s)[i := v]\<rparr>"

definition set_xmm :: "nat \<Rightarrow> XMMReg \<Rightarrow> 'a ops_state_scheme \<Rightarrow> 'a ops_state_scheme" where
  "set_xmm i v s = s\<lparr>xmm_regs := (xmm_regs s)[i := v]\<rparr>"

definition set_xmm_lo :: "nat \<Rightarrow> u64 \<Rightarrow> 'a ops_state_scheme \<Rightarrow> 'a ops_state_scheme" where
  "set_xmm_lo i v s = set_xmm i ((xmm_regs s ! i)\<lparr>lo := v\<rparr>) s"

definition set_xmm_hi :: "nat \<Rightarrow> u64 \<Rightarrow> 'a ops_state_scheme \<Rightarrow> 'a ops_state_scheme" where
  "set_xmm_hi i v s = set_xmm i ((xmm_regs s ! i)\<lparr>hi := v\<rparr>) s"

definition op_movups_xmm_rm128 :: "u8 \<Rightarrow> 'a ops_state_scheme \<Rightarrow> 'a ops_state_scheme" where
  "op_movups_xmm_rm128 op s =
     (let (mrm, s) = parse_modrm s;
          (src, s) = read_xmm_src mrm s;
          s = set_xmm (rg mrm) src s
      in add_cycles 3 s)"

definition op_movups_rm128_xmm :: "u8 \<Rightarrow> 'a ops_state_scheme \<Rightarrow> 'a ops_state_scheme" where
  "op_movups_rm128_xmm op s =
     (let (mrm, s) = parse_modrm s;
          src = xmm_regs s ! rg mrm;
          s = write_xmm_dst mrm src s
      in add_cycles 3 s)"

definition op_movhps_xmm_m64 :: "u8 \<Rightarrow> 'a ops_state_scheme \<Rightarrow> 'a ops_state_scheme" where
  "op_movhps_xmm_m64 op s =
     (let (mrm, s) = parse_modrm s;
          s = (if mrm_mod mrm = 3 then set_xmm_hi (rg mrm) (lo (xmm_regs s ! rm mrm)) s
               else let (addr, s) = resolve_rm_addr mrm s
                    in set_xmm_hi (rg mrm) (mem_read64 addr s) s)
      in add_cycles 3 s)"

definition op_movhps_m64_xmm :: "u8 \<Rightarrow> 'a ops_state_scheme \<Rightarrow> 'a ops_state_scheme" where
  "op_movhps_m64_xmm op s =
     (let (mrm, s) = parse_modrm s;
          val = hi (xmm_regs s ! rg mrm);
          s = (if mrm_mod mrm = 3 then set_xmm_lo (rm mrm) val s
               else let (addr, s) = resolve_rm_addr mrm s in mem_write64 addr val s)
      in add_cycles 3 s)"

definition op_punpcklbw :: "u8 \<Rightarrow> 'a ops_state_scheme \<Rightarrow> 'a ops_state_scheme" where
  "op_punpcklbw op s =
     (let (mrm, s) = parse_modrm s;
          (src, s) = read_mm64 mrm s;
          dst = mmx_regs s ! rg mrm;
          result = (dst AND 0xFF)
                   OR push_bit 8 (src AND 0xFF)
                   OR push_bit 16 (drop_bit 8 dst AND 0xFF)
                   OR push_bit 24 (drop_bit 8 src AND 0xFF)
                   OR push_bit 32 (drop_bit 16 dst AND 0xFF)
                   OR push_bit 40 (drop_bit 16 src AND 0xFF)
                   OR push_bit 48 (drop_bit 24 dst AND 0xFF)
                   OR push_bit 56 (drop_bit 24 src AND 0xFF);
          s = set_mm (rg mrm) result s
      in add_cycles 3 s)"

definition op_punpcklwd :: "u8 \<Rightarrow> 'a ops_state_scheme \<Rightarrow> 'a ops_state_scheme" where
  "op_punpcklwd op s =
     (let (mrm, s) = parse_modrm s;
          (src, s) = read_mm64 mrm s;
          dst = mmx_regs s ! rg mrm;
          result = (dst AND 0xFFFF)
                   OR push_bit 16 (src AND 0xFFFF)
                   OR push_bit 32 (drop_bit 16 dst AND 0xFFFF)
                   OR push_bit 48 (drop_bit 16 src AND 0xFFFF);
          s = set_mm (rg mrm) result s
      in add_cycles 3 s)"

definition op_punpckldq :: "u8 \<Rightarrow> 'a ops_state_scheme \<Rightarrow> 'a ops_state_scheme" where
  "op_punpckldq op s =
     (let (mrm, s) = parse_modrm s;
          (src, s) = read_mm64 mrm s;
          dst = mmx_regs s ! rg mrm;
          result = (dst AND 0x00000000FFFFFFFF) OR push_bit 32 (src AND 0x00000000FFFFFFFF);
          s = set_mm (rg mrm) result s
      in add_cycles 3 s)"

definition op_punpcklqdq :: "u8 \<Rightarrow> 'a ops_state_scheme \<Rightarrow> 'a ops_state_scheme" where
  "op_punpcklqdq op s =
     (let (mrm, s) = parse_modrm s;
          (src, s) = read_xmm_src mrm s;
          s = set_xmm_hi (rg mrm) (lo src) s
      in add_cycles 3 s)"

definition op_punpckhqdq :: "u8 \<Rightarrow> 'a ops_state_scheme \<Rightarrow> 'a ops_state_scheme" where
  "op_punpckhqdq op s =
     (let (mrm, s) = parse_modrm s;
          (src, s) = read_xmm_src mrm s;
          s = set_xmm_lo (rg mrm) (hi (xmm_regs s ! rg mrm)) s;
          s = set_xmm_hi (rg mrm) (hi src) s
      in add_cycles 3 s)"

definition op_movd_mm_rm32 :: "u8 \<Rightarrow> 'a ops_state_scheme \<Rightarrow> 'a ops_state_scheme" where
  "op_movd_mm_rm32 op s =
     (let (mrm, s) = parse_modrm s;
          (val, s) = read_rm32 mrm s;
          s = set_mm (rg mrm) (ucast val) s
      in add_cycles 3 s)"

definition op_movq_mm_rm64 :: "u8 \<Rightarrow> 'a ops_state_scheme \<Rightarrow> 'a ops_state_scheme" where
  "op_movq_mm_rm64 op s =
     (let (mrm, s) = parse_modrm s;
          (val, s) = read_mm64 mrm s;
          s = set_mm (rg mrm) val s
      in add_cycles 3 s)"

text \<open>The shuffle of the four 16-bit words of a quadword, written out in three handlers.\<close>

definition shuffle_words :: "u64 \<Rightarrow> u8 \<Rightarrow> u64" where
  "shuffle_words src imm =
     (let words = [ucast src :: u16, ucast (drop_bit 16 src), ucast (drop_bit 32 src),
                   ucast (drop_bit 48 src)]
      in ucast (words ! unat (imm AND 3))
         OR push_bit 16 (ucast (words ! unat (drop_bit 2 imm AND 3)))
         OR push_bit 32 (ucast (words ! unat (drop_bit 4 imm AND 3)))
         OR push_bit 48 (ucast (words ! unat (drop_bit 6 imm AND 3))))"

definition op_pshufw :: "u8 \<Rightarrow> 'a ops_state_scheme \<Rightarrow> 'a ops_state_scheme" where
  "op_pshufw op s =
     (let (mrm, s) = parse_modrm s;
          (src, s) = read_mm64 mrm s;
          (imm, s) = fetch8 s;
          s = set_mm (rg mrm) (shuffle_words src imm) s
      in add_cycles 3 s)"

definition pcmpeqb_loop :: "u64 \<Rightarrow> u64 \<Rightarrow> u64" where
  "pcmpeqb_loop dst src =
     fold (\<lambda>i result.
         let a = (ucast (drop_bit (i * 8) dst) :: u8);
             b = (ucast (drop_bit (i * 8) src) :: u8);
             r = (if a = b then 0xFF else 0x00 :: u8)
         in result OR push_bit (i * 8) (ucast r)) [0..<8] 0"

definition op_pcmpeqb :: "u8 \<Rightarrow> 'a ops_state_scheme \<Rightarrow> 'a ops_state_scheme" where
  "op_pcmpeqb op s =
     (let (mrm, s) = parse_modrm s;
          (src, s) = read_mm64 mrm s;
          dst = mmx_regs s ! rg mrm;
          s = set_mm (rg mrm) (pcmpeqb_loop dst src) s
      in add_cycles 3 s)"

definition op_movd_rm32_mm :: "u8 \<Rightarrow> 'a ops_state_scheme \<Rightarrow> 'a ops_state_scheme" where
  "op_movd_rm32_mm op s =
     (let (mrm, s) = parse_modrm s;
          val = (ucast (mmx_regs s ! rg mrm AND 0xFFFFFFFF) :: u32);
          s = write_rm32 mrm val s
      in add_cycles 3 s)"

definition op_movq_rm64_mm2 :: "u8 \<Rightarrow> 'a ops_state_scheme \<Rightarrow> 'a ops_state_scheme" where
  "op_movq_rm64_mm2 op s =
     (let (mrm, s) = parse_modrm s;
          val = mmx_regs s ! rg mrm;
          s = (if mrm_mod mrm = 3 then set_mm (rm mrm) val s
               else let (addr, s) = resolve_rm_addr mrm s in mem_write64 addr val s)
      in add_cycles 3 s)"

definition op_movq_rm64_mm :: "u8 \<Rightarrow> 'a ops_state_scheme \<Rightarrow> 'a ops_state_scheme" where
  "op_movq_rm64_mm op s =
     (let (mrm, s) = parse_modrm s;
          val = mmx_regs s ! rg mrm;
          s = (if mrm_mod mrm = 3 then set_mm (rm mrm) val s
               else let (addr, s) = resolve_rm_addr mrm s in mem_write64 addr val s)
      in add_cycles 3 s)"

definition pmovmskb_loop :: "u64 \<Rightarrow> u32" where
  "pmovmskb_loop src =
     fold (\<lambda>i mask. if drop_bit (i * 8 + 7) src AND 1 \<noteq> 0 then mask OR push_bit i 1 else mask)
       [0..<8] 0"

definition op_pmovmskb :: "u8 \<Rightarrow> 'a ops_state_scheme \<Rightarrow> 'a ops_state_scheme" where
  "op_pmovmskb op s =
     (let (mrm, s) = parse_modrm s;
          src = mmx_regs s ! rm mrm;
          s = set_reg (rg mrm) (pmovmskb_loop src) s
      in add_cycles 3 s)"

definition op_pxor_mm_mm :: "u8 \<Rightarrow> 'a ops_state_scheme \<Rightarrow> 'a ops_state_scheme" where
  "op_pxor_mm_mm op s =
     (let (mrm, s) = parse_modrm s;
          (src, s) = read_mm64 mrm s;
          s = set_mm (rg mrm) (mmx_regs s ! rg mrm XOR src) s
      in add_cycles 3 s)"

end
