(* ===== verification/Ops_Rep.thy ===== *)
theory Ops_Rep
  imports Ops_Simd
begin

text \<open>
  The prefixes 0xF2 and 0xF3 of \<open>src/cpu/ops.c\<close>: repeated string instructions and the SSE
  forms that share the prefix byte.
\<close>

section \<open>Handlers\<close>

text \<open>
  The string loops \<open>while (cpu->regs[REG_ECX] > 0) { ... }\<close>. Every body decrements ECX once, so
  the loop runs at most as often as ECX says at its start, which is the bound given here; that
  the bound is enough is the lemma \<open>rep_loop_done\<close>.
\<close>

primrec rep_loop :: "nat \<Rightarrow> ('a ops_state_scheme \<Rightarrow> 'a ops_state_scheme) \<Rightarrow>
    'a ops_state_scheme \<Rightarrow> 'a ops_state_scheme" where
  "rep_loop 0 body s = s"
| "rep_loop (Suc n) body s = (if reg s REG_ECX > 0 then rep_loop n body (body s) else s)"

definition rep_movsb_body :: "'a ops_state_scheme \<Rightarrow> 'a ops_state_scheme" where
  "rep_movsb_body s =
     (let s = mem_write8 (reg s REG_EDI) (mem_read8 (reg s REG_ESI) s) s;
          s = set_reg REG_ESI (reg s REG_ESI + 1) s;
          s = set_reg REG_EDI (reg s REG_EDI + 1) s
      in set_reg REG_ECX (reg s REG_ECX - 1) s)"

definition rep_movsd_body :: "'a ops_state_scheme \<Rightarrow> 'a ops_state_scheme" where
  "rep_movsd_body s =
     (let s = mem_write32 (reg s REG_EDI) (mem_read32 (reg s REG_ESI) s) s;
          s = set_reg REG_ESI (reg s REG_ESI + 4) s;
          s = set_reg REG_EDI (reg s REG_EDI + 4) s
      in set_reg REG_ECX (reg s REG_ECX - 1) s)"

definition rep_stosb_body :: "'a ops_state_scheme \<Rightarrow> 'a ops_state_scheme" where
  "rep_stosb_body s =
     (let s = mem_write8 (reg s REG_EDI) (ucast (reg s REG_EAX)) s;
          s = set_reg REG_EDI (reg s REG_EDI + 1) s
      in set_reg REG_ECX (reg s REG_ECX - 1) s)"

definition rep_stosd_body :: "'a ops_state_scheme \<Rightarrow> 'a ops_state_scheme" where
  "rep_stosd_body s =
     (let s = mem_write32 (reg s REG_EDI) (reg s REG_EAX) s;
          s = set_reg REG_EDI (reg s REG_EDI + 4) s
      in set_reg REG_ECX (reg s REG_ECX - 1) s)"

text \<open>One round of REPNE SCASB up to its \<open>break\<close>, which the loop takes when ZF is set.\<close>

definition repne_scasb_body :: "'a ops_state_scheme \<Rightarrow> 'a ops_state_scheme" where
  "repne_scasb_body s =
     (let a = (ucast (reg s REG_EAX) :: u8);
          b = mem_read8 (reg s REG_EDI) s;
          s = set_reg REG_EDI (reg s REG_EDI + 1) s;
          s = set_reg REG_ECX (reg s REG_ECX - 1) s;
          result = a - b;
          s = set_cf (a < b) s;
          s = set_zf (ucast result) s;
          s = set_sf (ucast result) s
      in set_of_sub (ucast a) (ucast b) (ucast result) s)"

primrec repne_scasb_loop :: "nat \<Rightarrow> 'a ops_state_scheme \<Rightarrow> 'a ops_state_scheme" where
  "repne_scasb_loop 0 s = s"
| "repne_scasb_loop (Suc n) s =
     (if reg s REG_ECX > 0 then
        let s = repne_scasb_body s
        in if get_zf s \<noteq> 0 then s else repne_scasb_loop n s
      else s)"

definition op_repne :: "u8 \<Rightarrow> 'a ops_state_scheme \<Rightarrow> 'a ops_state_scheme" where
  "op_repne op s =
     (let (nxt, s) = fetch8 s
      in if nxt = 0xAE then
           let s = repne_scasb_loop (unat (reg s REG_ECX)) s
           in add_cycles (reg s REG_ECX + 1) s
         else if nxt = 0x0F then
           let (sse_op, s) = fetch8 s
           in if sse_op = 0x10 then
                let (mrm, s) = parse_modrm s;
                    (val, s) = (if mrm_mod mrm = 3 then (lo (xmm_regs s ! rm mrm), s)
                                else let (addr, s) = resolve_rm_addr mrm s
                                     in (mem_read64 addr s, s));
                    s = set_xmm_lo (rg mrm) val s;
                    s = set_xmm_hi (rg mrm) 0 s
                in add_cycles 3 s
              else if sse_op = 0x11 then
                let (mrm, s) = parse_modrm s;
                    val = lo (xmm_regs s ! rg mrm);
                    s = (if mrm_mod mrm = 3 then
                           let s = set_xmm_lo (rm mrm) val s in set_xmm_hi (rm mrm) 0 s
                         else let (addr, s) = resolve_rm_addr mrm s in mem_write64 addr val s)
                in add_cycles 3 s
              else if sse_op = 0x70 then
                let (mrm, s) = parse_modrm s;
                    (src, s) = read_xmm_src mrm s;
                    (imm, s) = fetch8 s;
                    s = set_xmm (rg mrm) \<lparr>lo = shuffle_words (lo src) imm, hi = hi src\<rparr> s
                in add_cycles 3 s
              else halt s
         else halt s)"

definition op_rep :: "u8 \<Rightarrow> 'a ops_state_scheme \<Rightarrow> 'a ops_state_scheme" where
  "op_rep op s =
     (let (nxt, s) = fetch8 s
      in if nxt = 0x0F then
           let (sse_op, s) = fetch8 s
           in if sse_op = 0x1E then
                let s = s\<lparr>eip := eip s + 1\<rparr> in add_cycles 1 s
              else if sse_op = 0x6F then
                let (mrm, s) = parse_modrm s;
                    (src, s) = read_xmm_src mrm s;
                    s = set_xmm (rg mrm) src s
                in add_cycles 3 s
              else if sse_op = 0x7E then
                let (mrm, s) = parse_modrm s;
                    (val, s) = (if mrm_mod mrm = 3 then (lo (xmm_regs s ! rm mrm), s)
                                else let (addr, s) = resolve_rm_addr mrm s
                                     in (mem_read64 addr s, s));
                    s = set_xmm_lo (rg mrm) val s;
                    s = set_xmm_hi (rg mrm) 0 s
                in add_cycles 3 s
              else if sse_op = 0x7F then
                let (mrm, s) = parse_modrm s;
                    src = xmm_regs s ! rg mrm;
                    s = write_xmm_dst mrm src s
                in add_cycles 3 s
              else if sse_op = 0x70 then
                let (mrm, s) = parse_modrm s;
                    (src_lo, src_hi, s) =
                      (if mrm_mod mrm = 3 then
                         (lo (xmm_regs s ! rm mrm), hi (xmm_regs s ! rm mrm), s)
                       else let (addr, s) = resolve_rm_addr mrm s
                            in (mem_read64 addr s, mem_read64 (addr + 8) s, s));
                    (imm, s) = fetch8 s;
                    s = set_xmm_lo (rg mrm) src_lo s;
                    s = set_xmm_hi (rg mrm) (shuffle_words src_hi imm) s
                in add_cycles 3 s
              else halt s
         else if nxt = 0xA4 then
           let count = reg s REG_ECX; s = rep_loop (unat count) rep_movsb_body s
           in add_cycles (count + 1) s
         else if nxt = 0xA5 then
           let count = reg s REG_ECX; s = rep_loop (unat count) rep_movsd_body s
           in add_cycles (count + 1) s
         else if nxt = 0xAA then
           let count = reg s REG_ECX; s = rep_loop (unat count) rep_stosb_body s
           in add_cycles (count + 1) s
         else if nxt = 0xAB then
           let count = reg s REG_ECX; s = rep_loop (unat count) rep_stosd_body s
           in add_cycles (count + 1) s
         else halt s)"

end
