(* ===== verification/Ops_Fpu.thy ===== *)
theory Ops_Fpu
  imports Decode
begin

text \<open>
  The x87 escapes 0xD9, 0xDB, 0xDD and 0xDF of \<open>src/cpu/ops.c\<close>: a register stack of eight
  doubles with a top index, over host floating-point arithmetic.
\<close>

section \<open>Handlers\<close>

text \<open>
  C leaves the accuracy of its floating-point operators and of the functions of \<open>math.h\<close> to
  the implementation, so they are the parameter \<open>fp_ops\<close>: conversions between the formats,
  negation, the test \<open>x < 0\<close>, the operators the handlers use and the library functions.
  Values are the 64 bits of a double (IEEE 754 binary64), the constants of the source are
  rounded to nearest. \<open>f_trunc\<close> gives the integral part that a conversion to an integer type
  keeps, \<open>None\<close> for an infinity or a NaN.
\<close>

record fp_ops =
  f_of_f32 :: "u32 \<Rightarrow> u64"
  f_to_f32 :: "u64 \<Rightarrow> u32"
  f_of_int :: "int \<Rightarrow> u64"
  f_trunc :: "u64 \<Rightarrow> int option"
  f_neg :: "u64 \<Rightarrow> u64"
  f_lt0 :: "u64 \<Rightarrow> bool"
  f_mul :: "u64 \<Rightarrow> u64 \<Rightarrow> u64"
  f_sub :: "u64 \<Rightarrow> u64 \<Rightarrow> u64"
  f_pow :: "u64 \<Rightarrow> u64 \<Rightarrow> u64"
  f_fmod :: "u64 \<Rightarrow> u64 \<Rightarrow> u64"
  f_log2 :: "u64 \<Rightarrow> u64"
  f_sqrt :: "u64 \<Rightarrow> u64"
  f_round :: "u64 \<Rightarrow> u64"

text \<open>A conversion of a double to a signed integer type of \<open>n\<close> bits.\<close>

definition f_to_sint :: "fp_ops \<Rightarrow> nat \<Rightarrow> u64 \<Rightarrow> int result" where
  "f_to_sint fp n x =
     (case f_trunc fp x of
        None \<Rightarrow> Inl (UB FloatRange)
      | Some i \<Rightarrow> if - (2 ^ (n - 1)) \<le> i \<and> i < 2 ^ (n - 1) then Inr i else Inl (UB FloatRange))"

text \<open>
  The C idioms \<open>fpu_stack[(fpu_top + i) & 7]\<close> and \<open>fpu_stack[fpu_top]\<close>, assignments to them, and the
  two ways the stack moves: \<open>fpu_top = (fpu_top - 1) & 7; fpu_stack[fpu_top] = v\<close> and \<open>fpu_top = (fpu_top + 1) & 7\<close>.
\<close>

definition fpu_st :: "u32 \<Rightarrow> 'a ops_state_scheme \<Rightarrow> u64" where
  "fpu_st i s = fpu_stack s ! unat ((fpu_top s + i) AND 7)"

definition set_fpu_st :: "u32 \<Rightarrow> u64 \<Rightarrow> 'a ops_state_scheme \<Rightarrow> 'a ops_state_scheme" where
  "set_fpu_st i v s = s\<lparr>fpu_stack := (fpu_stack s)[unat ((fpu_top s + i) AND 7) := v]\<rparr>"

definition fpu_st0 :: "'a ops_state_scheme \<Rightarrow> u64" where
  "fpu_st0 s = fpu_stack s ! unat (fpu_top s)"

definition set_fpu_st0 :: "u64 \<Rightarrow> 'a ops_state_scheme \<Rightarrow> 'a ops_state_scheme" where
  "set_fpu_st0 v s = s\<lparr>fpu_stack := (fpu_stack s)[unat (fpu_top s) := v]\<rparr>"

definition fpu_push :: "u64 \<Rightarrow> 'a ops_state_scheme \<Rightarrow> 'a ops_state_scheme" where
  "fpu_push v s = (let s = s\<lparr>fpu_top := (fpu_top s - 1) AND 7\<rparr> in set_fpu_st0 v s)"

definition fpu_pop :: "'a ops_state_scheme \<Rightarrow> 'a ops_state_scheme" where
  "fpu_pop s = s\<lparr>fpu_top := (fpu_top s + 1) AND 7\<rparr>"

definition op_d9_reg :: "fp_ops \<Rightarrow> ModRM \<Rightarrow> 'a ops_state_scheme \<Rightarrow> 'a ops_state_scheme result" where
  "op_d9_reg fp mrm s =
     (if mrm_reg mrm = 0 then
        let s = s\<lparr>fpu_top := (fpu_top s - 1) AND 7\<rparr>;
            s = set_fpu_st0 (fpu_st (1 + ucast (mrm_rm mrm)) s) s
        in Inr (add_cycles 3 s)
      else if mrm_reg mrm = 1 then
        let tmp = fpu_st0 s;
            s = set_fpu_st0 (fpu_st (ucast (mrm_rm mrm)) s) s;
            s = set_fpu_st (ucast (mrm_rm mrm)) tmp s
        in Inr (add_cycles 3 s)
      else if mrm_reg mrm = 4 then
        let s = (if mrm_rm mrm = 0 then set_fpu_st0 (f_neg fp (fpu_st0 s)) s
                 else if mrm_rm mrm = 1 then
                   set_fpu_st0 (if f_lt0 fp (fpu_st0 s) then f_neg fp (fpu_st0 s)
                                 else fpu_st0 s) s
                 else add_cycles 3 s)
        in Inr (add_cycles 3 s)
      else if mrm_reg mrm = 5 then
        let s = (if mrm_rm mrm = 0 then fpu_push 0x3FF0000000000000 s
                 else if mrm_rm mrm = 1 then fpu_push 0x400A934F0979A371 s
                 else if mrm_rm mrm = 2 then fpu_push 0x3FF71547652B82FE s
                 else if mrm_rm mrm = 3 then fpu_push 0x400921FB54442D18 s
                 else if mrm_rm mrm = 4 then fpu_push 0x3FD34413509F79FF s
                 else if mrm_rm mrm = 5 then fpu_push 0x3FE62E42FEFA39EF s
                 else if mrm_rm mrm = 6 then fpu_push 0x0000000000000000 s
                 else add_cycles 3 s)
        in Inr (add_cycles 3 s)
      else if mrm_reg mrm = 6 then
        let s = (if mrm_rm mrm = 0 then
                   set_fpu_st0 (f_sub fp (f_pow fp 0x4000000000000000 (fpu_st0 s))
                     0x3FF0000000000000) s
                 else if mrm_rm mrm = 1 then
                   let s = set_fpu_st 1 (f_mul fp (fpu_st 1 s) (f_log2 fp (fpu_st0 s))) s
                   in fpu_pop s
                 else if mrm_rm mrm = 7 then fpu_pop s
                 else add_cycles 3 s)
        in Inr (add_cycles 3 s)
      else if mrm_reg mrm = 7 then
        if mrm_rm mrm = 0 then
          Inr (add_cycles 3 (set_fpu_st0 (f_fmod fp (fpu_st0 s) (fpu_st 1 s)) s))
        else if mrm_rm mrm = 4 then
          Inr (add_cycles 3 (set_fpu_st0 (f_sqrt fp (fpu_st0 s)) s))
        else if mrm_rm mrm = 5 then
          bind_result (f_to_sint fp 32 (fpu_st 1 s)) (\<lambda>i.
            Inr (add_cycles 3 (set_fpu_st0 (f_mul fp (fpu_st0 s)
              (f_pow fp 0x4000000000000000 (f_of_int fp i))) s)))
        else if mrm_rm mrm = 6 then
          Inr (add_cycles 3 (set_fpu_st0 (f_round fp (fpu_st0 s)) s))
        else Inr (add_cycles 3 (add_cycles 3 s))
      else Inr (halt s))"

definition op_d9 :: "fp_ops \<Rightarrow> u8 \<Rightarrow> 'a ops_state_scheme \<Rightarrow> 'a ops_state_scheme result" where
  "op_d9 fp op s =
     (let (mrm, s) = parse_modrm s
      in if mrm_mod mrm = 3 then op_d9_reg fp mrm s
         else if mrm_reg mrm = 0 then
           let (addr, s) = resolve_rm_addr mrm s; bits = mem_read32 addr s
           in Inr (add_cycles 3 (fpu_push (f_of_f32 fp bits) s))
         else if mrm_reg mrm = 2 then
           let (addr, s) = resolve_rm_addr mrm s
           in Inr (add_cycles 3 (mem_write32 addr (f_to_f32 fp (fpu_st0 s)) s))
         else if mrm_reg mrm = 3 then
           let (addr, s) = resolve_rm_addr mrm s;
               s = mem_write32 addr (f_to_f32 fp (fpu_st0 s)) s
           in Inr (add_cycles 3 (fpu_pop s))
         else if mrm_reg mrm = 4 then Inr (add_cycles 10 s)
         else if mrm_reg mrm = 5 then Inr (add_cycles 3 s)
         else if mrm_reg mrm = 6 then Inr (add_cycles 10 s)
         else if mrm_reg mrm = 7 then
           let (addr, s) = resolve_rm_addr mrm s
           in Inr (add_cycles 3 (mem_write16 addr 0x037F s))
         else Inr (halt s))"

definition op_db :: "fp_ops \<Rightarrow> u8 \<Rightarrow> 'a ops_state_scheme \<Rightarrow> 'a ops_state_scheme result" where
  "op_db fp op s =
     (let (mrm, s) = parse_modrm s
      in if mrm_reg mrm = 0 then
           if mrm_mod mrm = 3 then Inr (add_cycles 3 s)
           else let (addr, s) = resolve_rm_addr mrm s; val = mem_read32 addr s
                in Inr (add_cycles 3 (fpu_push (f_of_int fp (sint val)) s))
         else if mrm_reg mrm = 2 then
           if mrm_mod mrm = 3 then Inr (add_cycles 3 s)
           else let (addr, s) = resolve_rm_addr mrm s
                in bind_result (f_to_sint fp 32 (fpu_st0 s)) (\<lambda>i.
                     Inr (add_cycles 3 (mem_write32 addr (word_of_int i) s)))
         else if mrm_reg mrm = 3 then
           if mrm_mod mrm = 3 then Inr (add_cycles 3 s)
           else let (addr, s) = resolve_rm_addr mrm s
                in bind_result (f_to_sint fp 32 (fpu_st0 s)) (\<lambda>i.
                     Inr (add_cycles 3 (fpu_pop (mem_write32 addr (word_of_int i) s))))
         else if mrm_reg mrm = 4 then Inr (add_cycles 3 s)
         else if mrm_reg mrm = 5 then
           if mrm_mod mrm = 3 then Inr (add_cycles 3 s)
           else Inr (add_cycles 3 (fpu_push 0x0000000000000000 s))
         else if mrm_reg mrm = 7 then
           if mrm_mod mrm = 3 then Inr (add_cycles 3 s)
           else Inr (add_cycles 3 (fpu_pop s))
         else Inr (halt s))"

definition op_dd :: "u8 \<Rightarrow> 'a ops_state_scheme \<Rightarrow> 'a ops_state_scheme" where
  "op_dd op s =
     (let (mrm, s) = parse_modrm s
      in if mrm_reg mrm = 0 then
           if mrm_mod mrm = 3 then add_cycles 3 s
           else let (addr, s) = resolve_rm_addr mrm s; bits = mem_read64 addr s
                in add_cycles 3 (fpu_push bits s)
         else if mrm_reg mrm = 2 then
           if mrm_mod mrm = 3 then add_cycles 3 s
           else let (addr, s) = resolve_rm_addr mrm s
                in add_cycles 3 (mem_write64 addr (fpu_st0 s) s)
         else if mrm_reg mrm = 3 then
           if mrm_mod mrm = 3 then
             let s = set_fpu_st (ucast (mrm_rm mrm)) (fpu_st0 s) s in add_cycles 3 (fpu_pop s)
           else let (addr, s) = resolve_rm_addr mrm s;
                    s = mem_write64 addr (fpu_st0 s) s
                in add_cycles 3 (fpu_pop s)
         else if mrm_reg mrm = 4 then add_cycles 10 s
         else if mrm_reg mrm = 6 then add_cycles 10 s
         else if mrm_reg mrm = 7 then
           let s = (if mrm_mod mrm \<noteq> 3 then
                      let (addr, s) = resolve_rm_addr mrm s in mem_write16 addr 0 s
                    else s)
           in add_cycles 3 s
         else halt s)"

definition op_df :: "fp_ops \<Rightarrow> u8 \<Rightarrow> 'a ops_state_scheme \<Rightarrow> 'a ops_state_scheme result" where
  "op_df fp op s =
     (let (mrm, s) = parse_modrm s
      in if mrm_mod mrm = 3 then
           if mrm_reg mrm = 4 then
             Inr (add_cycles 3 (set_reg REG_EAX ((reg s REG_EAX AND 0xFFFF0000)
               OR push_bit 11 (fpu_top s AND 7)) s))
           else Inr (halt s)
         else if mrm_reg mrm = 0 then
           let (addr, s) = resolve_rm_addr mrm s; val = mem_read16 addr s
           in Inr (add_cycles 3 (fpu_push (f_of_int fp (sint val)) s))
         else if mrm_reg mrm = 2 then
           let (addr, s) = resolve_rm_addr mrm s
           in bind_result (f_to_sint fp 16 (fpu_st0 s)) (\<lambda>i.
                Inr (add_cycles 3 (mem_write16 addr (word_of_int i) s)))
         else if mrm_reg mrm = 3 then
           let (addr, s) = resolve_rm_addr mrm s
           in bind_result (f_to_sint fp 16 (fpu_st0 s)) (\<lambda>i.
                Inr (add_cycles 3 (fpu_pop (mem_write16 addr (word_of_int i) s))))
         else if mrm_reg mrm = 5 then
           let (addr, s) = resolve_rm_addr mrm s; bits = mem_read64 addr s
           in Inr (add_cycles 3 (fpu_push (f_of_int fp (sint bits)) s))
         else if mrm_reg mrm = 7 then
           let (addr, s) = resolve_rm_addr mrm s
           in bind_result (f_to_sint fp 64 (fpu_st0 s)) (\<lambda>i.
                Inr (add_cycles 3 (fpu_pop (mem_write64 addr (word_of_int i) s))))
         else Inr (halt s))"

end
