(* ===== verification/Backend.thy ===== *)
theory Backend
  imports Cpu "HOL-Library.Signed_Division"
begin

text \<open>
  The system-call backend of \<open>src/syscall/backend_win32.c\<close>: the descriptor table, the mmap
  arena, the signal table and the program break, added to the machine state, and one function per
  system call. The file has two configurations, chosen by \<open>#ifdef _WIN32\<close>; \<open>host\<close> says which one
  was built, and every \<open>#ifdef\<close> block is a function with one case for each. The functions of the
  host that the code calls are the fields of the records \<open>win32\<close> and \<open>posix\<close>, parameters that act
  on the state \<open>world\<close> of the host, of which nothing is known. Host structs are laid out as on a
  64-bit little-endian host, and the error numbers are those of the file's own fallback macros,
  which are Linux's. A system call returns its \<open>int32_t\<close> result as the word that ends up in EAX.
\<close>

section \<open>State and host interface\<close>

text \<open>
  \<open>WriteFile\<close> gives the bytes written, \<open>None\<close> when it fails. \<open>ReadFile\<close> and \<open>CreateFileA\<close> give
  \<open>Inl\<close> of the \<open>GetLastError\<close> code when they fail. \<open>GetFileInformationByHandle\<close> gives the two
  halves of the file size.
\<close>

record 'w win32 =
  GetStdHandle :: "u32 \<Rightarrow> u64"
  WriteFile :: "u64 \<Rightarrow> u8 list \<Rightarrow> 'w \<Rightarrow> u32 option \<times> 'w"
  ReadFile :: "u64 \<Rightarrow> u32 \<Rightarrow> 'w \<Rightarrow> (u32 + u8 list) \<times> 'w"
  CreateFileA :: "u8 list \<Rightarrow> u32 \<Rightarrow> u32 \<Rightarrow> 'w \<Rightarrow> (u32 + u64) \<times> 'w"
  CloseHandle :: "u64 \<Rightarrow> 'w \<Rightarrow> 'w"
  SetFilePointer :: "u64 \<Rightarrow> u32 \<Rightarrow> u32 \<Rightarrow> 'w \<Rightarrow> u32 \<times> 'w"
  GetFileInformationByHandle :: "u64 \<Rightarrow> 'w \<Rightarrow> (u32 \<times> u32) option \<times> 'w"
  GetFileType :: "u64 \<Rightarrow> 'w \<Rightarrow> u32 \<times> 'w"

text \<open>
  The POSIX calls give \<open>Inl\<close> of \<open>errno\<close> when they fail. The members of \<open>struct stat\<close> that the code
  reads are taken at 64 bits, whatever their type on the host, and the values of the \<open>O_\<close> flags
  are the host's.
\<close>

record host_stat =
  h_dev :: u64
  h_ino :: u64
  h_mode :: u64
  h_nlink :: u64
  h_uid :: u64
  h_gid :: u64
  h_rdev :: u64
  h_size :: u64
  h_blksize :: u64
  h_blocks :: u64
  h_atime :: u64
  h_mtime :: u64
  h_ctime :: u64

record 'w posix =
  posix_write :: "u32 \<Rightarrow> u8 list \<Rightarrow> 'w \<Rightarrow> (u32 + u64) \<times> 'w"
  posix_read :: "u32 \<Rightarrow> u32 \<Rightarrow> 'w \<Rightarrow> (u32 + u8 list) \<times> 'w"
  posix_open :: "u8 list \<Rightarrow> u32 \<Rightarrow> u32 \<Rightarrow> 'w \<Rightarrow> (u32 + u32) \<times> 'w"
  posix_close :: "u32 \<Rightarrow> 'w \<Rightarrow> 'w"
  posix_lseek :: "u32 \<Rightarrow> u64 \<Rightarrow> u32 \<Rightarrow> 'w \<Rightarrow> (u32 + u64) \<times> 'w"
  posix_fstat :: "u32 \<Rightarrow> 'w \<Rightarrow> (u32 + host_stat) \<times> 'w"
  O_RDONLY :: u32
  O_WRONLY :: u32
  O_RDWR :: u32
  O_CREAT :: u32
  O_TRUNC :: u32
  O_APPEND :: u32

datatype 'w host = Win32 "'w win32" | Posix "'w posix"

text \<open>
  The second member of \<open>GuestFd\<close> is a \<open>HANDLE\<close> in one configuration and an \<open>int host_fd\<close> in the
  other; the field \<open>handle\<close> holds either, the \<open>int\<close> zero-extended.
\<close>

record GuestFd =
  used :: bool
  handle :: u64

text \<open>A \<open>LinuxSigaction\<close> is only ever copied, so it is kept as its 20 bytes.\<close>

type_synonym LinuxSigaction = "u8 list"

record 'w machine = ops_state +
  fd_table :: "GuestFd list"
  g_mmap_base :: u32
  g_mmap_ptr :: u32
  g_sigactions :: "LinuxSigaction list"
  g_brk :: u32
  world :: 'w

type_synonym 'w syscall = "'w machine \<Rightarrow> (u32 \<times> 'w machine) result"

abbreviation (input) MAX_FDS :: nat where "MAX_FDS \<equiv> 256"
abbreviation (input) SIGMAX :: nat where "SIGMAX \<equiv> 64"
abbreviation (input) ENOENT :: u32 where "ENOENT \<equiv> 2"
abbreviation (input) EBADF :: u32 where "EBADF \<equiv> 9"
abbreviation (input) ENOMEM :: u32 where "ENOMEM \<equiv> 12"
abbreviation (input) EACCES :: u32 where "EACCES \<equiv> 13"
abbreviation (input) EFAULT :: u32 where "EFAULT \<equiv> 14"
abbreviation (input) EINVAL :: u32 where "EINVAL \<equiv> 22"
abbreviation (input) EMFILE :: u32 where "EMFILE \<equiv> 24"
abbreviation (input) ENOSYS :: u32 where "ENOSYS \<equiv> 38"

section \<open>Operations\<close>

definition init_mmap_arena :: "u32 \<Rightarrow> 'w machine \<Rightarrow> 'w machine" where
  "init_mmap_arena mmap_base s = s\<lparr>g_mmap_base := mmap_base, g_mmap_ptr := mmap_base\<rparr>"

text \<open>\<open>STD_INPUT_HANDLE\<close>, \<open>STD_OUTPUT_HANDLE\<close> and \<open>STD_ERROR_HANDLE\<close> are -10, -11 and -12.\<close>

definition std_handle :: "'w host \<Rightarrow> nat \<Rightarrow> u64" where
  "std_handle os n =
     (case os of
        Win32 w32 \<Rightarrow> GetStdHandle w32 (- 10 - of_nat n)
      | Posix px \<Rightarrow> of_nat n)"

definition init_fd_table :: "'w host \<Rightarrow> 'w machine \<Rightarrow> 'w machine" where
  "init_fd_table os s =
     s\<lparr>fd_table := (replicate MAX_FDS \<lparr>used = False, handle = 0\<rparr>)
        [0 := \<lparr>used = True, handle = std_handle os 0\<rparr>,
         1 := \<lparr>used = True, handle = std_handle os 1\<rparr>,
         2 := \<lparr>used = True, handle = std_handle os 2\<rparr>]\<rparr>"

fun alloc_fd_from :: "nat \<Rightarrow> GuestFd list \<Rightarrow> nat option" where
  "alloc_fd_from i [] = None"
| "alloc_fd_from i (f # fs) = (if \<not> used f then Some i else alloc_fd_from (Suc i) fs)"

definition alloc_fd :: "'w machine \<Rightarrow> nat option" where
  "alloc_fd s = alloc_fd_from 3 (drop 3 (fd_table s))"

definition sys_exit :: "u32 \<Rightarrow> 'w machine \<Rightarrow> 'w machine result" where
  "sys_exit status s = Inl (Exit status)"

text \<open>The guard \<open>fd < 0 || fd >= MAX_FDS || !fd_table[fd].used\<close>.\<close>

definition bad_fd :: "u32 \<Rightarrow> 'w machine \<Rightarrow> bool" where
  "bad_fd fd s \<longleftrightarrow> sint fd < 0 \<or> sint fd \<ge> int MAX_FDS \<or> \<not> used (fd_table s ! unat fd)"

definition write_host :: "'w host \<Rightarrow> u64 \<Rightarrow> u8 list \<Rightarrow> 'w \<Rightarrow> u32 \<times> 'w" where
  "write_host os h bytes w =
     (case os of
        Win32 w32 \<Rightarrow>
          (case WriteFile w32 h bytes w of
             (None, w) \<Rightarrow> (- 5, w)
           | (Some written, w) \<Rightarrow> (written, w))
      | Posix px \<Rightarrow>
          (case posix_write px (ucast h) bytes w of
             (Inl errno, w) \<Rightarrow> (- errno, w)
           | (Inr n, w) \<Rightarrow> (ucast n, w)))"

definition sys_write :: "'w host \<Rightarrow> u32 \<Rightarrow> u32 \<Rightarrow> u32 \<Rightarrow> 'w syscall" where
  "sys_write os fd buf_addr count s =
     (if count = 0 then Inr (0, s)
      else if bad_fd fd s then Inr (- EBADF, s)
      else case guest_to_host buf_addr s of
        None \<Rightarrow> Inr (- EFAULT, s)
      | Some host_buf \<Rightarrow>
          bind_result (host_load host_buf (unat count) s) (\<lambda>bytes.
            case write_host os (handle (fd_table s ! unat fd)) bytes (world s) of
              (r, w) \<Rightarrow> Inr (r, s\<lparr>world := w\<rparr>)))"

text \<open>What a host read gives: the result to return, or the bytes it delivers into the buffer.
  \<open>ERROR_BROKEN_PIPE\<close> is 109 and \<open>ERROR_HANDLE_EOF\<close> is 38.\<close>

definition read_host :: "'w host \<Rightarrow> u64 \<Rightarrow> u32 \<Rightarrow> 'w \<Rightarrow> (u32 + u8 list) \<times> 'w" where
  "read_host os h count w =
     (case os of
        Win32 w32 \<Rightarrow>
          (case ReadFile w32 h count w of
             (Inl err, w) \<Rightarrow> if err = 109 \<or> err = 38 then (Inl 0, w) else (Inl (- 5), w)
           | (Inr bytes, w) \<Rightarrow> (Inr bytes, w))
      | Posix px \<Rightarrow>
          (case posix_read px (ucast h) count w of
             (Inl errno, w) \<Rightarrow> (Inl (- errno), w)
           | (Inr bytes, w) \<Rightarrow> (Inr bytes, w)))"

definition sys_read :: "'w host \<Rightarrow> u32 \<Rightarrow> u32 \<Rightarrow> u32 \<Rightarrow> 'w syscall" where
  "sys_read os fd buf_addr count s =
     (if count = 0 then Inr (0, s)
      else if bad_fd fd s then Inr (- EBADF, s)
      else case guest_to_host buf_addr s of
        None \<Rightarrow> Inr (- EFAULT, s)
      | Some host_buf \<Rightarrow>
          (case read_host os (handle (fd_table s ! unat fd)) count (world s) of
             (Inl r, w) \<Rightarrow> Inr (r, s\<lparr>world := w\<rparr>)
           | (Inr bytes, w) \<Rightarrow>
               bind_result (host_store host_buf bytes (s\<lparr>world := w\<rparr>)) (\<lambda>s.
                 Inr (of_nat (length bytes), s))))"

text \<open>A C string at a host pointer: running into the end of the block is undefined.\<close>

definition host_cstring :: "nat \<Rightarrow> 'a mem_state_scheme \<Rightarrow> u8 list result" where
  "host_cstring p s =
     (let bs = load_bytes p (g_size s - p) (g_mem s);
          str = takeWhile (\<lambda>b. b \<noteq> 0) bs
      in if length str = length bs then Inl (UB HostOOB) else Inr str)"

text \<open>
  Opening on the host: \<open>Inl\<close> of the result to return, or the handle. \<open>GENERIC_READ\<close> and
  \<open>GENERIC_WRITE\<close> are the top two bits; \<open>CREATE_ALWAYS\<close>, \<open>OPEN_EXISTING\<close>, \<open>OPEN_ALWAYS\<close> and
  \<open>TRUNCATE_EXISTING\<close> are 2 to 5; \<open>ERROR_FILE_NOT_FOUND\<close>, \<open>ERROR_PATH_NOT_FOUND\<close> and
  \<open>ERROR_ACCESS_DENIED\<close> are 2, 3 and 5.
\<close>

definition open_win32 :: "'w win32 \<Rightarrow> u8 list \<Rightarrow> u32 \<Rightarrow> 'w \<Rightarrow> (u32 + u64) \<times> 'w" where
  "open_win32 w32 str flags w =
     (let access = (if flags AND 2 \<noteq> 0 then 0x80000000 OR 0x40000000
                    else if flags AND 1 \<noteq> 0 then 0x40000000
                    else 0x80000000);
          creation = (if flags AND 0x40 \<noteq> 0 then (if flags AND 0x200 \<noteq> 0 then 2 else 4)
                      else if flags AND 0x200 \<noteq> 0 then 5
                      else 3)
      in case CreateFileA w32 str access creation w of
           (Inl err, w) \<Rightarrow>
             if err = 2 \<or> err = 3 then (Inl (- ENOENT), w)
             else if err = 5 then (Inl (- EACCES), w)
             else (Inl (- 5), w)
         | (Inr h, w) \<Rightarrow> (Inr h, w))"

definition open_posix :: "'w posix \<Rightarrow> u8 list \<Rightarrow> u32 \<Rightarrow> u32 \<Rightarrow> 'w \<Rightarrow> (u32 + u64) \<times> 'w" where
  "open_posix px str flags mode w =
     (let host_flags = (if flags AND 3 = 2 then O_RDWR px
                        else if flags AND 3 = 1 then O_WRONLY px
                        else O_RDONLY px);
          host_flags = (if flags AND 0x40 \<noteq> 0 then host_flags OR O_CREAT px else host_flags);
          host_flags = (if flags AND 0x200 \<noteq> 0 then host_flags OR O_TRUNC px else host_flags);
          host_flags = (if flags AND 0x400 \<noteq> 0 then host_flags OR O_APPEND px else host_flags)
      in case posix_open px str host_flags mode w of
           (Inl errno, w) \<Rightarrow> (Inl (- errno), w)
         | (Inr host_fd, w) \<Rightarrow> (Inr (ucast host_fd), w))"

definition open_on_host :: "'w host \<Rightarrow> u8 list \<Rightarrow> u32 \<Rightarrow> u32 \<Rightarrow> 'w \<Rightarrow> (u32 + u64) \<times> 'w" where
  "open_on_host os str flags mode w =
     (case os of
        Win32 w32 \<Rightarrow> open_win32 w32 str flags w
      | Posix px \<Rightarrow> open_posix px str flags mode w)"

definition sys_open :: "'w host \<Rightarrow> u32 \<Rightarrow> u32 \<Rightarrow> u32 \<Rightarrow> 'w syscall" where
  "sys_open os path_addr flags mode s =
     (case guest_to_host path_addr s of
        None \<Rightarrow> Inr (- EFAULT, s)
      | Some path \<Rightarrow>
          (case alloc_fd s of
             None \<Rightarrow> Inr (- EMFILE, s)
           | Some guest_fd \<Rightarrow>
               bind_result (host_cstring path s) (\<lambda>str.
                 case open_on_host os str flags mode (world s) of
                   (Inl r, w) \<Rightarrow> Inr (r, s\<lparr>world := w\<rparr>)
                 | (Inr h, w) \<Rightarrow>
                     Inr (of_nat guest_fd,
                          s\<lparr>world := w,
                            fd_table := (fd_table s)[guest_fd := \<lparr>used = True, handle = h\<rparr>]\<rparr>))))"

definition close_host :: "'w host \<Rightarrow> u64 \<Rightarrow> 'w \<Rightarrow> 'w" where
  "close_host os h w =
     (case os of Win32 w32 \<Rightarrow> CloseHandle w32 h w | Posix px \<Rightarrow> posix_close px (ucast h) w)"

definition sys_close :: "'w host \<Rightarrow> u32 \<Rightarrow> 'w syscall" where
  "sys_close os fd s =
     (if bad_fd fd s then Inr (- EBADF, s)
      else if sint fd \<le> 2 then Inr (0, s)
      else
        let f = fd_table s ! unat fd;
            s = s\<lparr>world := close_host os (handle f) (world s)\<rparr>
        in Inr (0, s\<lparr>fd_table := (fd_table s)[unat fd := f\<lparr>used := False\<rparr>]\<rparr>))"

definition seek_host :: "'w host \<Rightarrow> u64 \<Rightarrow> u32 \<Rightarrow> u32 \<Rightarrow> 'w \<Rightarrow> u32 \<times> 'w" where
  "seek_host os h offset whence w =
     (case os of
        Win32 w32 \<Rightarrow>
          if whence = 0 \<or> whence = 1 \<or> whence = 2 then
            (case SetFilePointer w32 h offset whence w of
               (res, w) \<Rightarrow> if res = 0xFFFFFFFF then (- 5, w) else (res, w))
          else (- EINVAL, w)
      | Posix px \<Rightarrow>
          (case posix_lseek px (ucast h) (scast offset) whence w of
             (Inl errno, w) \<Rightarrow> (- errno, w)
           | (Inr res, w) \<Rightarrow> (ucast res, w)))"

definition sys_lseek :: "'w host \<Rightarrow> u32 \<Rightarrow> u32 \<Rightarrow> u32 \<Rightarrow> 'w syscall" where
  "sys_lseek os fd offset whence s =
     (if bad_fd fd s then Inr (- EBADF, s)
      else
        case seek_host os (handle (fd_table s ! unat fd)) offset whence (world s) of
          (r, w) \<Rightarrow> Inr (r, s\<lparr>world := w\<rparr>))"

definition sys_munmap :: "u32 \<Rightarrow> u32 \<Rightarrow> 'w syscall" where
  "sys_munmap addr len s = Inr (0, s)"

definition sys_mprotect :: "u32 \<Rightarrow> u32 \<Rightarrow> u32 \<Rightarrow> 'w syscall" where
  "sys_mprotect addr len prot s = Inr (0, s)"

text \<open>
  The end of \<open>sys_mmap2\<close>: the host pointer, the \<open>memset\<close> and the result. The size compared
  against the arena, \<open>(size_t)(g_mmap_ptr + aligned_len)\<close>, is a sum of two \<open>uint32_t\<close>;
  \<open>mem_size() - 0x100000\<close> is a \<open>size_t\<close> and would wrap only for a block under 1 MB.
\<close>

definition mmap2_map :: "u32 \<Rightarrow> u32 \<Rightarrow> 'w syscall" where
  "mmap2_map result_addr aligned_len s =
     (case guest_to_host result_addr s of
        None \<Rightarrow> Inr (- EFAULT, s)
      | Some host \<Rightarrow>
          bind_result (host_memset host 0 (unat aligned_len) s) (\<lambda>s. Inr (result_addr, s)))"

definition sys_mmap2 :: "u32 \<Rightarrow> u32 \<Rightarrow> u32 \<Rightarrow> u32 \<Rightarrow> u32 \<Rightarrow> u32 \<Rightarrow> 'w syscall" where
  "sys_mmap2 addr len prot flags fd pgoffset s =
     (if len = 0 then Inr (- EINVAL, s)
      else
        let aligned_len = (len + 0xFFF) AND NOT 0xFFF
        in if fd \<noteq> - 1 \<and> \<not> flags AND 0x20 \<noteq> 0 then Inr (- ENOSYS, s)
           else if flags AND 0x10 \<noteq> 0 then
             if unat addr + unat aligned_len > mem_size s then Inr (- ENOMEM, s)
             else mmap2_map addr aligned_len s
           else if g_mmap_ptr s = 0 then Inr (- ENOMEM, s)
           else if int (unat (g_mmap_ptr s + aligned_len))
                     > (int (mem_size s) - 0x100000) mod 2 ^ 64 then
             Inr (- ENOMEM, s)
           else
             let result_addr = g_mmap_ptr s;
                 s = s\<lparr>g_mmap_ptr := g_mmap_ptr s + aligned_len\<rparr>
             in mmap2_map result_addr aligned_len s)"

text \<open>
  \<open>LinuxStat64\<close> has 104 bytes on a host that aligns 64-bit members to 8: \<open>st_dev\<close> is at offset 0,
  \<open>st_mode\<close> at 16, \<open>st_nlink\<close> at 20, \<open>st_uid\<close> at 24, \<open>st_gid\<close> at 28, \<open>st_rdev\<close> at 32, \<open>st_size\<close> at
  48, \<open>st_blksize\<close> at 56, \<open>st_blocks\<close> at 64, the times at 72, 80 and 88, \<open>st_ino\<close> at 96.
\<close>

definition enc64 :: "u64 \<Rightarrow> u8 list" where
  "enc64 v = enc32 (ucast v) @ enc32 (ucast (drop_bit 32 v))"

text \<open>Assignments to members of a struct at a host pointer, in order.\<close>

primrec store_members :: "nat \<Rightarrow> (nat \<times> u8 list) list \<Rightarrow> 'a mem_state_scheme \<Rightarrow> 'a mem_state_scheme result" where
  "store_members p [] s = Inr s"
| "store_members p (m # ms) s =
     bind_result (host_store (p + fst m) (snd m) s) (\<lambda>s. store_members p ms s)"

text \<open>
  The file size is put together in \<open>int64_t\<close> and 511 is added to it, which is undefined from
  \<open>2 ^ 63 - 511\<close> on; the quotient by 512 is of a number that is not negative.
\<close>

definition fstat_win32 :: "'w win32 \<Rightarrow> u32 \<Rightarrow> nat \<Rightarrow> 'w syscall" where
  "fstat_win32 w32 fd st s =
     (case GetFileInformationByHandle w32 (handle (fd_table s ! unat fd)) (world s) of
        (None, w) \<Rightarrow>
          if sint fd \<le> 2 then Inr (0, s\<lparr>world := w\<rparr>) else Inr (- 5, s\<lparr>world := w\<rparr>)
      | (Some (high, low), w) \<Rightarrow>
          let s = s\<lparr>world := w\<rparr>;
              size64 = push_bit 32 (ucast high) OR ucast low;
              blocks = word_of_int ((sint size64 + 511) div 512)
          in if sint size64 < 0 \<or> sint size64 + 511 \<ge> 2 ^ 63 then Inl (UB SignedOverflow)
             else bind_result
               (store_members st
                  [(16, enc32 0x81A4), (20, enc32 1), (48, enc64 size64), (56, enc32 4096),
                   (64, enc64 blocks)] s) (\<lambda>s.
               case GetFileType w32 (handle (fd_table s ! unat fd)) (world s) of
                 (ty, w) \<Rightarrow>
                   let s = s\<lparr>world := w\<rparr>
                   in if ty = 2 then
                        bind_result (store_members st [(16, enc32 0x2190)] s) (\<lambda>s. Inr (0, s))
                      else Inr (0, s)))"

definition stat64_members :: "host_stat \<Rightarrow> (nat \<times> u8 list) list" where
  "stat64_members host_st =
     [(0, enc64 (h_dev host_st)), (96, enc64 (h_ino host_st)),
      (16, enc32 (ucast (h_mode host_st))), (20, enc32 (ucast (h_nlink host_st))),
      (24, enc32 (ucast (h_uid host_st))), (28, enc32 (ucast (h_gid host_st))),
      (32, enc64 (h_rdev host_st)), (48, enc64 (h_size host_st)),
      (56, enc32 (ucast (h_blksize host_st))), (64, enc64 (h_blocks host_st)),
      (72, enc32 (ucast (h_atime host_st))), (80, enc32 (ucast (h_mtime host_st))),
      (88, enc32 (ucast (h_ctime host_st)))]"

definition fstat_posix :: "'w posix \<Rightarrow> u32 \<Rightarrow> nat \<Rightarrow> 'w syscall" where
  "fstat_posix px fd st s =
     (case posix_fstat px (ucast (handle (fd_table s ! unat fd))) (world s) of
        (Inl errno, w) \<Rightarrow> Inr (- errno, s\<lparr>world := w\<rparr>)
      | (Inr host_st, w) \<Rightarrow>
          bind_result (store_members st (stat64_members host_st) (s\<lparr>world := w\<rparr>))
            (\<lambda>s. Inr (0, s)))"

definition sys_fstat64 :: "'w host \<Rightarrow> u32 \<Rightarrow> u32 \<Rightarrow> 'w syscall" where
  "sys_fstat64 os fd buf_addr s =
     (if bad_fd fd s then Inr (- EBADF, s)
      else case guest_to_host buf_addr s of
        None \<Rightarrow> Inr (- EFAULT, s)
      | Some st \<Rightarrow>
          bind_result (host_memset st 0 104 s) (\<lambda>s.
            case os of
              Win32 w32 \<Rightarrow> fstat_win32 w32 fd st s
            | Posix px \<Rightarrow> fstat_posix px fd st s))"

definition sys_rt_sigaction :: "u32 \<Rightarrow> u32 \<Rightarrow> u32 \<Rightarrow> u32 \<Rightarrow> 'w syscall" where
  "sys_rt_sigaction sig act_addr oact_addr sigsetsize s =
     (if sint sig < 1 \<or> sint sig \<ge> int SIGMAX then Inr (- EINVAL, s)
      else
        bind_result
          (if oact_addr \<noteq> 0 then
             case guest_to_host oact_addr s of
               None \<Rightarrow> Inr (True, s)
             | Some oact \<Rightarrow>
                 bind_result (host_store oact (g_sigactions s ! unat sig) s) (\<lambda>s. Inr (False, s))
           else Inr (False, s))
          (\<lambda>(fault, s).
             if fault then Inr (- EFAULT, s)
             else if act_addr \<noteq> 0 then
               case guest_to_host act_addr s of
                 None \<Rightarrow> Inr (- EFAULT, s)
               | Some act \<Rightarrow>
                   bind_result (host_load act 20 s) (\<lambda>bytes.
                     Inr (0, s\<lparr>g_sigactions := (g_sigactions s)[unat sig := bytes]\<rparr>))
             else Inr (0, s)))"

definition sys_rt_sigprocmask :: "u32 \<Rightarrow> u32 \<Rightarrow> u32 \<Rightarrow> u32 \<Rightarrow> 'w syscall" where
  "sys_rt_sigprocmask how set_addr oset_addr sigsetsize s =
     (if oset_addr \<noteq> 0 then
        case guest_to_host oset_addr s of
          None \<Rightarrow> Inr (- EFAULT, s)
        | Some oset \<Rightarrow>
            bind_result (host_memset oset 0 (if sigsetsize < 8 then unat sigsetsize else 8) s)
              (\<lambda>s. Inr (0, s))
      else Inr (0, s))"

definition sys_set_tid_address :: "u32 \<Rightarrow> 'w syscall" where
  "sys_set_tid_address tidptr s =
     (if tidptr \<noteq> 0 then
        case guest_to_host tidptr s of
          None \<Rightarrow> Inr (1, s)
        | Some p \<Rightarrow> bind_result (host_store p (enc32 1) s) (\<lambda>s. Inr (1, s))
      else Inr (1, s))"

definition init_brk :: "u32 \<Rightarrow> 'w machine \<Rightarrow> 'w machine" where
  "init_brk base s = s\<lparr>g_brk := base\<rparr>"

definition sys_brk :: "u32 \<Rightarrow> 'w machine \<Rightarrow> u32 \<times> 'w machine" where
  "sys_brk new_brk s =
     (if new_brk = 0 then (g_brk s, s)
      else if new_brk < g_brk s then (g_brk s, s)
      else if unat new_brk \<ge> mem_size s then (g_brk s, s)
      else
        let old_brk = g_brk s;
            alloc_size = new_brk - old_brk;
            s = (if alloc_size \<ge> 8 then
                   let s = mem_write32 (old_brk + 0) 0 s
                   in mem_write32 (old_brk + 4) (alloc_size OR 1) s
                 else s);
            s = s\<lparr>g_brk := new_brk\<rparr>
        in (g_brk s, s))"

primrec writev_loop :: "'w host \<Rightarrow> u32 \<Rightarrow> u32 \<Rightarrow> nat \<Rightarrow> u32 \<Rightarrow> u32 \<Rightarrow> 'w syscall" where
  "writev_loop os fd iov_addr 0 i tot s = Inr (tot, s)"
| "writev_loop os fd iov_addr (Suc n) i tot s =
     (case guest_to_host (iov_addr + i * 8) s of
        None \<Rightarrow> Inr (- EFAULT, s)
      | Some iov \<Rightarrow>
          bind_result (host_load (iov + 4) 4 s) (\<lambda>len.
            if dec32 len = 0 then writev_loop os fd iov_addr n (i + 1) tot s
            else
              bind_result (host_load iov 4 s) (\<lambda>base.
                bind_result (sys_write os fd (dec32 base) (dec32 len) s) (\<lambda>(r, s).
                  if sint r < 0 then Inr (r, s)
                  else if \<not> fits32 (sint tot + sint r) then Inl (UB SignedOverflow)
                  else writev_loop os fd iov_addr n (i + 1) (tot + r) s))))"

definition sys_writev :: "'w host \<Rightarrow> u32 \<Rightarrow> u32 \<Rightarrow> u32 \<Rightarrow> 'w syscall" where
  "sys_writev os fd iov_addr iovcnt s =
     writev_loop os fd iov_addr (nat (sint iovcnt)) 0 0 s"

text \<open>
  \<open>desc->base_addr\<close> is read again for every use, and a write in between may have changed it
  when the descriptor overlaps the area written.
\<close>

definition sys_set_thread_area :: "u32 \<Rightarrow> 'w syscall" where
  "sys_set_thread_area u_info_addr s =
     (case guest_to_host u_info_addr s of
        None \<Rightarrow> Inr (- EFAULT, s)
      | Some desc \<Rightarrow>
          bind_result (host_load desc 4 s) (\<lambda>entry.
          bind_result (if dec32 entry = - 1 then host_store desc (enc32 0) s else Inr s) (\<lambda>s.
          bind_result (host_load (desc + 4) 4 s) (\<lambda>base.
            let s = set_gs_base (dec32 base) s;
                s = mem_write32 (dec32 base + 0x10) 0x00001000 s
            in bind_result (host_load (desc + 4) 4 s) (\<lambda>base.
               let s = mem_write32 (dec32 base - 8) 0 s
               in bind_result (host_load (desc + 4) 4 s) (\<lambda>base.
                    Inr (0, mem_write32 (dec32 base - 4) 0x91 s)))))))"

section \<open>Guest memory and the rest of the state\<close>

lemma mem_write_machine_frame [simp, frame]:
  "fd_table (mem_write32 a v s) = fd_table s" "g_mmap_base (mem_write32 a v s) = g_mmap_base s"
  "g_mmap_ptr (mem_write32 a v s) = g_mmap_ptr s"
  "g_sigactions (mem_write32 a v s) = g_sigactions s"
  "g_brk (mem_write32 a v s) = g_brk s" "world (mem_write32 a v s) = world s"
  by (simp_all add: mem_write32_def)

section \<open>Descriptors\<close>

lemma alloc_fd_from_ge: "alloc_fd_from k fs = Some i \<Longrightarrow> k \<le> i"
  by (induction fs arbitrary: k) (auto split: if_splits dest: Suc_leD)

lemma sint_above_2:
  assumes "\<not> sint (fd :: u32) \<le> 2"
  shows "3 \<le> unat fd"
proof -
  have "sint fd \<le> uint fd"
    unfolding sint_u32 by simp
  then have "sint fd \<le> int (unat fd)" by (simp only: uint_nat)
  with assms show ?thesis by linarith
qed

end
