(* ===== verification/Syscall.thy ===== *)
theory Syscall
  imports Backend
begin

text \<open>
  The dispatcher of \<open>src/syscall/syscall.c\<close>: the number is in EAX, the arguments are in EBX,
  ECX, EDX, ESI, EDI and EBP as they were on entry, and the result goes to EAX. The messages on
  stderr are left out.
\<close>

section \<open>Operations\<close>

definition ret_eax :: "(u32 \<times> 'w machine) result \<Rightarrow> 'w machine result" where
  "ret_eax r = bind_result r (\<lambda>(v, s). Inr (set_reg REG_EAX v s))"

definition ret_const :: "u32 \<Rightarrow> 'w machine \<Rightarrow> 'w machine result" where
  "ret_const v s = Inr (set_reg REG_EAX v s)"

text \<open>\<open>strncpy(p, str, n)\<close>: the string cut to \<open>n\<close> bytes, and zero bytes up to \<open>n\<close>.\<close>

definition strncpy_bytes :: "nat \<Rightarrow> string \<Rightarrow> u8 list" where
  "strncpy_bytes n str = take n (map of_char str @ replicate (n - length str) 0)"

definition strncpy :: "nat \<Rightarrow> string \<Rightarrow> nat \<Rightarrow> 'a mem_state_scheme \<Rightarrow> 'a mem_state_scheme result" where
  "strncpy p str n s = host_store p (strncpy_bytes n str) s"

text \<open>The six \<open>char[65]\<close> members of \<open>LinuxUtsname\<close> lie at multiples of 65.\<close>

definition uname_case :: "u32 \<Rightarrow> 'w machine \<Rightarrow> 'w machine result" where
  "uname_case ebx s =
     (case guest_to_host ebx s of
        None \<Rightarrow> ret_const (- 14) s
      | Some uts \<Rightarrow>
          bind_result (strncpy uts ''Linux'' 64 s) (\<lambda>s.
          bind_result (strncpy (uts + 65) ''emu'' 64 s) (\<lambda>s.
          bind_result (strncpy (uts + 130) ''3.19.0'' 64 s) (\<lambda>s.
          bind_result (strncpy (uts + 195) ''#1 SMP'' 64 s) (\<lambda>s.
          bind_result (strncpy (uts + 260) ''i686'' 64 s) (\<lambda>s.
          bind_result (strncpy (uts + 325) ''(none)'' 64 s) (\<lambda>s.
            ret_const 0 s)))))))"

definition llseek_case :: "'w host \<Rightarrow> u32 \<Rightarrow> u32 \<Rightarrow> u32 \<Rightarrow> u32 \<Rightarrow> u32 \<Rightarrow> 'w machine \<Rightarrow> 'w machine result" where
  "llseek_case os fd offset_high offset_low result_ptr whence s =
     (if offset_high \<noteq> 0 \<and> offset_high \<noteq> 0xFFFFFFFF then ret_const (- 22) s
      else bind_result (sys_lseek os fd offset_low whence s) (\<lambda>(res, s).
        if sint res < 0 then ret_const res s
        else
          let s = (if result_ptr \<noteq> 0 then
                     mem_write32 (result_ptr + 4) 0 (mem_write32 result_ptr res s)
                   else s)
          in ret_const 0 s))"

definition dispatch_syscall :: "'w host \<Rightarrow> 'w machine \<Rightarrow> 'w machine result" where
  "dispatch_syscall os s =
     (let nr = reg s REG_EAX; ebx = reg s REG_EBX; ecx = reg s REG_ECX; edx = reg s REG_EDX;
          esi = reg s REG_ESI; edi = reg s REG_EDI; ebp = reg s REG_EBP
      in if nr = 1 then sys_exit ebx s
         else if nr = 3 then ret_eax (sys_read os ebx ecx edx s)
         else if nr = 4 then ret_eax (sys_write os ebx ecx edx s)
         else if nr = 5 then ret_eax (sys_open os ebx ecx edx s)
         else if nr = 6 then ret_eax (sys_close os ebx s)
         else if nr = 19 then ret_eax (sys_lseek os ebx ecx edx s)
         else if nr = 20 then ret_const 1 s
         else if nr = 37 then ret_const 0 s
         else if nr = 45 then ret_eax (Inr (sys_brk ebx s))
         else if nr = 91 then ret_eax (sys_munmap ebx ecx s)
         else if nr = 122 then uname_case ebx s
         else if nr = 125 then ret_eax (sys_mprotect ebx ecx edx s)
         else if nr = 140 then llseek_case os ebx ecx edx esi edi s
         else if nr = 173 then ret_const 0 s
         else if nr = 174 then ret_eax (sys_rt_sigaction ebx ecx edx esi s)
         else if nr = 175 then ret_eax (sys_rt_sigprocmask ebx ecx edx esi s)
         else if nr = 192 then ret_eax (sys_mmap2 ebx ecx edx esi edi ebp s)
         else if nr = 197 then ret_eax (sys_fstat64 os ebx ecx s)
         else if nr = 240 then ret_const 0 s
         else if nr = 243 then ret_eax (sys_set_thread_area ebx s)
         else if nr = 252 then sys_exit ebx s
         else if nr = 258 then ret_eax (sys_set_tid_address ebx s)
         else if nr = 265 then
           let s = (if ecx \<noteq> 0 then mem_write32 (ecx + 4) 0 (mem_write32 ecx 0 s) else s)
           in ret_const 0 s
         else if nr = 386 then ret_const 0 s
         else if nr = 146 then ret_eax (sys_writev os ebx ecx edx s)
         else if nr = 172 then ret_const 0 s
         else if nr = 180 then ret_const (- ENOSYS) s
         else if nr = 191 then
           let s = (if ecx \<noteq> 0 then
                      mem_write32 (ecx + 4) 0xFFFFFFFF (mem_write32 ecx 0xFFFFFFFF s)
                    else s)
           in ret_const 0 s
         else if nr = 195 then ret_const (- 2) s
         else if nr = 196 then ret_const (- 2) s
         else if nr = 199 then ret_const 1000 s
         else if nr = 200 then ret_const 1000 s
         else if nr = 201 then ret_const 1000 s
         else if nr = 202 then ret_const 1000 s
         else if nr = 219 then ret_const 0 s
         else if nr = 224 then ret_const 1 s
         else if nr = 270 then
           bind_result (if reg s REG_EDX = 6 then sys_exit 1 s else Inr s) (\<lambda>s. ret_const 0 s)
         else if nr = 295 then ret_eax (sys_open os ecx edx esi s)
         else if nr = 300 then ret_const 0 s
         else if nr = 305 then ret_const (- 2) s
         else if nr = 311 then ret_const 0 s
         else if nr = 355 then
           bind_result
             (if ebx \<noteq> 0 then
                (case guest_to_host ebx s of
                   None \<Rightarrow> Inr s
                 | Some buf \<Rightarrow> host_memset buf 0xAB (unat ecx) s)
              else Inr s)
             (\<lambda>s. ret_const ecx s)
         else if nr = 383 then ret_const (- 38) s
         else if nr = 403 then
           let s = (if ecx \<noteq> 0 then
                      mem_write32 (ecx + 12) 0 (mem_write32 (ecx + 8) 0
                        (mem_write32 (ecx + 4) 0 (mem_write32 ecx 0 s)))
                    else s)
           in ret_const 0 s
         else ret_const (- ENOSYS) s)"

end
