(* ===== verification/Dispatch.thy ===== *)
theory Dispatch
  imports Ops_Alu Ops_Move Ops_Ctl Ops_Arith Ops_Shift Ops_Simd Ops_Rep Ops_Fpu Syscall
begin

text \<open>
  The opcode tables, the prefixes and \<open>execute_opcode\<close> of \<open>src/cpu/ops.c\<close>, and the loop
  \<open>emulate\<close> of \<open>src/cpu/cpu.c\<close>.
\<close>

section \<open>Tables\<close>

type_synonym 'w handler = "u8 \<Rightarrow> 'w machine \<Rightarrow> 'w machine result"

definition pure_op :: "(u8 \<Rightarrow> 'w machine \<Rightarrow> 'w machine) \<Rightarrow> 'w handler" where
  "pure_op f op s = Inr (f op s)"

text \<open>
  A table of 256 handlers, filled by the assignments \<open>table[i] = h\<close> for \<open>a \<le> i \<le> b\<close> in the
  order of the list.
\<close>

definition set_entry :: "(u8 \<Rightarrow> 'h) \<Rightarrow> u8 \<times> u8 \<times> 'h \<Rightarrow> u8 \<Rightarrow> 'h" where
  "set_entry t e i = (case e of (a, b, h) \<Rightarrow> if a \<le> i \<and> i \<le> b then h else t i)"

definition fill_table :: "'h \<Rightarrow> (u8 \<times> u8 \<times> 'h) list \<Rightarrow> u8 \<Rightarrow> 'h" where
  "fill_table h es = foldl set_entry (\<lambda>i. h) es"

definition op_unimplemented :: "u8 \<Rightarrow> 'a ops_state_scheme \<Rightarrow> 'a ops_state_scheme" where
  "op_unimplemented op s = halt s"

definition op_0f_unimplemented :: "u8 \<Rightarrow> 'a ops_state_scheme \<Rightarrow> 'a ops_state_scheme" where
  "op_0f_unimplemented op s = halt s"

definition entries_0f :: "(u8 \<times> u8 \<times> 'w handler) list" where
  "entries_0f =
    [(0x10, 0x10, pure_op op_movups_xmm_rm128),
     (0x11, 0x11, pure_op op_movups_rm128_xmm),
     (0x16, 0x16, pure_op op_movhps_xmm_m64),
     (0x17, 0x17, pure_op op_movhps_m64_xmm),
     (0x40, 0x4F, pure_op op_cmovcc),
     (0x60, 0x60, pure_op op_punpcklbw),
     (0x61, 0x61, pure_op op_punpcklwd),
     (0x62, 0x62, pure_op op_punpckldq),
     (0x6C, 0x6C, pure_op op_punpcklqdq),
     (0x6D, 0x6D, pure_op op_punpckhqdq),
     (0x6E, 0x6E, pure_op op_movd_mm_rm32),
     (0x6F, 0x6F, pure_op op_movq_mm_rm64),
     (0x70, 0x70, pure_op op_pshufw),
     (0x74, 0x74, pure_op op_pcmpeqb),
     (0x7E, 0x7E, pure_op op_movd_rm32_mm),
     (0x7F, 0x7F, pure_op op_movq_rm64_mm2),
     (0x80, 0x8F, pure_op op_jcc_near),
     (0x90, 0x9F, pure_op op_setcc),
     (0xA2, 0xA2, pure_op op_cpuid),
     (0xA4, 0xA4, pure_op op_shld_rm32_r32_imm8),
     (0xAF, 0xAF, op_imul_r32_rm32),
     (0xB1, 0xB1, pure_op op_cmpxchg_rm32_r32),
     (0xB6, 0xB6, pure_op op_movzx_r32_rm8),
     (0xB7, 0xB7, pure_op op_movzx_r32_rm16),
     (0xBE, 0xBE, pure_op op_movsx_r32_rm8),
     (0xBF, 0xBF, pure_op op_movsx_r32_rm16),
     (0xD6, 0xD6, pure_op op_movq_rm64_mm),
     (0xD7, 0xD7, pure_op op_pmovmskb),
     (0xEF, 0xEF, pure_op op_pxor_mm_mm)]"

definition opcode_table_0f :: "u8 \<Rightarrow> 'w handler" where
  "opcode_table_0f = fill_table (pure_op op_0f_unimplemented) entries_0f"

section \<open>Prefixes and interrupts\<close>

text \<open>
  A prefix fetches the next opcode and calls \<open>execute_opcode\<close>, which is the argument \<open>exec\<close>.
\<close>

definition op_prefix_0f :: "'w handler" where
  "op_prefix_0f op s = (let (op2, s) = fetch8 s in opcode_table_0f op2 op2 s)"

definition op_prefix_cs :: "'w handler \<Rightarrow> 'w handler" where
  "op_prefix_cs exec op s =
     (let (nxt, s) = fetch8 s
      in bind_result (exec nxt s) (\<lambda>s. Inr (add_cycles 1 s)))"

definition op_prefix_gs :: "'w handler \<Rightarrow> 'w handler" where
  "op_prefix_gs exec op s =
     (let s = s\<lparr>g_seg_override := g_gs_base s\<rparr>;
          (nxt, s) = fetch8 s
      in bind_result (exec nxt s) (\<lambda>s. Inr (add_cycles 1 (s\<lparr>g_seg_override := 0\<rparr>))))"

definition op_prefix_66 :: "'w handler \<Rightarrow> 'w handler" where
  "op_prefix_66 exec op s =
     (let s = s\<lparr>g_operand_size_16 := True\<rparr>;
          (nxt, s) = fetch8 s
      in bind_result (exec nxt s) (\<lambda>s. Inr (s\<lparr>g_operand_size_16 := False\<rparr>)))"

definition op_prefix_67 :: "'w handler \<Rightarrow> 'w handler" where
  "op_prefix_67 exec op s =
     (let (nxt, s) = fetch8 s
      in bind_result (exec nxt s) (\<lambda>s. Inr (add_cycles 1 s)))"

definition op_prefix_lock :: "'w handler \<Rightarrow> 'w handler" where
  "op_prefix_lock exec op s =
     (let (nxt, s) = fetch8 s
      in bind_result (exec nxt s) (\<lambda>s. Inr (add_cycles 1 s)))"

definition op_int :: "'w host \<Rightarrow> 'w handler" where
  "op_int os op s =
     (let (vector, s) = fetch8 s
      in bind_result
           (if vector = 0x80 then dispatch_syscall os s else Inr (halt s))
           (\<lambda>s. Inr (add_cycles 50 s)))"

definition opcode_entries ::
    "fp_ops \<Rightarrow> 'w host \<Rightarrow> 'w handler \<Rightarrow> (u8 \<times> u8 \<times> 'w handler) list" where
  "opcode_entries fp os exec =
    [(0x0F, 0x0F, op_prefix_0f),
     (0x00, 0x00, pure_op op_add_rm8_r8),
     (0x01, 0x01, pure_op op_add_rm32_r32),
     (0x02, 0x02, pure_op op_add_r8_rm8),
     (0x03, 0x03, pure_op op_add_r32_rm32),
     (0x05, 0x05, pure_op op_add_eax_imm32),
     (0x06, 0x06, pure_op op_push_sreg),
     (0x07, 0x07, pure_op op_pop_sreg),
     (0x09, 0x09, pure_op op_or_rm32_r32),
     (0x10, 0x10, pure_op op_adc_rm8_r8),
     (0x12, 0x12, pure_op op_adc_r8_rm8),
     (0x0B, 0x0B, pure_op op_or_r32_rm32),
     (0x0C, 0x0C, pure_op op_or_al_imm8),
     (0x0D, 0x0D, pure_op op_or_eax_imm32),
     (0x11, 0x11, pure_op op_adc_rm32_r32),
     (0x13, 0x13, pure_op op_adc_r32_rm32),
     (0x16, 0x16, pure_op op_push_sreg),
     (0x17, 0x17, pure_op op_pop_sreg),
     (0x19, 0x19, pure_op op_sbb_rm32_r32),
     (0x1B, 0x1B, pure_op op_sbb_r32_rm32),
     (0x1E, 0x1E, pure_op op_push_sreg),
     (0x1F, 0x1F, pure_op op_pop_sreg),
     (0x20, 0x20, pure_op op_and_rm8_r8),
     (0x21, 0x21, pure_op op_and_rm32_r32),
     (0x22, 0x22, pure_op op_and_r8_rm8),
     (0x23, 0x23, pure_op op_and_r32_rm32),
     (0x24, 0x24, pure_op op_and_al_imm8),
     (0x25, 0x25, pure_op op_and_eax_imm32),
     (0x26, 0x26, op_prefix_cs exec),
     (0x29, 0x29, pure_op op_sub_rm32_r32),
     (0x2B, 0x2B, pure_op op_sub_r32_rm32),
     (0x2D, 0x2D, pure_op op_sub_eax_imm32),
     (0x2E, 0x2E, op_prefix_cs exec),
     (0x30, 0x30, pure_op op_xor_rm8_r8),
     (0x31, 0x31, pure_op op_xor_rm32_r32),
     (0x33, 0x33, pure_op op_xor_r32_rm32),
     (0x34, 0x34, pure_op op_xor_al_imm8),
     (0x36, 0x36, op_prefix_cs exec),
     (0x38, 0x38, pure_op op_cmp_rm8_r8),
     (0x39, 0x39, pure_op op_cmp_rm32_r32),
     (0x3A, 0x3A, pure_op op_cmp_r8_rm8),
     (0x3B, 0x3B, pure_op op_cmp_r32_rm32),
     (0x3C, 0x3C, pure_op op_cmp_al_imm8),
     (0x3D, 0x3D, pure_op op_cmp_eax_imm32),
     (0x3E, 0x3E, op_prefix_cs exec),
     (0x40, 0x47, pure_op op_inc_r32),
     (0x48, 0x4F, pure_op op_dec_r32),
     (0x50, 0x57, pure_op op_push_r32),
     (0x58, 0x5F, pure_op op_pop_r32),
     (0x64, 0x64, op_prefix_cs exec),
     (0x65, 0x65, op_prefix_gs exec),
     (0x66, 0x66, op_prefix_66 exec),
     (0x67, 0x67, op_prefix_67 exec),
     (0x68, 0x68, pure_op op_push_imm32),
     (0x69, 0x69, op_imul_r32_rm32_imm32),
     (0x6A, 0x6A, pure_op op_push_imm8),
     (0x6B, 0x6B, op_imul_r32_rm32_imm8),
     (0x70, 0x7F, pure_op op_jcc_short),
     (0x80, 0x80, pure_op op_80_group),
     (0x81, 0x81, pure_op op_81),
     (0x83, 0x83, pure_op op_83),
     (0x84, 0x84, pure_op op_test_rm8_r8),
     (0x85, 0x85, pure_op op_test_rm32_r32),
     (0x87, 0x87, pure_op op_xchg_rm32_r32),
     (0x88, 0x88, pure_op op_mov_rm8_r8),
     (0x89, 0x89, pure_op op_mov_rm32_r32),
     (0x8A, 0x8A, pure_op op_mov_r8_rm8),
     (0x8B, 0x8B, pure_op op_mov_r32_rm32),
     (0x8D, 0x8D, pure_op op_lea_r32_m),
     (0x8E, 0x8E, pure_op op_mov_sreg_rm16),
     (0x90, 0x90, pure_op op_nop),
     (0x91, 0x97, pure_op op_xchg_eax_r32),
     (0x99, 0x99, pure_op op_cdq),
     (0xA1, 0xA1, pure_op op_mov_eax_mem),
     (0xA2, 0xA2, pure_op op_mov_mem_al),
     (0xA3, 0xA3, pure_op op_mov_mem_eax),
     (0xA4, 0xA4, pure_op op_movsb),
     (0xA5, 0xA5, pure_op op_movsd),
     (0xA6, 0xA6, pure_op op_cmpsb),
     (0xA8, 0xA8, pure_op op_test_al_imm8),
     (0xA9, 0xA9, pure_op op_test_eax_imm32),
     (0xAA, 0xAA, pure_op op_stosb),
     (0xAB, 0xAB, pure_op op_stosd),
     (0xAE, 0xAE, pure_op op_scasb),
     (0xB8, 0xBF, pure_op op_mov_r32_imm32),
     (0xC0, 0xC0, op_c0_group),
     (0xC1, 0xC1, op_c1_group),
     (0xC2, 0xC2, pure_op op_ret_imm16),
     (0xC3, 0xC3, pure_op op_ret),
     (0xC6, 0xC6, pure_op op_mov_rm8_imm8),
     (0xC7, 0xC7, pure_op op_mov_rm32_imm32),
     (0xC9, 0xC9, pure_op op_leave),
     (0xCD, 0xCD, op_int os),
     (0xD0, 0xD0, pure_op op_d0_group),
     (0xD1, 0xD1, pure_op op_d1_group),
     (0xD2, 0xD2, op_d2_group),
     (0xD3, 0xD3, op_d3_group),
     (0xD9, 0xD9, op_d9 fp),
     (0xDB, 0xDB, op_db fp),
     (0xDD, 0xDD, pure_op op_dd),
     (0xDF, 0xDF, op_df fp),
     (0xE3, 0xE3, pure_op op_jecxz),
     (0xE8, 0xE8, pure_op op_call_rel32),
     (0xE9, 0xE9, pure_op op_jmp_near),
     (0xEB, 0xEB, pure_op op_jmp_short),
     (0xF0, 0xF0, op_prefix_lock exec),
     (0xF2, 0xF2, pure_op op_repne),
     (0xF3, 0xF3, pure_op op_rep),
     (0xF4, 0xF4, pure_op op_hlt),
     (0xF6, 0xF6, pure_op op_f6_group),
     (0xF7, 0xF7, op_f7_group),
     (0xFA, 0xFA, pure_op op_cli),
     (0xFB, 0xFB, pure_op op_sti),
     (0xFC, 0xFC, pure_op op_cld),
     (0xFF, 0xFF, pure_op op_ff_group)]"

definition opcode_table :: "fp_ops \<Rightarrow> 'w host \<Rightarrow> 'w handler \<Rightarrow> u8 \<Rightarrow> 'w handler" where
  "opcode_table fp os exec = fill_table (pure_op op_unimplemented) (opcode_entries fp os exec)"

section \<open>Execution\<close>

text \<open>
  \<open>execute_opcode\<close> and the prefixes call each other once per prefix byte. The first argument
  bounds the depth of these calls.
\<close>

primrec execute_opcode :: "nat \<Rightarrow> fp_ops \<Rightarrow> 'w host \<Rightarrow> 'w handler" where
  "execute_opcode 0 fp os op s = Inl OutOfFuel"
| "execute_opcode (Suc n) fp os op s =
     opcode_table fp os (\<lambda>op s. execute_opcode n fp os op s) op op s"

text \<open>
  One round of \<open>emulate\<close>. A prefix byte is a byte of guest memory other than 0, and memory
  reads as 0 outside the block, so \<open>g_size s + 2\<close> calls are enough.
\<close>

definition emulate_step :: "fp_ops \<Rightarrow> 'w host \<Rightarrow> 'w machine \<Rightarrow> 'w machine result" where
  "emulate_step fp os s =
     (let s = s\<lparr>g_last_eip := eip s\<rparr>;
          opcode = mem_read8 (eip s) s;
          s = s\<lparr>eip := eip s + 1\<rparr>
      in execute_opcode (g_size s + 2) fp os opcode s)"

partial_function (option) emulate ::
    "fp_ops \<Rightarrow> 'w host \<Rightarrow> 'w machine \<Rightarrow> 'w machine result option" where
  "emulate fp os s =
     (if halted s then Some (Inr s)
      else case emulate_step fp os s of
             Inl e \<Rightarrow> Some (Inl e)
           | Inr s' \<Rightarrow> emulate fp os s')"

end
