(* ===== verification/Invariant.thy ===== *)
theory Invariant
  imports Dispatch
begin

text \<open>
  Invariants of the whole machine. A predicate that every primitive update keeps is kept by
  every handler, every prefix, every system call and so by every step of \<open>emulate\<close>. The
  primitive updates are the laws of two locales, one for the processor and one for the
  operating-system state; all handlers are gone through once, inside them.
\<close>

section \<open>Results that satisfy a predicate\<close>

definition ok_res :: "('a \<Rightarrow> bool) \<Rightarrow> 'a result \<Rightarrow> bool" where
  "ok_res P r \<longleftrightarrow> (case r of Inl e \<Rightarrow> True | Inr x \<Rightarrow> P x)"

lemma ok_res_simps [simp]:
  "ok_res P (Inl e)" "ok_res P (Inr x) \<longleftrightarrow> P x"
  by (simp_all add: ok_res_def)

lemma ok_res_bind_iff:
  "ok_res P (bind_result r f) \<longleftrightarrow> (\<forall>x. r = Inr x \<longrightarrow> ok_res P (f x))"
  by (cases r) auto

lemma ok_res_bindI:
  assumes "ok_res Q r" and "\<And>x. Q x \<Longrightarrow> ok_res P (f x)"
  shows "ok_res P (bind_result r f)"
  using assms by (cases r) auto

lemma ok_res_if:
  "ok_res P x \<Longrightarrow> ok_res P y \<Longrightarrow> ok_res P (if b then x else y)"
  by simp

lemma ok_resD: "ok_res P r \<Longrightarrow> r = Inr x \<Longrightarrow> P x"
  by simp

text \<open>What all handlers of a table satisfy.\<close>

lemma fill_table_all:
  assumes "Q h" and "\<forall>(a, b, g) \<in> set es. Q g"
  shows "Q (fill_table h es i)"
proof -
  have "(\<forall>i. Q (t i)) \<Longrightarrow> \<forall>(a, b, g) \<in> set es. Q g \<Longrightarrow> Q (foldl set_entry t es i)" for t
  proof (induction es arbitrary: t)
    case (Cons e es)
    have "\<forall>i. Q (set_entry t e i)"
      using Cons.prems by (auto simp: set_entry_def split: prod.splits)
    with Cons show ?case by simp
  qed simp
  with assms show ?thesis by (simp add: fill_table_def)
qed

section \<open>The processor\<close>

locale ops_invariant =
  fixes I :: "'a ops_state_scheme \<Rightarrow> bool"
  assumes inv_size: "I s \<Longrightarrow> g_size s \<le> 2 ^ 32"
    and inv_store: "I s \<Longrightarrow> p + length bs \<le> g_size s \<Longrightarrow>
      I (s\<lparr>g_mem := store_bytes p bs (g_mem s)\<rparr>)"
    and inv_last_eip [simp]: "I s \<Longrightarrow> I (s\<lparr>g_last_eip := w\<rparr>)"
    and inv_set_reg [simp]: "I s \<Longrightarrow> I (set_reg i w s)"
    and inv_eip [simp]: "I s \<Longrightarrow> I (s\<lparr>eip := w\<rparr>)"
    and inv_set_cf [simp]: "I s \<Longrightarrow> I (set_cf c s)"
    and inv_set_pf [simp]: "I s \<Longrightarrow> I (set_pf w s)"
    and inv_set_zf [simp]: "I s \<Longrightarrow> I (set_zf w s)"
    and inv_set_sf [simp]: "I s \<Longrightarrow> I (set_sf w s)"
    and inv_set_of_add [simp]: "I s \<Longrightarrow> I (set_of_add x y w s)"
    and inv_set_of_sub [simp]: "I s \<Longrightarrow> I (set_of_sub x y w s)"
    and inv_halt [simp]: "I s \<Longrightarrow> I (halt s)"
    and inv_add_cycles [simp]: "I s \<Longrightarrow> I (add_cycles w s)"
    and inv_seg_override [simp]: "I s \<Longrightarrow> I (s\<lparr>g_seg_override := w\<rparr>)"
    and inv_operand_size [simp]: "I s \<Longrightarrow> I (s\<lparr>g_operand_size_16 := c\<rparr>)"
    and inv_gs_base [simp]: "I s \<Longrightarrow> I (s\<lparr>g_gs_base := w\<rparr>)"
    and inv_fpu_st [simp]: "I s \<Longrightarrow> I (set_fpu_st w q s)" "I s \<Longrightarrow> I (set_fpu_st0 q s)"
    and inv_fpu_top [simp]: "I s \<Longrightarrow> I (s\<lparr>fpu_top := w AND 7\<rparr>)"
    and inv_set_mm [simp]: "I s \<Longrightarrow> I (set_mm i q s)"
    and inv_set_xmm [simp]: "I s \<Longrightarrow> I (set_xmm i x2 s)"
begin

lemma inv_mem_write [simp]:
  assumes "I s"
  shows "I (mem_write8 a b s)" "I (mem_write16 a h s)" "I (mem_write32 a w s)"
proof -
  note size = inv_size [OF assms]
  show "I (mem_write8 a b s)"
    using assms size inv_store [of s "unat a" "enc8 b"]
    by (cases "unat a + 1 \<le> g_size s") (simp_all add: acc8.wr_in acc8.wr_out acc8.enc_len)
  show "I (mem_write16 a h s)"
    using assms size inv_store [of s "unat a" "enc16 h"]
    by (cases "unat a + 2 \<le> g_size s") (simp_all add: acc16.wr_in acc16.wr_out acc16.enc_len)
  show "I (mem_write32 a w s)"
    using assms size inv_store [of s "unat a" "enc32 w"]
    by (cases "unat a + 4 \<le> g_size s") (simp_all add: acc32.wr_in acc32.wr_out acc32.enc_len)
qed

lemma inv_set_reg8 [simp]: "I s \<Longrightarrow> I (set_reg8 i b s)"
  by (simp add: set_reg8_def)

lemma inv_fetch [simp]:
  "I s \<Longrightarrow> I (snd (fetch8 s))" "I s \<Longrightarrow> I (snd (fetch16 s))" "I s \<Longrightarrow> I (snd (fetch32 s))"
  by (simp_all add: fetch8_def fetch16_def fetch32_def)

lemma inv_parse_modrm [simp]: "I s \<Longrightarrow> I (snd (parse_modrm s))"
  by (simp add: parse_modrm_def Let_def split_beta)

lemma inv_resolve_rm_addr [simp]: "I s \<Longrightarrow> I (snd (resolve_rm_addr m s))"
  by (simp add: resolve_rm_addr_def Let_def)

lemma inv_read_rm [simp]:
  "I s \<Longrightarrow> I (snd (read_rm8 m s))" "I s \<Longrightarrow> I (snd (read_rm16 m s))" "I s \<Longrightarrow> I (snd (read_rm32 m s))"
  "I s \<Longrightarrow> I (snd (read_xmm_src m s))" "I s \<Longrightarrow> I (snd (read_mm64 m s))"
  by (simp_all add: read_rm8_def read_rm16_def read_rm32_def read_xmm_src_def read_mm64_def
      Let_def split_beta)

lemma inv_write_rm [simp]:
  "I s \<Longrightarrow> I (write_rm8 m b s)" "I s \<Longrightarrow> I (write_rm16 m h s)" "I s \<Longrightarrow> I (write_rm32 m w s)"
  "I s \<Longrightarrow> I (mem_write64 a q s)"
  by (simp_all add: write_rm8_def write_rm16_def write_rm32_def mem_write64_def Let_def split_beta)

lemma inv_write_xmm [simp]:
  "I s \<Longrightarrow> I (write_xmm_dst m x2 s)" "I s \<Longrightarrow> I (set_xmm_lo i q s)" "I s \<Longrightarrow> I (set_xmm_hi i q s)"
  using inv_set_xmm [of s]
  by (simp_all add: write_xmm_dst_def set_xmm_lo_def set_xmm_hi_def set_xmm_def Let_def split_beta)

lemma inv_fpu_move [simp]: "I s \<Longrightarrow> I (fpu_push q s)" "I s \<Longrightarrow> I (fpu_pop s)"
  by (simp_all add: fpu_push_def fpu_pop_def)

lemma inv_alu_1 [simp]:
  "I s \<Longrightarrow> I (op_add_rm8_r8 op s)" "I s \<Longrightarrow> I (op_add_rm32_r32 op s)"
  "I s \<Longrightarrow> I (op_add_r8_rm8 op s)" "I s \<Longrightarrow> I (op_add_r32_rm32 op s)"
  "I s \<Longrightarrow> I (op_add_eax_imm32 op s)" "I s \<Longrightarrow> I (op_or_rm32_r32 op s)"
  "I s \<Longrightarrow> I (op_adc_rm8_r8 op s)" "I s \<Longrightarrow> I (op_adc_r8_rm8 op s)"
  "I s \<Longrightarrow> I (op_or_r32_rm32 op s)" "I s \<Longrightarrow> I (op_or_al_imm8 op s)"
  "I s \<Longrightarrow> I (op_or_eax_imm32 op s)" "I s \<Longrightarrow> I (op_adc_rm32_r32 op s)"
  by (simp_all add: op_add_rm8_r8_def op_add_rm32_r32_def op_add_r8_rm8_def op_add_r32_rm32_def
      op_add_eax_imm32_def op_or_rm32_r32_def op_adc_rm8_r8_def op_adc_r8_rm8_def
      op_or_r32_rm32_def op_or_al_imm8_def op_or_eax_imm32_def op_adc_rm32_r32_def
      Let_def split_beta)

lemma inv_alu_2 [simp]:
  "I s \<Longrightarrow> I (op_adc_r32_rm32 op s)" "I s \<Longrightarrow> I (op_sbb_rm32_r32 op s)"
  "I s \<Longrightarrow> I (op_sbb_r32_rm32 op s)" "I s \<Longrightarrow> I (op_and_rm8_r8 op s)"
  "I s \<Longrightarrow> I (op_and_rm32_r32 op s)" "I s \<Longrightarrow> I (op_and_r8_rm8 op s)"
  "I s \<Longrightarrow> I (op_and_r32_rm32 op s)" "I s \<Longrightarrow> I (op_and_al_imm8 op s)"
  "I s \<Longrightarrow> I (op_and_eax_imm32 op s)" "I s \<Longrightarrow> I (op_sub_rm32_r32 op s)"
  "I s \<Longrightarrow> I (op_sub_r32_rm32 op s)" "I s \<Longrightarrow> I (op_sub_eax_imm32 op s)"
  by (simp_all add: op_adc_r32_rm32_def op_sbb_rm32_r32_def op_sbb_r32_rm32_def op_and_rm8_r8_def
      op_and_rm32_r32_def op_and_r8_rm8_def op_and_r32_rm32_def op_and_al_imm8_def
      op_and_eax_imm32_def op_sub_rm32_r32_def op_sub_r32_rm32_def op_sub_eax_imm32_def
      Let_def split_beta)

lemma inv_alu_3 [simp]:
  "I s \<Longrightarrow> I (op_xor_rm8_r8 op s)" "I s \<Longrightarrow> I (op_xor_rm32_r32 op s)"
  "I s \<Longrightarrow> I (op_xor_r32_rm32 op s)" "I s \<Longrightarrow> I (op_xor_al_imm8 op s)"
  "I s \<Longrightarrow> I (op_cmp_rm8_r8 op s)" "I s \<Longrightarrow> I (op_cmp_rm32_r32 op s)"
  "I s \<Longrightarrow> I (op_cmp_r8_rm8 op s)" "I s \<Longrightarrow> I (op_cmp_r32_rm32 op s)"
  "I s \<Longrightarrow> I (op_cmp_al_imm8 op s)" "I s \<Longrightarrow> I (op_cmp_eax_imm32 op s)"
  "I s \<Longrightarrow> I (op_inc_r32 op s)" "I s \<Longrightarrow> I (op_dec_r32 op s)"
  by (simp_all add: op_xor_rm8_r8_def op_xor_rm32_r32_def op_xor_r32_rm32_def op_xor_al_imm8_def
      op_cmp_rm8_r8_def op_cmp_rm32_r32_def op_cmp_r8_rm8_def op_cmp_r32_rm32_def
      op_cmp_al_imm8_def op_cmp_eax_imm32_def op_inc_r32_def op_dec_r32_def
      Let_def split_beta)

lemma inv_alu_4 [simp]:
  "I s \<Longrightarrow> I (op_80_group op s)" "I s \<Longrightarrow> I (op_81 op s)"
  "I s \<Longrightarrow> I (op_83 op s)" "I s \<Longrightarrow> I (op_test_rm8_r8 op s)"
  "I s \<Longrightarrow> I (op_test_rm32_r32 op s)" "I s \<Longrightarrow> I (op_test_al_imm8 op s)"
  "I s \<Longrightarrow> I (op_test_eax_imm32 op s)"
  by (simp_all add: op_80_group_def op_81_def op_83_def op_test_rm8_r8_def
      op_test_rm32_r32_def op_test_al_imm8_def op_test_eax_imm32_def
      Let_def split_beta)

lemma inv_move_1 [simp]:
  "I s \<Longrightarrow> I (op_push_sreg op s)" "I s \<Longrightarrow> I (op_pop_sreg op s)"
  "I s \<Longrightarrow> I (op_push_r32 op s)" "I s \<Longrightarrow> I (op_pop_r32 op s)"
  "I s \<Longrightarrow> I (op_push_imm32 op s)" "I s \<Longrightarrow> I (op_push_imm8 op s)"
  "I s \<Longrightarrow> I (op_movzx_r32_rm8 op s)" "I s \<Longrightarrow> I (op_movzx_r32_rm16 op s)"
  "I s \<Longrightarrow> I (op_movsx_r32_rm8 op s)" "I s \<Longrightarrow> I (op_movsx_r32_rm16 op s)"
  "I s \<Longrightarrow> I (op_xchg_rm32_r32 op s)" "I s \<Longrightarrow> I (op_mov_rm8_r8 op s)"
  by (simp_all add: op_push_sreg_def op_pop_sreg_def op_push_r32_def op_pop_r32_def
      op_push_imm32_def op_push_imm8_def op_movzx_r32_rm8_def op_movzx_r32_rm16_def
      op_movsx_r32_rm8_def op_movsx_r32_rm16_def op_xchg_rm32_r32_def op_mov_rm8_r8_def
      Let_def split_beta)

lemma inv_move_2 [simp]:
  "I s \<Longrightarrow> I (op_mov_rm32_r32 op s)" "I s \<Longrightarrow> I (op_mov_r8_rm8 op s)"
  "I s \<Longrightarrow> I (op_mov_r32_rm32 op s)" "I s \<Longrightarrow> I (op_lea_r32_m op s)"
  "I s \<Longrightarrow> I (op_mov_sreg_rm16 op s)" "I s \<Longrightarrow> I (op_nop op s)"
  "I s \<Longrightarrow> I (op_xchg_eax_r32 op s)" "I s \<Longrightarrow> I (op_cdq op s)"
  "I s \<Longrightarrow> I (op_mov_eax_mem op s)" "I s \<Longrightarrow> I (op_mov_mem_al op s)"
  "I s \<Longrightarrow> I (op_mov_mem_eax op s)" "I s \<Longrightarrow> I (op_movsb op s)"
  by (simp_all add: op_mov_rm32_r32_def op_mov_r8_rm8_def op_mov_r32_rm32_def op_lea_r32_m_def
      op_mov_sreg_rm16_def op_nop_def op_xchg_eax_r32_def op_cdq_def
      op_mov_eax_mem_def op_mov_mem_al_def op_mov_mem_eax_def op_movsb_def
      Let_def split_beta)

lemma inv_move_3 [simp]:
  "I s \<Longrightarrow> I (op_movsd op s)" "I s \<Longrightarrow> I (op_cmpsb op s)"
  "I s \<Longrightarrow> I (op_stosb op s)" "I s \<Longrightarrow> I (op_stosd op s)"
  "I s \<Longrightarrow> I (op_scasb op s)" "I s \<Longrightarrow> I (op_mov_r32_imm32 op s)"
  "I s \<Longrightarrow> I (op_mov_rm8_imm8 op s)" "I s \<Longrightarrow> I (op_mov_rm32_imm32 op s)"
  "I s \<Longrightarrow> I (op_cli op s)" "I s \<Longrightarrow> I (op_sti op s)"
  "I s \<Longrightarrow> I (op_cld op s)" "I s \<Longrightarrow> I (op_hlt op s)"
  by (simp_all add: op_movsd_def op_cmpsb_def op_stosb_def op_stosd_def
      op_scasb_def op_mov_r32_imm32_def op_mov_rm8_imm8_def op_mov_rm32_imm32_def
      op_cli_def op_sti_def op_cld_def op_hlt_def
      Let_def split_beta)

lemma inv_move_4 [simp]:
  "I s \<Longrightarrow> I (op_cpuid op s)"
  by (simp_all add: op_cpuid_def
      Let_def split_beta)

lemma inv_ctl [simp]:
  "I s \<Longrightarrow> I (op_cmovcc op s)" "I s \<Longrightarrow> I (op_jcc_near op s)"
  "I s \<Longrightarrow> I (op_setcc op s)" "I s \<Longrightarrow> I (op_jcc_short op s)"
  "I s \<Longrightarrow> I (op_ret_imm16 op s)" "I s \<Longrightarrow> I (op_ret op s)"
  "I s \<Longrightarrow> I (op_leave op s)" "I s \<Longrightarrow> I (op_jecxz op s)"
  "I s \<Longrightarrow> I (op_call_rel32 op s)" "I s \<Longrightarrow> I (op_jmp_near op s)"
  "I s \<Longrightarrow> I (op_jmp_short op s)" "I s \<Longrightarrow> I (op_ff_group op s)"
  by (simp_all add: op_cmovcc_def op_jcc_near_def op_setcc_def op_jcc_short_def
      op_ret_imm16_def op_ret_def op_leave_def op_jecxz_def
      op_call_rel32_def op_jmp_near_def op_jmp_short_def op_ff_group_def
      Let_def split_beta split: option.split)

lemma inv_simd_1 [simp]:
  "I s \<Longrightarrow> I (op_movups_xmm_rm128 op s)" "I s \<Longrightarrow> I (op_movups_rm128_xmm op s)"
  "I s \<Longrightarrow> I (op_movhps_xmm_m64 op s)" "I s \<Longrightarrow> I (op_movhps_m64_xmm op s)"
  "I s \<Longrightarrow> I (op_punpcklbw op s)" "I s \<Longrightarrow> I (op_punpcklwd op s)"
  "I s \<Longrightarrow> I (op_punpckldq op s)" "I s \<Longrightarrow> I (op_punpcklqdq op s)"
  "I s \<Longrightarrow> I (op_punpckhqdq op s)" "I s \<Longrightarrow> I (op_movd_mm_rm32 op s)"
  "I s \<Longrightarrow> I (op_movq_mm_rm64 op s)" "I s \<Longrightarrow> I (op_pshufw op s)"
  by (simp_all add: op_movups_xmm_rm128_def op_movups_rm128_xmm_def op_movhps_xmm_m64_def op_movhps_m64_xmm_def
      op_punpcklbw_def op_punpcklwd_def op_punpckldq_def op_punpcklqdq_def
      op_punpckhqdq_def op_movd_mm_rm32_def op_movq_mm_rm64_def op_pshufw_def
      Let_def split_beta)

lemma inv_simd_2 [simp]:
  "I s \<Longrightarrow> I (op_pcmpeqb op s)" "I s \<Longrightarrow> I (op_movd_rm32_mm op s)"
  "I s \<Longrightarrow> I (op_movq_rm64_mm2 op s)" "I s \<Longrightarrow> I (op_movq_rm64_mm op s)"
  "I s \<Longrightarrow> I (op_pmovmskb op s)" "I s \<Longrightarrow> I (op_pxor_mm_mm op s)"
  by (simp_all add: op_pcmpeqb_def op_movd_rm32_mm_def op_movq_rm64_mm2_def op_movq_rm64_mm_def
      op_pmovmskb_def op_pxor_mm_mm_def
      Let_def split_beta)

lemma inv_arith [simp]:
  "I s \<Longrightarrow> I (op_shld_rm32_r32_imm8 op s)" "I s \<Longrightarrow> I (op_cmpxchg_rm32_r32 op s)"
  "I s \<Longrightarrow> I (op_f6_group op s)"
  by (simp_all add: op_shld_rm32_r32_imm8_def op_cmpxchg_rm32_r32_def op_f6_group_def
      Let_def split_beta)

lemma inv_imul [simp]:
  "I s \<Longrightarrow> ok_res I (op_imul_r32_rm32 op s)" "I s \<Longrightarrow> ok_res I (op_imul_r32_rm32_imm32 op s)"
  "I s \<Longrightarrow> ok_res I (op_imul_r32_rm32_imm8 op s)"
  by (simp_all add: op_imul_r32_rm32_def op_imul_r32_rm32_imm32_def op_imul_r32_rm32_imm8_def
      imul_finish_def Let_def split_beta)

lemma inv_f7_group [simp]: "I s \<Longrightarrow> ok_res I (op_f7_group op s)"
  by (simp add: op_f7_group_def Let_def split_beta)

lemma inv_shift_group [simp]:
  "I s \<Longrightarrow> ok_res I (shift_group8 m n s)" "I s \<Longrightarrow> ok_res I (shift_group32 m n s)"
  by (simp_all add: shift_group8_def shift_group32_def Let_def split_beta)

lemma inv_shift [simp]:
  "I s \<Longrightarrow> ok_res I (op_c0_group op s)" "I s \<Longrightarrow> ok_res I (op_c1_group op s)"
  "I s \<Longrightarrow> ok_res I (op_d2_group op s)" "I s \<Longrightarrow> ok_res I (op_d3_group op s)"
  "I s \<Longrightarrow> I (op_d0_group op s)" "I s \<Longrightarrow> I (op_d1_group op s)"
  by (simp_all add: op_c0_group_def op_c1_group_def op_d2_group_def op_d3_group_def
      op_d0_group_def op_d1_group_def Let_def split_beta)

lemma inv_rep_bodies [simp]:
  "I s \<Longrightarrow> I (rep_movsb_body s)" "I s \<Longrightarrow> I (rep_movsd_body s)" "I s \<Longrightarrow> I (rep_stosb_body s)"
  "I s \<Longrightarrow> I (rep_stosd_body s)" "I s \<Longrightarrow> I (repne_scasb_body s)"
  by (simp_all add: rep_movsb_body_def rep_movsd_body_def rep_stosb_body_def rep_stosd_body_def
      repne_scasb_body_def Let_def)

lemma inv_rep_loop:
  assumes "\<And>s. I s \<Longrightarrow> I (body s)"
  shows "I s \<Longrightarrow> I (rep_loop n body s)"
  by (induction n arbitrary: s) (simp_all add: assms)

lemma inv_repne_scasb_loop [simp]: "I s \<Longrightarrow> I (repne_scasb_loop n s)"
  by (induction n arbitrary: s) (simp_all add: Let_def)

lemma inv_rep [simp]: "I s \<Longrightarrow> I (op_repne op s)" "I s \<Longrightarrow> I (op_rep op s)"
  by (simp_all add: op_repne_def op_rep_def inv_rep_loop Let_def split_beta)

lemma inv_fpu [simp]:
  "I s \<Longrightarrow> ok_res I (op_d9_reg fp m s)" "I s \<Longrightarrow> I (op_dd op s)"
  by (simp_all add: op_d9_reg_def op_dd_def ok_res_bind_iff Let_def split_beta)

lemma inv_fpu_res [simp]:
  "I s \<Longrightarrow> ok_res I (op_d9 fp op s)" "I s \<Longrightarrow> ok_res I (op_db fp op s)"
  "I s \<Longrightarrow> ok_res I (op_df fp op s)"
  by (simp_all add: op_d9_def op_db_def op_df_def ok_res_bind_iff Let_def split_beta)

lemma inv_unimplemented [simp]:
  "I s \<Longrightarrow> I (op_unimplemented op s)" "I s \<Longrightarrow> I (op_0f_unimplemented op s)"
  by (simp_all add: op_unimplemented_def op_0f_unimplemented_def)

end

section \<open>The operating-system state and the whole machine\<close>

text \<open>
  Descriptors from 3 on may change, a stored signal action has the size of the struct, and the
  break only moves up and stays inside the block.
\<close>

locale machine_invariant = ops_invariant I
  for I :: "'w machine \<Rightarrow> bool" +
  assumes inv_world [simp]: "I s \<Longrightarrow> I (s\<lparr>world := v\<rparr>)"
    and inv_fd_table [simp]: "I s \<Longrightarrow> 3 \<le> i \<Longrightarrow> I (s\<lparr>fd_table := (fd_table s)[i := f]\<rparr>)"
    and inv_mmap_ptr [simp]: "I s \<Longrightarrow> I (s\<lparr>g_mmap_ptr := w\<rparr>)"
    and inv_sigactions [simp]: "I s \<Longrightarrow> length bs = 20 \<Longrightarrow>
      I (s\<lparr>g_sigactions := (g_sigactions s)[i := bs]\<rparr>)"
    and inv_brk [simp]: "I s \<Longrightarrow> g_brk s \<le> w \<Longrightarrow> unat w < g_size s \<Longrightarrow> I (s\<lparr>g_brk := w\<rparr>)"
begin

abbreviation ok_sys :: "(u32 \<times> 'w machine) result \<Rightarrow> bool" where
  "ok_sys \<equiv> ok_res (\<lambda>(v, s). I s)"

lemma inv_host_store [simp]: "I s \<Longrightarrow> ok_res I (host_store p bs s)"
  using inv_store [of s p bs]
  by (cases "bs = []") (simp_all add: host_store_def store_bytes_def [where bs = "[]"])

lemma inv_world_fd [simp]:
  "I s \<Longrightarrow> 3 \<le> i \<Longrightarrow> I (s\<lparr>world := v, fd_table := (fd_table s)[i := f]\<rparr>)"
  using inv_fd_table [of "s\<lparr>world := v\<rparr>" i f] by simp

lemma inv_host_memset [simp]: "I s \<Longrightarrow> ok_res I (host_memset p b n s)"
  using inv_host_store [of s p "replicate n b"] by (simp add: host_memset_store)

lemma inv_alloc_fd: "alloc_fd s = Some i \<Longrightarrow> 3 \<le> i"
  by (auto simp: alloc_fd_def dest: alloc_fd_from_ge)

lemma inv_io [simp]:
  "I s \<Longrightarrow> ok_sys (sys_write os fd a n s)" "I s \<Longrightarrow> ok_sys (sys_close os fd s)"
  "I s \<Longrightarrow> ok_sys (sys_lseek os fd a n s)"
  by (auto simp: sys_write_def sys_close_def sys_lseek_def ok_res_bind_iff Let_def sint_above_2
      split: option.split prod.split)

lemma inv_sys_read [simp]: "I s \<Longrightarrow> ok_sys (sys_read os fd a n s)"
  by (auto simp: sys_read_def split: option.split prod.split sum.split
      intro!: ok_res_bindI [where Q = I])

lemma inv_sys_open [simp]: "I s \<Longrightarrow> ok_sys (sys_open os a n w s)"
  by (auto simp: sys_open_def ok_res_bind_iff Let_def dest: inv_alloc_fd
      split: option.split prod.split sum.split)

lemma inv_mmap2 [simp]: "I s \<Longrightarrow> ok_sys (sys_mmap2 a n p fl fd off s)"
  by (auto simp: sys_mmap2_def mmap2_map_def Let_def split: option.split
      intro!: ok_res_bindI [where Q = I])

lemma inv_store_members [simp]: "I s \<Longrightarrow> ok_res I (store_members p ms s)"
  by (induction ms arbitrary: s) (auto intro!: ok_res_bindI [where Q = I])

lemma inv_sys_fstat64 [simp]: "I s \<Longrightarrow> ok_sys (sys_fstat64 os fd a s)"
  by (auto simp: sys_fstat64_def fstat_win32_def fstat_posix_def Let_def
      split: option.split prod.split sum.split host.split
      intro!: ok_res_bindI [where Q = I] simp del: store_members.simps)

lemma inv_sys_rt_sigaction [simp]: "I s \<Longrightarrow> ok_sys (sys_rt_sigaction sig a b n s)"
  by (auto simp: sys_rt_sigaction_def ok_res_bind_iff bind_result_Inr_iff host_load_def
      load_bytes_def split: option.splits if_splits dest: ok_resD [OF inv_host_store])

lemma inv_sys_rt_sigprocmask [simp]: "I s \<Longrightarrow> ok_sys (sys_rt_sigprocmask h a b n s)"
  by (auto simp: sys_rt_sigprocmask_def split: option.split intro!: ok_res_bindI [where Q = I])

lemma inv_tid_address [simp]: "I s \<Longrightarrow> ok_sys (sys_set_tid_address a s)"
  by (auto simp: sys_set_tid_address_def split: option.split intro!: ok_res_bindI [where Q = I])

lemma inv_sys_brk [simp]: "I s \<Longrightarrow> I (snd (sys_brk a s))"
  by (simp add: sys_brk_def Let_def mem_size_def)

lemma inv_writev_loop [simp]: "I s \<Longrightarrow> ok_sys (writev_loop os fd a n i t s)"
proof (induction n arbitrary: i t s)
  case (Suc n)
  then show ?case
    by (auto simp: ok_res_bind_iff split: option.split dest: ok_resD [OF inv_io(1)])
qed simp

lemma inv_sys_writev [simp]: "I s \<Longrightarrow> ok_sys (sys_writev os fd a n s)"
  by (simp add: sys_writev_def)

lemma inv_set_thread_area [simp]: "I s \<Longrightarrow> ok_sys (sys_set_thread_area a s)"
  by (auto simp: sys_set_thread_area_def set_gs_base_def ok_res_bind_iff Let_def split: option.split
      dest: ok_resD [OF inv_host_store])

lemma inv_ret [simp]:
  "I s \<Longrightarrow> ok_res I (ret_const w s)" "ok_sys r \<Longrightarrow> ok_res I (ret_eax r)"
  by (auto simp: ret_const_def ret_eax_def intro!: ok_res_bindI [where Q = "\<lambda>(v, s). I s"])

lemma inv_uname [simp]: "I s \<Longrightarrow> ok_res I (uname_case a s)"
  by (auto simp: uname_case_def strncpy_def split: option.split intro!: ok_res_bindI [where Q = I])

lemma inv_llseek [simp]: "I s \<Longrightarrow> ok_res I (llseek_case os fd h n a w s)"
  by (auto simp: llseek_case_def Let_def intro!: ok_res_bindI [where Q = "\<lambda>(v, s). I s"])

lemma inv_dispatch_syscall [simp]:
  assumes "I s"
  shows "ok_res I (dispatch_syscall os s)"
proof -
  have tgkill: "ok_res I (bind_result (if b then sys_exit w s else Inr s) (\<lambda>s. ret_const v s))" for b v w
    using assms by (simp add: sys_exit_def)
  have random: "ok_res I (bind_result (if b then case guest_to_host a s of None \<Rightarrow> Inr s
      | Some q \<Rightarrow> host_memset q c n s else Inr s) (\<lambda>s. ret_const v s))" for b a c n v
    using assms by (auto split: option.split intro!: ok_res_bindI [where Q = I])
  show ?thesis
    unfolding dispatch_syscall_def Let_def
    using assms inv_sys_brk [OF assms]
    by (intro ok_res_if tgkill random)
      (simp_all add: sys_exit_def sys_munmap_def sys_mprotect_def split_beta)
qed

abbreviation ok_handler :: "'w handler \<Rightarrow> bool" where
  "ok_handler h \<equiv> \<forall>op s. I s \<longrightarrow> ok_res I (h op s)"

lemma inv_op_int: "ok_handler (op_int os)"
  by (auto simp: op_int_def split_beta intro!: ok_res_bindI [where Q = I])

lemma inv_opcode_table_0f: "ok_handler (opcode_table_0f i)"
  unfolding opcode_table_0f_def
  by (rule fill_table_all [where Q = "\<lambda>h. ok_handler h"]) (simp_all add: entries_0f_def pure_op_def)

lemma inv_prefix:
  assumes "ok_handler ex"
  shows "ok_handler (op_prefix_cs ex)" "ok_handler (op_prefix_gs ex)" "ok_handler (op_prefix_66 ex)"
    "ok_handler (op_prefix_67 ex)" "ok_handler (op_prefix_lock ex)"
  using assms
  by (auto simp: op_prefix_cs_def op_prefix_gs_def op_prefix_66_def op_prefix_67_def
      op_prefix_lock_def Let_def split_beta intro!: ok_res_bindI [where Q = I])

lemma inv_prefix_0f: "ok_handler op_prefix_0f"
  using inv_opcode_table_0f by (auto simp: op_prefix_0f_def split_beta)

lemma inv_opcode_table:
  assumes "ok_handler ex"
  shows "ok_handler (opcode_table fp os ex i)"
  unfolding opcode_table_def
  by (rule fill_table_all [where Q = "\<lambda>h. ok_handler h"])
    (simp_all add: opcode_entries_def pure_op_def inv_prefix_0f inv_prefix [OF assms] inv_op_int)

lemma inv_execute_opcode: "I s \<Longrightarrow> ok_res I (execute_opcode n fp os op s)"
proof (induction n arbitrary: op s)
  case (Suc n)
  then have "ok_handler (\<lambda>op s. execute_opcode n fp os op s)" by blast
  from inv_opcode_table [OF this] Suc.prems show ?case by simp
qed simp

lemma inv_emulate_step: "I s \<Longrightarrow> ok_res I (emulate_step fp os s)"
  by (simp add: emulate_step_def inv_execute_opcode Let_def del: execute_opcode.simps)

end

end
