(* ===== verification/Reach.thy ===== *)
theory Reach
  imports Invariant
begin

text \<open>
  Runs of the machine: the depth of the prefix recursion, the steps of \<open>emulate\<close> as a
  relation, how \<open>emulate\<close> relates to it, and what an invariant says of every reachable state.
\<close>

section \<open>The bound on the recursion is enough\<close>

definition terminates :: "'a result \<Rightarrow> bool" where
  "terminates r \<longleftrightarrow> r \<noteq> Inl OutOfFuel"

lemma terminates_simps [simp]:
  "terminates (Inr x)" "terminates (Inl (UB u))" "terminates (Inl (Exit w))"
  by (simp_all add: terminates_def)

lemma terminates_bind:
  "terminates r \<Longrightarrow> (\<And>x. r = Inr x \<Longrightarrow> terminates (f x)) \<Longrightarrow> terminates (bind_result r f)"
  by (cases r) (auto simp: terminates_def)

lemma terminates_if: "terminates x \<Longrightarrow> terminates y \<Longrightarrow> terminates (if b then x else y)"
  by simp

lemma terminates_arith:
  "terminates (op_imul_r32_rm32 op s)" "terminates (op_imul_r32_rm32_imm32 op s)"
  "terminates (op_imul_r32_rm32_imm8 op s)" "terminates (op_f7_group op s)"
  by (simp_all add: op_imul_r32_rm32_def op_imul_r32_rm32_imm32_def op_imul_r32_rm32_imm8_def
      op_f7_group_def imul_finish_def Let_def split_beta)

lemma terminates_shift:
  "terminates (op_c0_group op s)" "terminates (op_c1_group op s)"
  "terminates (op_d2_group op s)" "terminates (op_d3_group op s)"
  by (simp_all add: op_c0_group_def op_c1_group_def op_d2_group_def op_d3_group_def
      shift_group8_def shift_group32_def Let_def split_beta)

lemma terminates_f_to_sint: "terminates (f_to_sint fp n x)"
  by (simp add: f_to_sint_def split: option.split)

lemma terminates_fpu:
  "terminates (op_d9 fp op s)" "terminates (op_db fp op s)" "terminates (op_df fp op s)"
  by (auto simp: op_d9_def op_d9_reg_def op_db_def op_df_def Let_def split_beta
      intro!: terminates_bind terminates_f_to_sint)

lemma terminates_host:
  "terminates (host_store p bs s)" "terminates (host_memset p b n s)" "terminates (host_load p n s)"
  "terminates (host_cstring p s)" "terminates (strncpy p str n s)"
  by (simp_all add: host_store_def host_memset_def host_load_def host_cstring_def strncpy_def Let_def)

lemma terminates_file:
  "terminates (sys_write os fd a n s)" "terminates (sys_read os fd a n s)"
  "terminates (sys_close os fd s)" "terminates (sys_lseek os fd a n s)"
  by (auto simp: sys_write_def sys_read_def sys_close_def sys_lseek_def Let_def
      split: option.split prod.split sum.split intro!: terminates_bind terminates_host)

lemma terminates_open: "terminates (sys_open os a n w s)"
  by (auto simp: sys_open_def Let_def split: option.split prod.split sum.split
      intro!: terminates_bind terminates_host)

lemma terminates_store_members: "terminates (store_members p ms s)"
  by (induction ms arbitrary: s) (auto intro!: terminates_bind terminates_host)

lemma terminates_fstat64: "terminates (sys_fstat64 os fd a s)"
  by (auto simp: sys_fstat64_def fstat_win32_def fstat_posix_def Let_def
      split: option.split prod.split sum.split host.split
      intro!: terminates_bind terminates_host terminates_store_members)

lemma terminates_misc:
  "terminates (sys_mmap2 a n p fl fd off s)" "terminates (sys_rt_sigaction sig a b n s)"
  "terminates (sys_rt_sigprocmask h a b n s)" "terminates (sys_set_tid_address a s)"
  "terminates (sys_set_thread_area a s)" "terminates (uname_case a s)"
  by (auto simp: sys_mmap2_def mmap2_map_def sys_rt_sigaction_def sys_rt_sigprocmask_def
      sys_set_tid_address_def sys_set_thread_area_def uname_case_def ret_const_def Let_def
      split: option.split intro!: terminates_bind terminates_host)

lemma terminates_writev_loop: "terminates (writev_loop os fd a n i t s)"
  by (induction n arbitrary: i t s)
    (auto split: option.split intro!: terminates_bind terminates_host terminates_file)

lemma terminates_ret: "terminates (ret_const v s)" "terminates r \<Longrightarrow> terminates (ret_eax r)"
  by (auto simp: ret_const_def ret_eax_def intro!: terminates_bind)

lemma terminates_llseek: "terminates (llseek_case os fd h n a w s)"
  by (auto simp: llseek_case_def Let_def intro!: terminates_bind terminates_file terminates_ret)

lemma terminates_dispatch_syscall: "terminates (dispatch_syscall os s)"
  unfolding dispatch_syscall_def Let_def
  by (intro terminates_if terminates_ret terminates_file terminates_open terminates_fstat64
      terminates_misc terminates_llseek terminates_bind)
    (auto simp: sys_exit_def sys_munmap_def sys_mprotect_def sys_writev_def
      terminates_writev_loop terminates_host split: option.split)

lemma terminates_op_int: "terminates (op_int os op s)"
  by (auto simp: op_int_def split_beta intro!: terminates_bind terminates_dispatch_syscall)

lemma terminates_opcode_table_0f: "terminates (opcode_table_0f i op s)"
proof -
  have "\<forall>op s. terminates (opcode_table_0f i op s)"
    unfolding opcode_table_0f_def
    by (rule fill_table_all [where Q = "\<lambda>h. \<forall>op s. terminates (h op s)"])
      (simp_all add: entries_0f_def pure_op_def terminates_arith)
  then show ?thesis by blast
qed

text \<open>
  A prefix is followed by the byte at EIP, so the recursion goes on only while EIP is inside the
  block: beyond it the byte is 0, the opcode of ADD.
\<close>

definition prefix_room :: "'a i386_scheme \<Rightarrow> nat" where
  "prefix_room s = g_size s - unat (eip s)"

lemma terminates_prefix:
  assumes ex: "\<forall>op s. g_size s < 2 ^ 32 \<longrightarrow> prefix_room s < n \<or> op = 0 \<longrightarrow> terminates (ex op s)"
    and "g_size s < 2 ^ 32" and "prefix_room s \<le> n"
  shows "terminates (op_prefix_cs ex op s)" "terminates (op_prefix_gs ex op s)"
    "terminates (op_prefix_66 ex op s)" "terminates (op_prefix_67 ex op s)"
    "terminates (op_prefix_lock ex op s)"
proof -
  have next_op: "terminates (ex (mem_read8 (eip t) t) (t\<lparr>eip := eip t + 1\<rparr>))"
    if "g_size t = g_size s" "eip t = eip s" for t
  proof (cases "unat (eip t) < g_size t")
    case True
    then have "unat (eip t + 1) = unat (eip t) + 1"
      using that assms(2) by (intro unat_add_const) auto
    with True have "prefix_room (t\<lparr>eip := eip t + 1\<rparr>) < n"
      using that assms(3) by (auto simp: prefix_room_def)
    then show ?thesis using that assms(2) by (intro ex [rule_format]) auto
  next
    case False
    then have "mem_read8 (eip t) t = 0" by (simp add: mem_read8_def check_bounds_def)
    then show ?thesis using that assms(2) by (intro ex [rule_format]) auto
  qed
  show "terminates (op_prefix_cs ex op s)" "terminates (op_prefix_67 ex op s)"
    "terminates (op_prefix_lock ex op s)"
    using next_op [of s]
    by (auto simp: op_prefix_cs_def op_prefix_67_def op_prefix_lock_def fetch8_def
        intro!: terminates_bind)
  show "terminates (op_prefix_gs ex op s)"
    using next_op [of "s\<lparr>g_seg_override := g_gs_base s\<rparr>"]
    by (auto simp: op_prefix_gs_def fetch8_def Let_def intro!: terminates_bind)
  show "terminates (op_prefix_66 ex op s)"
    using next_op [of "s\<lparr>g_operand_size_16 := True\<rparr>"]
    by (auto simp: op_prefix_66_def fetch8_def Let_def intro!: terminates_bind)
qed

lemma terminates_opcode_table:
  assumes ex: "\<forall>op s. g_size s < 2 ^ 32 \<longrightarrow> prefix_room s < n \<or> op = 0 \<longrightarrow> terminates (ex op s)"
    and s: "g_size s < 2 ^ 32" "prefix_room s \<le> n"
  shows "terminates (opcode_table fp os ex i op s)"
proof -
  have "\<forall>op. terminates (opcode_table fp os ex i op s)"
    unfolding opcode_table_def
    by (rule fill_table_all [where Q = "\<lambda>h. \<forall>op. terminates (h op s)"])
      (simp_all add: opcode_entries_def pure_op_def op_prefix_0f_def split_beta
        terminates_opcode_table_0f terminates_prefix [OF ex s] terminates_arith terminates_shift
        terminates_fpu terminates_op_int)
  then show ?thesis by blast
qed

lemma opcode_table_0: "opcode_table fp os ex 0 = pure_op op_add_rm8_r8"
  by (simp add: opcode_table_def opcode_entries_def fill_table_def set_entry_def)

lemma execute_opcode_terminates:
  "g_size s < 2 ^ 32 \<Longrightarrow> prefix_room s + 1 < n \<Longrightarrow> terminates (execute_opcode n fp os op s)"
proof (induction n arbitrary: op s)
  case (Suc n)
  have step: "terminates (execute_opcode n fp os op' t)"
    if "g_size t < 2 ^ 32" "prefix_room t < n - 1 \<or> op' = 0" for op' t
  proof -
    obtain m where "n = Suc m" using Suc.prems by (cases n) auto
    then show ?thesis
      using that Suc.IH [of t op'] by (auto simp: opcode_table_0 pure_op_def)
  qed
  have "prefix_room s \<le> n - 1" using Suc.prems by simp
  then have "terminates (opcode_table fp os (execute_opcode n fp os) op op s)"
    using step Suc.prems by (intro terminates_opcode_table [where n = "n - 1"]) auto
  then show ?case by simp
qed simp

text \<open>Beyond what is needed, the bound makes no difference.\<close>

definition extends :: "'w handler \<Rightarrow> 'w handler \<Rightarrow> bool" where
  "extends g f \<longleftrightarrow> (\<forall>op s. terminates (f op s) \<longrightarrow> g op s = f op s)"

lemma extendsI: "(\<And>op s. terminates (f op s) \<Longrightarrow> g op s = f op s) \<Longrightarrow> extends g f"
  by (simp add: extends_def)

lemma extends_refl [simp]: "extends f f"
  by (simp add: extends_def)

lemma bind_result_extends:
  assumes "extends g f" and "terminates (bind_result (f op s) k)"
  shows "bind_result (g op s) k = bind_result (f op s) k"
  using assms by (cases "f op s") (auto simp: extends_def terminates_def)

lemma extends_prefix:
  assumes "extends g f"
  shows "extends (op_prefix_cs g) (op_prefix_cs f)" "extends (op_prefix_gs g) (op_prefix_gs f)"
    "extends (op_prefix_66 g) (op_prefix_66 f)" "extends (op_prefix_67 g) (op_prefix_67 f)"
    "extends (op_prefix_lock g) (op_prefix_lock f)"
  by (auto simp: op_prefix_cs_def op_prefix_gs_def op_prefix_66_def op_prefix_67_def
      op_prefix_lock_def Let_def split_beta intro!: extendsI bind_result_extends [OF assms])

lemma fill_table_rel:
  assumes "list_all2 (\<lambda>(a, b, g) (a', b', f). a = a' \<and> b = b' \<and> R g f) es fs" and "R h k"
  shows "R (fill_table h es i) (fill_table k fs i)"
proof -
  have "list_all2 (\<lambda>(a, b, g) (a', b', f). a = a' \<and> b = b' \<and> R g f) es fs \<Longrightarrow>
      (\<forall>i. R (t i) (u i)) \<Longrightarrow> R (foldl set_entry t es i) (foldl set_entry u fs i)" for t u
  proof (induction es fs arbitrary: t u rule: list_all2_induct)
    case (Cons e es f fs)
    have "\<forall>i. R (set_entry t e i) (set_entry u f i)"
      using Cons.hyps Cons.prems by (auto simp: set_entry_def split: prod.splits)
    with Cons show ?case by simp
  qed simp
  with assms show ?thesis by (simp add: fill_table_def)
qed

lemma extends_opcode_table:
  assumes "extends g f"
  shows "extends (opcode_table fp os g i) (opcode_table fp os f i)"
  unfolding opcode_table_def
  by (rule fill_table_rel [where R = extends])
    (simp_all add: opcode_entries_def extends_prefix [OF assms])

lemma extends_execute_opcode:
  "n \<le> m \<Longrightarrow> extends (\<lambda>op s. execute_opcode m fp os op s) (\<lambda>op s. execute_opcode n fp os op s)"
proof (induction n arbitrary: m)
  case 0
  then show ?case by (simp add: extends_def terminates_def)
next
  case (Suc n)
  then obtain k where k: "m = Suc k" "n \<le> k" by (cases m) auto
  from extends_opcode_table [OF Suc.IH [OF k(2)]] show ?case
    by (simp add: extends_def k(1))
qed

lemma execute_opcode_fuel:
  assumes "g_size s < 2 ^ 32" and "prefix_room s + 1 < n" and "n \<le> m"
  shows "execute_opcode m fp os op s = execute_opcode n fp os op s"
  using extends_execute_opcode [OF assms(3), of fp os] execute_opcode_terminates [OF assms(1,2)]
  by (simp add: extends_def)

lemma emulate_step_terminates:
  "g_size s < 2 ^ 32 \<Longrightarrow> terminates (emulate_step fp os s)"
  by (simp add: emulate_step_def execute_opcode_terminates prefix_room_def Let_def
      del: execute_opcode.simps)

section \<open>Steps and runs\<close>

inductive steps :: "fp_ops \<Rightarrow> 'w host \<Rightarrow> 'w machine \<Rightarrow> 'w machine \<Rightarrow> bool"
  for fp :: fp_ops and os :: "'w host" where
  steps_refl: "steps fp os s s"
| steps_step: "\<not> halted s \<Longrightarrow> emulate_step fp os s = Inr s' \<Longrightarrow> steps fp os s' s'' \<Longrightarrow> steps fp os s s''"

inductive_cases steps_haltedE: "steps fp os s s'"

lemma steps_halted: "steps fp os s s' \<Longrightarrow> halted s \<Longrightarrow> s' = s"
  by (auto elim: steps_haltedE)

lemma emulate_simps:
  "halted s \<Longrightarrow> emulate fp os s = Some (Inr s)"
  "\<not> halted s \<Longrightarrow> emulate_step fp os s = Inr s' \<Longrightarrow> emulate fp os s = emulate fp os s'"
  "\<not> halted s \<Longrightarrow> emulate_step fp os s = Inl e \<Longrightarrow> emulate fp os s = Some (Inl e)"
  by (subst emulate.simps, simp)+

lemma steps_emulate: "steps fp os s s' \<Longrightarrow> emulate fp os s = emulate fp os s'"
  by (induction rule: steps.induct) (simp_all add: emulate_simps)

lemma emulate_steps:
  assumes "emulate fp os s = Some r"
  shows "\<exists>s'. steps fp os s s' \<and>
    (case r of Inr t \<Rightarrow> halted s' \<and> t = s' | Inl e \<Rightarrow> \<not> halted s' \<and> emulate_step fp os s' = Inl e)"
  using assms
proof (induction rule: emulate.raw_induct [rotated 1, consumes 1])
  case (1 em fp os s r)
  show ?case
  proof (cases "halted s")
    case True
    with 1 show ?thesis by (auto intro: steps_refl)
  next
    case False
    with 1 show ?thesis
      by (cases "emulate_step fp os s") (fastforce intro: steps_refl steps_step)+
  qed
qed

context machine_invariant
begin

lemma inv_steps: "steps fp os s s' \<Longrightarrow> I s \<Longrightarrow> I s'"
  by (induction rule: steps.induct) (auto dest: ok_resD [OF inv_emulate_step])

lemma inv_emulate: "emulate fp os s = Some (Inr s') \<Longrightarrow> I s \<Longrightarrow> I s'"
  using emulate_steps [of fp os s "Inr s'"] inv_steps by auto

end

section \<open>Invariants that do not look at the flags\<close>

text \<open>
  For a predicate that does not depend on EFLAGS the laws are those of the raw fields, which
  give the laws of the machine.
\<close>

locale raw_invariant =
  fixes I :: "'w machine \<Rightarrow> bool"
  assumes raw_size: "I s \<Longrightarrow> g_size s \<le> 2 ^ 32"
    and raw_store: "I s \<Longrightarrow> p + length bs \<le> g_size s \<Longrightarrow>
      I (s\<lparr>g_mem := store_bytes p bs (g_mem s)\<rparr>)"
    and raw_last_eip: "I s \<Longrightarrow> I (s\<lparr>g_last_eip := w\<rparr>)"
    and raw_regs: "I s \<Longrightarrow> length rs = length (regs s) \<Longrightarrow> I (s\<lparr>regs := rs\<rparr>)"
    and raw_eip: "I s \<Longrightarrow> I (s\<lparr>eip := w\<rparr>)"
    and raw_eflags: "I s \<Longrightarrow> I (s\<lparr>eflags := w\<rparr>)"
    and raw_halted: "I s \<Longrightarrow> I (s\<lparr>halted := c\<rparr>)"
    and raw_cycles: "I s \<Longrightarrow> I (s\<lparr>cycles := w\<rparr>)"
    and raw_seg_override: "I s \<Longrightarrow> I (s\<lparr>g_seg_override := w\<rparr>)"
    and raw_operand_size: "I s \<Longrightarrow> I (s\<lparr>g_operand_size_16 := c\<rparr>)"
    and raw_gs_base: "I s \<Longrightarrow> I (s\<lparr>g_gs_base := w\<rparr>)"
    and raw_fpu_stack: "I s \<Longrightarrow> length qs = length (fpu_stack s) \<Longrightarrow> I (s\<lparr>fpu_stack := qs\<rparr>)"
    and raw_fpu_top: "I s \<Longrightarrow> w < 8 \<Longrightarrow> I (s\<lparr>fpu_top := w\<rparr>)"
    and raw_mmx_regs: "I s \<Longrightarrow> length qs = length (mmx_regs s) \<Longrightarrow> I (s\<lparr>mmx_regs := qs\<rparr>)"
    and raw_xmm_regs: "I s \<Longrightarrow> length xs = length (xmm_regs s) \<Longrightarrow> I (s\<lparr>xmm_regs := xs\<rparr>)"
    and raw_world: "I s \<Longrightarrow> I (s\<lparr>world := v\<rparr>)"
    and raw_fd_table: "I s \<Longrightarrow> 3 \<le> i \<Longrightarrow> I (s\<lparr>fd_table := (fd_table s)[i := f]\<rparr>)"
    and raw_mmap_ptr: "I s \<Longrightarrow> I (s\<lparr>g_mmap_ptr := w\<rparr>)"
    and raw_sigactions: "I s \<Longrightarrow> length bs = 20 \<Longrightarrow>
      I (s\<lparr>g_sigactions := (g_sigactions s)[i := bs]\<rparr>)"
    and raw_brk: "I s \<Longrightarrow> g_brk s \<le> w \<Longrightarrow> unat w < g_size s \<Longrightarrow> I (s\<lparr>g_brk := w\<rparr>)"
begin

lemma raw_flags:
  "I s \<Longrightarrow> I (set_cf c s)" "I s \<Longrightarrow> I (set_pf w s)" "I s \<Longrightarrow> I (set_zf w s)" "I s \<Longrightarrow> I (set_sf w s)"
  "I s \<Longrightarrow> I (set_of_add x y w s)" "I s \<Longrightarrow> I (set_of_sub x y w s)"
  by (simp_all add: set_cf_def set_pf_def set_zf_def set_sf_def set_of_add_def set_of_sub_def
      Let_def raw_eflags)

end

lemma and_7_less_8: "(w :: u32) AND 7 < 8"
proof -
  have "w AND 7 \<le> 7" by (rule word_and_le1)
  also have "(7 :: u32) < 8" by simp
  finally show ?thesis .
qed

sublocale raw_invariant \<subseteq> machine_invariant I
  by unfold_locales
    (simp_all add: raw_size [simplified] raw_store raw_last_eip raw_regs raw_eip raw_halted raw_cycles
      raw_seg_override raw_operand_size raw_gs_base raw_fpu_stack raw_fpu_top raw_mmx_regs
      raw_xmm_regs raw_world raw_fd_table raw_mmap_ptr raw_sigactions raw_brk raw_flags
      set_reg_def halt_def add_cycles_def set_fpu_st_def set_fpu_st0_def set_mm_def set_xmm_def and_7_less_8)

text \<open>The arrays of the program have the lengths the code declares.\<close>

definition wf_machine :: "'w machine \<Rightarrow> bool" where
  "wf_machine s \<longleftrightarrow> g_size s \<le> 2 ^ 32 \<and> length (regs s) = 8 \<and> length (fpu_stack s) = 8 \<and>
     fpu_top s < 8 \<and> length (mmx_regs s) = 8 \<and> length (xmm_regs s) = 8 \<and>
     length (fd_table s) = MAX_FDS \<and> length (g_sigactions s) = SIGMAX \<and>
     (\<forall>a \<in> set (g_sigactions s). length a = 20)"

lemma set_update_length:
  "\<forall>a \<in> set xs. length a = n \<Longrightarrow> length b = n \<Longrightarrow> \<forall>a \<in> set (xs[i := b]). length a = n"
  using set_update_subset_insert [of xs i b] by auto

interpretation wf: raw_invariant wf_machine
  by unfold_locales (simp_all add: wf_machine_def, use set_update_length in blast)

text \<open>Nothing outside the block \<open>[0, n)\<close> is ever written, and the block keeps its size.\<close>

definition confined :: "nat \<Rightarrow> (nat \<Rightarrow> u8) \<Rightarrow> 'w machine \<Rightarrow> bool" where
  "confined n m s \<longleftrightarrow> n \<le> 2 ^ 32 \<and> g_size s = n \<and> (\<forall>i \<ge> n. g_mem s i = m i)"

interpretation conf: raw_invariant "confined n m" for n m
  by unfold_locales (auto simp: confined_def store_bytes_outside)

text \<open>The three standard descriptors stay as they are and the break never falls.\<close>

definition os_kept :: "GuestFd list \<Rightarrow> u32 \<Rightarrow> 'w machine \<Rightarrow> bool" where
  "os_kept std b s \<longleftrightarrow> g_size s \<le> 2 ^ 32 \<and> take 3 (fd_table s) = std \<and> b \<le> g_brk s"

interpretation kept: raw_invariant "os_kept std b" for std b
  by unfold_locales (auto simp: os_kept_def)

section \<open>EFLAGS\<close>

text \<open>EFLAGS holds CF, PF, ZF, SF and OF, bit 1 is set and all others are clear.\<close>

definition FLAGS_ALL :: u32 where
  "FLAGS_ALL = FLAG_CF OR FLAG_PF OR FLAG_ZF OR FLAG_SF OR FLAG_OF"

definition flags_shape :: "'w machine \<Rightarrow> bool" where
  "flags_shape s \<longleftrightarrow> g_size s \<le> 2 ^ 32 \<and> eflags s AND NOT FLAGS_ALL = 2"

lemma mask_absorb:
  fixes e f m :: u32
  assumes "f AND m = 0"
  shows "(e OR f) AND m = e AND m" "(e AND NOT f) AND m = e AND m"
  using assms by (auto simp: bit_eq_iff bit_simps)

lemma flags_all_mask:
  "FLAG_CF AND NOT FLAGS_ALL = 0" "FLAG_PF AND NOT FLAGS_ALL = 0" "FLAG_ZF AND NOT FLAGS_ALL = 0"
  "FLAG_SF AND NOT FLAGS_ALL = 0" "FLAG_OF AND NOT FLAGS_ALL = 0"
  by (simp_all add: FLAGS_ALL_def FLAG_CF_def FLAG_PF_def FLAG_ZF_def FLAG_SF_def FLAG_OF_def)

lemmas flags_absorb = flags_all_mask [THEN mask_absorb(1)] flags_all_mask [THEN mask_absorb(2)]

interpretation flags: machine_invariant flags_shape
  by unfold_locales
    (simp_all add: flags_shape_def set_cf_def set_pf_def set_zf_def set_sf_def set_of_add_def
      set_of_sub_def set_reg_def halt_def add_cycles_def set_fpu_st_def set_fpu_st0_def set_mm_def set_xmm_def
      Let_def flags_absorb)

end
