(* ===== verification/Loader.thy ===== *)
theory Loader
  imports Cpu
begin

text \<open>
  The ELF loader of \<open>src/loader/loader.c\<close>: the header checks, the \<open>PT_LOAD\<close> segments and the
  initial stack. The file is the list of its bytes, \<open>None\<close> when \<open>fopen\<close> fails; a C string is
  the list of its bytes without the terminator. \<open>long\<close> has 32 bits (Windows), so \<open>fseek\<close>
  fails for an offset whose top bit is set; an offset past the end of the file is accepted and
  the next read is short. The messages on stdout and stderr are left out; an error return is
  the reason the code prints.
\<close>

section \<open>Data\<close>

datatype load_error =
    OpenFailed | ShortHeader | NotElf | NotClass32 | NotLittleEndian | NotExecutable | NotI386
  | PhentsizeTooSmall | SeekPhdrFailed nat | ShortPhdr nat | SegmentTooBig nat
  | SeekSegmentFailed nat | ShortSegment nat

record Elf32_Ehdr =
  e_ident :: "u8 list"
  e_type :: u16
  e_machine :: u16
  e_version :: u32
  e_entry :: u32
  e_phoff :: u32
  e_shoff :: u32
  e_flags :: u32
  e_ehsize :: u16
  e_phentsize :: u16
  e_phnum :: u16
  e_shentsize :: u16
  e_shnum :: u16
  e_shstrndx :: u16

record Elf32_Phdr =
  p_type :: u32
  p_offset :: u32
  p_vaddr :: u32
  p_paddr :: u32
  p_filesz :: u32
  p_memsz :: u32
  p_flags :: u32
  p_align :: u32

record LoadInfo =
  load_end :: u32

text \<open>The 52 and 32 bytes of the two structs, which have no padding.\<close>

definition ehdr_of_bytes :: "u8 list \<Rightarrow> Elf32_Ehdr" where
  "ehdr_of_bytes b =
     \<lparr>e_ident = take 16 b, e_type = dec16 (drop 16 b), e_machine = dec16 (drop 18 b),
      e_version = dec32 (drop 20 b), e_entry = dec32 (drop 24 b), e_phoff = dec32 (drop 28 b),
      e_shoff = dec32 (drop 32 b), e_flags = dec32 (drop 36 b), e_ehsize = dec16 (drop 40 b),
      e_phentsize = dec16 (drop 42 b), e_phnum = dec16 (drop 44 b),
      e_shentsize = dec16 (drop 46 b), e_shnum = dec16 (drop 48 b),
      e_shstrndx = dec16 (drop 50 b)\<rparr>"

definition phdr_of_bytes :: "u8 list \<Rightarrow> Elf32_Phdr" where
  "phdr_of_bytes b =
     \<lparr>p_type = dec32 b, p_offset = dec32 (drop 4 b), p_vaddr = dec32 (drop 8 b),
      p_paddr = dec32 (drop 12 b), p_filesz = dec32 (drop 16 b), p_memsz = dec32 (drop 20 b),
      p_flags = dec32 (drop 24 b), p_align = dec32 (drop 28 b)\<rparr>"

section \<open>Operations\<close>

text \<open>
  \<open>fseek(f, (long)off, SEEK_SET)\<close> gives the bytes from the new position on, \<open>None\<close> when it
  fails. \<open>fread\<close> of \<open>n\<close> bytes gives \<open>None\<close> when fewer are left.
\<close>

definition fseek :: "u8 list \<Rightarrow> u32 \<Rightarrow> u8 list option" where
  "fseek file off = (if sint off < 0 then None else Some (drop (unat off) file))"

definition fread :: "nat \<Rightarrow> u8 list \<Rightarrow> (u8 list \<times> u8 list) option" where
  "fread n bs = (if length bs < n then None else Some (take n bs, drop n bs))"

definition put32 :: "u32 \<times> 'a mem_state_scheme \<Rightarrow> u32 \<Rightarrow> u32 \<times> 'a mem_state_scheme" where
  "put32 ws val = (case ws of (addr, s) \<Rightarrow> (addr + 4, mem_write32 addr val s))"

text \<open>The header checks, in the order of the code.\<close>

definition check_ehdr :: "Elf32_Ehdr \<Rightarrow> load_error option" where
  "check_ehdr ehdr =
     (if take 4 (e_ident ehdr) \<noteq> [0x7f, 0x45, 0x4c, 0x46] then Some NotElf
      else if e_ident ehdr ! 4 \<noteq> 1 then Some NotClass32
      else if e_ident ehdr ! 5 \<noteq> 1 then Some NotLittleEndian
      else if e_type ehdr \<noteq> 2 then Some NotExecutable
      else if e_machine ehdr \<noteq> 3 then Some NotI386
      else if unat (e_phentsize ehdr) < 32 then Some PhentsizeTooSmall
      else None)"

text \<open>The loop that zeroes the segment, with the number of rounds left.\<close>

primrec zero_loop :: "nat \<Rightarrow> u32 \<Rightarrow> 'a mem_state_scheme \<Rightarrow> 'a mem_state_scheme" where
  "zero_loop 0 addr s = s"
| "zero_loop (Suc n) addr s = zero_loop n (addr + 1) (mem_write8 addr 0 s)"

text \<open>
  The copy loop, in chunks of 4096 bytes. \<open>None\<close> is a short read; the chunks copied before it
  stay, but the program ends.
\<close>

definition chunk_len :: "u32 \<Rightarrow> u32" where
  "chunk_len remaining = (if remaining < 4096 then remaining else 4096)"

function copy_loop :: "u32 \<Rightarrow> u32 \<Rightarrow> u8 list \<Rightarrow> 'a mem_state_scheme \<Rightarrow> 'a mem_state_scheme option" where
  "copy_loop remaining dst f s =
     (if remaining > 0 then
        let to_read = chunk_len remaining
        in case fread (unat to_read) f of
             None \<Rightarrow> None
           | Some (chunk, f) \<Rightarrow>
               copy_loop (remaining - to_read) (dst + to_read) f (mem_copy_in dst chunk s)
      else Some s)"
  by pat_completeness auto

lemma chunk_len_pos: "r > 0 \<Longrightarrow> 0 < chunk_len r \<and> chunk_len r \<le> r"
  by (auto simp: chunk_len_def)

lemma chunk_len_less: "r > 0 \<Longrightarrow> unat (r - chunk_len r) < unat r"
  using chunk_len_pos [of r]
  by (metis unat_sub word_less_nat_alt word_le_nat_alt diff_less unat_0)

termination copy_loop
  by (relation "measure (\<lambda>(r, _). unat r)") (auto simp: chunk_len_less)

declare copy_loop.simps [simp del]

record load_state =
  ls_load_end :: u32
  ls_load_addr :: u32
  ls_first_load :: bool

text \<open>One round of the loop over the program headers.\<close>

definition load_segment :: "u8 list \<Rightarrow> Elf32_Ehdr \<Rightarrow> nat \<Rightarrow> load_state \<times> 'a mem_state_scheme
    \<Rightarrow> load_error + load_state \<times> 'a mem_state_scheme" where
  "load_segment file ehdr i = (\<lambda>(ls, s).
     case fseek file (e_phoff ehdr + of_nat i * ucast (e_phentsize ehdr)) of
       None \<Rightarrow> Inl (SeekPhdrFailed i)
     | Some f \<Rightarrow>
         (case fread 32 f of
            None \<Rightarrow> Inl (ShortPhdr i)
          | Some (b, _) \<Rightarrow>
              let phdr = phdr_of_bytes b
              in if p_type phdr \<noteq> 1 then Inr (ls, s)
                 else if p_memsz phdr = 0 then Inr (ls, s)
                 else if unat (p_vaddr phdr) + unat (p_memsz phdr) > mem_size s then
                   Inl (SegmentTooBig i)
                 else
                   let ls = (if ls_first_load ls then
                               ls\<lparr>ls_load_addr := p_vaddr phdr, ls_first_load := False\<rparr>
                             else ls);
                       s = zero_loop (unat (p_memsz phdr)) (p_vaddr phdr) s;
                       loaded = (if p_filesz phdr > 0 then
                                   (case fseek file (p_offset phdr) of
                                      None \<Rightarrow> Inl (SeekSegmentFailed i)
                                    | Some f \<Rightarrow>
                                        (case copy_loop (p_filesz phdr) (p_vaddr phdr) f s of
                                           None \<Rightarrow> Inl (ShortSegment i)
                                         | Some s \<Rightarrow> Inr s))
                                 else Inr s)
                   in (case loaded of
                         Inl e \<Rightarrow> Inl e
                       | Inr s \<Rightarrow>
                           let seg_end = p_vaddr phdr + p_memsz phdr;
                               ls = (if seg_end > ls_load_end ls then ls\<lparr>ls_load_end := seg_end\<rparr>
                                     else ls)
                           in Inr (ls, s))))"

text \<open>The rounds \<open>i, i + 1, ...\<close> of the loop, \<open>n\<close> of them.\<close>

primrec load_segments :: "u8 list \<Rightarrow> Elf32_Ehdr \<Rightarrow> nat \<Rightarrow> nat \<Rightarrow> load_state \<times> 'a mem_state_scheme
    \<Rightarrow> load_error + load_state \<times> 'a mem_state_scheme" where
  "load_segments file ehdr 0 i st = Inr st"
| "load_segments file ehdr (Suc n) i st =
     (case load_segment file ehdr i st of
        Inl e \<Rightarrow> Inl e
      | Inr st \<Rightarrow> load_segments file ehdr n (i + 1) st)"

text \<open>The strings of the guest's argv, and where each of them starts.\<close>

primrec copy_strings :: "u8 list list \<Rightarrow> u32 \<Rightarrow> u32 list \<Rightarrow> 'a mem_state_scheme
    \<Rightarrow> u32 \<times> u32 list \<times> 'a mem_state_scheme" where
  "copy_strings [] sptr addrs s = (sptr, addrs, s)"
| "copy_strings (a # as) sptr addrs s =
     copy_strings as (sptr + of_nat (length a + 1)) (addrs @ [sptr]) (mem_copy_in sptr (a @ [0]) s)"

definition auxv :: "Elf32_Ehdr \<Rightarrow> u32 \<Rightarrow> u32 \<Rightarrow> u32 list" where
  "auxv ehdr at_phdr random_addr =
     [3, at_phdr, 4, ucast (e_phentsize ehdr), 5, ucast (e_phnum ehdr), 6, 0x1000, 7, 0, 8, 0,
      9, e_entry ehdr, 11, 1000, 12, 1000, 13, 1000, 14, 1000, 16, 0x00008910, 17, 100,
      23, 0, 25, random_addr, 0, 0]"

text \<open>
  The initial stack. \<open>args\<close> are the guest's arguments \<open>argv[1], ..., argv[guest_argc]\<close>. Each
  \<open>put32\<close> of the code is one element of the list folded over.
\<close>

definition string_bytes :: "u8 list list \<Rightarrow> u32" where
  "string_bytes args = foldl (\<lambda>n a. n + of_nat (length a + 1)) 16 args"

definition header_bytes :: "nat \<Rightarrow> u32" where
  "header_bytes guest_argc = (1 + of_nat (guest_argc + 1) + 1 + 32) * 4"

definition build_stack :: "Elf32_Ehdr \<Rightarrow> u32 \<Rightarrow> u8 list list \<Rightarrow> 'a i386_scheme \<Rightarrow> 'a i386_scheme" where
  "build_stack ehdr at_phdr args s =
     (let guest_argc = length args;
          str_area_top = of_nat (mem_size s) - 4;
          str_area_base = (str_area_top - string_bytes args) AND NOT 0xF;
          esp_base = (str_area_base - header_bytes guest_argc) AND NOT 0xF;
          (sptr, argv_addrs, s) = copy_strings args str_area_base [] s;
          random_addr = sptr;
          s = mem_write32 (sptr + 0) 0xDEADBEEF s;
          s = mem_write32 (sptr + 4) 0xCAFEBABE s;
          s = mem_write32 (sptr + 8) 0x13371337 s;
          s = mem_write32 (sptr + 12) 0xABCDEF01 s;
          (w, s) = foldl put32 (esp_base, s)
                     ([of_nat guest_argc] @ argv_addrs @ [0] @ [0] @ auxv ehdr at_phdr random_addr)
      in set_reg REG_ESP esp_base s)"

text \<open>\<open>argc\<close> is the length of \<open>argv\<close>, which is not empty; 63 arguments at most are passed on.\<close>

definition load_elf :: "u8 list option \<Rightarrow> u8 list list \<Rightarrow> 'a i386_scheme
    \<Rightarrow> load_error + LoadInfo \<times> 'a i386_scheme" where
  "load_elf file_opt argv s =
     (case file_opt of
        None \<Rightarrow> Inl OpenFailed
      | Some file \<Rightarrow>
          (case fread 52 file of
             None \<Rightarrow> Inl ShortHeader
           | Some (b, _) \<Rightarrow>
               let ehdr = ehdr_of_bytes b
               in (case check_ehdr ehdr of
                     Some e \<Rightarrow> Inl e
                   | None \<Rightarrow>
                       (case load_segments file ehdr (unat (e_phnum ehdr)) 0
                               (\<lparr>ls_load_end = 0, ls_load_addr = 0, ls_first_load = True\<rparr>, s) of
                          Inl e \<Rightarrow> Inl e
                        | Inr (ls, s) \<Rightarrow>
                            let info = \<lparr>load_end = (ls_load_end ls + 0xFFF) AND NOT 0xFFF\<rparr>;
                                s = s\<lparr>eip := e_entry ehdr\<rparr>;
                                at_phdr = ls_load_addr ls + e_phoff ehdr
                            in Inr (info, build_stack ehdr at_phdr (take 63 (drop 1 argv)) s)))))"

end
