(* ===== verification/Emulator.thy ===== *)
theory Emulator
  imports Dispatch Loader
begin

text \<open>
  The program of \<open>src/main.c\<close>: it sets up memory, tables, processor, image, thread-local
  storage and arena, and runs \<open>emulate\<close>. The files are a function from paths to contents.
\<close>

section \<open>Operations\<close>

abbreviation (input) STUB_ADDR :: u32 where "STUB_ADDR \<equiv> 0x00001000"
abbreviation (input) FAKE_TLS_SIZE :: u32 where "FAKE_TLS_SIZE \<equiv> 0x400"

text \<open>The static storage of the program before \<open>main\<close>: all zero.\<close>

definition static_state :: "'w \<Rightarrow> 'w machine" where
  "static_state w =
     \<lparr>g_mem = (\<lambda>_. 0), g_size = 0, g_last_eip = 0,
      regs = replicate 8 0, eip = 0, eflags = 0, halted = False, cycles = 0,
      g_operand_size_16 = False, g_gs_base = 0, g_seg_override = 0,
      fpu_stack = replicate 8 0, fpu_top = 0, mmx_regs = replicate 8 0,
      xmm_regs = replicate 8 \<lparr>lo = 0, hi = 0\<rparr>,
      fd_table = replicate MAX_FDS \<lparr>used = False, handle = 0\<rparr>,
      g_mmap_base = 0, g_mmap_ptr = 0,
      g_sigactions = replicate SIGMAX (replicate 20 0), g_brk = 0, world = w\<rparr>"

text \<open>
  The fake TLS block. \<open>for (i = 0; i < 0x400; i += 4)\<close> has 256 rounds, as has
  \<open>for (i = 4; i <= 0x400; i += 4)\<close>.
\<close>

definition init_tls :: "u32 \<Rightarrow> 'w machine \<Rightarrow> 'w machine" where
  "init_tls load_end_addr s =
     (let chunk_size = (FAKE_TLS_SIZE + 8 + 7) AND NOT 7;
          chunk_base = load_end_addr;
          fake_tls_base = chunk_base + 8;
          s = mem_write32 (chunk_base + 0) 0 s;
          s = mem_write32 (chunk_base + 4) (chunk_size OR 1) s;
          s = s\<lparr>g_brk := chunk_base + chunk_size\<rparr>;
          s = fold (\<lambda>k. mem_write32 (fake_tls_base + of_nat (4 * k)) STUB_ADDR) [0..<256] s;
          s = fold (\<lambda>k. mem_write32 (fake_tls_base - of_nat (4 * k)) 0) [1..<257] s;
          s = mem_write32 (fake_tls_base + 0x00) STUB_ADDR s;
          s = mem_write32 (fake_tls_base + 0x04) fake_tls_base s;
          s = mem_write32 (fake_tls_base + 0x08) fake_tls_base s;
          s = mem_write32 (fake_tls_base + 0x14) 0xDEADBEEF s
      in set_gs_base fake_tls_base s)"

definition mmap_arena_start :: "u32 \<Rightarrow> u32" where
  "mmap_arena_start load_end_addr =
     (if load_end_addr > 0x0C000000 then (load_end_addr + 0x00FFFFFF) AND NOT 0x00FFFFFF
      else 0x0C000000)"

text \<open>\<open>main\<close> up to the call of \<open>emulate\<close>. \<open>EXIT_FAILURE\<close> is 1.\<close>

definition main_setup :: "bool \<Rightarrow> 'w host \<Rightarrow> (u8 list \<Rightarrow> u8 list option) \<Rightarrow> u8 list list \<Rightarrow> 'w
    \<Rightarrow> 'w machine result" where
  "main_setup calloc_ok os files argv w =
     (if length argv < 2 then Inl (Exit 1)
      else
        bind_result (init_mem calloc_ok (1024 * 1024 * 512) (static_state w)) (\<lambda>s.
          let s = init_fd_table os s;
              s = init_cpu s;
              s = mem_write8 (STUB_ADDR + 0) 0xCD s;
              s = mem_write8 (STUB_ADDR + 1) 0x80 s;
              s = mem_write8 (STUB_ADDR + 2) 0xC3 s
          in (case load_elf (files (argv ! 1)) argv s of
                Inl e \<Rightarrow> Inl (Exit 1)
              | Inr (info, s) \<Rightarrow>
                  let s = init_brk (load_end info) s;
                      s = init_tls (load_end info) s
                  in Inr (init_mmap_arena (mmap_arena_start (load_end info)) s))))"

text \<open>The whole program: how it stops, \<open>None\<close> when it runs for ever. \<open>EXIT_SUCCESS\<close> is 0.\<close>

definition main_prog :: "bool \<Rightarrow> fp_ops \<Rightarrow> 'w host \<Rightarrow> (u8 list \<Rightarrow> u8 list option) \<Rightarrow> u8 list list
    \<Rightarrow> 'w \<Rightarrow> stop option" where
  "main_prog calloc_ok fp os files argv w =
     (case main_setup calloc_ok os files argv w of
        Inl e \<Rightarrow> Some e
      | Inr s \<Rightarrow>
          (case emulate fp os s of
             None \<Rightarrow> None
           | Some (Inl e) \<Rightarrow> Some e
           | Some (Inr s) \<Rightarrow> Some (Exit 0)))"

end
