(* ===== verification/Setup.thy ===== *)
theory Setup
  imports Reach Emulator
begin

text \<open>
  From the start of the program to the end of its run: the loader and the setup of \<open>main\<close> keep
  the invariants of the machine, so they hold in every state the emulation reaches.
\<close>

section \<open>The loader keeps an invariant\<close>

context ops_invariant
begin

lemma inv_copy_in [simp]: "I s \<Longrightarrow> I (mem_copy_in a bs s)"
  using inv_store [of s "unat a" bs] by (simp add: mem_copy_in_def check_bounds_def)

lemma inv_zero_loop [simp]: "I s \<Longrightarrow> I (zero_loop n a s)"
  by (induction n arbitrary: a s) simp_all

lemma inv_copy_loop: "copy_loop r d f s = Some s' \<Longrightarrow> I s \<Longrightarrow> I s'"
proof (induction r d f s arbitrary: s' rule: copy_loop.induct)
  case (1 r d f s)
  then show ?case
    by (subst (asm) (2) copy_loop.simps)
      (auto simp: Let_def split: if_splits prod.splits option.splits)
qed

lemma inv_load_segment:
  "load_segment file ehdr i (ls, s) = Inr (ls', s') \<Longrightarrow> I s \<Longrightarrow> I s'"
  by (auto simp: load_segment_def Let_def split: option.splits prod.splits if_splits sum.splits
      dest: inv_copy_loop)

lemma inv_load_segments:
  "load_segments file ehdr n i st = Inr (ls', s') \<Longrightarrow> I (snd st) \<Longrightarrow> I s'"
proof (induction n arbitrary: i st)
  case (Suc n)
  then obtain st' where st': "load_segment file ehdr i st = Inr st'"
      "load_segments file ehdr n (i + 1) st' = Inr (ls', s')"
    by (auto split: sum.splits)
  have "I (snd st')"
    using inv_load_segment [where s = "snd st" and s' = "snd st'"] st'(1) Suc.prems(2)
    by (cases st; cases st') auto
  from Suc.IH [OF st'(2) this] show ?case .
qed simp

lemma inv_copy_strings [simp]: "I s \<Longrightarrow> I (snd (snd (copy_strings args p addrs s)))"
  by (induction args arbitrary: p addrs s) simp_all

lemma inv_put32 [simp]: "I (snd ws) \<Longrightarrow> I (snd (put32 ws v))"
  by (simp add: put32_def split_beta)

lemma inv_put32s [simp]: "I (snd ws) \<Longrightarrow> I (snd (foldl put32 ws vs))"
  by (induction vs arbitrary: ws) simp_all

lemma inv_build_stack [simp]: "I s \<Longrightarrow> I (build_stack ehdr a args s)"
  by (simp add: build_stack_def Let_def split_beta)

lemma inv_load_elf: "load_elf f argv s = Inr (info, s') \<Longrightarrow> I s \<Longrightarrow> I s'"
  by (auto simp: load_elf_def Let_def split: option.splits prod.splits sum.splits
      dest: inv_load_segments)

end

section \<open>The setup of the program\<close>

text \<open>The machine that \<open>main\<close> hands to the loader.\<close>

definition boot_state :: "'w host \<Rightarrow> 'w \<Rightarrow> 'w machine" where
  "boot_state os w =
     init_cpu (init_fd_table os ((static_state w)\<lparr>g_mem := (\<lambda>_. 0), g_size := 0x20000000\<rparr>))"

locale setup_invariant = machine_invariant I
  for I :: "'w machine \<Rightarrow> bool" +
  assumes setup_brk [simp]: "I s \<Longrightarrow> I (s\<lparr>g_brk := w\<rparr>)"
    and setup_mmap_base [simp]: "I s \<Longrightarrow> I (s\<lparr>g_mmap_base := w\<rparr>)"
begin

lemma inv_fold_write32 [simp]: "I s \<Longrightarrow> I (fold (\<lambda>k. mem_write32 (f k) v) ks s)"
  by (induction ks arbitrary: s) simp_all

lemma inv_init_tls [simp]: "I s \<Longrightarrow> I (init_tls a s)"
  unfolding init_tls_def Let_def set_gs_base_def
  by (intro inv_gs_base inv_mem_write inv_fold_write32 setup_brk)

lemma inv_main_setup:
  assumes "I (boot_state os w)" and "main_setup calloc_ok os files argv w = Inr s"
  shows "I s"
  using assms
  by (auto simp: main_setup_def boot_state_def init_mem_def init_brk_def init_mmap_arena_def Let_def
      split: if_splits sum.splits dest!: inv_load_elf)

lemma inv_main_run:
  assumes "I (boot_state os w)" and "main_setup calloc_ok os files argv w = Inr s"
    and "steps fp os s s'"
  shows "I s'"
  using inv_steps [OF assms(3)] inv_main_setup [OF assms(1,2)] .

end

interpretation wf_setup: setup_invariant wf_machine
  by unfold_locales (simp_all add: wf_machine_def)

interpretation conf_setup: setup_invariant "confined n m" for n m
  by unfold_locales (simp_all add: confined_def)

interpretation flags_setup: setup_invariant flags_shape
  by unfold_locales (simp_all add: flags_shape_def)

lemma boot_state_wf: "wf_machine (boot_state os w)"
  by (simp add: wf_machine_def boot_state_def static_state_def init_fd_table_def init_cpu_def)

lemma boot_state_confined: "confined 0x20000000 (\<lambda>_. 0) (boot_state os w)"
  by (simp add: confined_def boot_state_def static_state_def init_fd_table_def init_cpu_def)

lemma boot_state_flags: "flags_shape (boot_state os w)"
  by (simp add: flags_shape_def boot_state_def static_state_def init_fd_table_def init_cpu_def
      FLAGS_ALL_def FLAG_CF_def FLAG_PF_def FLAG_ZF_def FLAG_SF_def FLAG_OF_def)

end
