(* ===== verification/Loader_Correct.thy ===== *)
theory Loader_Correct
  imports Loader
begin

text \<open>
  What the loader leaves in memory. Every loop of the loader is a store of one list of bytes, so
  the image of an executable is a sequence of such stores, one per segment, and the initial stack
  is two of them: the header words and the strings above it.
\<close>

section \<open>Loops as stores\<close>

abbreviation stored :: "nat \<Rightarrow> u8 list \<Rightarrow> 'a mem_state_scheme \<Rightarrow> 'a mem_state_scheme" where
  "stored p bs s \<equiv> s\<lparr>g_mem := store_bytes p bs (g_mem s)\<rparr>"

lemma stored_append: "stored p (xs @ ys) s = stored (p + length xs) ys (stored p xs s)"
  by (simp add: store_bytes_append)

lemma zero_loop_stored:
  "g_size s < 2 ^ 32 \<Longrightarrow> unat a + n \<le> g_size s \<Longrightarrow> zero_loop n a s = stored (unat a) (replicate n 0) s"
proof (induction n arbitrary: a s)
  case (Suc n)
  have "unat (a + 1) = unat a + 1" using Suc.prems by (intro unat_add_const) auto
  moreover have "mem_write8 a 0 s = stored (unat a) [0] s"
    using Suc.prems by (simp add: acc8.wr_in enc8_def)
  ultimately show ?case
    using Suc stored_append [of "unat a" "[0]" "replicate n 0" s] by simp
qed simp

lemma mem_copy_in_stored:
  "unat a + length bs \<le> g_size s \<Longrightarrow> mem_copy_in a bs s = stored (unat a) bs s"
  by (simp add: mem_copy_in_def check_bounds_def)

lemma copy_loop_stored:
  assumes "g_size s < 2 ^ 32" and "unat dst + unat remaining \<le> g_size s"
  shows "copy_loop remaining dst f s =
    (if length f < unat remaining then None else Some (stored (unat dst) (take (unat remaining) f) s))"
  using assms
proof (induction remaining dst f s rule: copy_loop.induct)
  case (1 r d f s)
  show ?case
  proof (cases "r > 0")
    case False
    then have "r = 0" by (simp add: word_greater_zero_iff)
    then show ?thesis by (subst copy_loop.simps) simp
  next
    case True
    define c where "c = chunk_len r"
    have c: "c \<le> r" "unat c \<le> unat r" "unat (r - c) = unat r - unat c"
      using chunk_len_pos [OF True] by (simp_all add: c_def word_le_nat_alt unat_sub)
    have "unat (d + c) = unat d + unat c"
      using "1.prems" c(2) by (simp add: unat_word_ariths)
    then have room: "unat (d + c) + unat (r - c) \<le> g_size s" and d: "unat (d + c) = unat d + unat c"
      using "1.prems" c by auto
    show ?thesis
    proof (cases "length f < unat c")
      case True
      then show ?thesis using c \<open>r > 0\<close> by (subst copy_loop.simps) (auto simp: fread_def Let_def c_def)
    next
      case False
      define s' where "s' = mem_copy_in d (take (unat c) f) s"
      have s': "s' = stored (unat d) (take (unat c) f) s"
        using False "1.prems" c(2) by (simp add: s'_def mem_copy_in_stored)
      have "copy_loop r d f s = copy_loop (r - c) (d + c) (drop (unat c) f) s'"
        using True False by (subst copy_loop.simps) (simp add: fread_def Let_def c_def [symmetric] s'_def)
      also have "\<dots> = (if length (drop (unat c) f) < unat (r - c) then None
          else Some (stored (unat (d + c)) (take (unat (r - c)) (drop (unat c) f)) s'))"
        using "1.IH" [of c "(take (unat c) f, drop (unat c) f)" "take (unat c) f" "drop (unat c) f"] True False room "1.prems"
        by (simp add: fread_def c_def [symmetric] s'_def [symmetric]) (simp add: s'_def)
      also have "\<dots> = (if length f < unat r then None else Some (stored (unat d) (take (unat r) f) s))"
        using False c stored_append [of "unat d" "take (unat c) f" "take (unat r - unat c) (drop (unat c) f)" s]
        by (auto simp: s' d min_def simp flip: take_add)
      finally show ?thesis .
    qed
  qed
qed

section \<open>Which files are accepted\<close>

text \<open>The header of a file the loader takes, by the bytes of the file.\<close>

definition header_ok :: "u8 list \<Rightarrow> bool" where
  "header_ok elf \<longleftrightarrow> 52 \<le> length elf \<and> take 4 elf = [0x7f, 0x45, 0x4c, 0x46] \<and>
     elf ! 4 = 1 \<and> elf ! 5 = 1 \<and> dec16 (drop 16 elf) = 2 \<and> dec16 (drop 18 elf) = 3 \<and>
     32 \<le> unat (dec16 (drop 42 elf))"

abbreviation file_ehdr :: "u8 list \<Rightarrow> Elf32_Ehdr" where
  "file_ehdr elf \<equiv> ehdr_of_bytes (take 52 elf)"

text \<open>The position of the \<open>i\<close>-th program header, whether it can be read, and the header there.\<close>

definition phdr_pos :: "Elf32_Ehdr \<Rightarrow> nat \<Rightarrow> u32" where
  "phdr_pos ehdr i = e_phoff ehdr + of_nat i * ucast (e_phentsize ehdr)"

definition in_file :: "u8 list \<Rightarrow> u32 \<Rightarrow> nat \<Rightarrow> bool" where
  "in_file elf off n \<longleftrightarrow> 0 \<le> sint off \<and> unat off + n \<le> length elf"

definition phdr_at :: "u8 list \<Rightarrow> Elf32_Ehdr \<Rightarrow> nat \<Rightarrow> Elf32_Phdr" where
  "phdr_at elf ehdr i = phdr_of_bytes (take 32 (drop (unat (phdr_pos ehdr i)) elf))"

definition loadable :: "Elf32_Phdr \<Rightarrow> bool" where
  "loadable p \<longleftrightarrow> p_type p = 1 \<and> p_memsz p \<noteq> 0"

definition segment_fits :: "nat \<Rightarrow> u8 list \<Rightarrow> Elf32_Phdr \<Rightarrow> bool" where
  "segment_fits n elf p \<longleftrightarrow> unat (p_vaddr p) + unat (p_memsz p) \<le> n \<and>
     (p_filesz p = 0 \<or> in_file elf (p_offset p) (unat (p_filesz p)))"

definition phdr_ok :: "nat \<Rightarrow> u8 list \<Rightarrow> Elf32_Ehdr \<Rightarrow> nat \<Rightarrow> bool" where
  "phdr_ok n elf ehdr i \<longleftrightarrow> in_file elf (phdr_pos ehdr i) 32 \<and>
     (loadable (phdr_at elf ehdr i) \<longrightarrow> segment_fits n elf (phdr_at elf ehdr i))"

lemma header_ok_check:
  assumes "52 \<le> length elf"
  shows "check_ehdr (file_ehdr elf) = None \<longleftrightarrow> header_ok elf"
proof -
  have d: "dec16 (drop n (take 52 elf)) = dec16 (drop n elf)" if "n + 2 \<le> 52" for n
    using that assms by (simp add: dec16_def)
  show ?thesis
    using assms d [of 16] d [of 18] d [of 42] by (auto simp: check_ehdr_def header_ok_def ehdr_of_bytes_def)
qed

lemma copy_loop_None: "copy_loop r d f s = None \<longleftrightarrow> length f < unat r"
proof (induction r d f s rule: copy_loop.induct)
  case (1 r d f s)
  show ?case
  proof (cases "r > 0")
    case False
    then have "r = 0" by (simp add: word_greater_zero_iff)
    then show ?thesis by (subst copy_loop.simps) simp
  next
    case True
    have "unat (chunk_len r) \<le> unat r" "unat (r - chunk_len r) = unat r - unat (chunk_len r)"
      using chunk_len_pos [OF True] by (simp_all add: word_le_nat_alt unat_sub)
    then show ?thesis
      using True 1 by (subst copy_loop.simps) (auto simp: fread_def Let_def)
  qed
qed

lemma copy_loop_Some:
  assumes "copy_loop r d (drop k elf) s = Some t" and "r \<noteq> 0"
  shows "k + unat r \<le> length elf"
  using copy_loop_None [of r d "drop k elf" s] assms
  by (metis add.commute diff_is_0_eq leD length_drop le_diff_conv2 nat_le_linear not_None_eq
      not_less unat_gt_0)

lemma seek_read:
  "fseek elf off = None \<longleftrightarrow> \<not> 0 \<le> sint off"
  "fseek elf off = Some f \<Longrightarrow> f = drop (unat off) elf"
  "fread n f = None \<longleftrightarrow> length f < n" "fread n f = Some (b, g) \<Longrightarrow> b = take n f"
  by (auto simp: fseek_def fread_def split: if_splits)

lemma zero_loop_size [simp]: "g_size (zero_loop n a s) = g_size s"
  by (induction n arbitrary: a s) simp_all

lemma copy_loop_size: "copy_loop r d f s = Some t \<Longrightarrow> g_size t = g_size s"
proof (induction r d f s arbitrary: t rule: copy_loop.induct)
  case (1 r d f s)
  then show ?case
    by (subst (asm) (2) copy_loop.simps)
      (auto simp: Let_def split: if_splits prod.splits option.splits)
qed

lemma load_segment_Inr:
  "(\<exists>x. load_segment elf ehdr i (ls, s) = Inr x) \<longleftrightarrow> phdr_ok (g_size s) elf ehdr i"
proof (cases "in_file elf (phdr_pos ehdr i) 32")
  case False
  then show ?thesis
    by (auto simp: load_segment_def phdr_ok_def in_file_def phdr_pos_def [symmetric] seek_read fseek_def
        fread_def)
next
  case True
  define b where "b = take 32 (drop (unat (phdr_pos ehdr i)) elf)"
  have rd: "fseek elf (phdr_pos ehdr i) = Some (drop (unat (phdr_pos ehdr i)) elf)"
    "fread 32 (drop (unat (phdr_pos ehdr i)) elf) = Some (b, drop 32 (drop (unat (phdr_pos ehdr i)) elf))"
    using True by (auto simp: in_file_def fseek_def fread_def b_def)
  then show ?thesis
    using True
    by (auto simp: load_segment_def phdr_ok_def phdr_pos_def [symmetric] phdr_at_def b_def [symmetric]
        loadable_def segment_fits_def in_file_def Let_def copy_loop_None seek_read word_greater_zero_iff
        fseek_def mem_size_def split: option.splits dest: copy_loop_Some)
qed

lemma load_segment_size: "load_segment elf ehdr i (ls, s) = Inr (ls', t) \<Longrightarrow> g_size t = g_size s"
  by (auto simp: load_segment_def Let_def split: option.splits prod.splits if_splits sum.splits
      dest: copy_loop_size)

lemma load_segments_Inr:
  "(\<exists>x. load_segments elf ehdr n i (ls, s) = Inr x) \<longleftrightarrow>
   (\<forall>j. i \<le> j \<and> j < i + n \<longrightarrow> phdr_ok (g_size s) elf ehdr j)"
proof (induction n arbitrary: i ls s)
  case (Suc n)
  have split: "(\<forall>j. i \<le> j \<and> j < i + Suc n \<longrightarrow> P j) \<longleftrightarrow> P i \<and> (\<forall>j. i + 1 \<le> j \<and> j < i + 1 + n \<longrightarrow> P j)"
    for P
    by (metis Suc_eq_plus1 Suc_leI add_Suc_right add_Suc_shift le_eq_less_or_eq less_add_same_cancel1
        Suc_leD zero_less_Suc order_refl)
  show ?case
  proof (cases "load_segment elf ehdr i (ls, s)")
    case (Inl e)
    then show ?thesis using load_segment_Inr [of elf ehdr i ls s] by (auto simp: split)
  next
    case (Inr x)
    obtain ls' t where x: "x = (ls', t)" by (cases x)
    have "phdr_ok (g_size s) elf ehdr i" and "g_size t = g_size s"
      using Inr x load_segment_Inr [of elf ehdr i ls s] load_segment_size [of elf ehdr i ls s ls' t]
      by auto
    then show ?thesis unfolding split using Suc.IH [of "i + 1" ls' t] Inr x by simp
  qed
qed auto

section \<open>The image\<close>

text \<open>The bytes of a segment in memory: those of the file, then zeros.\<close>

definition segment_bytes :: "u8 list \<Rightarrow> Elf32_Phdr \<Rightarrow> u8 list" where
  "segment_bytes elf p = take (unat (p_filesz p)) (drop (unat (p_offset p)) elf) @
     replicate (unat (p_memsz p) - unat (p_filesz p)) 0"

definition segment_image :: "u8 list \<Rightarrow> Elf32_Phdr list \<Rightarrow> (nat \<Rightarrow> u8) \<Rightarrow> nat \<Rightarrow> u8" where
  "segment_image elf ps = fold (\<lambda>p. store_bytes (unat (p_vaddr p)) (segment_bytes elf p)) ps"

definition segments :: "u8 list \<Rightarrow> Elf32_Ehdr \<Rightarrow> Elf32_Phdr list" where
  "segments elf ehdr = filter loadable (map (phdr_at elf ehdr) [0..<unat (e_phnum ehdr)])"

definition after_segment :: "Elf32_Phdr \<Rightarrow> load_state \<Rightarrow> load_state" where
  "after_segment p ls =
     \<lparr>ls_load_end = max (ls_load_end ls) (p_vaddr p + p_memsz p),
      ls_load_addr = (if ls_first_load ls then p_vaddr p else ls_load_addr ls),
      ls_first_load = False\<rparr>"

lemma store_over:
  "length ys \<le> length xs \<Longrightarrow> store_bytes p ys (store_bytes p xs m) = store_bytes p (ys @ drop (length ys) xs) m"
  by (auto simp: store_bytes_def fun_eq_iff nth_append)

lemma load_segment_stored:
  fixes elf ehdr i
  defines "p \<equiv> phdr_at elf ehdr i"
  assumes "g_size s < 2 ^ 32" and "phdr_ok (g_size s) elf ehdr i"
    and "loadable p" and "p_filesz p \<le> p_memsz p"
  shows "load_segment elf ehdr i (ls, s) =
    Inr (after_segment p ls, stored (unat (p_vaddr p)) (segment_bytes elf p) s)"
proof -
  have fits: "unat (p_vaddr p) + unat (p_memsz p) \<le> g_size s"
    "p_filesz p = 0 \<or> in_file elf (p_offset p) (unat (p_filesz p))"
    and rd: "in_file elf (phdr_pos ehdr i) 32"
    using assms by (auto simp: phdr_ok_def segment_fits_def)
  have le: "unat (p_filesz p) \<le> unat (p_memsz p)"
    using assms(5) by (simp add: word_le_nat_alt)
  define z where "z = stored (unat (p_vaddr p)) (replicate (unat (p_memsz p)) 0) s"
  have z: "zero_loop (unat (p_memsz p)) (p_vaddr p) s = z"
    using zero_loop_stored [OF assms(2) fits(1)] by (simp add: z_def)
  have c: "copy_loop (p_filesz p) (p_vaddr p) (drop (unat (p_offset p)) elf) z =
      Some (stored (unat (p_vaddr p)) (segment_bytes elf p) s)" if "p_filesz p \<noteq> 0"
    using that fits le assms(2)
    by (subst copy_loop_stored) (auto simp: z_def in_file_def store_over segment_bytes_def min_def)
  have z0: "z = stored (unat (p_vaddr p)) (segment_bytes elf p) s" if "p_filesz p = 0"
    using that by (simp add: z_def segment_bytes_def)
  have "fseek elf (phdr_pos ehdr i) = Some (drop (unat (phdr_pos ehdr i)) elf)"
    "fread 32 (drop (unat (phdr_pos ehdr i)) elf) =
      Some (take 32 (drop (unat (phdr_pos ehdr i)) elf), drop 32 (drop (unat (phdr_pos ehdr i)) elf))"
    using rd by (auto simp: in_file_def fseek_def fread_def)
  moreover have "fseek elf (p_offset p) = Some (drop (unat (p_offset p)) elf)" if "p_filesz p \<noteq> 0"
    using that fits by (auto simp: in_file_def fseek_def)
  ultimately show ?thesis
    using assms(4) fits(1) c z0
    by (auto simp: load_segment_def phdr_pos_def [symmetric] phdr_at_def [symmetric] p_def [symmetric]
        Let_def loadable_def mem_size_def word_greater_zero_iff z after_segment_def max_def)
qed


lemma load_segments_stored:
  fixes s :: "'a mem_state_scheme"
  assumes "g_size s < 2 ^ 32"
    and "\<And>j. i \<le> j \<Longrightarrow> j < i + n \<Longrightarrow> phdr_ok (g_size s) elf ehdr j \<and>
      (loadable (phdr_at elf ehdr j) \<longrightarrow> p_filesz (phdr_at elf ehdr j) \<le> p_memsz (phdr_at elf ehdr j))"
  shows "load_segments elf ehdr n i (ls, s) =
    (let ps = filter loadable (map (phdr_at elf ehdr) [i..<i + n])
     in Inr (fold after_segment ps ls, s\<lparr>g_mem := segment_image elf ps (g_mem s)\<rparr>))"
  using assms
proof (induction n arbitrary: i ls s)
  case (Suc n)
  define p where "p = phdr_at elf ehdr i"
  have upt: "[i..<i + Suc n] = i # [i + 1..<i + 1 + n]" by (simp add: upt_conv_Cons)
  have ok: "phdr_ok (g_size s) elf ehdr i" "loadable p \<longrightarrow> p_filesz p \<le> p_memsz p"
    using Suc.prems(2) [of i] by (auto simp: p_def)
  have rest: "load_segments elf ehdr n (i + 1) (ls', t) =
      (let ps = filter loadable (map (phdr_at elf ehdr) [i + 1..<i + 1 + n])
       in Inr (fold after_segment ps ls', t\<lparr>g_mem := segment_image elf ps (g_mem t)\<rparr>))"
    if "g_size t = g_size s" for ls' and t :: "'a mem_state_scheme"
    using Suc.prems that by (intro Suc.IH) auto
  show ?case
  proof (cases "loadable p")
    case True
    then have "load_segment elf ehdr i (ls, s) =
        Inr (after_segment p ls, stored (unat (p_vaddr p)) (segment_bytes elf p) s)"
      using load_segment_stored [OF Suc.prems(1) ok(1)] ok(2) by (simp add: p_def)
    then show ?thesis
      unfolding upt using True rest [of "stored (unat (p_vaddr p)) (segment_bytes elf p) s"]
      by (simp add: p_def [symmetric] segment_image_def Let_def)
  next
    case False
    then have "load_segment elf ehdr i (ls, s) = Inr (ls, s)"
      using ok(1)
      by (auto simp: load_segment_def p_def phdr_at_def phdr_ok_def in_file_def phdr_pos_def [symmetric]
          fseek_def fread_def loadable_def Let_def)
    then show ?thesis unfolding upt using False rest [of s] by (simp add: p_def [symmetric])
  qed
qed (simp add: segment_image_def)

end
