(* ===== verification/Sample.thy ===== *)
theory Sample
  imports Cpu
begin

text \<open>
  Concrete processor states for examples: a 4 KB block that starts with the given bytes, the
  given registers, and EIP at 0.
\<close>

definition sample :: "u8 list \<Rightarrow> u32 list \<Rightarrow> ops_state" where
  "sample code rs =
     \<lparr>g_mem = store_bytes 0 code (\<lambda>_. 0), g_size = 4096, g_last_eip = 0,
      regs = rs, eip = 0, eflags = 2, halted = False, cycles = 0,
      g_operand_size_16 = False, g_gs_base = 0, g_seg_override = 0,
      fpu_stack = replicate 8 0, fpu_top = 0, mmx_regs = replicate 8 0,
      xmm_regs = replicate 8 \<lparr>lo = 0, hi = 0\<rparr>\<rparr>"

lemma sample_simps [simp]:
  "g_mem (sample code rs) i = (if i < length code then code ! i else 0)"
  "g_size (sample code rs) = 4096" "regs (sample code rs) = rs" "eip (sample code rs) = 0"
  "eflags (sample code rs) = 2" "g_seg_override (sample code rs) = 0"
  "g_operand_size_16 (sample code rs) = False" "halted (sample code rs) = False"
  by (simp_all add: sample_def store_bytes_def)

text \<open>Reading instruction bytes of a sample.\<close>

lemmas sample_eval =
  fetch8_def fetch16_def fetch32_def mem_read8_def mem_read16_def mem_read32_def check_bounds_def
  reg_def

end
