(* ===== verification/Sample_Elf.thy ===== *)
theory Sample_Elf
  imports Loader Sample
begin

text \<open>
  A concrete executable for examples: 96 bytes with one segment of 12 bytes at \<open>0x08048000\<close>,
  which calls \<open>exit(42)\<close>: \<open>mov eax, 1; mov ebx, 42; int 0x80\<close>.
\<close>

definition exit_elf :: "u8 list" where
  "exit_elf =
     [0x7f, 0x45, 0x4c, 0x46, 1, 1, 1, 0, 0, 0, 0, 0, 0, 0, 0, 0,
      2, 0, 3, 0, 1, 0, 0, 0, 0, 0x80, 0x04, 0x08, 52, 0, 0, 0,
      0, 0, 0, 0, 0, 0, 0, 0, 52, 0, 32, 0, 1, 0, 0, 0, 0, 0, 0, 0,
      1, 0, 0, 0, 84, 0, 0, 0, 0, 0x80, 0x04, 0x08, 0, 0x80, 0x04, 0x08,
      12, 0, 0, 0, 12, 0, 0, 0, 5, 0, 0, 0, 0, 0x10, 0, 0,
      0xB8, 1, 0, 0, 0, 0xBB, 42, 0, 0, 0, 0xCD, 0x80]"

text \<open>A processor with 512 MB of memory.\<close>

definition sample_big :: ops_state where
  "sample_big = (sample [] (replicate 8 0))\<lparr>g_size := 0x20000000\<rparr>"

lemma sample_big_simps [simp]:
  "g_mem sample_big = (\<lambda>_. 0)" "g_size sample_big = 0x20000000" "length (regs sample_big) = 8"
  by (auto simp: sample_big_def)

lemma exit_ehdr: "ehdr_of_bytes (take 52 exit_elf) =
    \<lparr>e_ident = [0x7f, 0x45, 0x4c, 0x46, 1, 1, 1, 0, 0, 0, 0, 0, 0, 0, 0, 0], e_type = 2, e_machine = 3,
     e_version = 1, e_entry = 0x08048000, e_phoff = 52, e_shoff = 0, e_flags = 0, e_ehsize = 52,
     e_phentsize = 32, e_phnum = 1, e_shentsize = 0, e_shnum = 0, e_shstrndx = 0\<rparr>"
  by (simp add: ehdr_of_bytes_def exit_elf_def dec16_def dec32_def)

lemma exit_phdr: "phdr_of_bytes (take 32 (drop 52 exit_elf)) =
    \<lparr>p_type = 1, p_offset = 84, p_vaddr = 0x08048000, p_paddr = 0x08048000, p_filesz = 12,
     p_memsz = 12, p_flags = 5, p_align = 0x1000\<rparr>"
  by (simp add: phdr_of_bytes_def exit_elf_def dec32_def)

lemma exit_elf_len: "length exit_elf = 96"
  by (simp add: exit_elf_def)

text \<open>The loader accepts it: the segment is copied and the break is set above its page.\<close>

lemma exit_segment:
  assumes "g_size s = 0x20000000"
  shows "load_segment exit_elf (ehdr_of_bytes (take 52 exit_elf)) 0
      (\<lparr>ls_load_end = 0, ls_load_addr = 0, ls_first_load = True\<rparr>, s) =
    Inr (\<lparr>ls_load_end = 0x0804800C, ls_load_addr = 0x08048000, ls_first_load = False\<rparr>,
      mem_copy_in 0x08048000 (drop 84 exit_elf) (zero_loop 12 0x08048000 s))"
  using assms
  by (simp add: load_segment_def exit_ehdr exit_phdr exit_elf_len fseek_def fread_def Let_def
      mem_size_def copy_loop.simps chunk_len_def del: zero_loop.simps)

end
