(* ===== verification/Loader_Stack.thy ===== *)
theory Loader_Stack
  imports Loader_Correct Sample_Elf
begin

text \<open>
  The initial stack. The strings and the 16 bytes of AT_RANDOM are one store, the header words
  (argc, the argv pointers, the two terminators and the auxiliary vector) are another one below
  it, and ESP points to the first word.
\<close>

section \<open>The two blocks\<close>

definition strings :: "u8 list list \<Rightarrow> u8 list" where
  "strings args = concat (map (\<lambda>a. a @ [0]) args)"

primrec string_addrs :: "u32 \<Rightarrow> u8 list list \<Rightarrow> u32 list" where
  "string_addrs p [] = []"
| "string_addrs p (a # as) = p # string_addrs (p + of_nat (length a + 1)) as"

definition words :: "u32 list \<Rightarrow> u8 list" where
  "words vs = concat (map enc32 vs)"

abbreviation random_words :: "u32 list" where
  "random_words \<equiv> [0xDEADBEEF, 0xCAFEBABE, 0x13371337, 0xABCDEF01]"

text \<open>What the two blocks need of the memory, with the bytes lost to alignment.\<close>

definition stack_room :: "nat \<Rightarrow> u8 list list \<Rightarrow> bool" where
  "stack_room n args \<longleftrightarrow> n < 2 ^ 32 \<and> length (strings args) + 4 * length args + 194 \<le> n"

lemma length_words [simp]: "length (words vs) = 4 * length vs"
  by (induction vs) (simp_all add: words_def)

lemma length_string_addrs [simp]: "length (string_addrs p args) = length args"
  by (induction args arbitrary: p) simp_all

lemma strings_simps: "strings [] = []" "strings (a # as) = (a @ [0]) @ strings as"
  by (simp_all add: strings_def)

lemma words_simps: "words [] = []" "words (v # vs) = enc32 v @ words vs"
  by (simp_all add: words_def)

lemma nth_words: "k < length vs \<Longrightarrow> take 4 (drop (4 * k) (words vs)) = enc32 (vs ! k)"
proof (induction vs arbitrary: k)
  case (Cons v vs)
  show ?case
  proof (cases k)
    case 0
    then show ?thesis by (simp add: words_simps)
  next
    case (Suc j)
    then show ?thesis using Cons by (simp add: words_simps)
  qed
qed simp

lemma nth_strings:
  "k < length args \<Longrightarrow>
   take (length (args ! k) + 1) (drop (length (strings (take k args))) (strings args)) = args ! k @ [0]"
proof (induction args arbitrary: k)
  case (Cons a as)
  then show ?case by (cases k) (simp_all add: strings_simps)
qed simp

lemma strings_take_le: "k < length args \<Longrightarrow>
  length (strings (take k args)) + length (args ! k) + 1 \<le> length (strings args)"
proof (induction args arbitrary: k)
  case (Cons a as)
  then show ?case by (cases k) (fastforce simp: strings_simps)+
qed simp

lemma nth_string_addrs:
  "k < length args \<Longrightarrow> string_addrs p args ! k = p + of_nat (length (strings (take k args)))"
proof (induction args arbitrary: p k)
  case (Cons a as)
  then show ?case by (cases k) (simp_all add: strings_simps add.assoc)
qed simp

lemma copy_strings_stored:
  "g_size s < 2 ^ 32 \<Longrightarrow> unat p + length (strings args) \<le> g_size s \<Longrightarrow>
   copy_strings args p addrs s =
     (p + of_nat (length (strings args)), addrs @ string_addrs p args, stored (unat p) (strings args) s)"
proof (induction args arbitrary: p addrs s)
  case (Cons a as)
  have next_p: "unat (p + of_nat (length a + 1)) = unat p + (length a + 1)"
    using Cons.prems by (intro unat_add_small) (simp add: strings_simps)
  have "mem_copy_in p (a @ [0]) s = stored (unat p) (a @ [0]) s"
    using Cons.prems by (intro mem_copy_in_stored) (simp add: strings_simps)
  then show ?case
    using Cons next_p stored_append [of "unat p" "a @ [0]" "strings as" s]
    by (simp add: strings_simps add.assoc)
qed (simp add: strings_def)

lemma put32s_stored:
  "g_size s < 2 ^ 32 \<Longrightarrow> unat w + 4 * length vs \<le> g_size s \<Longrightarrow>
   foldl put32 (w, s) vs = (w + of_nat (4 * length vs), stored (unat w) (words vs) s)"
proof (induction vs arbitrary: w s)
  case (Cons v vs)
  have next_w: "unat (w + 4) = unat w + 4"
    using Cons.prems unat_add_small [of w 4] by simp
  have "mem_write32 w v s = stored (unat w) (enc32 v) s"
    using Cons.prems by (intro acc32.wr_in) simp_all
  then show ?case
    using Cons next_w stored_append [of "unat w" "enc32 v" "words vs" s]
    by (simp add: words_simps put32_def add.assoc)
qed (simp add: words_def)

lemma string_bytes_length: "string_bytes args = of_nat (16 + length (strings args))"
proof -
  have "foldl (\<lambda>n a. n + of_nat (length a + 1)) (of_nat k) args = (of_nat (k + length (strings args)) :: u32)" for k
  proof (induction args arbitrary: k)
    case (Cons a as)
    then show ?case using Cons [of "k + (length a + 1)"] by (simp add: strings_simps algebra_simps)
  qed (simp add: strings_def)
  from this [of 16] show ?thesis by (simp add: string_bytes_def)
qed

lemma random_stored:
  assumes "g_size s < 2 ^ 32" and "unat p + 16 \<le> g_size s"
  shows "mem_write32 (p + 12) 0xABCDEF01 (mem_write32 (p + 8) 0x13371337
      (mem_write32 (p + 4) 0xCAFEBABE (mem_write32 p 0xDEADBEEF s))) =
    stored (unat p) (words random_words) s"
  using put32s_stored [of s p random_words] assms by (simp add: put32_def add.assoc)

text \<open>The header words for strings that start at \<open>b\<close>.\<close>

definition header_words :: "Elf32_Ehdr \<Rightarrow> u32 \<Rightarrow> u8 list list \<Rightarrow> u32 \<Rightarrow> u32 list" where
  "header_words ehdr at_phdr args b =
     [of_nat (length args)] @ string_addrs b args @ [0] @ [0] @
     auxv ehdr at_phdr (b + of_nat (length (strings args)))"

lemma length_header_words [simp]: "length (header_words ehdr a args b) = length args + 35"
  by (simp add: header_words_def auxv_def)

lemma header_bytes_length: "header_bytes n = of_nat (4 * (n + 35))"
  by (simp add: header_bytes_def algebra_simps)

lemma unat_diff_small: "n \<le> unat a \<Longrightarrow> unat (a - of_nat n) = unat a - n" for a :: u32
  by (metis le_unat_uoi unat_sub word_le_nat_alt)

lemma stack_addresses:
  fixes n :: nat and args :: "u8 list list"
  assumes "stack_room n args"
  defines "b \<equiv> (of_nat n - 4 - string_bytes args) AND NOT 0xF"
  defines "e \<equiv> (b - header_bytes (length args)) AND NOT 0xF"
  shows "16 dvd unat e" "unat e + 4 * (length args + 35) \<le> unat b"
    "unat b + length (strings args) + 16 \<le> n"
    "n \<le> unat e + length (strings args) + 4 * length args + 194"
proof -
  let ?n = "length (strings args)"
  have room: "n < 2 ^ 32" "?n + 4 * length args + 194 \<le> n"
    using assms(1) by (simp_all add: stack_room_def)
  have top: "unat (of_nat n - 4 :: u32) = n - 4"
    using room unat_diff_small [of 4 "of_nat n"] by (simp add: unat_of_nat)
  have "unat (of_nat n - 4 - string_bytes args :: u32) = n - 4 - (16 + ?n)"
    unfolding string_bytes_length using room top by (intro unat_diff_small [THEN trans]) auto
  then have b: "unat b = (n - 4 - (16 + ?n)) div 16 * 16"
    unfolding b_def align_masks by (simp only: unat_align_down) simp
  then have b_ge: "unat b + 15 \<ge> n - 4 - (16 + ?n)" and b_le: "unat b + ?n + 16 \<le> n"
    using align_down_bounds [of "n - 4 - (16 + ?n)" 16] room by auto
  have "unat (b - header_bytes (length args)) = unat b - 4 * (length args + 35)"
    unfolding header_bytes_length using b_ge room by (intro unat_diff_small) auto
  then have e: "unat e = (unat b - 4 * (length args + 35)) div 16 * 16"
    unfolding e_def align_masks by (simp only: unat_align_down) simp
  show "unat e + 4 * (length args + 35) \<le> unat b"
    using e align_down_bounds(1) [of "unat b - 4 * (length args + 35)" 16] b_ge room by auto
  show "unat b + length (strings args) + 16 \<le> n" by (fact b_le)
  show "16 dvd unat e" using e by simp
  show "n \<le> unat e + ?n + 4 * length args + 194"
    using e align_down_bounds(2) [of 16 "unat b - 4 * (length args + 35)"] b_ge by auto
qed

lemma build_stack_stored:
  fixes s :: "'a i386_scheme"
  assumes "stack_room (g_size s) args"
  obtains b e :: u32 where "16 dvd unat e" "unat e + 4 * (length args + 35) \<le> unat b"
    "unat b + length (strings args) + 16 \<le> g_size s"
    "g_size s \<le> unat e + length (strings args) + 4 * length args + 194"
    "build_stack ehdr a args s = set_reg REG_ESP e
       (stored (unat e) (words (header_words ehdr a args b))
         (stored (unat b) (strings args @ words random_words) s))"
proof -
  define b :: u32 where "b = (of_nat (g_size s) - 4 - string_bytes args) AND NOT 0xF"
  define e where "e = (b - header_bytes (length args)) AND NOT 0xF"
  let ?n = "length (strings args)"
  have room: "g_size s < 2 ^ 32" using assms by (simp add: stack_room_def)
  note addr = stack_addresses [OF assms, folded b_def e_def]
  have p: "unat (b + of_nat ?n) = unat b + ?n"
    using addr(3) room by (intro unat_add_small) simp
  define s1 where "s1 = stored (unat b) (strings args) s"
  have s1: "copy_strings args b [] s = (b + of_nat ?n, string_addrs b args, s1)"
    using copy_strings_stored [of s b args "[]"] room addr(3) by (simp add: s1_def)
  define s2 where "s2 = stored (unat b) (strings args @ words random_words) s"
  have s2: "mem_write32 (b + of_nat ?n + 12) 0xABCDEF01 (mem_write32 (b + of_nat ?n + 8) 0x13371337
      (mem_write32 (b + of_nat ?n + 4) 0xCAFEBABE (mem_write32 (b + of_nat ?n) 0xDEADBEEF s1))) = s2"
    using random_stored [of s1 "b + of_nat ?n"] room addr(3) p
    by (simp add: s2_def s1_def store_bytes_append)
  have "foldl put32 (e, s2) (header_words ehdr a args b) =
      (e + of_nat (4 * (length args + 35)), stored (unat e) (words (header_words ehdr a args b)) s2)"
    using put32s_stored [of s2 e "header_words ehdr a args b"] room addr by (simp add: s2_def)
  then have "build_stack ehdr a args s =
      set_reg REG_ESP e (stored (unat e) (words (header_words ehdr a args b)) s2)"
    by (simp only: build_stack_def Let_def mem_size_def b_def [symmetric] s1 s2
        e_def [symmetric] header_words_def [symmetric] prod.case add_0_right)
  from that [OF addr this [unfolded s2_def]] show ?thesis .
qed

section \<open>Properties\<close>

text \<open>The \<open>k\<close>-th word above ESP.\<close>

definition stack_word :: "'a i386_scheme \<Rightarrow> nat \<Rightarrow> u32" where
  "stack_word s k = mem_read32 (reg s REG_ESP + of_nat (4 * k)) s"

lemma set_reg_i386 [simp]:
  fixes s :: "'a i386_scheme"
  shows "g_mem (set_reg i v s) = g_mem s" "g_size (set_reg i v s) = g_size s"
  by (simp_all add: set_reg_def)

lemma reg_set_same: "i < length (regs s) \<Longrightarrow> reg (set_reg i v s) i = v"
  by (simp add: reg_def set_reg_def)

lemma stack_word_header:
  fixes s :: "'a i386_scheme"
  assumes "k < length vs" and "unat e + 4 * length vs \<le> g_size s" and "g_size s < 2 ^ 32"
    and "length (regs s) = 8"
  shows "stack_word (set_reg REG_ESP e (stored (unat e) (words vs) s)) k = vs ! k"
proof -
  have "unat (e + of_nat (4 * k)) = unat e + 4 * k"
    using assms by (intro unat_add_small) auto
  then show ?thesis
    using assms nth_words [of k vs]
    by (simp add: stack_word_def reg_set_same acc32.rd_in load_store_inside)
qed

lemma build_stack_keeps:
  fixes s :: "'a i386_scheme"
  assumes "stack_room (g_size s) args" and "length (regs s) = 8"
  shows "eip (build_stack ehdr a args s) = eip s"
    and "i < unat (reg (build_stack ehdr a args s) REG_ESP) \<Longrightarrow>
      g_mem (build_stack ehdr a args s) i = g_mem s i"
    and "g_size s \<le> unat (reg (build_stack ehdr a args s) REG_ESP) + length (strings args) +
      4 * length args + 194"
    and "g_size (build_stack ehdr a args s) = g_size s"
    and "length (regs (build_stack ehdr a args s)) = 8"
    and "halted (build_stack ehdr a args s) = halted s"
proof -
  from build_stack_stored [OF assms(1), of ehdr a]
  obtain b e :: u32 where e: "unat e + 4 * (length args + 35) \<le> unat b"
    "g_size s \<le> unat e + length (strings args) + 4 * length args + 194"
    and t: "build_stack ehdr a args s = set_reg REG_ESP e
       (stored (unat e) (words (header_words ehdr a args b))
         (stored (unat b) (strings args @ words random_words) s))"
    by blast
  show "eip (build_stack ehdr a args s) = eip s" by (simp add: t set_reg_def)
  show "i < unat (reg (build_stack ehdr a args s) REG_ESP) \<Longrightarrow>
      g_mem (build_stack ehdr a args s) i = g_mem s i"
    using e assms(2) by (simp add: t reg_set_same store_bytes_outside)
  show "g_size s \<le> unat (reg (build_stack ehdr a args s) REG_ESP) + length (strings args) +
      4 * length args + 194"
    using e(2) assms(2) by (simp add: t reg_set_same)
  show "g_size (build_stack ehdr a args s) = g_size s" "length (regs (build_stack ehdr a args s)) = 8"
    "halted (build_stack ehdr a args s) = halted s"
    using assms(2) by (simp_all add: t set_reg_def)
qed

text \<open>C13. The initial stack: ESP is a multiple of 16 and points to argc; the argv pointers follow, each
  the address of the argument's bytes and a terminating zero, then a null pointer, an empty
  environment and the auxiliary vector; nothing below ESP is written.\<close>

theorem stack_layout:
  fixes s :: "'a i386_scheme" and args :: "u8 list list" and ehdr :: Elf32_Ehdr and at_phdr :: u32
  assumes "stack_room (g_size s) args" and "length (regs s) = 8"
  defines "t \<equiv> build_stack ehdr at_phdr args s"
  shows "16 dvd unat (reg t REG_ESP) \<and> stack_word t 0 = of_nat (length args) \<and>
    (\<forall>k < length args. load_bytes (unat (stack_word t (k + 1))) (length (args ! k) + 1) (g_mem t) =
       args ! k @ [0]) \<and>
    stack_word t (length args + 1) = 0 \<and> stack_word t (length args + 2) = 0 \<and>
    (\<exists>r. unat r + 16 \<le> g_size t \<and>
       map (\<lambda>j. stack_word t (length args + 3 + j)) [0..<32] = auxv ehdr at_phdr r) \<and>
    (\<forall>i < unat (reg t REG_ESP). g_mem t i = g_mem s i)"
proof -
  from build_stack_stored [OF assms(1), of ehdr at_phdr]
  obtain b e :: u32 where e: "16 dvd unat e" "unat e + 4 * (length args + 35) \<le> unat b"
    and b: "unat b + length (strings args) + 16 \<le> g_size s"
    and t: "t = set_reg REG_ESP e (stored (unat e) (words (header_words ehdr at_phdr args b))
       (stored (unat b) (strings args @ words random_words) s))"
    unfolding t_def by blast
  have size: "g_size s < 2 ^ 32" using assms(1) by (simp add: stack_room_def)
  let ?hs = "header_words ehdr at_phdr args b"
  have w: "stack_word t k = ?hs ! k" if "k < length args + 35" for k
    unfolding t using that e b size assms(2) by (intro stack_word_header) auto
  have str: "load_bytes (unat (string_addrs b args ! k)) (length (args ! k) + 1) (g_mem t) = args ! k @ [0]"
    if k: "k < length args" for k
  proof -
    let ?o = "length (strings (take k args))"
    have o: "?o + length (args ! k) + 1 \<le> length (strings args)" by (rule strings_take_le [OF k])
    have "unat (b + of_nat ?o) = unat b + ?o"
      using o b size by (intro unat_add_small) linarith
    then show ?thesis
      using o e nth_strings [OF k]
      by (simp add: t nth_string_addrs [OF k] load_store_bytes_disjoint load_store_inside)
  qed
  have r: "unat (b + of_nat (length (strings args))) + 16 \<le> g_size t"
    using b size unat_add_small [of b "length (strings args)"] by (simp add: t)
  have "map (\<lambda>j. stack_word t (length args + 3 + j)) [0..<32] =
      auxv ehdr at_phdr (b + of_nat (length (strings args)))"
    by (rule nth_equalityI)
      (auto simp: auxv_def w header_words_def nth_append)
  moreover have "reg t REG_ESP = e" using assms(2) by (simp add: t reg_set_same)
  ultimately show ?thesis
    using e b r str w [of 0] w [of "length args + 1"] w [of "length args + 2"] w [of "_ + 1"]
    by (auto simp: header_words_def nth_append t store_bytes_outside)
qed

theorem stack_layout_witness:
  "stack_word (build_stack (file_ehdr exit_elf) 0 [[0x61, 0x62], []] sample_big) 0 = 2"
  using stack_layout [of sample_big "[[0x61, 0x62], []]" "file_ehdr exit_elf" 0]
  by (simp add: stack_room_def strings_def)

text \<open>Every header the loop reaches has to be readable, every segment it loads has to fit.\<close>

definition valid_elf :: "nat \<Rightarrow> u8 list \<Rightarrow> bool" where
  "valid_elf n elf \<longleftrightarrow> header_ok elf \<and>
     (\<forall>i < unat (e_phnum (file_ehdr elf)). phdr_ok n elf (file_ehdr elf) i)"

lemma load_elf_short:
  "\<not> 52 \<le> length elf \<Longrightarrow> load_elf (Some elf) argv s = Inl ShortHeader"
  by (simp add: load_elf_def fread_def)

lemma load_elf_long:
  assumes "52 \<le> length elf"
  shows "load_elf (Some elf) argv s = (let ehdr = file_ehdr elf in
    case check_ehdr ehdr of Some e \<Rightarrow> Inl e
    | None \<Rightarrow> (case load_segments elf ehdr (unat (e_phnum ehdr)) 0
          (\<lparr>ls_load_end = 0, ls_load_addr = 0, ls_first_load = True\<rparr>, s) of
        Inl e \<Rightarrow> Inl e
      | Inr (ls, s) \<Rightarrow> Inr (\<lparr>load_end = (ls_load_end ls + 0xFFF) AND NOT 0xFFF\<rparr>,
          build_stack ehdr (ls_load_addr ls + e_phoff ehdr) (take 63 (drop 1 argv))
            (s\<lparr>eip := e_entry ehdr\<rparr>))))"
proof -
  have "fread 52 elf = Some (take 52 elf, drop 52 elf)" using assms by (simp add: fread_def)
  then show ?thesis by (simp add: load_elf_def Let_def split: option.split sum.split prod.split)
qed

text \<open>C11. The loader accepts a file exactly when it can be opened, is a 32-bit little-endian i386
  executable, all its program headers can be read, and every loadable segment lies inside guest
  memory with its bytes inside the file; everything else is an error return.\<close>

theorem load_elf_accepts:
  "(\<exists>r. load_elf f argv s = Inr r) \<longleftrightarrow> (\<exists>elf. f = Some elf \<and> valid_elf (g_size s) elf)"
proof (cases f)
  case None
  then show ?thesis by (simp add: load_elf_def)
next
  case (Some elf)
  show ?thesis
  proof (cases "52 \<le> length elf")
    case False
    then show ?thesis by (simp add: Some load_elf_short valid_elf_def header_ok_def)
  next
    case True
    let ?st = "\<lparr>ls_load_end = 0, ls_load_addr = 0, ls_first_load = True\<rparr>"
    show ?thesis
      using load_segments_Inr [of elf "file_ehdr elf" "unat (e_phnum (file_ehdr elf))" 0 ?st s]
        header_ok_check [OF True]
      by (auto simp: Some load_elf_long [OF True] valid_elf_def Let_def split: option.splits sum.splits)
  qed
qed

lemma fold_after_segment:
  "ls_load_end (fold after_segment ps ls) = fold max (map (\<lambda>p. p_vaddr p + p_memsz p) ps) (ls_load_end ls)"
  by (induction ps arbitrary: ls) (simp_all add: after_segment_def max.commute)

text \<open>The sample executable is accepted and has one segment.\<close>

lemma exit_valid: "0x0804800C \<le> n \<Longrightarrow> valid_elf n exit_elf"
  by (simp add: valid_elf_def header_ok_def exit_ehdr exit_phdr phdr_ok_def in_file_def phdr_pos_def
      phdr_at_def segment_fits_def exit_elf_len) (simp add: exit_elf_def dec16_def)

lemma exit_segments:
  "segments exit_elf (file_ehdr exit_elf) = [phdr_of_bytes (take 32 (drop 52 exit_elf))]"
  by (simp add: segments_def exit_ehdr exit_phdr phdr_at_def phdr_pos_def loadable_def)

text \<open>C12. The image: when no segment has more bytes in the file than in memory, loading an accepted
  file puts the bytes of each segment, then zeros up to its size in memory, at its address in the
  order of the headers; EIP is the entry point, the reported end is the highest end of a segment
  rounded up to a page, and below ESP memory holds exactly that image.\<close>

theorem load_elf_image:
  fixes s :: "'a i386_scheme" and elf :: "u8 list"
  defines "ps \<equiv> segments elf (file_ehdr elf)"
  assumes "valid_elf (g_size s) elf" and "\<forall>p \<in> set ps. p_filesz p \<le> p_memsz p"
    and "stack_room (g_size s) (take 63 (drop 1 argv))" and "length (regs s) = 8"
  shows "\<exists>info t. load_elf (Some elf) argv s = Inr (info, t) \<and> eip t = e_entry (file_ehdr elf) \<and>
    load_end info = (fold max (map (\<lambda>p. p_vaddr p + p_memsz p) ps) 0 + 0xFFF) AND NOT 0xFFF \<and>
    (\<forall>i < unat (reg t REG_ESP). g_mem t i = segment_image elf ps (g_mem s) i)"
proof -
  let ?eh = "file_ehdr elf" and ?st = "\<lparr>ls_load_end = 0, ls_load_addr = 0, ls_first_load = True\<rparr>"
  let ?args = "take 63 (drop 1 argv)"
  have size: "g_size s < 2 ^ 32" and len: "52 \<le> length elf"
    using assms by (auto simp: stack_room_def valid_elf_def header_ok_def)
  have ok: "phdr_ok (g_size s) elf ?eh j" "loadable (phdr_at elf ?eh j) \<longrightarrow>
      p_filesz (phdr_at elf ?eh j) \<le> p_memsz (phdr_at elf ?eh j)" if "j < unat (e_phnum ?eh)" for j
    using that assms(2,3) by (auto simp: valid_elf_def ps_def segments_def)
  define ls where "ls = fold after_segment ps ?st"
  define u where "u = s\<lparr>g_mem := segment_image elf ps (g_mem s), eip := e_entry ?eh\<rparr>"
  define t where "t = build_stack ?eh (ls_load_addr ls + e_phoff ?eh) ?args u"
  have "load_segments elf ?eh (unat (e_phnum ?eh)) 0 (?st, s) =
      Inr (ls, s\<lparr>g_mem := segment_image elf ps (g_mem s)\<rparr>)"
    using load_segments_stored [OF size, of 0 "unat (e_phnum ?eh)" elf ?eh ?st] ok
    by (simp add: ls_def ps_def segments_def Let_def)
  then have r: "load_elf (Some elf) argv s = Inr (\<lparr>load_end = (ls_load_end ls + 0xFFF) AND NOT 0xFFF\<rparr>, t)"
    using header_ok_check [OF len] assms(2)
    by (simp add: load_elf_long [OF len] Let_def valid_elf_def t_def u_def)
  have "eip t = e_entry ?eh" and "\<forall>i < unat (reg t REG_ESP). g_mem t i = g_mem u i"
    using build_stack_keeps [where s = u and args = ?args and ehdr = ?eh and a = "ls_load_addr ls + e_phoff ?eh"] assms(4,5)
    by (simp_all add: u_def t_def)
  then show ?thesis using r fold_after_segment [of ps ?st] by (simp add: ls_def u_def)
qed

theorem load_elf_image_witness:
  "\<exists>info t. load_elf (Some exit_elf) [[0x65], [0x61]] sample_big = Inr (info, t) \<and>
     eip t = 0x08048000 \<and> load_end info = 0x08049000"
proof -
  have "stack_room (g_size sample_big) [[0x61]]" by (simp add: stack_room_def strings_def)
  then show ?thesis
    using load_elf_image [of sample_big exit_elf "[[0x65], [0x61]]"] exit_valid [of "0x20000000"]
    by (simp add: exit_segments) (auto simp: exit_phdr exit_ehdr)
qed

end
