(* ===== verification/Sample_Run.thy ===== *)
theory Sample_Run
  imports Setup Sample_Elf
begin

text \<open>A host on which every call fails, and a file system in which every path is the sample executable.\<close>

definition mute_host :: "unit host" where
  "mute_host = Win32
     \<lparr>GetStdHandle = (\<lambda>n. ucast n), WriteFile = (\<lambda>h bs w. (None, w)),
      ReadFile = (\<lambda>h n w. (Inl 0, w)), CreateFileA = (\<lambda>str a c w. (Inl 2, w)),
      CloseHandle = (\<lambda>h w. w), SetFilePointer = (\<lambda>h o' m w. (0xFFFFFFFF, w)),
      GetFileInformationByHandle = (\<lambda>h w. (None, w)), GetFileType = (\<lambda>h w. (0, w))\<rparr>"

text \<open>Floating point in which every operation gives zero; the sample executable uses none.\<close>

definition null_fp :: fp_ops where
  "null_fp =
     \<lparr>f_of_f32 = (\<lambda>_. 0), f_to_f32 = (\<lambda>_. 0), f_of_int = (\<lambda>_. 0), f_trunc = (\<lambda>_. Some 0),
      f_neg = (\<lambda>_. 0), f_lt0 = (\<lambda>_. False), f_mul = (\<lambda>_ _. 0), f_sub = (\<lambda>_ _. 0),
      f_pow = (\<lambda>_ _. 0), f_fmod = (\<lambda>_ _. 0), f_log2 = (\<lambda>_. 0), f_sqrt = (\<lambda>_. 0),
      f_round = (\<lambda>_. 0)\<rparr>"

abbreviation exit_files :: "u8 list \<Rightarrow> u8 list option" where
  "exit_files \<equiv> (\<lambda>path. Some exit_elf)"

abbreviation exit_argv :: "u8 list list" where
  "exit_argv \<equiv> [[0x65], [0x61]]"

end
