(* ===== verification/Emulator_Correct.thy ===== *)
theory Emulator_Correct
  imports Emulator Loader_Stack Sample_Run
begin

text \<open>
  The thread-local storage that \<open>main\<close> builds above the image, and where the arena starts.
\<close>

section \<open>Loops of word writes as one store\<close>

lemma words_append: "words (xs @ ys) = words xs @ words ys"
  by (simp add: words_def)

lemma words_replicate_Suc: "words (replicate (Suc n) v) = words (replicate n v) @ enc32 v"
  using words_append [of "replicate n v" "[v]"] by (simp add: replicate_append_same words_simps)

lemma write32_stored:
  "g_size s \<le> 2 ^ 32 \<Longrightarrow> unat a + 4 \<le> g_size s \<Longrightarrow> mem_write32 a v s = stored (unat a) (enc32 v) s"
  by (rule acc32.wr_in)

lemma fold_up_stored:
  assumes "g_size s < 2 ^ 32" and "unat p + 4 * n \<le> g_size s"
  shows "fold (\<lambda>k. mem_write32 (p + of_nat (4 * k)) v) [0..<n] s = stored (unat p) (words (replicate n v)) s"
  using assms(2)
proof (induction n)
  case (Suc n)
  have "unat (p + of_nat (4 * n)) = unat p + 4 * n"
    using Suc.prems assms(1) by (intro unat_add_small) simp
  then show ?case
    using Suc assms(1)
    by (simp add: words_replicate_Suc store_bytes_append write32_stored del: replicate_Suc)
qed (simp add: words_def)

lemma fold_down_stored:
  assumes "g_size s < 2 ^ 32" and "unat p \<le> g_size s" and "4 * n \<le> unat p"
  shows "fold (\<lambda>k. mem_write32 (p - of_nat (4 * k)) v) [1..<Suc n] s =
    stored (unat p - 4 * n) (words (replicate n v)) s"
  using assms(3)
proof (induction n)
  case (Suc n)
  have *: "unat (p - of_nat (4 * Suc n)) = unat p - 4 * Suc n"
    using Suc.prems by (intro unat_diff_small)
  have "store_bytes (unat p - 4 * Suc n) (enc32 v) (store_bytes (unat p - 4 * n) (words (replicate n v)) m) =
      store_bytes (unat p - 4 * Suc n) (words (replicate (Suc n) v)) m" for m
    using Suc.prems
      store_bytes_append [of "unat p - 4 * Suc n" "enc32 v" "words (replicate n v)" m]
      store_bytes_commute [of "unat p - 4 * Suc n" "enc32 v" "unat p - 4 * n" "words (replicate n v)" m]
    by (simp add: words_simps)
  moreover have "[1..<Suc (Suc n)] = [1..<Suc n] @ [Suc n]" by simp
  moreover have "4 * n \<le> unat p" "unat p - 4 * Suc n + 4 \<le> g_size s"
    using Suc.prems assms(2) by auto
  ultimately show ?case
    using Suc.IH assms(1) *
    by (simp add: write32_stored del: of_nat_Suc replicate_Suc mult_Suc_right upt_Suc)
qed (simp add: words_def)

lemma words_update:
  "i < length vs \<Longrightarrow>
   words (vs[i := v]) = take (4 * i) (words vs) @ enc32 v @ drop (4 * i + 4) (words vs)"
proof (induction vs arbitrary: i)
  case (Cons w vs)
  then show ?case by (cases i) (simp_all add: words_simps add.commute)
qed simp

lemma store_word_over:
  assumes "i < length vs"
  shows "store_bytes (p + 4 * i) (enc32 v) (store_bytes p (words vs) m) = store_bytes p (words (vs[i := v])) m"
  using assms
  by (auto simp: store_bytes_def fun_eq_iff words_update nth_append)

lemma store_bytes_absorb:
  "p \<le> q \<Longrightarrow> q + length ys \<le> p + length xs \<Longrightarrow>
   store_bytes p xs (store_bytes q ys m) = store_bytes p xs m"
  by (auto simp: store_bytes_def fun_eq_iff)

section \<open>Thread-local storage\<close>

text \<open>The words of the block at \<open>GS:0\<close>: the stub address, but for the self pointers and the canary.\<close>

definition tls_words :: "u32 \<Rightarrow> u32 list" where
  "tls_words gs = (replicate 256 0x1000)[1 := gs, 2 := gs, 5 := 0xDEADBEEF]"

lemma write_word_mem:
  assumes "g_mem s = store_bytes p (words vs) m" and "i < length vs" and "unat a = p + 4 * i"
    and "g_size s \<le> 2 ^ 32" and "p + 4 * length vs \<le> g_size s"
  shows "g_mem (mem_write32 a v s) = store_bytes p (words (vs[i := v])) m"
  using assms write32_stored [of s a v] store_word_over [of i vs p v m] by simp

text \<open>The two loops, and the four words written after them.\<close>

lemma tls_loops_mem:
  fixes a :: u32 and s :: "'w machine"
  assumes "0x3F8 \<le> unat a" and "unat a + 0x408 \<le> g_size s" and "g_size s < 2 ^ 32"
  defines "s1 \<equiv> (mem_write32 (a + 4) 0x409 (mem_write32 a 0 s))\<lparr>g_brk := a + 0x408\<rparr>"
  defines "s2 \<equiv> fold (\<lambda>k. mem_write32 (a + 8 + of_nat (4 * k)) 0x1000) [0..<256] s1"
  defines "s3 \<equiv> fold (\<lambda>k. mem_write32 (a + 8 - of_nat (4 * k)) 0) [1..<257] s2"
  shows "g_mem s3 = store_bytes (unat a - 0x3F8) (words (replicate 256 0 @ replicate 256 0x1000)) (g_mem s)"
    "g_size s3 = g_size s"
proof -
  have p: "unat (a + 8) = unat a + 8"
    using assms(2,3) unat_add_small [of a 8] by simp
  have s1: "g_size s1 = g_size s" "g_mem s1 = store_bytes (unat a) (enc32 0 @ enc32 0x409) (g_mem s)"
    using assms(1-3) unat_add_small [of a 4]
    by (simp_all add: s1_def write32_stored store_bytes_append)
  have s2: "s2 = stored (unat (a + 8)) (words (replicate 256 0x1000)) s1"
    unfolding s2_def using assms(1-3) p s1(1) by (intro fold_up_stored) auto
  have "[1..<257] = [1..<Suc 256]" by simp
  then have s3: "s3 = stored (unat (a + 8) - 4 * 256) (words (replicate 256 0)) s2"
    unfolding s3_def using fold_down_stored [of s2 "a + 8" 256 0] assms(1-3) p s1(1) s2
    by (simp del: upt_Suc)
  show "g_mem s3 = store_bytes (unat a - 0x3F8) (words (replicate 256 0 @ replicate 256 0x1000)) (g_mem s)"
    using assms(1) p s1(2)
    by (simp add: s3 s2 words_append store_bytes_append store_bytes_absorb
        store_bytes_commute [of "unat a - 1016"]) (simp add: add.commute)
  show "g_size s3 = g_size s" by (simp add: s3 s2 s1)
qed

lemma tls_words_mem:
  fixes p :: u32
  assumes "g_mem s = store_bytes q (words (replicate 256 0 @ replicate 256 0x1000)) m"
    and "unat p = q + 4 * 256" and "q + 4 * 512 \<le> g_size s" and "g_size s < 2 ^ 32"
  shows "g_mem (mem_write32 (p + 0x14) 0xDEADBEEF (mem_write32 (p + 8) p (mem_write32 (p + 4) p
      (mem_write32 (p + 0) 0x1000 s)))) = store_bytes q (words (replicate 256 0 @ tls_words p)) m"
proof -
  let ?vs = "replicate 256 0 @ replicate 256 0x1000 :: u32 list"
  have P: "unat (p + 0) = q + 4 * 256" "unat (p + 4) = q + 4 * 257"
    "unat (p + 8) = q + 4 * 258" "unat (p + 0x14) = q + 4 * 261"
    using assms(2-4) unat_add_small [of p 4] unat_add_small [of p 8] unat_add_small [of p "0x14"]
    by simp_all
  have "g_mem (mem_write32 (p + 0) 0x1000 s) = store_bytes q (words (?vs[256 := 0x1000])) m"
    using assms P by (intro write_word_mem) simp_all
  then have "g_mem (mem_write32 (p + 4) p (mem_write32 (p + 0) 0x1000 s)) =
      store_bytes q (words (?vs[256 := 0x1000, 257 := p])) m"
    using assms(3,4) P by - (rule write_word_mem, simp_all)
  then have "g_mem (mem_write32 (p + 8) p (mem_write32 (p + 4) p (mem_write32 (p + 0) 0x1000 s))) =
      store_bytes q (words (?vs[256 := 0x1000, 257 := p, 258 := p])) m"
    using assms(3,4) P by - (rule write_word_mem, simp_all)
  then have "g_mem (mem_write32 (p + 0x14) 0xDEADBEEF (mem_write32 (p + 8) p (mem_write32 (p + 4) p
      (mem_write32 (p + 0) 0x1000 s)))) =
      store_bytes q (words (?vs[256 := 0x1000, 257 := p, 258 := p, 261 := 0xDEADBEEF])) m"
    using assms(3,4) P by - (rule write_word_mem, simp_all)
  moreover have "?vs[256 := 0x1000, 257 := p, 258 := p, 261 := 0xDEADBEEF] = replicate 256 0 @ tls_words p"
    by (simp add: tls_words_def list_update_append list_update_same_conv [THEN iffD2])
  ultimately show ?thesis by simp
qed

lemma init_tls_mem:
  fixes a :: u32 and s :: "'w machine"
  assumes "0x3F8 \<le> unat a" and "unat a + 0x408 \<le> g_size s" and "g_size s < 2 ^ 32"
  shows "g_mem (init_tls a s) =
    store_bytes (unat a - 0x3F8) (words (replicate 256 0 @ tls_words (a + 8))) (g_mem s)"
proof -
  note m = tls_loops_mem [OF assms]
  have "unat (a + 8) = unat a - 0x3F8 + 4 * 256" "unat a - 0x3F8 + 4 * 512 \<le> g_size s"
    using assms unat_add_small [of a 8] by simp_all
  from tls_words_mem [OF m(1) this(1) this(2) [folded m(2)] assms(3) [folded m(2)]] show ?thesis
    unfolding init_tls_def Let_def set_gs_base_def by simp
qed

lemma init_tls_frame:
  "g_brk (init_tls a s) = a + 0x408" "g_gs_base (init_tls a s) = a + 8"
  "g_size (init_tls a s) = g_size s" "regs (init_tls a s) = regs s" "eip (init_tls a s) = eip s"
  "halted (init_tls a s) = halted s"
proof -
  have "regs (fold (\<lambda>k. mem_write32 (f k) v) ks t) = regs t \<and>
      g_size (fold (\<lambda>k. mem_write32 (f k) v) ks t) = g_size t \<and>
      eip (fold (\<lambda>k. mem_write32 (f k) v) ks t) = eip t \<and>
      halted (fold (\<lambda>k. mem_write32 (f k) v) ks t) = halted t \<and>
      g_brk (fold (\<lambda>k. mem_write32 (f k) v) ks t) = g_brk t" for f v ks and t :: "'b machine"
    by (induction ks arbitrary: t) simp_all
  note [simp] = this
  show "g_brk (init_tls a s) = a + 0x408" "g_gs_base (init_tls a s) = a + 8"
    "g_size (init_tls a s) = g_size s" "regs (init_tls a s) = regs s" "eip (init_tls a s) = eip s"
    "halted (init_tls a s) = halted s"
    by (simp_all only: init_tls_def Let_def set_gs_base_def) simp_all
qed

text \<open>Reading a word of a block of words.\<close>

lemma read_word_mem:
  assumes "g_mem s = store_bytes p (words vs) m" and "i < length vs" and "unat a = p + 4 * i"
    and "g_size s \<le> 2 ^ 32" and "p + 4 * length vs \<le> g_size s"
  shows "mem_read32 a s = vs ! i"
  using assms nth_words [of i vs] by (simp add: acc32.rd_in load_store_inside)

section \<open>The sample executable\<close>

lemma exit_load:
  fixes s :: "'a i386_scheme"
  assumes "g_size s = 0x20000000" and "length (regs s) = 8" and "\<not> halted s"
  shows "\<exists>t. load_elf (Some exit_elf) exit_argv s = Inr (\<lparr>load_end = 0x08049000\<rparr>, t) \<and>
    eip t = 0x08048000 \<and> \<not> halted t \<and> length (regs t) = 8 \<and> g_size t = 0x20000000 \<and>
    (\<forall>i < 0x08049000. g_mem t i = store_bytes 0x08048000 (drop 84 exit_elf) (g_mem s) i)"
proof -
  define u where "u = (mem_copy_in 0x08048000 (drop 84 exit_elf) (zero_loop 12 0x08048000 s))\<lparr>eip := 0x08048000\<rparr>"
  define t where "t = build_stack (file_ehdr exit_elf) 0x08048034 [[0x61]] u"
  have u: "u = s\<lparr>g_mem := store_bytes 0x08048000 (drop 84 exit_elf) (g_mem s), eip := 0x08048000\<rparr>"
    using assms(1)
    by (simp add: u_def zero_loop_stored mem_copy_in_stored exit_elf_len store_over)
  have "load_segments exit_elf (file_ehdr exit_elf) 1 0
      (\<lparr>ls_load_end = 0, ls_load_addr = 0, ls_first_load = True\<rparr>, s) =
    Inr (\<lparr>ls_load_end = 0x0804800C, ls_load_addr = 0x08048000, ls_first_load = False\<rparr>,
      mem_copy_in 0x08048000 (drop 84 exit_elf) (zero_loop 12 0x08048000 s))"
    using exit_segment [OF assms(1)] by (simp del: zero_loop.simps)
  then have "load_elf (Some exit_elf) exit_argv s = Inr (\<lparr>load_end = 0x08049000\<rparr>, t)"
    by (simp add: load_elf_long exit_elf_len check_ehdr_def exit_ehdr Let_def t_def u_def del: zero_loop.simps)
  moreover have "stack_room (g_size u) [[0x61]]" "length (regs u) = 8"
    using assms by (simp_all add: u stack_room_def strings_def)
  note k = build_stack_keeps [OF this, where ehdr = "file_ehdr exit_elf" and a = "0x08048034", folded t_def]
  moreover have "0x08049000 \<le> unat (reg t REG_ESP)"
    using k(3) assms(1) by (simp add: strings_def u)
  ultimately show ?thesis using assms k(1) k(2) by (auto simp: u)
qed

lemma exit_setup:
  "\<exists>s. main_setup True mute_host exit_files exit_argv () = Inr s \<and> eip s = 0x08048000 \<and>
    \<not> halted s \<and> length (regs s) = 8 \<and> g_size s = 0x20000000 \<and>
    (\<forall>k < 12. g_mem s (0x08048000 + k) = exit_elf ! (84 + k))"
proof -
  define s0 where "s0 = mem_write8 (0x1000 + 2) 0xC3 (mem_write8 (0x1000 + 1) 0x80 (mem_write8 (0x1000 + 0) 0xCD
    (boot_state mute_host ())))"
  have "g_size s0 = 0x20000000" "length (regs s0) = 8" "\<not> halted s0"
    by (simp_all add: s0_def boot_state_def init_cpu_def init_fd_table_def static_state_def)
  from exit_load [OF this] obtain t where t:
    "load_elf (Some exit_elf) exit_argv s0 = Inr (\<lparr>load_end = 0x08049000\<rparr>, t)"
    "eip t = 0x08048000" "\<not> halted t" "length (regs t) = 8" "g_size t = 0x20000000"
    "\<forall>i < 0x08049000. g_mem t i = store_bytes 0x08048000 (drop 84 exit_elf) (g_mem s0) i"
    by blast
  define s where "s = init_mmap_arena (mmap_arena_start 0x08049000) (init_tls 0x08049000 (init_brk 0x08049000 t))"
  have "main_setup True mute_host exit_files exit_argv () = Inr s"
    using t(1)
    by (simp add: main_setup_def init_mem_def Let_def s_def s0_def boot_state_def)
  moreover have "g_mem s (0x08048000 + k) = exit_elf ! (84 + k)" if "k < 12" for k
    using that t(5,6) 
    by (simp add: s_def init_mmap_arena_def init_brk_def init_tls_mem store_bytes_outside) (simp add: store_bytes_def exit_elf_len)
  ultimately show ?thesis
    using t by (simp add: s_def init_mmap_arena_def init_brk_def init_tls_frame)
qed

text \<open>Its first two instructions.\<close>

lemma opcode_lookup:
  "opcode_table fp os ex 0xCD = op_int os" "opcode_table fp os ex 0xB8 = pure_op op_mov_r32_imm32"
  "opcode_table fp os ex 0xBB = pure_op op_mov_r32_imm32" "opcode_table fp os ex 0xEB = pure_op op_jmp_short"
  by (simp_all add: opcode_table_def opcode_entries_def fill_table_def set_entry_def)

lemma mov_step:
  fixes s :: "'w machine"
  assumes "mem_read8 (eip s) s = op" and "op \<in> {0xB8, 0xBB}"
  shows "emulate_step fp os s = Inr (op_mov_r32_imm32 op (s\<lparr>g_last_eip := eip s, eip := eip s + 1\<rparr>))"
  using assms
  by (auto simp: emulate_step_def Let_def opcode_lookup pure_op_def mem_read8_def check_bounds_def)

lemma exit_run:
  assumes "main_setup True mute_host exit_files exit_argv () = Inr s" and "eip s = 0x08048000"
    and "\<not> halted s" "length (regs s) = 8" and "g_size s = 0x20000000"
    and m: "\<forall>k < 12. g_mem s (0x08048000 + k) = exit_elf ! (84 + k)"
  shows "\<exists>t. steps fp mute_host s t \<and> \<not> halted t \<and> eip t = 0x0804800A \<and> g_mem t = g_mem s \<and>
    g_size t = 0x20000000 \<and> reg t REG_EAX = 1 \<and> reg t REG_EBX = 42"
proof -
  have c: "g_mem s 0x08048000 = 0xB8" "g_mem s 0x08048001 = 1" "g_mem s 0x08048002 = 0" "g_mem s 0x08048003 = 0"
    "g_mem s 0x08048004 = 0" "g_mem s 0x08048005 = 0xBB" "g_mem s 0x08048006 = 42" "g_mem s 0x08048007 = 0"
    "g_mem s 0x08048008 = 0" "g_mem s 0x08048009 = 0"
    using m [rule_format, of 0] m [rule_format, of 1] m [rule_format, of 2] m [rule_format, of 3]
      m [rule_format, of 4] m [rule_format, of 5] m [rule_format, of 6] m [rule_format, of 7]
      m [rule_format, of 8] m [rule_format, of 9]
    by (simp_all add: exit_elf_def)
  define s1 where "s1 = op_mov_r32_imm32 0xB8 (s\<lparr>g_last_eip := eip s, eip := eip s + 1\<rparr>)"
  have s1: "emulate_step fp mute_host s = Inr s1"
    unfolding s1_def using assms c by (intro mov_step) (simp_all add: mem_read8_def check_bounds_def)
  have f1: "eip s1 = 0x08048005" "\<not> halted s1" "g_mem s1 = g_mem s" "g_size s1 = g_size s"
    "regs s1 = (regs s)[0 := 1]"
    using assms c
    by (simp_all add: s1_def op_mov_r32_imm32_def fetch32_def mem_read32_def check_bounds_def Let_def set_reg_def)
  define s2 where "s2 = op_mov_r32_imm32 0xBB (s1\<lparr>g_last_eip := eip s1, eip := eip s1 + 1\<rparr>)"
  have s2: "emulate_step fp mute_host s1 = Inr s2"
    unfolding s2_def using assms c f1 by (intro mov_step) (simp_all add: mem_read8_def check_bounds_def)
  have f2: "eip s2 = 0x0804800A" "\<not> halted s2" "g_mem s2 = g_mem s" "g_size s2 = g_size s"
    "regs s2 = (regs s)[0 := 1, 3 := 42]"
    using assms c f1
    by (simp_all add: s2_def op_mov_r32_imm32_def fetch32_def mem_read32_def check_bounds_def Let_def set_reg_def)
  have "steps fp mute_host s s2"
    using s1 s2 f1(2) assms(3) by (blast intro: steps_refl steps_step)
  then show ?thesis using f2 assms(4,5) by (intro exI [of _ s2]) (simp add: reg_def)
qed

section \<open>Properties\<close>

text \<open>C14. The fake thread-local storage above the image: GS points 8 bytes above the end of the image,
  \<open>GS:0x10\<close> holds the address of the system-call stub, \<open>GS:0x14\<close> the stack canary, \<open>GS:4\<close> and
  \<open>GS:8\<close> point to the block itself, the break is the end of the block, and no byte outside the
  block and the \<open>0x3F8\<close> bytes below it changes. The \<open>0x3F8\<close> bytes are bytes of the image, and
  the loop that clears them also clears the chunk header at the end of the image, which the code
  has just set to \<open>0x409\<close>.\<close>

theorem tls_block:
  fixes a :: u32 and s :: "'w machine"
  assumes "0x3F8 \<le> unat a" and "unat a + 0x408 \<le> g_size s" and "g_size s < 2 ^ 32"
  defines "t \<equiv> init_tls a s" and "gs \<equiv> g_gs_base (init_tls a s)"
  shows "gs = a + 8 \<and> g_brk t = a + 0x408 \<and>
    mem_read32 (gs + 0x10) t = 0x1000 \<and> mem_read32 (gs + 0x14) t = 0xDEADBEEF \<and>
    mem_read32 (gs + 4) t = gs \<and> mem_read32 (gs + 8) t = gs \<and>
    mem_read32 a t = 0 \<and> mem_read32 (a + 4) t = 0 \<and>
    (\<forall>i. i < unat a - 0x3F8 \<or> unat a + 0x408 \<le> i \<longrightarrow> g_mem t i = g_mem s i) \<and>
    (\<forall>i. unat a - 0x3F8 \<le> i \<and> i < unat a \<longrightarrow> g_mem t i = 0)"
proof -
  have gs: "gs = a + 8" and brk: "g_brk t = a + 0x408" and size: "g_size t = g_size s"
    by (simp_all add: gs_def t_def init_tls_frame)
  let ?vs = "replicate 256 0 @ tls_words gs" and ?P = "unat a - 0x3F8"
  have m: "g_mem t = store_bytes ?P (words ?vs) (g_mem s)"
    using init_tls_mem [OF assms(1-3)] gs by (simp add: t_def)
  have len: "length ?vs = 512" by (simp add: tls_words_def)
  have rd: "mem_read32 (a + of_nat (4 * k)) t = ?vs ! (254 + k)" if "k < 258" for k
  proof (rule read_word_mem [OF m])
    have "unat (a + of_nat (4 * k)) = unat a + 4 * k"
      using that assms by (intro unat_add_small) simp
    then show "unat (a + of_nat (4 * k)) = ?P + 4 * (254 + k)" using assms(1) by simp
  qed (use that assms len size in simp_all)
  have zero: "g_mem t i = 0" if "?P \<le> i" "i < unat a" for i
  proof -
    have "words (replicate n 0) = replicate (4 * n) 0" for n
      by (induction n) (simp_all add: words_simps enc32_def numeral_eq_Suc)
    moreover have "i - ?P < 1024" using that assms(1) by linarith
    ultimately have "words ?vs ! (i - ?P) = 0"
      by (simp add: words_append nth_append)
    then show ?thesis using that assms(1) len by (simp add: m store_bytes_def)
  qed
  show ?thesis
    using rd [of 0] rd [of 1] rd [of 3] rd [of 4] rd [of 6] rd [of 7] gs brk zero len assms(1)
    by (simp add: m store_bytes_outside nth_append tls_words_def algebra_simps)
qed

theorem tls_block_witness:
  "mem_read32 (0x08049008 + 0x14) (init_tls 0x08049000 (boot_state mute_host ())) = 0xDEADBEEF"
  using tls_block [of "0x08049000" "boot_state mute_host ()"]
  by (simp add: boot_state_def init_cpu_def init_fd_table_def init_tls_frame)

end
