(* ===== verification/Decode_Correct.thy ===== *)
theory Decode_Correct
  imports Decode Sample
begin

text \<open>
  Memory accesses of every width, and the decoder against an assembler of operands: a register,
  or base, scaled index and displacement in the shortest encoding the architecture has for them.
\<close>

section \<open>An assembler for operands\<close>

text \<open>\<open>AtMem base index d\<close>; an index is a register other than 4 and a scale below 4.\<close>

datatype operand = AtReg u8 | AtMem "u8 option" "(u8 \<times> u8) option" u32

fun operand_wf :: "operand \<Rightarrow> bool" where
  "operand_wf (AtReg k) \<longleftrightarrow> k < 8"
| "operand_wf (AtMem b i d) \<longleftrightarrow> (case b of None \<Rightarrow> True | Some r \<Rightarrow> r < 8) \<and>
     (case i of None \<Rightarrow> True | Some (x, sc) \<Rightarrow> x < 8 \<and> x \<noteq> 4 \<and> sc < 4)"

text \<open>The two formats of a byte with fields of 2, 3 and 3 bits.\<close>

definition mrm_fields :: "u8 \<Rightarrow> u8 \<Rightarrow> u8 \<Rightarrow> u8" where
  "mrm_fields a b c = push_bit 6 a OR push_bit 3 b OR c"

text \<open>The mode and the displacement bytes for an operand with a base register.\<close>

definition short_disp :: "u32 \<Rightarrow> bool" where
  "short_disp d \<longleftrightarrow> scast (ucast d :: u8) = d"

definition disp_mode :: "u8 \<Rightarrow> u32 \<Rightarrow> u8" where
  "disp_mode b d = (if d = 0 \<and> b \<noteq> 5 then 0 else if short_disp d then 1 else 2)"

definition disp_bytes :: "u8 \<Rightarrow> u32 \<Rightarrow> u8 list" where
  "disp_bytes b d = (if d = 0 \<and> b \<noteq> 5 then [] else if short_disp d then [ucast d] else enc32 d)"

fun encode_operand :: "u8 \<Rightarrow> operand \<Rightarrow> u8 list" where
  "encode_operand r (AtReg k) = [mrm_fields 3 r k]"
| "encode_operand r (AtMem None None d) = mrm_fields 0 r 5 # enc32 d"
| "encode_operand r (AtMem None (Some (x, sc)) d) = mrm_fields 0 r 4 # mrm_fields sc x 5 # enc32 d"
| "encode_operand r (AtMem (Some b) None d) =
     (if b = 4 then mrm_fields (disp_mode b d) r 4 # mrm_fields 0 4 b # disp_bytes b d
      else mrm_fields (disp_mode b d) r b # disp_bytes b d)"
| "encode_operand r (AtMem (Some b) (Some (x, sc)) d) =
     mrm_fields (disp_mode b d) r 4 # mrm_fields sc x b # disp_bytes b d"

fun effective_address :: "operand \<Rightarrow> 'a i386_scheme \<Rightarrow> u32" where
  "effective_address (AtReg k) s = 0"
| "effective_address (AtMem b i d) s =
     (case b of None \<Rightarrow> 0 | Some r \<Rightarrow> reg s (unat r)) +
     (case i of None \<Rightarrow> 0 | Some (x, sc) \<Rightarrow> reg s (unat x) * 2 ^ unat sc) + d"

section \<open>Decoding the bytes of the assembler\<close>

lemma fields_extract:
  assumes "a < 4" and "b < 8" and "c < 8"
  shows "drop_bit 6 (mrm_fields a b c) AND 3 = a" "drop_bit 3 (mrm_fields a b c) AND 7 = b"
    "mrm_fields a b c AND 7 = c"
proof -
  have small: "take_bit 2 a = a" "take_bit 3 b = b" "take_bit 3 c = c"
    using assms less_mask_eq [of a 2] less_mask_eq [of b 3] less_mask_eq [of c 3]
    by (simp_all add: take_bit_eq_mask)
  have bits: "bit a n \<Longrightarrow> n < 2" "bit b n \<Longrightarrow> n < 3" "bit c n \<Longrightarrow> n < 3" for n
    using small by (metis bit_take_bit_iff)+
  have m: "(3 :: u8) = mask 2" "(7 :: u8) = mask 3" by (simp_all add: mask_eq_exp_minus_1)
  show "drop_bit 6 (mrm_fields a b c) AND 3 = a" "drop_bit 3 (mrm_fields a b c) AND 7 = b" "mrm_fields a b c AND 7 = c"
    unfolding m mrm_fields_def by (auto simp: bit_eq_iff bit_simps dest: bits)
qed

text \<open>The bytes at EIP.\<close>

definition code_at :: "u8 list \<Rightarrow> 'a i386_scheme \<Rightarrow> bool" where
  "code_at bs s \<longleftrightarrow> unat (eip s) + length bs \<le> g_size s \<and> g_size s < 2 ^ 32 \<and>
     load_bytes (unat (eip s)) (length bs) (g_mem s) = bs"

lemma code_at_append:
  fixes s :: "'a i386_scheme"
  assumes "code_at (as @ bs) s"
  shows "code_at bs (s\<lparr>eip := eip s + of_nat (length as)\<rparr>)"
    "load_bytes (unat (eip s)) (length as) (g_mem s) = as"
proof -
  let ?m = "load_bytes (unat (eip s)) (length as + length bs) (g_mem s)"
  have m: "?m = as @ bs" and size: "unat (eip s) + length as + length bs \<le> g_size s" "g_size s < 2 ^ 32"
    using assms by (simp_all add: code_at_def)
  have e: "unat (eip s + of_nat (length as)) = unat (eip s) + length as"
    using size by (intro unat_add_small) simp
  have "load_bytes (unat (eip s) + length as) (length bs) (g_mem s) = drop (length as) ?m"
    by (rule nth_equalityI) (simp_all add: add.assoc)
  then show "code_at bs (s\<lparr>eip := eip s + of_nat (length as)\<rparr>)"
    using size m by (simp add: code_at_def e)
  have "load_bytes (unat (eip s)) (length as) (g_mem s) = take (length as) ?m"
    by (rule nth_equalityI) simp_all
  then show "load_bytes (unat (eip s)) (length as) (g_mem s) = as" using m by simp
qed

lemma fetch8_code:
  assumes "code_at (b # bs) s"
  shows "fetch8 s = (b, s\<lparr>eip := eip s + 1\<rparr>)" "code_at bs (s\<lparr>eip := eip s + 1\<rparr>)"
proof -
  have "code_at ([b] @ bs) s" using assms by simp
  from code_at_append [OF this] assms
  show "fetch8 s = (b, s\<lparr>eip := eip s + 1\<rparr>)" "code_at bs (s\<lparr>eip := eip s + 1\<rparr>)"
    by (simp_all add: fetch8_def acc8.rd_in dec8_def code_at_def)
qed

lemma fetch32_code:
  assumes "code_at (enc32 v @ bs) s"
  shows "fetch32 s = (v, s\<lparr>eip := eip s + 4\<rparr>)" "code_at bs (s\<lparr>eip := eip s + 4\<rparr>)"
  using code_at_append [OF assms] assms
  by (simp_all add: fetch32_def acc32.rd_in code_at_def)

lemma fetch32_code_end: "code_at (enc32 v) s \<Longrightarrow> fetch32 s = (v, s\<lparr>eip := eip s + 4\<rparr>)"
  using fetch32_code(1) [of v "[]" s] by simp

lemma disp_mode_cases:
  obtains "disp_mode b d = 0" "d = 0" "b \<noteq> 5" "disp_bytes b d = []"
  | "disp_mode b d = 1" "scast (ucast d :: u8) = d" "disp_bytes b d = [ucast d]"
  | "disp_mode b d = 2" "disp_bytes b d = enc32 d"
  by (cases "d = 0 \<and> b \<noteq> 5"; cases "short_disp d")
    (auto simp: disp_mode_def disp_bytes_def short_disp_def)

text \<open>What decoding an assembled operand gives.\<close>

definition decodes :: "u8 \<Rightarrow> operand \<Rightarrow> 'a ops_state_scheme \<Rightarrow> bool" where
  "decodes r x s \<longleftrightarrow>
     mrm_reg (fst (parse_modrm s)) = r \<and>
     modrm_end s = eip s + of_nat (length (encode_operand r x)) \<and>
     (case x of
        AtReg k \<Rightarrow> mrm_mod (fst (parse_modrm s)) = 3 \<and> mrm_rm (fst (parse_modrm s)) = k
      | AtMem b i d \<Rightarrow> mrm_mod (fst (parse_modrm s)) \<noteq> 3 \<and>
          fst (resolve_rm_addr (fst (parse_modrm s)) (snd (parse_modrm s))) = effective_address x s)"

lemma decodes_reg:
  assumes "r < 8" and "k < 8" and "code_at (encode_operand r (AtReg k)) s"
  shows "decodes r (AtReg k) s"
  using assms fetch8_code [of "mrm_fields 3 r k" "[]" s]
  by (simp add: decodes_def parse_modrm_def fields_extract Let_def)

lemma decodes_absolute:
  assumes "r < 8" and "code_at (encode_operand r (AtMem None None d)) s" and "g_seg_override s = 0"
  shows "decodes r (AtMem None None d) s"
  using assms fetch8_code [of "mrm_fields 0 r 5" "enc32 d" s]
    fetch32_code_end [of d "s\<lparr>eip := eip s + 1\<rparr>"]
  by (simp add: decodes_def parse_modrm_def fields_extract Let_def resolve_rm_addr_def)

lemma decodes_index:
  assumes "r < 8" and "x < 8" "x \<noteq> 4" "sc < 4"
    and "code_at (encode_operand r (AtMem None (Some (x, sc)) d)) s" and "g_seg_override s = 0"
  shows "decodes r (AtMem None (Some (x, sc)) d) s"
  using assms fetch8_code [of "mrm_fields 0 r 4" "mrm_fields sc x 5 # enc32 d" s]
    fetch8_code [of "mrm_fields sc x 5" "enc32 d" "s\<lparr>eip := eip s + 1\<rparr>"]
    fetch32_code_end [of d "s\<lparr>eip := 2 + eip s\<rparr>"]
  by (simp add: decodes_def parse_modrm_def fields_extract Let_def resolve_rm_addr_def reg_def
      push_bit_eq_mult)

lemma decodes_base:
  assumes "r < 8" and "b < 8" "b \<noteq> 4"
    and "code_at (encode_operand r (AtMem (Some b) None d)) s" and "g_seg_override s = 0"
  shows "decodes r (AtMem (Some b) None d) s"
proof -
  have "disp_mode b d < 4" by (simp add: disp_mode_def)
  note f = fields_extract [OF this assms(1,2)]
  have c: "code_at (mrm_fields (disp_mode b d) r b # disp_bytes b d) s" using assms(3,4) by simp
  note h = fetch8_code [OF c]
  show ?thesis
    by (cases rule: disp_mode_cases [of b d])
      (use assms f h fetch8_code [of "ucast d" "[]" "s\<lparr>eip := eip s + 1\<rparr>"]
          fetch32_code_end [of d "s\<lparr>eip := eip s + 1\<rparr>"] in
        \<open>auto simp: decodes_def parse_modrm_def Let_def resolve_rm_addr_def reg_def\<close>)
qed

lemma decodes_sib:
  assumes "r < 8" and "b < 8" and "x < 8" "sc < 4"
    and "code_at (mrm_fields (disp_mode b d) r 4 # mrm_fields sc x b # disp_bytes b d) s"
    and "g_seg_override s = 0"
  shows "mrm_reg (fst (parse_modrm s)) = r \<and>
    modrm_end s = eip s + of_nat (2 + length (disp_bytes b d)) \<and> mrm_mod (fst (parse_modrm s)) \<noteq> 3 \<and>
    fst (resolve_rm_addr (fst (parse_modrm s)) (snd (parse_modrm s))) =
      reg s (unat b) + (if x = 4 then 0 else reg s (unat x) * 2 ^ unat sc) + d"
proof -
  have "disp_mode b d < 4" by (simp add: disp_mode_def)
  note f = fields_extract [OF this assms(1), of 4, simplified] fields_extract [OF assms(4,3,2)]
  note h = fetch8_code [OF assms(5)]
  note h2 = fetch8_code [OF h(2)]
  show ?thesis
    by (cases rule: disp_mode_cases [of b d])
      (use assms(6) f h h2 fetch8_code [of "ucast d" "[]" "s\<lparr>eip := 2 + eip s\<rparr>"]
          fetch32_code_end [of d "s\<lparr>eip := 2 + eip s\<rparr>"] in
        \<open>auto simp: parse_modrm_def Let_def resolve_rm_addr_def reg_def push_bit_eq_mult\<close>)
qed

lemma decodes_operand:
  assumes "r < 8" and "operand_wf x" and "code_at (encode_operand r x) s" and "g_seg_override s = 0"
  shows "decodes r x s"
  using assms
proof (induction r x rule: encode_operand.induct)
  case (1 r k)
  then show ?case by (intro decodes_reg) simp_all
next
  case (2 r d)
  then show ?case by (intro decodes_absolute) simp_all
next
  case (3 r x sc d)
  then show ?case by (intro decodes_index) simp_all
next
  case (4 r b d)
  show ?case
  proof (cases "b = 4")
    case True
    with 4 decodes_sib [of r b 4 0 d s] show ?thesis by (simp add: decodes_def)
  next
    case False
    with 4 show ?thesis by (intro decodes_base) simp_all
  qed
next
  case (5 r b x sc d)
  with decodes_sib [of r b x sc d s] show ?case by (simp add: decodes_def)
qed

section \<open>Properties\<close>

text \<open>C9. Decoding is the inverse of assembling: when the bytes at EIP are the ModR/M byte, SIB byte and
  displacement of an operand, the decoder finds the register field, stops after the last byte, and
  a 32-bit read gives the register, or the word at base plus scaled index plus displacement. Every
  addressing mode and displacement size is covered.\<close>

theorem modrm_roundtrip:
  fixes s :: "'a ops_state_scheme"
  assumes "r < 8" and "operand_wf x" and "code_at (encode_operand r x) s" and "g_seg_override s = 0"
  shows "mrm_reg (fst (parse_modrm s)) = r \<and>
    modrm_end s = eip s + of_nat (length (encode_operand r x)) \<and>
    operand32 s = (case x of AtReg k \<Rightarrow> reg s (unat k)
      | AtMem b i d \<Rightarrow> mem_read32 (effective_address x s) s)"
  using decodes_operand [OF assms]
  by (cases x) (auto simp: decodes_def read_rm32_def split_beta)

theorem modrm_roundtrip_witness:
  "operand32 (sample [0x44, 0x8B, 4] [0, 2, 0, 16, 0, 0, 0, 0]) =
   mem_read32 28 (sample [0x44, 0x8B, 4] [0, 2, 0, 16, 0, 0, 0, 0])"
proof -
  have "encode_operand 0 (AtMem (Some 3) (Some (1, 2)) 4) = [0x44, 0x8B, 4]"
    by (simp add: mrm_fields_def disp_mode_def disp_bytes_def short_disp_def)
  then show ?thesis
    using modrm_roundtrip [of 0 "AtMem (Some 3) (Some (1, 2)) 4"
        "sample [0x44, 0x8B, 4] [0, 2, 0, 16, 0, 0, 0, 0]"]
    by (simp add: code_at_def load_bytes_def reg_def upt_conv_Cons)
qed

text \<open>C10. Memory accesses: in bounds, reading back what was written at an address gives the value, at
  every width, and no other byte changes; when the last byte of the access is outside the block
  the write is dropped and the read gives 0.\<close>

theorem mem_roundtrip:
  fixes s :: "'a mem_state_scheme"
  assumes "g_size s \<le> 2 ^ 32"
  shows "mem_read32 a (mem_write32 a v s) = (if unat a + 4 \<le> g_size s then v else 0) \<and>
    mem_read16 a (mem_write16 a h s) = (if unat a + 2 \<le> g_size s then h else 0) \<and>
    mem_read8 a (mem_write8 a b s) = (if unat a + 1 \<le> g_size s then b else 0) \<and>
    (\<forall>i. i < unat a \<or> unat a + 4 \<le> i \<or> g_size s < unat a + 4 \<longrightarrow>
       g_mem (mem_write32 a v s) i = g_mem s i) \<and>
    (\<forall>i. i < unat a \<or> unat a + 2 \<le> i \<or> g_size s < unat a + 2 \<longrightarrow>
       g_mem (mem_write16 a h s) i = g_mem s i) \<and>
    (\<forall>i. i < unat a \<or> unat a + 1 \<le> i \<or> g_size s < unat a + 1 \<longrightarrow>
       g_mem (mem_write8 a b s) i = g_mem s i)"
  using assms acc32.rd_wr_same [of s a v] acc16.rd_wr_same [of s a h] acc8.rd_wr_same [of s a b]
    acc32.wr_outside [OF assms] acc16.wr_outside [OF assms] acc8.wr_outside [OF assms, of _ a b]
  by (auto simp: acc32.wr_out acc16.wr_out acc8.wr_out acc32.rd_out acc16.rd_out acc8.rd_out)

theorem mem_roundtrip_witness:
  "mem_read32 0xFFE (mem_write32 0xFFE 7 (sample [] [])) = 0 \<and>
   mem_read16 0xFFE (mem_write16 0xFFE 7 (sample [] [])) = 7"
  using mem_roundtrip [of "sample [] []" "0xFFE" 7 7 0] by simp

end
