(* ===== verification/Alu_Correct.thy ===== *)
theory Alu_Correct
  imports Ops_Alu Ops_Ctl Sample
begin

text \<open>
  What the arithmetic handlers compute: reference results for addition and subtraction with
  their carries and overflows as facts about integers, one contract for the 32-bit forms with a
  register destination, and the conditions a conditional jump tests afterwards.
\<close>

section \<open>Reference results\<close>

text \<open>
  The reference result of an addition or subtraction with carry: the value, the carry or borrow
  out of the unsigned operation, and whether the signed operation overflows.
\<close>

definition ref_add :: "u32 \<Rightarrow> u32 \<Rightarrow> u32 \<Rightarrow> u32 \<times> bool \<times> bool" where
  "ref_add a b c =
     (word_of_int (uint a + uint b + uint c), 2 ^ 32 \<le> uint a + uint b + uint c,
      \<not> fits32 (sint a + sint b + uint c))"

definition ref_sub :: "u32 \<Rightarrow> u32 \<Rightarrow> u32 \<Rightarrow> u32 \<times> bool \<times> bool" where
  "ref_sub a b c =
     (word_of_int (uint a - uint b - uint c), uint a < uint b + uint c,
      \<not> fits32 (sint a - sint b - uint c))"

text \<open>ZF, SF and PF show the value.\<close>

definition value_flags :: "u32 \<Rightarrow> 'a i386_scheme \<Rightarrow> bool" where
  "value_flags r s \<longleftrightarrow> get_zf s = of_bool (r = 0) \<and> get_sf s = of_bool (sint r < 0) \<and>
     get_pf s = of_bool (parity_even (ucast r))"

definition shows_result :: "u32 \<times> bool \<times> bool \<Rightarrow> 'a i386_scheme \<Rightarrow> bool" where
  "shows_result x s \<longleftrightarrow> (case x of (r, c, v) \<Rightarrow>
     value_flags r s \<and> get_cf s = of_bool c \<and> get_of s = of_bool v)"

lemma flag_chain:
  fixes r :: u32 and s :: "'a ops_state_scheme" and c :: bool
  defines "t \<equiv> set_pf r (set_sf r (set_zf r (set_cf c s)))"
  shows "value_flags r (add_cycles n (set_of_add a b r t))"
    "get_cf (add_cycles n (set_of_add a b r t)) = of_bool c"
    "get_of (add_cycles n (set_of_add a b r t)) =
      of_bool ((bit a 31 \<longleftrightarrow> bit b 31) \<and> bit a 31 \<noteq> bit r 31)"
    "value_flags r (add_cycles n (set_of_sub a b r t))"
    "get_cf (add_cycles n (set_of_sub a b r t)) = of_bool c"
    "get_of (add_cycles n (set_of_sub a b r t)) =
      of_bool (bit a 31 \<noteq> bit b 31 \<and> bit a 31 \<noteq> bit r 31)"
  by (simp_all only: t_def value_flags_def get_flag_bit sint_neg_bit31 add_cycles_frame
      bit_eflags_set bit_eflags_set_pf) simp_all

lemma ref_value:
  "word_of_int (uint a + uint b + uint c) = a + b + c" 
  "word_of_int (uint a - uint b - uint c) = a - b - c" for a b c :: u32
  by simp_all

lemma shows_result_add:
  fixes s :: "'a ops_state_scheme"
  assumes "c \<le> 1"
  shows "shows_result (ref_add a b c)
    (add_cycles n (set_of_add a b (a + b + c) (set_pf (a + b + c) (set_sf (a + b + c) (set_zf (a + b + c)
      (set_cf (a + b + c < a \<or> (c \<noteq> 0 \<and> a + b + c = a)) s))))))"
  by (simp only: shows_result_def ref_add_def ref_value prod.case flag_chain
      carry_add [OF assms] overflow_add [OF assms])

lemma shows_result_sub:
  fixes s :: "'a ops_state_scheme"
  assumes "c \<le> 1"
  shows "shows_result (ref_sub a b c)
    (add_cycles n (set_of_sub a b (a - b - c) (set_pf (a - b - c) (set_sf (a - b - c) (set_zf (a - b - c)
      (set_cf (a < b + c \<or> (c \<noteq> 0 \<and> b = 0xFFFFFFFF)) s))))))"
  by (simp only: shows_result_def ref_sub_def ref_value prod.case flag_chain
      borrow_sub [OF assms] overflow_sub [OF assms])

lemmas shows_result_add_0 = shows_result_add [of 0, simplified]
lemmas shows_result_sub_0 = shows_result_sub [of 0, simplified]

lemmas shows_result_adc = shows_result_add [OF get_cf_le_1, simplified]
lemmas shows_result_sbb = shows_result_sub [OF get_cf_le_1, simplified]

section \<open>Two-operand instructions with a register operand\<close>

text \<open>
  The contract: with \<open>a\<close> the register and \<open>b\<close> the other operand, the flags show the reference
  result, the register gets its value when the instruction writes, and the other registers and
  memory stay.
\<close>

locale alu_r32 =
  fixes h :: "u8 \<Rightarrow> 'a ops_state_scheme \<Rightarrow> 'a ops_state_scheme"
    and ref :: "u32 \<Rightarrow> u32 \<Rightarrow> u32 \<Rightarrow> u32 \<times> bool \<times> bool"
    and writes :: bool
  assumes alu_flags: "shows_result (ref (reg s (modrm_reg s)) (operand32 s) (get_cf s)) (h op s)"
    and alu_regs: "length (regs s) = 8 \<Longrightarrow> reg (h op s) i =
        (if writes \<and> i = modrm_reg s
         then fst (ref (reg s (modrm_reg s)) (operand32 s) (get_cf s)) else reg s i)"
    and alu_mem: "g_mem (h op s) = g_mem s" "g_size (h op s) = g_size s"
    and alu_eip: "eip (h op s) = modrm_end s"

lemma ref_fst: "fst (ref_add a b c) = a + b + c" "fst (ref_sub a b c) = a - b - c"
  by (simp_all add: ref_add_def ref_sub_def)

interpretation add32: alu_r32 op_add_r32_rm32 "\<lambda>a b c. ref_add a b 0" True
  by unfold_locales
    (simp_all add: op_add_r32_rm32_def Let_def split_beta reg_set_reg shows_result_add_0 ref_fst)

interpretation adc32: alu_r32 op_adc_r32_rm32 ref_add True
  by unfold_locales
    (simp_all add: op_adc_r32_rm32_def Let_def split_beta reg_set_reg shows_result_adc ref_fst)

interpretation sub32: alu_r32 op_sub_r32_rm32 "\<lambda>a b c. ref_sub a b 0" True
  by unfold_locales
    (simp_all add: op_sub_r32_rm32_def Let_def split_beta reg_set_reg shows_result_sub_0 ref_fst)

interpretation sbb32: alu_r32 op_sbb_r32_rm32 ref_sub True
  by unfold_locales
    (simp_all add: op_sbb_r32_rm32_def Let_def split_beta reg_set_reg shows_result_sbb ref_fst)

interpretation cmp32: alu_r32 op_cmp_r32_rm32 "\<lambda>a b c. ref_sub a b 0" False
  by unfold_locales
    (simp_all add: op_cmp_r32_rm32_def Let_def split_beta reg_set_reg shows_result_sub_0 ref_fst)

section \<open>Two-operand instructions with a register or memory destination\<close>

text \<open>
  The contract of the other direction: the destination is the ModR/M operand. Reading the operand
  after the instruction gives the value of the reference result, when the operand lies inside the
  block and no segment override is pending.
\<close>

locale alu_rm32 =
  fixes h :: "u8 \<Rightarrow> 'a ops_state_scheme \<Rightarrow> 'a ops_state_scheme"
    and ref :: "u32 \<Rightarrow> u32 \<Rightarrow> u32 \<Rightarrow> u32 \<times> bool \<times> bool"
  assumes rm_flags: "shows_result (ref (operand32 s) (reg s (modrm_reg s)) (get_cf s)) (h op s)"
    and rm_value: "g_size s \<le> 2 ^ 32 \<Longrightarrow> length (regs s) = 8 \<Longrightarrow> g_seg_override s = 0 \<Longrightarrow>
      operand_ok (fst (parse_modrm s)) (snd (parse_modrm s)) \<Longrightarrow>
      fst (read_rm32 (fst (parse_modrm s)) (h op s)) =
        fst (ref (operand32 s) (reg s (modrm_reg s)) (get_cf s))"

interpretation add_rm: alu_rm32 op_add_rm32_r32 "\<lambda>a b c. ref_add a b 0"
  by unfold_locales
    (simp_all add: op_add_rm32_r32_def Let_def split_beta shows_result_add_0 ref_fst,
     rule read_modified, simp_all)

interpretation adc_rm: alu_rm32 op_adc_rm32_r32 ref_add
  by unfold_locales
    (simp_all add: op_adc_rm32_r32_def Let_def split_beta shows_result_adc ref_fst,
     rule read_modified, simp_all)

interpretation sub_rm: alu_rm32 op_sub_rm32_r32 "\<lambda>a b c. ref_sub a b 0"
  by unfold_locales
    (simp_all add: op_sub_rm32_r32_def Let_def split_beta shows_result_sub_0 ref_fst,
     rule read_modified, simp_all)

interpretation sbb_rm: alu_rm32 op_sbb_rm32_r32 ref_sub
  by unfold_locales
    (simp_all add: op_sbb_rm32_r32_def Let_def split_beta shows_result_sbb ref_fst,
     rule read_modified, simp_all)

section \<open>Conditions after a comparison\<close>

text \<open>What each condition code asks of the compared values; the other six read a single flag.\<close>

definition compare_holds :: "u8 \<Rightarrow> u32 \<Rightarrow> u32 \<Rightarrow> bool" where
  "compare_holds k a b =
     (if k = 0x2 then a < b else if k = 0x3 then b \<le> a
      else if k = 0x4 then a = b else if k = 0x5 then a \<noteq> b
      else if k = 0x6 then a \<le> b else if k = 0x7 then b < a
      else if k = 0xC then sint a < sint b else if k = 0xD then sint b \<le> sint a
      else if k = 0xE then sint a \<le> sint b else sint b < sint a)"

abbreviation compare_codes :: "u8 set" where
  "compare_codes \<equiv> {0x2, 0x3, 0x4, 0x5, 0x6, 0x7, 0xC, 0xD, 0xE, 0xF}"

lemma int_sub_less:
  fixes A B R :: int
  defines "s \<equiv> (\<lambda>x. x - (if 2 ^ 31 \<le> x then 2 ^ 32 else 0))"
  assumes "0 \<le> A" "A < 2 ^ 32" "0 \<le> B" "B < 2 ^ 32"
    and "R = (if A - B < 0 then A - B + 2 ^ 32 else A - B)"
  shows "2 ^ 31 \<le> R \<longleftrightarrow> fits32 (s A - s B) = (s A < s B)"
  using assms(2-) by (auto simp: fits32_def s_def split: if_splits)

lemma sub_signed_less:
  fixes a b :: u32
  shows "bit (a - b) 31 \<longleftrightarrow> fits32 (sint a - sint b) = (sint a < sint b)"
proof -
  have "uint (a - b) = (if uint a - uint b < 0 then uint a - uint b + 2 ^ 32 else uint a - uint b)"
    using uint_sub_borrow [of 0 a b] by simp
  from int_sub_less [OF u32_bounds [of a] u32_bounds [of b] this] show ?thesis
    by (simp add: sint_u32 bit31_uint)
qed

lemma sint_eq_iff: "sint a = sint b \<longleftrightarrow> a = b" for a b :: u32
  using word_eq_iff_signed [of a b] by blast

lemma cc_after_sub:
  assumes "shows_result (ref_sub a b 0) s" and "k \<in> compare_codes"
  shows "cc_switch base (base + k) s = Some (compare_holds k a b)"
proof -
  have f: "get_cf s = of_bool (a < b)" "get_zf s = of_bool (a = b)" "get_sf s = of_bool (bit (a - b) 31)"
    "get_of s = of_bool (\<not> fits32 (sint a - sint b))"
    using assms(1)
    by (simp_all add: shows_result_def ref_sub_def value_flags_def sint_neg_bit31 word_less_def)
  have l: "(of_bool (bit (a - b) 31) = (of_bool (\<not> fits32 (sint a - sint b)) :: u32)) \<longleftrightarrow> sint b \<le> sint a"
    using sub_signed_less [of a b] by (auto simp: of_bool_def split: if_splits)
  have e: "sint a \<le> sint b \<longleftrightarrow> a = b \<or> sint a < sint b" "sint b < sint a \<longleftrightarrow> a \<noteq> b \<and> sint b \<le> sint a"
    by (auto simp: le_less sint_eq_iff)
  have u: "a \<le> b \<longleftrightarrow> a < b \<or> a = b" "b < a \<longleftrightarrow> b \<le> a \<and> a \<noteq> b" by auto
  show ?thesis
    using assms(2)
    by (elim insertE emptyE; simp add: cc_switch_def compare_holds_def f l e u not_less not_le)
qed


lemma cc_switch_eip [simp]: "cc_switch base op (s\<lparr>eip := w\<rparr>) = cc_switch base op s"
  by (simp add: cc_switch_def get_flag_bit)

section \<open>Properties\<close>

text \<open>C15. ADD and ADC r32, r/m32: the register gets the sum modulo \<open>2 ^ 32\<close> and no other register
  changes; CF is the carry out of the unsigned sum (ADC including the carry in), OF says whether
  the signed sum overflows, ZF, SF and PF show the value.\<close>

theorem add_adc_r32:
  fixes s :: "'a ops_state_scheme"
  assumes "length (regs s) = 8"
  shows "(\<forall>i. reg (op_add_r32_rm32 op s) i =
        (if i = modrm_reg s then reg s i + operand32 s else reg s i)) \<and>
    shows_result (ref_add (reg s (modrm_reg s)) (operand32 s) 0) (op_add_r32_rm32 op s) \<and>
    (\<forall>i. reg (op_adc_r32_rm32 op s) i =
        (if i = modrm_reg s then reg s i + operand32 s + get_cf s else reg s i)) \<and>
    shows_result (ref_add (reg s (modrm_reg s)) (operand32 s) (get_cf s)) (op_adc_r32_rm32 op s)"
  using add32.alu_regs [OF assms] adc32.alu_regs [OF assms] add32.alu_flags [of s] adc32.alu_flags [of s]
  by (simp add: ref_fst)

theorem add_adc_r32_witness:
  "reg (op_add_r32_rm32 0x03 (sample [0xC3] [0xFFFFFFFF, 0, 0, 2, 0, 0, 0, 0])) 0 = 1 \<and>
   get_cf (op_add_r32_rm32 0x03 (sample [0xC3] [0xFFFFFFFF, 0, 0, 2, 0, 0, 0, 0])) = 1"
  using add_adc_r32 [of "sample [0xC3] [0xFFFFFFFF, 0, 0, 2, 0, 0, 0, 0]" "0x03"]
  by (simp add: parse_modrm_def read_rm32_def sample_eval shows_result_def ref_add_def)

text \<open>C16. SUB and SBB r32, r/m32: the register gets the difference and no other register changes; CF
  is the borrow of the unsigned difference (SBB including the borrow in), OF says whether the
  signed difference overflows, ZF, SF and PF show the value.\<close>

theorem sub_sbb_r32:
  fixes s :: "'a ops_state_scheme"
  assumes "length (regs s) = 8"
  shows "(\<forall>i. reg (op_sub_r32_rm32 op s) i =
        (if i = modrm_reg s then reg s i - operand32 s else reg s i)) \<and>
    shows_result (ref_sub (reg s (modrm_reg s)) (operand32 s) 0) (op_sub_r32_rm32 op s) \<and>
    (\<forall>i. reg (op_sbb_r32_rm32 op s) i =
        (if i = modrm_reg s then reg s i - operand32 s - get_cf s else reg s i)) \<and>
    shows_result (ref_sub (reg s (modrm_reg s)) (operand32 s) (get_cf s)) (op_sbb_r32_rm32 op s)"
  using sub32.alu_regs [OF assms] sbb32.alu_regs [OF assms] sub32.alu_flags [of s] sbb32.alu_flags [of s]
  by (simp add: ref_fst)

theorem sub_sbb_r32_witness:
  "reg (op_sub_r32_rm32 0x2B (sample [0xC3] [0x80000000, 0, 0, 1, 0, 0, 0, 0])) 0 = 0x7FFFFFFF \<and>
   get_of (op_sub_r32_rm32 0x2B (sample [0xC3] [0x80000000, 0, 0, 1, 0, 0, 0, 0])) = 1"
  using sub_sbb_r32 [of "sample [0xC3] [0x80000000, 0, 0, 1, 0, 0, 0, 0]" "0x2B"]
  by (simp add: parse_modrm_def read_rm32_def sample_eval shows_result_def ref_sub_def fits32_def)

text \<open>C17. ADD, ADC, SUB and SBB r/m32, r32: when no segment override is pending and the operand
  lies inside the block, reading the operand after the instruction gives the sum or difference, and
  the flags are those of the register forms.\<close>

theorem arith_rm32:
  fixes s :: "'a ops_state_scheme"
  assumes "g_size s \<le> 2 ^ 32" and "length (regs s) = 8" and "g_seg_override s = 0"
    and "operand_ok (fst (parse_modrm s)) (snd (parse_modrm s))"
  shows "fst (read_rm32 (fst (parse_modrm s)) (op_add_rm32_r32 op s)) =
      operand32 s + reg s (modrm_reg s) \<and>
    fst (read_rm32 (fst (parse_modrm s)) (op_adc_rm32_r32 op s)) =
      operand32 s + reg s (modrm_reg s) + get_cf s \<and>
    fst (read_rm32 (fst (parse_modrm s)) (op_sub_rm32_r32 op s)) =
      operand32 s - reg s (modrm_reg s) \<and>
    fst (read_rm32 (fst (parse_modrm s)) (op_sbb_rm32_r32 op s)) =
      operand32 s - reg s (modrm_reg s) - get_cf s \<and>
    shows_result (ref_add (operand32 s) (reg s (modrm_reg s)) 0) (op_add_rm32_r32 op s) \<and>
    shows_result (ref_add (operand32 s) (reg s (modrm_reg s)) (get_cf s)) (op_adc_rm32_r32 op s) \<and>
    shows_result (ref_sub (operand32 s) (reg s (modrm_reg s)) 0) (op_sub_rm32_r32 op s) \<and>
    shows_result (ref_sub (operand32 s) (reg s (modrm_reg s)) (get_cf s)) (op_sbb_rm32_r32 op s)"
  using add_rm.rm_value [OF assms] adc_rm.rm_value [OF assms] sub_rm.rm_value [OF assms]
    sbb_rm.rm_value [OF assms] add_rm.rm_flags [of s] adc_rm.rm_flags [of s] sub_rm.rm_flags [of s]
    sbb_rm.rm_flags [of s]
  by (simp add: ref_fst)

theorem arith_rm32_witness:
  "fst (read_rm32 (fst (parse_modrm (sample [0x03, 0, 0, 0] [5, 0, 0, 0, 0, 0, 0, 0])))
     (op_add_rm32_r32 0x01 (sample [0x03, 0, 0, 0] [5, 0, 0, 0, 0, 0, 0, 0]))) = 8"
  using arith_rm32 [of "sample [0x03, 0, 0, 0] [5, 0, 0, 0, 0, 0, 0, 0]" "0x01"]
  by (simp add: parse_modrm_def read_rm32_def resolve_rm_addr_def operand_ok_def sample_eval)

text \<open>C36. INC and DEC r32 add and subtract one in the register the opcode names, leave CF alone, and
  set OF exactly on signed overflow.\<close>

theorem inc_dec_r32:
  fixes s :: "'a ops_state_scheme" and op :: u8
  assumes "length (regs s) = 8"
  defines "r \<equiv> unat (op AND 0x07)"
  shows "(\<forall>i. reg (op_inc_r32 op s) i = (if i = r then reg s r + 1 else reg s i)) \<and>
    value_flags (reg s r + 1) (op_inc_r32 op s) \<and> get_cf (op_inc_r32 op s) = get_cf s \<and>
    get_of (op_inc_r32 op s) = of_bool (\<not> fits32 (sint (reg s r) + 1)) \<and>
    (\<forall>i. reg (op_dec_r32 op s) i = (if i = r then reg s r - 1 else reg s i)) \<and>
    value_flags (reg s r - 1) (op_dec_r32 op s) \<and> get_cf (op_dec_r32 op s) = get_cf s \<and>
    get_of (op_dec_r32 op s) = of_bool (\<not> fits32 (sint (reg s r) - 1))"
proof -
  have r: "r < 8"
    using modrm_field_bounds(3) [of op] by (simp add: r_def word_less_nat_alt)
  show ?thesis
    using r assms(1) overflow_add [of 0 "reg s r" 1] overflow_sub [of 0 "reg s r" 1]
    by (simp add: op_inc_r32_def op_dec_r32_def Let_def r_def [symmetric] reg_set_reg
        value_flags_def get_flag_bit sint_neg_bit31)
qed


theorem inc_dec_r32_witness:
  "reg (op_inc_r32 0x41 (sample [] [0, 0x7FFFFFFF, 0, 0, 0, 0, 0, 0])) 1 = 0x80000000 \<and>
   get_of (op_inc_r32 0x41 (sample [] [0, 0x7FFFFFFF, 0, 0, 0, 0, 0, 0])) = 1"
  using inc_dec_r32 [of "sample [] [0, 0x7FFFFFFF, 0, 0, 0, 0, 0, 0]" "0x41"]
  by (simp add: sample_eval fits32_def)

text \<open>C37. AND, OR and XOR r32, r/m32 compute the bitwise operation with ZF, SF and PF of the value,
  clear CF, and leave OF, memory and the other registers as they were (a processor clears OF).\<close>

theorem logic_r32:
  fixes s :: "'a ops_state_scheme" and op :: u8
  assumes "length (regs s) = 8"
  defines "a \<equiv> reg s (modrm_reg s)" and "b \<equiv> operand32 s"
  shows "reg (op_and_r32_rm32 op s) (modrm_reg s) = a AND b \<and> value_flags (a AND b) (op_and_r32_rm32 op s) \<and>
    reg (op_or_r32_rm32 op s) (modrm_reg s) = a OR b \<and> value_flags (a OR b) (op_or_r32_rm32 op s) \<and>
    reg (op_xor_r32_rm32 op s) (modrm_reg s) = a XOR b \<and> value_flags (a XOR b) (op_xor_r32_rm32 op s) \<and>
    (\<forall>t \<in> {op_and_r32_rm32 op s, op_or_r32_rm32 op s, op_xor_r32_rm32 op s}.
       get_cf t = 0 \<and> get_of t = get_of s \<and> g_mem t = g_mem s \<and>
       (\<forall>i. i \<noteq> modrm_reg s \<longrightarrow> reg t i = reg s i))"
  using assms(1)
  by (simp add: op_and_r32_rm32_def op_or_r32_rm32_def op_xor_r32_rm32_def Let_def split_beta
      a_def b_def reg_set_reg value_flags_def get_flag_bit sint_neg_bit31 or.commute)

theorem logic_r32_witness:
  "reg (op_xor_r32_rm32 0x33 (sample [0xC0] [7, 0, 0, 0, 0, 0, 0, 0])) 0 = 0"
  using logic_r32 [of "sample [0xC0] [7, 0, 0, 0, 0, 0, 0, 0]" "0x33"]
  by (simp add: parse_modrm_def read_rm32_def sample_eval)

lemma byte_bit31: "\<not> bit (w :: u8) 31"
  by (auto dest: bit_imp_le_length)

text \<open>After CMP AL, imm8 the flags SF and OF are always clear, so a jump on signed less is never
  taken: the comparison sets the flags from the zero-extended bytes, whose bit 31 is 0.\<close>

theorem cmp_al_signed:
  "get_sf (op_cmp_al_imm8 op s) = 0 \<and> get_of (op_cmp_al_imm8 op s) = 0 \<and>
   cc_switch base (base + 0xC) (op_cmp_al_imm8 op s) = Some False"
  by (simp add: op_cmp_al_imm8_def Let_def split_beta cc_switch_def get_flag_bit bit_simps
      byte_bit31)

text \<open>C18. CMP r32, r/m32 followed by a near conditional jump: for each of the ten codes that compare
  (below, equal, less, and their relatives) the jump is taken exactly when the compared values stand
  in that relation, unsigned or signed, and EIP ends at the target or after the jump.\<close>

theorem cmp_jcc:
  fixes s :: "'a ops_state_scheme"
  assumes "k \<in> compare_codes"
  shows "eip (op_jcc_near (0x80 + k) (op_cmp_r32_rm32 op s)) = modrm_end s + 4 +
    (if compare_holds k (reg s (modrm_reg s)) (operand32 s) then mem_read32 (modrm_end s) s else 0)"
  using cc_after_sub [OF cmp32.alu_flags [where s = s and op = op] assms(1), where base = "0x80"]
  by (simp add: op_jcc_near_def fetch32_def cmp32.alu_eip cmp32.alu_mem mem_read32_def check_bounds_def)

theorem cmp_jcc_witness:
  "eip (op_jcc_near 0x8C (op_cmp_r32_rm32 0x3B
     (sample [0xC3, 0x10, 0, 0, 0] [- 1, 0, 0, 1, 0, 0, 0, 0]))) = 0x15"
  using cmp_jcc [of "0xC" "0x3B" "sample [0xC3, 0x10, 0, 0, 0] [- 1, 0, 0, 1, 0, 0, 0, 0]"]
  by (simp add: compare_holds_def parse_modrm_def read_rm32_def sample_eval)

end
