(* ===== verification/Arith_Correct.thy ===== *)
theory Arith_Correct
  imports Ops_Arith Sample
begin

text \<open>
  What the multiplications and divisions of \<open>src/cpu/ops.c\<close> compute, as facts about integers.
\<close>

section \<open>Products and quotients\<close>

lemma uint_ucast_32: "uint (ucast (w :: u64) :: u32) = uint w mod 2 ^ 32"
  by (simp add: unsigned_ucast_eq take_bit_eq_mod)

lemma uint_ucast_64: "uint (ucast (w :: u32) :: u64) = uint w"
proof -
  have "take_bit 64 (uint w) = uint w"
    using u32_bounds [of w] by (intro take_bit_int_eq_self) auto
  then show ?thesis by (simp add: unsigned_ucast_eq)
qed

lemma u64_bounds: "0 \<le> uint w" "uint w < 2 ^ 64" for w :: u64
  using uint_lt2p [of w] by simp_all

lemma pair_value:
  fixes h l :: u32
  shows "uint (push_bit 32 (ucast h :: u64) OR ucast l) = uint h * 2 ^ 32 + uint l"
proof -
  have "take_bit 64 (push_bit 32 (uint h)) = push_bit 32 (uint h)"
    using u32_bounds [of h] by (intro take_bit_int_eq_self) (auto simp: push_bit_eq_mult)
  then have "uint (push_bit 32 (ucast h :: u64) OR ucast l) = push_bit 32 (uint h) OR uint l"
    by (simp add: unsigned_or_eq unsigned_push_bit_eq uint_ucast_64)
  also have "\<dots> = push_bit 32 (uint h) + uint l"
  proof (rule disjunctive_add_eq_or [symmetric])
    show "push_bit 32 (uint h) AND uint l = 0"
      by (rule bit_eqI) (auto simp: bit_simps dest: bit_imp_le_length)
  qed
  finally show ?thesis by (simp add: push_bit_eq_mult)
qed

lemma mul_halves:
  fixes a b :: u32
  defines "r \<equiv> (ucast a :: u64) * ucast b"
  shows "uint (ucast (drop_bit 32 r) :: u32) * 2 ^ 32 + uint (ucast (r AND 0xFFFFFFFF) :: u32) = uint a * uint b"
proof -
  have "uint a * uint b < 2 ^ 32 * 2 ^ 32"
    using u32_bounds [of a] u32_bounds [of b] by (intro mult_strict_mono) auto
  then have r: "uint r = uint a * uint b"
    by (simp add: r_def uint_word_ariths uint_ucast_64 u32_bounds mod_pos_pos_trivial)
  have h: "uint (ucast (drop_bit 32 r) :: u32) = uint r div 2 ^ 32"
    using u64_bounds [of r]
    by (simp add: uint_ucast_32 drop_bit_eq_div uint_div mod_pos_pos_trivial div_less_iff_less_mult
        pos_imp_zdiv_nonneg_iff)
  have "r AND 0xFFFFFFFF = take_bit 32 r"
    by (simp add: take_bit_eq_mask mask_eq_exp_minus_1)
  then have l: "uint (ucast (r AND 0xFFFFFFFF) :: u32) = uint r mod 2 ^ 32"
    by (simp add: uint_ucast_32 take_bit_eq_mod uint_mod)
  show ?thesis unfolding h l r [symmetric] by simp
qed


lemma int_div_less:
  fixes n d k :: int
  assumes "0 < d" and "n < d * k"
  shows "n div d < k"
proof -
  have "n div d * d \<le> n" using pos_mod_sign [OF assms(1), of n] by (simp add: minus_mod_eq_div_mult [symmetric])
  with assms(2) have "d * (n div d) < d * k" by (simp add: mult.commute)
  with assms(1) show ?thesis by simp
qed

lemma div_halves:
  fixes h l d :: u32
  defines "D \<equiv> push_bit 32 (ucast h :: u64) OR ucast l"
  assumes "h < d"
  shows "uint (ucast (D div ucast d) :: u32) = (uint h * 2 ^ 32 + uint l) div uint d"
    and "uint (ucast (D mod ucast d) :: u32) = (uint h * 2 ^ 32 + uint l) mod uint d"
proof -
  have "uint h < uint d" using assms(2) by (simp add: word_less_def)
  then have d: "0 < uint d" "uint h < uint d" using u32_bounds(1) [of h] by linarith+
  have "uint h * 2 ^ 32 + uint l < (uint h + 1) * 2 ^ 32"
    using u32_bounds [of l] by (simp add: algebra_simps)
  also have "\<dots> \<le> uint d * 2 ^ 32" using d by simp
  finally have "uint h * 2 ^ 32 + uint l < uint d * 2 ^ 32" .
  then have q: "(uint h * 2 ^ 32 + uint l) div uint d < 2 ^ 32"
    by (rule int_div_less [OF d(1)])
  have q0: "0 \<le> (uint h * 2 ^ 32 + uint l) div uint d"
    using u32_bounds(1) [of h] u32_bounds(1) [of l] by (simp add: pos_imp_zdiv_nonneg_iff [OF d(1)])
  have "(uint h * 2 ^ 32 + uint l) mod uint d < 2 ^ 32"
    using d u32_bounds(2) [of d] pos_mod_bound [OF d(1)] by (smt (verit))
  then show "uint (ucast (D mod ucast d) :: u32) = (uint h * 2 ^ 32 + uint l) mod uint d"
    using d by (simp add: D_def uint_ucast_32 uint_mod pair_value [simplified] uint_ucast_64 mod_pos_pos_trivial)
  show "uint (ucast (D div ucast d) :: u32) = (uint h * 2 ^ 32 + uint l) div uint d"
    using mod_pos_pos_trivial [OF q0 q]
    by (simp add: D_def uint_ucast_32 uint_div pair_value [simplified] uint_ucast_64)
qed

lemma sint_of_int_fits:
  assumes "fits32 x"
  shows "sint (word_of_int x :: u32) = x"
  using assms by (simp add: fits32_def sint_sbintrunc' signed_take_bit_int_eq_self)

lemma halves_join: "push_bit 32 (ucast (ucast (drop_bit 32 r) :: u32) :: u64) OR
    ucast (ucast (r AND 0xFFFFFFFF) :: u32) = r"
proof -
  have "r AND 0xFFFFFFFF = take_bit 32 r"
    by (simp add: take_bit_eq_mask mask_eq_exp_minus_1)
  then show ?thesis
    by (intro bit_word_eqI) (auto simp: bit_simps simp del: take_bit_eq_mask)
qed

lemma sint_scast_64: "sint (scast (w :: u32) :: u64) = sint w"
  using sint_ge [of w] sint_lt [of w]
  by (simp add: signed_scast_eq signed_take_bit_int_eq_self)

lemma signed_product:
  fixes a b :: u32
  shows "sint ((scast a :: u64) * scast b) = sint a * sint b"
proof -
  have "\<bar>sint a\<bar> \<le> 2 ^ 31" "\<bar>sint b\<bar> \<le> 2 ^ 31"
    using sint_ge [of a] sint_lt [of a] sint_ge [of b] sint_lt [of b] by auto
  then have "\<bar>sint a * sint b\<bar> \<le> 2 ^ 31 * 2 ^ 31"
    unfolding abs_mult by (intro mult_mono) auto
  then show ?thesis
    by (simp add: sint_word_mult sint_scast_64 signed_take_bit_int_eq_self)
qed

section \<open>Properties\<close>

text \<open>C33. MUL and IMUL r/m32 leave the 64-bit product of EAX and the operand in EDX:EAX, unsigned for
  MUL and signed for IMUL, and change no other register; CF says that EDX is not zero.\<close>

theorem f7_product:
  fixes s :: "'a ops_state_scheme"
  assumes "length (regs s) = 8"
  shows "(mrm_reg (fst (parse_modrm s)) = 4 \<longrightarrow> (\<exists>s'. op_f7_group op s = Inr s' \<and>
      uint (reg s' REG_EDX) * 2 ^ 32 + uint (reg s' REG_EAX) = uint (reg s REG_EAX) * uint (operand32 s) \<and>
      get_cf s' = of_bool (reg s' REG_EDX \<noteq> 0) \<and> (\<forall>i. i \<noteq> REG_EAX \<and> i \<noteq> REG_EDX \<longrightarrow> reg s' i = reg s i))) \<and>
    (mrm_reg (fst (parse_modrm s)) = 5 \<longrightarrow> (\<exists>s'. op_f7_group op s = Inr s' \<and>
      sint (push_bit 32 (ucast (reg s' REG_EDX) :: u64) OR ucast (reg s' REG_EAX)) =
        sint (reg s REG_EAX) * sint (operand32 s) \<and>
      get_cf s' = of_bool (reg s' REG_EDX \<noteq> 0) \<and> (\<forall>i. i \<noteq> REG_EAX \<and> i \<noteq> REG_EDX \<longrightarrow> reg s' i = reg s i)))"
  using assms mul_halves [of "reg s REG_EAX" "operand32 s"] signed_product [of "reg s REG_EAX" "operand32 s"]
    halves_join [of "scast (reg s REG_EAX) * scast (operand32 s)"]
  by (intro conjI impI) (simp_all add: op_f7_group_def split_beta Let_def reg_set_reg get_flag_bit)

theorem f7_product_witness:
  "\<exists>s'. op_f7_group 0xF7 (sample [0xEB] [- 2, 0, 0, 3, 0, 0, 0, 0]) = Inr s' \<and>
     sint (push_bit 32 (ucast (reg s' REG_EDX) :: u64) OR ucast (reg s' REG_EAX)) = - 6"
  using f7_product [of "sample [0xEB] [- 2, 0, 0, 3, 0, 0, 0, 0]" "0xF7"]
  by (auto simp: parse_modrm_def read_rm32_def sample_eval)

text \<open>C34. DIV r/m32 with a divisor above EDX leaves the quotient of EDX:EAX in EAX and the remainder
  in EDX; without that hypothesis the quotient does not fit and is cut to 32 bits.\<close>

theorem f7_div:
  fixes s :: "'a ops_state_scheme"
  assumes "length (regs s) = 8" and "mrm_reg (fst (parse_modrm s)) = 6" and "reg s REG_EDX < operand32 s"
  shows "\<exists>s'. op_f7_group op s = Inr s' \<and>
    uint (reg s' REG_EAX) = (uint (reg s REG_EDX) * 2 ^ 32 + uint (reg s REG_EAX)) div uint (operand32 s) \<and>
    uint (reg s' REG_EDX) = (uint (reg s REG_EDX) * 2 ^ 32 + uint (reg s REG_EAX)) mod uint (operand32 s) \<and>
    (\<forall>i. i \<noteq> REG_EAX \<and> i \<noteq> REG_EDX \<longrightarrow> reg s' i = reg s i)"
  using assms div_halves [OF assms(3)]
  by (auto simp add: op_f7_group_def split_beta Let_def reg_set_reg)

theorem f7_div_witness:
  "\<exists>s'. op_f7_group 0xF7 (sample [0xF3] [100, 0, 0, 7, 0, 0, 0, 0]) = Inr s' \<and>
     uint (reg s' REG_EAX) = 14 \<and> uint (reg s' REG_EDX) = 2"
  using f7_div [of "sample [0xF3] [100, 0, 0, 7, 0, 0, 0, 0]" "0xF7"]
  by (auto simp: parse_modrm_def read_rm32_def sample_eval)

text \<open>C35. IDIV r/m32 divides EDX:EAX as a signed number, rounding towards zero, when the divisor is
  not zero and the quotient fits: quotient and remainder satisfy the division identity and the
  remainder is smaller than the divisor.\<close>

theorem f7_idiv:
  fixes s :: "'a ops_state_scheme"
  defines "n \<equiv> sint (push_bit 32 (ucast (reg s REG_EDX) :: u64) OR ucast (reg s REG_EAX))"
    and "d \<equiv> sint (operand32 s)"
  assumes "length (regs s) = 8" and "mrm_reg (fst (parse_modrm s)) = 7" and "d \<noteq> 0"
    and "fits32 (n sdiv d)"
  shows "\<exists>s'. op_f7_group op s = Inr s' \<and>
    sint (reg s' REG_EAX) = n sdiv d \<and> sint (reg s' REG_EDX) = n smod d \<and>
    n = sint (reg s' REG_EAX) * d + sint (reg s' REG_EDX) \<and> \<bar>sint (reg s' REG_EDX)\<bar> < \<bar>d\<bar> \<and>
    (\<forall>i. i \<noteq> REG_EAX \<and> i \<noteq> REG_EDX \<longrightarrow> reg s' i = reg s i)"
proof -
  have r: "\<bar>n smod d\<bar> < \<bar>d\<bar>" using smod_int_range [OF assms(5), of n] by auto
  have "\<bar>d\<bar> \<le> 2 ^ 31" using sint_ge [of "operand32 s"] sint_lt [of "operand32 s"] by (auto simp: d_def)
  with r have f: "fits32 (n smod d)" by (auto simp: fits32_def)
  have no_ub: "\<not> (n = - (2 ^ 63) \<and> d = - 1)" using assms(6) by (auto simp: fits32_def)
  have nz: "operand32 s \<noteq> 0" using assms(5) by (auto simp: d_def)
  have e: "n = n sdiv d * d + n smod d" by (rule sdiv_mult_smod_eq [symmetric])
  let ?s1 = "snd (read_rm32 (fst (parse_modrm s)) (snd (parse_modrm s)))"
  have run: "op_f7_group op s = Inr (add_cycles 20 (set_reg REG_EDX (word_of_int (n smod d))
      (set_reg REG_EAX (word_of_int (n sdiv d)) ?s1)))"
    using assms(4) no_ub nz by (simp add: op_f7_group_def split_beta Let_def n_def d_def)
  show ?thesis
    using assms(3) e r by (simp add: run reg_set_reg sint_of_int_fits [OF f] sint_of_int_fits [OF assms(6)])
qed

theorem f7_idiv_witness:
  "\<exists>s'. op_f7_group 0xF7 (sample [0xFB] [0xFFFFFFF9, 0, 0xFFFFFFFF, 2, 0, 0, 0, 0]) = Inr s' \<and>
     sint (reg s' REG_EAX) = - 3 \<and> sint (reg s' REG_EDX) = - 1"
  using f7_idiv [of "sample [0xFB] [0xFFFFFFF9, 0, 0xFFFFFFFF, 2, 0, 0, 0, 0]" "0xF7"]
  by (auto simp: parse_modrm_def read_rm32_def sample_eval fits32_def)

text \<open>A division by zero: DIV r/m32 leaves every register alone and goes on, IDIV r/m32 stops the
  machine.\<close>

theorem f7_div_zero:
  fixes s :: "'a ops_state_scheme"
  assumes "operand32 s = 0"
  shows "(mrm_reg (fst (parse_modrm s)) = 6 \<longrightarrow>
      (\<exists>s'. op_f7_group op s = Inr s' \<and> (\<forall>i. reg s' i = reg s i) \<and> halted s' = halted s)) \<and>
    (mrm_reg (fst (parse_modrm s)) = 7 \<longrightarrow> (\<exists>s'. op_f7_group op s = Inr s' \<and> halted s'))"
  using assms by (simp add: op_f7_group_def split_beta Let_def halt_def)

theorem f7_div_zero_witness:
  "\<exists>s'. op_f7_group 0xF7 (sample [0xF3] [100, 0, 0, 0, 0, 0, 0, 0]) = Inr s' \<and> reg s' 0 = 100"
  using f7_div_zero [of "sample [0xF3] [100, 0, 0, 0, 0, 0, 0, 0]" "0xF7"]
  by (auto simp: parse_modrm_def read_rm32_def sample_eval)

text \<open>What an IMUL with a register destination leaves when the product fits: the exact product in
  the register with ZF and SF of it, EIP behind the instruction, and everything else as before, CF
  and OF included.\<close>

definition exact_product :: "'a ops_state_scheme \<Rightarrow> int \<Rightarrow> u32 \<Rightarrow> 'a ops_state_scheme result \<Rightarrow> bool" where
  "exact_product s p next_eip r \<longleftrightarrow> (\<exists>s'. r = Inr s' \<and> sint (reg s' (modrm_reg s)) = p \<and>
     get_zf s' = of_bool (p = 0) \<and> get_sf s' = of_bool (p < 0) \<and>
     get_cf s' = get_cf s \<and> get_of s' = get_of s \<and> eip s' = next_eip \<and> g_mem s' = g_mem s \<and>
     (\<forall>i. i \<noteq> modrm_reg s \<longrightarrow> reg s' i = reg s i))"

lemma exact_product_finish:
  fixes s t :: "'a ops_state_scheme"
  assumes "length (regs s) = 8" and "fits32 (sint a * sint b)"
    and "regs t = regs s" and "eflags t = eflags s" and "g_mem t = g_mem s"
  shows "exact_product s (sint a * sint b) (eip t) (imul_finish (modrm_reg s) a b t)"
proof -
  have "sint (a * b) = sint a * sint b"
    using sint_of_int_fits [OF assms(2)] by simp
  moreover have "a * b = 0 \<longleftrightarrow> sint (a * b) = 0" by (metis signed_0 signed_word_eqI)
  moreover have "reg t i = reg s i" for i using assms(3) by (simp add: reg_def)
  ultimately show ?thesis
    using assms
    by (simp add: exact_product_def imul_finish_def Let_def reg_set_reg get_flag_bit
        sint_neg_bit31 [symmetric])
qed

text \<open>C40. The IMUL forms with a register destination, IMUL r32, r/m32 and the two with a 32-bit and a
  sign-extended 8-bit immediate, leave the exact signed product in the register whenever it fits
  32 bits, with ZF and SF of it; CF, OF, memory and the other registers stay as they were and EIP
  is behind the immediate. (A product that does not fit is undefined in C.)\<close>

theorem imul_forms:
  fixes s :: "'a ops_state_scheme" and op :: u8
  assumes "length (regs s) = 8"
  defines "x \<equiv> sint (reg s (modrm_reg s))" and "m \<equiv> sint (operand32 s)"
    and "e \<equiv> eip (snd (parse_modrm s))"
  shows "(fits32 (x * m) \<longrightarrow> exact_product s (x * m) e (op_imul_r32_rm32 op s)) \<and>
    (fits32 (m * sint (mem_read32 e s)) \<longrightarrow>
       exact_product s (m * sint (mem_read32 e s)) (e + 4) (op_imul_r32_rm32_imm32 op s)) \<and>
    (fits32 (m * sint (mem_read8 e s)) \<longrightarrow>
       exact_product s (m * sint (mem_read8 e s)) (e + 1) (op_imul_r32_rm32_imm8 op s))"
proof -
  have ext: "sint (scast b :: u32) = sint b" for b :: u8 by (simp add: sint_up_scast is_up)
  let ?t = "snd (read_rm32 (fst (parse_modrm s)) (snd (parse_modrm s)))"
  have same: "regs ?t = regs s" "eflags ?t = eflags s" "g_mem ?t = g_mem s" "g_size ?t = g_size s" "eip ?t = e"
    by (simp_all add: e_def)
  have imm: "mem_read32 e ?t = mem_read32 e s" "mem_read8 e ?t = mem_read8 e s"
    using same by (intro mem_read_cong; simp)+
  show ?thesis
    using exact_product_finish [of s "reg s (modrm_reg s)" "operand32 s" ?t]
      exact_product_finish [of s "operand32 s" "mem_read32 e s" "?t\<lparr>eip := e + 4\<rparr>"]
      exact_product_finish [of s "operand32 s" "scast (mem_read8 e s)" "?t\<lparr>eip := e + 1\<rparr>"]
      assms(1) same imm
    by (simp add: op_imul_r32_rm32_def op_imul_r32_rm32_imm32_def op_imul_r32_rm32_imm8_def fetch32_def
        fetch8_def split_beta Let_def x_def m_def ext)
qed

theorem imul_forms_witness:
  "\<exists>s'. op_imul_r32_rm32_imm8 0x6B (sample [0xC3, 0xFE] [0, 0, 0, 21, 0, 0, 0, 0]) = Inr s' \<and>
     sint (reg s' 0) = - 42"
proof -
  let ?s = "sample [0xC3, 0xFE] [0, 0, 0, 21, 0, 0, 0, 0]"
  have "operand32 ?s = 21" "eip (snd (parse_modrm ?s)) = 1" "mem_read8 1 ?s = 0xFE" "modrm_reg ?s = 0"
    by (simp_all add: parse_modrm_def read_rm32_def sample_eval)
  moreover have "sint (0xFE :: u8) = - 2" by simp
  ultimately show ?thesis
    using imul_forms [of ?s "0x6B"] by (auto simp: fits32_def exact_product_def sample_def)
qed

end
