(* ===== verification/Shift_Correct.thy ===== *)
theory Shift_Correct
  imports Ops_Shift Sample
begin

text \<open>
  The 32-bit shift and rotate group against reference definitions: multiplication and division by
  a power of two, and the rotations of the word library.
\<close>

section \<open>Reference results\<close>

definition shift_ref :: "u8 \<Rightarrow> nat \<Rightarrow> u32 \<Rightarrow> u32" where
  "shift_ref k n v =
     (if k = 0 then word_rotl n v
      else if k = 1 then word_rotr n v
      else if k = 4 \<or> k = 6 then v * 2 ^ n
      else if k = 5 then word_of_int (uint v div 2 ^ n)
      else word_of_int (sint v div 2 ^ n))"

text \<open>The last bit shifted out, or the bit that wrapped around.\<close>

definition shift_carry :: "u8 \<Rightarrow> nat \<Rightarrow> u32 \<Rightarrow> bool" where
  "shift_carry k n v = (if k = 0 \<or> k = 4 \<or> k = 6 then bit v (32 - n) else bit v (n - 1))"

lemma rotl_or:
  fixes v :: u32
  assumes "0 < n" and "n < 32"
  shows "push_bit n v OR drop_bit (32 - n) v = word_rotl n v"
proof (rule bit_word_eqI)
  fix i assume i: "i < LENGTH(32)"
  show "bit (push_bit n v OR drop_bit (32 - n) v) i \<longleftrightarrow> bit (word_rotl n v) i"
  proof (cases "n \<le> i")
    case True
    have "(i + (32 - n)) mod 32 = i - n"
      using True assms i by (simp add: mod_if)
    moreover have "\<not> bit v (32 - n + i)" using True assms i by (auto dest: bit_imp_le_length)
    ultimately show ?thesis using True i assms by (simp add: bit_simps)
  next
    case False
    then have "(i + (32 - n)) mod 32 = 32 - n + i" using assms by (auto simp: mod_if)
    then show ?thesis using False i assms by (simp add: bit_simps)
  qed
qed

lemma rotr_or:
  fixes v :: u32
  assumes "0 < n" and "n < 32"
  shows "drop_bit n v OR push_bit (32 - n) v = word_rotr n v"
proof (rule bit_word_eqI)
  fix i assume i: "i < LENGTH(32)"
  show "bit (drop_bit n v OR push_bit (32 - n) v) i \<longleftrightarrow> bit (word_rotr n v) i"
  proof (cases "i + n < 32")
    case True
    then have "\<not> 32 - n \<le> i" by linarith
    with True show ?thesis using i assms by (simp add: bit_simps add.commute)
  next
    case False
    then have "(i + n) mod 32 = i - (32 - n)" using i assms by (simp add: mod_if)
    moreover have "\<not> bit v (n + i)" using False by (auto dest: bit_imp_le_length)
    moreover have "32 - n \<le> i" using False by linarith
    ultimately show ?thesis using False i assms by (simp add: bit_simps)
  qed
qed

lemma shift_values:
  fixes v :: u32
  shows "push_bit n v = v * 2 ^ n" "drop_bit n v = word_of_int (uint v div 2 ^ n)"
    "signed_drop_bit n v = word_of_int (sint v div 2 ^ n)"
proof -
  show "push_bit n v = v * 2 ^ n" by (simp add: push_bit_eq_mult)
  have "uint (drop_bit n v) = uint v div 2 ^ n"
    using unat_drop_bit_eq [of n v] by (simp only: uint_nat drop_bit_eq_div zdiv_int) simp
  then show "drop_bit n v = word_of_int (uint v div 2 ^ n)"
    by (metis word_of_int_uint)
  have "sint (signed_drop_bit n v) = sint v div 2 ^ n"
    by (simp add: sint_signed_drop_bit_eq drop_bit_eq_div)
  then show "signed_drop_bit n v = word_of_int (sint v div 2 ^ n)"
    by (metis of_int_sint scast_id)
qed

section \<open>The group\<close>

lemma and_1_neq_0: "w AND 1 \<noteq> 0 \<longleftrightarrow> bit w 0" for w :: u32
  by (simp add: and_1_bit)

text \<open>
  \<open>t\<close> is the state in which the group writes the reference result to the operand: the operand has
  been read and the flags are set.
\<close>

definition shift_writes :: "ModRM \<Rightarrow> nat \<Rightarrow> 'a ops_state_scheme \<Rightarrow> 'a ops_state_scheme \<Rightarrow> bool" where
  "shift_writes m n s t \<longleftrightarrow>
     shift_group32 m n s =
       Inr (add_cycles 2 (write_rm32 m (shift_ref (mrm_reg m) n (fst (read_rm32 m s))) t)) \<and>
     regs t = regs s \<and> g_mem t = g_mem s \<and> g_size t = g_size s \<and>
     g_seg_override t = g_seg_override (snd (read_rm32 m s)) \<and>
     get_cf t = of_bool (shift_carry (mrm_reg m) n (fst (read_rm32 m s)))"

lemma rotate_writes:
  fixes s :: "'a ops_state_scheme"
  assumes "0 < n" and "n < 32" and "mrm_reg m \<in> {0, 1}"
  defines "v \<equiv> fst (read_rm32 m s)"
  shows "shift_writes m n s (set_cf (shift_carry (mrm_reg m) n v) (snd (read_rm32 m s)))"
proof -
  have "bit (word_rotl n v) 0 = bit v (32 - n)" "bit (word_rotr n v) 31 = bit v (n - 1)"
    using assms(1,2) by (auto simp: bit_simps mod_if)
  then show ?thesis
    using assms(1-3)
    by (auto simp: shift_writes_def shift_group32_def split_beta Let_def rotl_or rotr_or
        shift_ref_def shift_carry_def get_flag_bit and_1_bit bit_drop_bit_eq v_def)
qed

lemma shift_writes_flags:
  fixes s :: "'a ops_state_scheme"
  assumes "0 < n" and "mrm_reg m \<in> {4, 5, 6, 7}"
  defines "v \<equiv> fst (read_rm32 m s)" and "r \<equiv> shift_ref (mrm_reg m) n (fst (read_rm32 m s))"
  shows "shift_writes m n s
    (set_sf r (set_zf r (set_cf (shift_carry (mrm_reg m) n v) (snd (read_rm32 m s)))))"
proof -
  have out: "drop_bit k v AND 1 \<noteq> 0 \<longleftrightarrow> bit v k" for k
    by (simp add: and_1_bit bit_drop_bit_eq)
  consider "mrm_reg m = 4 \<or> mrm_reg m = 6" | "mrm_reg m = 5" | "mrm_reg m = 7"
    using assms(2) by auto
  then show ?thesis
    unfolding shift_writes_def shift_group32_def split_beta Let_def v_def [symmetric] out r_def
    using assms(1)
    by cases (auto simp: shift_ref_def shift_carry_def get_flag_bit shift_values(1)
        shift_values(2,3) [symmetric] v_def [symmetric])
qed

lemma shift_group32_writes:
  assumes "0 < n" and "n < 32" and "mrm_reg m \<in> {0, 1, 4, 5, 6, 7}"
  shows "\<exists>t. shift_writes m n s t"
proof (cases "mrm_reg m \<in> {0, 1}")
  case True
  from rotate_writes [OF assms(1,2) this] show ?thesis by blast
next
  case False
  with assms(3) have "mrm_reg m \<in> {4, 5, 6, 7}" by auto
  from shift_writes_flags [OF assms(1) this] show ?thesis by blast
qed

section \<open>Properties\<close>

text \<open>C32. The 32-bit shift group with a count of 1 to 31: ROL, ROR, SHL, SHR and SAR leave the rotation,
  the product with \<open>2 ^ n\<close>, the quotient by \<open>2 ^ n\<close>, or the signed quotient rounded down, in the
  operand, which may be a register or a word of memory, and CF holds the last bit moved out.\<close>

theorem shift_group32_correct:
  fixes s :: "'a ops_state_scheme"
  assumes "0 < n" and "n < 32" and "mrm_reg m \<in> {0, 1, 4, 5, 6, 7}"
    and "g_size s \<le> 2 ^ 32" and "length (regs s) = 8" and "unat (mrm_rm m) < 8"
    and "operand_ok m s" and "g_seg_override s = 0"
  shows "\<exists>s'. shift_group32 m n s = Inr s' \<and>
    fst (read_rm32 m s') = shift_ref (mrm_reg m) n (fst (read_rm32 m s)) \<and>
    get_cf s' = of_bool (shift_carry (mrm_reg m) n (fst (read_rm32 m s)))"
proof -
  obtain t where t: "shift_writes m n s t"
    using shift_group32_writes [OF assms(1-3)] by blast
  let ?r = "shift_ref (mrm_reg m) n (fst (read_rm32 m s))"
  have ok: "operand_ok m t" "g_seg_override t = 0"
    using t assms(7,8) resolve_cong [of t s m] by (simp_all add: shift_writes_def operand_ok_def)
  have "fst (read_rm32 m (add_cycles 2 (write_rm32 m ?r t))) = ?r"
    using t assms ok by (intro read_again [where s = t]) (simp_all add: shift_writes_def)
  with t show ?thesis by (auto simp: shift_writes_def get_flag_bit)
qed

theorem shift_group32_correct_witness:
  "\<exists>s'. shift_group32 \<lparr>mrm_mod = 3, mrm_reg = 7, mrm_rm = 0, has_sib = False, has_disp = False,
        disp = 0, sib_base = 0, sib_index = 0, sib_scale = 0\<rparr> 1
      (sample [] [0xFFFFFFF9, 0, 0, 0, 0, 0, 0, 0]) = Inr s' \<and> reg s' 0 = 0xFFFFFFFC"
  using shift_group32_correct [of 1 "\<lparr>mrm_mod = 3, mrm_reg = 7, mrm_rm = 0, has_sib = False,
      has_disp = False, disp = 0, sib_base = 0, sib_index = 0, sib_scale = 0\<rparr>"
      "sample [] [0xFFFFFFF9, 0, 0, 0, 0, 0, 0, 0]"]
  by (auto simp: operand_ok_def read_rm32_def shift_ref_def sample_eval)

text \<open>A rotate whose count is zero modulo 32: the code shifts by 32, which C leaves undefined; a
  processor leaves the operand and the flags alone. The count is the immediate of opcode 0xC1 or
  the low five bits of CL of opcode 0xD3.\<close>

theorem rotate_by_zero:
  fixes s :: "'a ops_state_scheme"
  assumes "mrm_reg (fst (parse_modrm s)) \<in> {0, 1}"
  shows "(reg s REG_ECX AND 0x1F = 0 \<longrightarrow> op_d3_group op s = Inl (UB ShiftRange)) \<and>
    (mem_read8 (modrm_end s) s AND 0x1F = 0 \<longrightarrow> op_c1_group op s = Inl (UB ShiftRange))"
  using assms by (auto simp: op_d3_group_def op_c1_group_def shift_group32_def split_beta Let_def fetch8_def)

theorem rotate_by_zero_witness:
  "op_d3_group 0xD3 (sample [0xC0] [7, 0x20, 0, 0, 0, 0, 0, 0]) = Inl (UB ShiftRange)"
  using rotate_by_zero [of "sample [0xC0] [7, 0x20, 0, 0, 0, 0, 0, 0]" "0xD3"]
  by (simp add: parse_modrm_def sample_eval)

end
