(* ===== verification/Stack_Correct.thy ===== *)
theory Stack_Correct
  imports Ops_Move Ops_Ctl Sample
begin

text \<open>
  The stack instructions as operations on a list of words. The top \<open>n\<close> words of the guest stack
  are the abstraction; every pushing instruction puts its value in front, every popping one takes
  the first element away.
\<close>

section \<open>The stack as a list\<close>

definition stack_list :: "nat \<Rightarrow> 'a ops_state_scheme \<Rightarrow> u32 list" where
  "stack_list n s = map (\<lambda>k. mem_read32 (reg s REG_ESP + of_nat (4 * k)) s) [0..<n]"

text \<open>Room for one more word below ESP, and \<open>n\<close> words above it inside the block.\<close>

definition stack_ok :: "nat \<Rightarrow> 'a ops_state_scheme \<Rightarrow> bool" where
  "stack_ok n s \<longleftrightarrow> g_size s \<le> 2 ^ 32 \<and> length (regs s) = 8 \<and>
     4 \<le> unat (reg s REG_ESP) \<and> unat (reg s REG_ESP) + 4 * n \<le> g_size s"

lemma esp_slot:
  assumes "stack_ok n s" and "k < n"
  shows "unat (reg s REG_ESP + of_nat (4 * k)) = unat (reg s REG_ESP) + 4 * k"
  using assms by (intro unat_add_small) (auto simp: stack_ok_def)

lemma esp_minus_4:
  assumes "stack_ok n s"
  shows "unat (reg s REG_ESP - 4) = unat (reg s REG_ESP) - 4"
  using assms by (simp add: stack_ok_def unat_sub word_le_nat_alt)

section \<open>Pushing and popping\<close>

text \<open>What an instruction that pushes \<open>val op s\<close> promises, and what follows for the list.\<close>

locale pusher =
  fixes h :: "u8 \<Rightarrow> 'a ops_state_scheme \<Rightarrow> 'a ops_state_scheme"
    and val :: "u8 \<Rightarrow> 'a ops_state_scheme \<Rightarrow> u32"
  assumes push_esp: "length (regs s) = 8 \<Longrightarrow> reg (h op s) REG_ESP = reg s REG_ESP - 4"
    and push_mem: "length (regs s) = 8 \<Longrightarrow>
      g_mem (h op s) = g_mem (mem_write32 (reg s REG_ESP - 4) (val op s) s)"
    and push_size: "g_size (h op s) = g_size s"
    and push_regs: "length (regs s) = 8 \<Longrightarrow> i \<noteq> REG_ESP \<Longrightarrow> reg (h op s) i = reg s i"
begin

lemma push_reads:
  assumes "length (regs s) = 8"
  shows "mem_read32 a (h op s) = mem_read32 a (mem_write32 (reg s REG_ESP - 4) (val op s) s)"
  using push_mem [OF assms, of op] push_size [of op s] by (intro mem_read_cong) simp_all

lemma push_list:
  assumes "stack_ok n s"
  shows "stack_list (Suc n) (h op s) = val op s # stack_list n s"
proof -
  have len: "length (regs s) = 8" and size: "g_size s \<le> 2 ^ 32"
    using assms by (simp_all add: stack_ok_def)
  have top: "mem_read32 (reg s REG_ESP - 4) (h op s) = val op s"
    unfolding push_reads [OF len]
    using assms esp_minus_4 [OF assms] by (intro acc32.rd_wr_same) (auto simp: stack_ok_def)
  have "mem_read32 (reg s REG_ESP + of_nat (4 * k)) (h op s) =
      mem_read32 (reg s REG_ESP + of_nat (4 * k)) s" if "k < n" for k
    unfolding push_reads [OF len]
    using assms esp_minus_4 [OF assms] esp_slot [OF assms that] size
    by (intro acc32_32.rd_wr_disjoint) (auto simp: stack_ok_def)
  then show ?thesis
    by (simp add: stack_list_def upt_0_Suc push_esp [OF len] top
        del: upt_Suc)
qed

lemma push_outside:
  assumes "stack_ok n s" and "i < unat (reg s REG_ESP) - 4 \<or> unat (reg s REG_ESP) \<le> i"
  shows "g_mem (h op s) i = g_mem s i"
proof -
  have len: "length (regs s) = 8" and size: "g_size s \<le> 2 ^ 32" and "4 \<le> unat (reg s REG_ESP)"
    using assms by (simp_all add: stack_ok_def)
  then show ?thesis
    unfolding push_mem [OF len] using assms(2) esp_minus_4 [OF assms(1)]
    by (intro acc32.wr_outside) auto
qed

end

locale popper =
  fixes h :: "u8 \<Rightarrow> 'a ops_state_scheme \<Rightarrow> 'a ops_state_scheme"
    and dest :: "u8 \<Rightarrow> bool"
    and got :: "u8 \<Rightarrow> 'a ops_state_scheme \<Rightarrow> u32"
  assumes pop_esp: "dest op \<Longrightarrow> length (regs s) = 8 \<Longrightarrow> reg (h op s) REG_ESP = reg s REG_ESP + 4"
    and pop_mem: "g_mem (h op s) = g_mem s" "g_size (h op s) = g_size s"
    and pop_got: "dest op \<Longrightarrow> length (regs s) = 8 \<Longrightarrow> got op (h op s) = mem_read32 (reg s REG_ESP) s"
begin

lemma pop_list:
  assumes "dest op" and "length (regs s) = 8"
  shows "stack_list (Suc n) s = got op (h op s) # stack_list n (h op s)"
proof -
  have "mem_read32 a (h op s) = mem_read32 a s" for a
    using pop_mem by (intro mem_read_cong) simp_all
  then show ?thesis
    by (simp add: stack_list_def upt_0_Suc pop_esp [OF assms]
        pop_got [OF assms] algebra_simps del: upt_Suc)
qed

end

lemma opcode_reg_less: "unat (op AND 0x07 :: u8) < 8"
  using modrm_field_bounds(3) [of op] by (simp add: word_less_nat_alt)

text \<open>PUSH ESP stores the decremented register.\<close>

interpretation push_r32: pusher op_push_r32
  "\<lambda>op s. if unat (op AND 0x07) = REG_ESP then reg s REG_ESP - 4 else reg s (unat (op AND 0x07))"
  by unfold_locales
    (simp_all add: op_push_r32_def Let_def reg_set_reg opcode_reg_less)

interpretation push_imm32: pusher op_push_imm32 "\<lambda>op s. mem_read32 (eip s) s"
  by unfold_locales
    (simp_all add: op_push_imm32_def Let_def reg_set_reg fetch32_def)

interpretation push_imm8: pusher op_push_imm8 "\<lambda>op s. scast (mem_read8 (eip s) s)"
  by unfold_locales
    (simp_all add: op_push_imm8_def Let_def reg_set_reg fetch8_def)

interpretation call_rel32: pusher op_call_rel32 "\<lambda>op s. eip s + 4"
  by unfold_locales
    (simp_all add: op_call_rel32_def Let_def reg_set_reg fetch32_def)

interpretation pop_r32: popper op_pop_r32 "\<lambda>op. unat (op AND 0x07) \<noteq> REG_ESP"
  "\<lambda>op s. reg s (unat (op AND 0x07))"
  by unfold_locales
    (simp_all add: op_pop_r32_def Let_def reg_set_reg opcode_reg_less)

interpretation ret: popper op_ret "\<lambda>op. True" "\<lambda>op s. eip s"
  by unfold_locales (simp_all add: op_ret_def Let_def reg_set_reg)

section \<open>Properties\<close>

text \<open>C19. Pushing refines putting a word in front of the list: PUSH r32, PUSH imm32, PUSH imm8 and
  CALL rel32 extend the top words of the stack by the register, the immediate, its sign extension
  and the address after the call, keep the words below and write nothing outside the new slot.
  PUSH ESP is the exception the code makes: it stores ESP after it was decremented, where a
  processor stores the value before.\<close>

theorem push_refines:
  fixes s :: "'a ops_state_scheme" and op :: u8
  assumes "stack_ok n s"
  defines "r \<equiv> unat (op AND 0x07)"
  shows "stack_list (Suc n) (op_push_r32 op s) =
      (if r = REG_ESP then reg s REG_ESP - 4 else reg s r) # stack_list n s \<and>
    stack_list (Suc n) (op_push_imm32 op s) = mem_read32 (eip s) s # stack_list n s \<and>
    stack_list (Suc n) (op_push_imm8 op s) = scast (mem_read8 (eip s) s) # stack_list n s \<and>
    stack_list (Suc n) (op_call_rel32 op s) = (eip s + 4) # stack_list n s \<and>
    (\<forall>i. i < unat (reg s REG_ESP) - 4 \<or> unat (reg s REG_ESP) \<le> i \<longrightarrow>
       g_mem (op_push_r32 op s) i = g_mem s i \<and> g_mem (op_push_imm32 op s) i = g_mem s i \<and>
       g_mem (op_push_imm8 op s) i = g_mem s i \<and> g_mem (op_call_rel32 op s) i = g_mem s i)"
  using push_r32.push_list [OF assms(1), of op] push_imm32.push_list [OF assms(1), of op]
    push_imm8.push_list [OF assms(1), of op] call_rel32.push_list [OF assms(1), of op]
    push_r32.push_outside [OF assms(1), of _ op] push_imm32.push_outside [OF assms(1), of _ op]
    push_imm8.push_outside [OF assms(1), of _ op] call_rel32.push_outside [OF assms(1), of _ op]
  unfolding r_def by blast

theorem push_refines_witness:
  "stack_list 1 (op_push_r32 0x53 (sample [] [0, 0, 0, 77, 4096, 0, 0, 0])) = [77] \<and>
   stack_list 1 (op_push_r32 0x54 (sample [] [0, 0, 0, 77, 4096, 0, 0, 0])) = [4092]"
  using push_refines [of 0 "sample [] [0, 0, 0, 77, 4096, 0, 0, 0]" "0x53"]
    push_refines [of 0 "sample [] [0, 0, 0, 77, 4096, 0, 0, 0]" "0x54"]
  by (simp add: stack_ok_def stack_list_def sample_eval)

text \<open>C20. Popping refines taking the first word: POP r32 puts it into the register and RET into EIP,
  the rest of the words is the stack afterwards, and memory and the other registers are as
  before. POP ESP is the exception the code makes: ESP becomes the first word plus four, where a
  processor leaves the word itself.\<close>

theorem pop_refines:
  fixes s :: "'a ops_state_scheme" and op :: u8
  assumes "length (regs s) = 8"
  defines "r \<equiv> unat (op AND 0x07)"
  shows "(if r = REG_ESP then reg (op_pop_r32 op s) REG_ESP = hd (stack_list (Suc n) s) + 4
     else stack_list (Suc n) s = reg (op_pop_r32 op s) r # stack_list n (op_pop_r32 op s)) \<and>
    stack_list (Suc n) s = eip (op_ret op s) # stack_list n (op_ret op s) \<and>
    g_mem (op_pop_r32 op s) = g_mem s \<and> g_mem (op_ret op s) = g_mem s \<and>
    (\<forall>i. i \<noteq> REG_ESP \<longrightarrow> reg (op_ret op s) i = reg s i \<and> (i \<noteq> r \<longrightarrow> reg (op_pop_r32 op s) i = reg s i))"
proof -
  have esp: "reg (op_pop_r32 op s) REG_ESP = hd (stack_list (Suc n) s) + 4" if "r = REG_ESP"
    using that assms(1) unfolding r_def
    by (simp add: op_pop_r32_def Let_def reg_set_reg stack_list_def upt_0_Suc del: upt_Suc)
  have keep: "reg (op_ret op s) i = reg s i" "i \<noteq> r \<Longrightarrow> reg (op_pop_r32 op s) i = reg s i"
    if "i \<noteq> REG_ESP" for i
    using that assms(1) by (simp_all add: op_ret_def op_pop_r32_def Let_def reg_set_reg r_def opcode_reg_less)
  show ?thesis
    using esp keep pop_r32.pop_list [OF _ assms(1), of op n] ret.pop_list [OF TrueI assms(1), of n op]
      pop_r32.pop_mem(1) [of op s] ret.pop_mem(1) [of op s]
    unfolding r_def by simp
qed

theorem pop_refines_witness:
  "reg (op_pop_r32 0x58 (sample [5, 0, 0, 0] [0, 0, 0, 0, 0, 0, 0, 0])) 0 = 5 \<and>
   reg (op_pop_r32 0x5C (sample [5, 0, 0, 0] [0, 0, 0, 0, 0, 0, 0, 0])) REG_ESP = 9"
  using pop_refines [of "sample [5, 0, 0, 0] [0, 0, 0, 0, 0, 0, 0, 0]" "0x58" 0]
    pop_refines [of "sample [5, 0, 0, 0] [0, 0, 0, 0, 0, 0, 0, 0]" "0x5C" 0]
  by (simp add: stack_list_def sample_eval)

text \<open>C21. A call returns: CALL rel32 jumps to the address after the call plus the displacement, and
  RET from there comes back to the address after the call with every register, ESP included, and
  every byte of memory outside the slot as before.\<close>

theorem call_ret:
  fixes s :: "'a ops_state_scheme" and op :: u8
  assumes "stack_ok 0 s"
  defines "t \<equiv> op_call_rel32 op s"
  shows "eip t = eip s + 4 + mem_read32 (eip s) s \<and>
    eip (op_ret op' t) = eip s + 4 \<and> (\<forall>i. reg (op_ret op' t) i = reg s i) \<and>
    (\<forall>i. i < unat (reg s REG_ESP) - 4 \<or> unat (reg s REG_ESP) \<le> i \<longrightarrow> g_mem (op_ret op' t) i = g_mem s i)"
proof -
  have len: "length (regs s) = 8" "length (regs t) = 8"
    using assms by (simp_all add: stack_ok_def op_call_rel32_def fetch32_def Let_def)
  have "stack_list (Suc 0) t = [eip s + 4]"
    using call_rel32.push_list [OF assms(1), of op] by (simp add: t_def stack_list_def)
  then have ret: "eip (op_ret op' t) = eip s + 4"
    using ret.pop_list [OF TrueI len(2), of 0 op'] by simp
  have regs: "reg (op_ret op' t) i = reg s i" for i
    using ret.pop_esp [OF TrueI len(2), of op'] call_rel32.push_esp [OF len(1), of op]
      call_rel32.push_regs [OF len(1), of i op] len(2)
    by (cases "i = REG_ESP") (simp_all add: t_def op_ret_def Let_def reg_set_reg)
  have "eip t = eip s + 4 + mem_read32 (eip s) s"
    by (simp add: t_def op_call_rel32_def fetch32_def Let_def)
  with ret regs show ?thesis
    using call_rel32.push_outside [OF assms(1), of _ op] ret.pop_mem(1) [of op' t] by (simp add: t_def)
qed

theorem call_ret_witness:
  "eip (op_ret 0xC3 (op_call_rel32 0xE8 (sample [0x10, 0, 0, 0] [0, 0, 0, 0, 4096, 0, 0, 0]))) = 4"
  using call_ret [of "sample [0x10, 0, 0, 0] [0, 0, 0, 0, 4096, 0, 0, 0]" "0xE8" "0xC3"]
  by (simp add: stack_ok_def sample_eval)

end
