(* ===== verification/Rep_Correct.thy ===== *)
theory Rep_Correct
  imports Ops_Rep Sample
begin

text \<open>
  The repeated string instructions against what they are used for: filling, copying and searching
  a block of memory.
\<close>

section \<open>Counted loops\<close>

text \<open>A body that counts ECX down by one: the loop runs until ECX is 0 and the bound is irrelevant.\<close>

locale counted_body =
  fixes body :: "'a ops_state_scheme \<Rightarrow> 'a ops_state_scheme"
  assumes body_regs: "length (regs s) = 8 \<Longrightarrow> length (regs (body s)) = 8"
    and body_ecx: "length (regs s) = 8 \<Longrightarrow> reg (body s) REG_ECX = reg s REG_ECX - 1"
begin

lemma rep_loop_done:
  "length (regs s) = 8 \<Longrightarrow> unat (reg s REG_ECX) \<le> n \<Longrightarrow>
   reg (rep_loop n body s) REG_ECX = 0 \<and> rep_loop n body s = (body ^^ unat (reg s REG_ECX)) s"
proof (induction n arbitrary: s)
  case (Suc n)
  show ?case
  proof (cases "reg s REG_ECX > 0")
    case True
    then obtain k where k: "unat (reg s REG_ECX) = Suc k"
      by (cases "unat (reg s REG_ECX)") (auto simp: unat_eq_zero word_greater_zero_iff)
    have "unat (reg (body s) REG_ECX) = k"
      using k True body_ecx [OF Suc.prems(1)]
      by (simp add: unat_sub word_le_nat_alt Suc_le_eq)
    then show ?thesis
      using True k Suc.IH [OF body_regs [OF Suc.prems(1)]] Suc.prems(2)
      by (auto simp: funpow_swap1)
  next
    case False
    then show ?thesis by (simp add: word_greater_zero_iff)
  qed
qed (simp add: unat_eq_zero)

end

interpretation rep_movsb: counted_body rep_movsb_body
  by unfold_locales (simp_all add: rep_movsb_body_def Let_def reg_set_reg)

interpretation rep_movsd: counted_body rep_movsd_body
  by unfold_locales (simp_all add: rep_movsd_body_def Let_def reg_set_reg)

interpretation rep_stosb: counted_body rep_stosb_body
  by unfold_locales (simp_all add: rep_stosb_body_def Let_def reg_set_reg)

interpretation rep_stosd: counted_body rep_stosd_body
  by unfold_locales (simp_all add: rep_stosd_body_def Let_def reg_set_reg)

section \<open>Filling and copying\<close>

text \<open>One round of REP STOSB and REP MOVSB inside the block.\<close>

lemma write8_stored:
  "unat a < g_size s \<Longrightarrow> mem_write8 a b s = s\<lparr>g_mem := store_bytes (unat a) [b] (g_mem s)\<rparr>"
proof -
  have "store_bytes p [b] m = m(p := b)" for p b m
    by (auto simp: store_bytes_def fun_eq_iff)
  then show "unat a < g_size s \<Longrightarrow> ?thesis" by (simp add: mem_write8_def check_bounds_def)
qed

lemma reg_mem_upd [simp]: "reg (s\<lparr>g_mem := m\<rparr>) i = reg s i"
  by (simp add: reg_def)

lemma stosb_round:
  fixes s :: "'a ops_state_scheme"
  assumes "length (regs s) = 8" and "unat (reg s REG_EDI) < g_size s"
  shows "reg (rep_stosb_body s) i = (if i = REG_EDI then reg s REG_EDI + 1
      else if i = REG_ECX then reg s REG_ECX - 1 else reg s i)"
    "g_mem (rep_stosb_body s) = store_bytes (unat (reg s REG_EDI)) [ucast (reg s REG_EAX)] (g_mem s)"
    "g_size (rep_stosb_body s) = g_size s" "eip (rep_stosb_body s) = eip s"
    "length (regs (rep_stosb_body s)) = 8"
  using assms by (simp_all add: rep_stosb_body_def Let_def write8_stored reg_set_reg)

lemma movsb_round:
  fixes s :: "'a ops_state_scheme"
  assumes "length (regs s) = 8" and "unat (reg s REG_EDI) < g_size s" and "unat (reg s REG_ESI) < g_size s"
  shows "reg (rep_movsb_body s) i = (if i = REG_EDI then reg s REG_EDI + 1
      else if i = REG_ESI then reg s REG_ESI + 1 else if i = REG_ECX then reg s REG_ECX - 1 else reg s i)"
    "g_mem (rep_movsb_body s) = store_bytes (unat (reg s REG_EDI)) [g_mem s (unat (reg s REG_ESI))] (g_mem s)"
    "g_size (rep_movsb_body s) = g_size s" "eip (rep_movsb_body s) = eip s"
    "length (regs (rep_movsb_body s)) = 8"
  using assms
  by (simp_all add: rep_movsb_body_def Let_def write8_stored mem_read8_def check_bounds_def reg_set_reg)

lemma store_bytes_Cons: "store_bytes p (b # bs) m = store_bytes (Suc p) bs (store_bytes p [b] m)"
  using store_bytes_append [of p "[b]" bs m] by simp

lemma ecx_minus_1:
  "unat (w :: u32) = Suc n \<Longrightarrow> unat (w - 1) = n \<and> w > 0"
  by (auto simp: unat_sub word_le_nat_alt word_greater_zero_iff)

lemma stosb_loop:
  fixes s :: "'a ops_state_scheme"
  assumes "length (regs s) = 8" and "unat (reg s REG_ECX) = n"
    and "unat (reg s REG_EDI) + n \<le> g_size s" and "g_size s < 2 ^ 32"
  shows "g_mem (rep_loop n rep_stosb_body s) =
      store_bytes (unat (reg s REG_EDI)) (replicate n (ucast (reg s REG_EAX))) (g_mem s) \<and>
    reg (rep_loop n rep_stosb_body s) REG_EDI = reg s REG_EDI + of_nat n \<and>
    (\<forall>i. i \<noteq> REG_ECX \<longrightarrow> i \<noteq> REG_EDI \<longrightarrow> reg (rep_loop n rep_stosb_body s) i = reg s i) \<and>
    eip (rep_loop n rep_stosb_body s) = eip s"
  using assms
proof (induction n arbitrary: s)
  case (Suc n)
  define t where "t = rep_stosb_body s"
  note c = ecx_minus_1 [OF Suc.prems(2)]
  have "unat (reg s REG_EDI) < g_size s" using Suc.prems(3) by simp
  note t = stosb_round [OF Suc.prems(1) this, folded t_def]
  have u: "unat (reg s REG_EDI + 1) = Suc (unat (reg s REG_EDI))"
    using Suc.prems(3,4) unat_add_const(1) [of "reg s REG_EDI"] by simp
  have "unat (reg t REG_ECX) = n" using c by (simp add: t(1))
  from Suc.IH [OF t(5) this] show ?case
    using Suc.prems c t(1-4) u by (simp add: t_def [symmetric] store_bytes_Cons [where bs = "replicate n _"] add.assoc)
qed simp

lemma load_bytes_upd: "q < p \<or> p + n \<le> q \<Longrightarrow> load_bytes p n (store_bytes q [b] m) = load_bytes p n m"
  by (rule load_store_bytes_disjoint) auto

lemma movsb_loop:
  fixes s :: "'a ops_state_scheme"
  assumes "length (regs s) = 8" and "unat (reg s REG_ECX) = n"
    and "unat (reg s REG_EDI) + n \<le> g_size s" and "unat (reg s REG_ESI) + n \<le> g_size s"
    and "unat (reg s REG_EDI) \<le> unat (reg s REG_ESI) \<or> unat (reg s REG_ESI) + n \<le> unat (reg s REG_EDI)"
    and "g_size s < 2 ^ 32"
  shows "g_mem (rep_loop n rep_movsb_body s) =
      store_bytes (unat (reg s REG_EDI)) (load_bytes (unat (reg s REG_ESI)) n (g_mem s)) (g_mem s) \<and>
    reg (rep_loop n rep_movsb_body s) REG_EDI = reg s REG_EDI + of_nat n \<and>
    reg (rep_loop n rep_movsb_body s) REG_ESI = reg s REG_ESI + of_nat n \<and>
    (\<forall>i. i \<noteq> REG_ECX \<longrightarrow> i \<noteq> REG_EDI \<longrightarrow> i \<noteq> REG_ESI \<longrightarrow> reg (rep_loop n rep_movsb_body s) i = reg s i) \<and>
    eip (rep_loop n rep_movsb_body s) = eip s"
  using assms
proof (induction n arbitrary: s)
  case (Suc n)
  define t where "t = rep_movsb_body s"
  note c = ecx_minus_1 [OF Suc.prems(2)]
  have "unat (reg s REG_EDI) < g_size s" "unat (reg s REG_ESI) < g_size s"
    using Suc.prems(3,4) by simp_all
  note t = movsb_round [OF Suc.prems(1) this, folded t_def]
  have u: "unat (reg s REG_EDI + 1) = Suc (unat (reg s REG_EDI))"
    "unat (reg s REG_ESI + 1) = Suc (unat (reg s REG_ESI))"
    using Suc.prems(3,4,6) unat_add_const(1) [of "reg s REG_EDI"] unat_add_const(1) [of "reg s REG_ESI"]
    by simp_all
  have l: "load_bytes (Suc (unat (reg s REG_ESI))) n (g_mem t) = load_bytes (Suc (unat (reg s REG_ESI))) n (g_mem s)"
    unfolding t(2) using Suc.prems(5) by (intro load_bytes_upd) auto
  have "unat (reg t REG_ECX) = n" using c by (simp add: t(1))
  from Suc.IH [OF t(5) this] show ?case
    using Suc.prems c t u l
    by (auto simp: t_def [symmetric] load_bytes_Suc store_bytes_Cons [where bs = "load_bytes _ _ _"] add.assoc)
qed (simp add: load_bytes_def)

section \<open>Searching\<close>

text \<open>One round of REPNE SCASB compares AL with the byte at EDI; ZF says whether they are equal.\<close>

lemma scasb_round:
  fixes s :: "'a ops_state_scheme"
  assumes "length (regs s) = 8" and "unat (reg s REG_EDI) < g_size s"
  shows "reg (repne_scasb_body s) i = (if i = REG_EDI then reg s REG_EDI + 1
      else if i = REG_ECX then reg s REG_ECX - 1 else reg s i)"
    "g_mem (repne_scasb_body s) = g_mem s" "g_size (repne_scasb_body s) = g_size s"
    "length (regs (repne_scasb_body s)) = 8" "eip (repne_scasb_body s) = eip s"
    "get_zf (repne_scasb_body s) =
      of_bool (g_mem s (unat (reg s REG_EDI)) = ucast (reg s REG_EAX))"
proof -
  have ucast_0: "(ucast (w :: u8) :: u32) = 0 \<longleftrightarrow> w = 0" for w
    by transfer simp
  show "get_zf (repne_scasb_body s) = of_bool (g_mem s (unat (reg s REG_EDI)) = ucast (reg s REG_EAX))"
    using assms
    by (auto simp: repne_scasb_body_def Let_def get_flag_bit mem_read8_def check_bounds_def ucast_0)
qed (use assms in \<open>simp_all add: repne_scasb_body_def Let_def reg_set_reg\<close>)

lemma scasb_loop:
  fixes s :: "'a ops_state_scheme"
  assumes "length (regs s) = 8" and "k < unat (reg s REG_ECX)" and "k < n"
    and "unat (reg s REG_EDI) + k < g_size s" and "g_size s < 2 ^ 32"
    and "g_mem s (unat (reg s REG_EDI) + k) = ucast (reg s REG_EAX)"
    and "\<forall>j < k. g_mem s (unat (reg s REG_EDI) + j) \<noteq> ucast (reg s REG_EAX)"
  shows "reg (repne_scasb_loop n s) REG_EDI = reg s REG_EDI + of_nat (k + 1) \<and>
    reg (repne_scasb_loop n s) REG_ECX = reg s REG_ECX - of_nat (k + 1) \<and>
    get_zf (repne_scasb_loop n s) = 1 \<and> g_mem (repne_scasb_loop n s) = g_mem s \<and>
    eip (repne_scasb_loop n s) = eip s"
  using assms
proof (induction k arbitrary: n s)
  case 0
  then obtain m where n: "n = Suc m" by (cases n) auto
  have "reg s REG_ECX > 0" using "0.prems"(2) by (auto simp: word_greater_zero_iff)
  then show ?case
    using "0.prems" scasb_round [of s] by (simp add: n Let_def)
next
  case (Suc k)
  then obtain m where n: "n = Suc m" by (cases n) auto
  define t where "t = repne_scasb_body s"
  have pos: "reg s REG_ECX > 0" using Suc.prems(2) by (auto simp: word_greater_zero_iff)
  have "unat (reg s REG_EDI) < g_size s" using Suc.prems(4) by simp
  note t = scasb_round [OF Suc.prems(1) this, folded t_def]
  have e: "unat (reg t REG_EDI) = Suc (unat (reg s REG_EDI))" "reg t REG_EAX = reg s REG_EAX"
    using Suc.prems(4,5) unat_add_const(1) [of "reg s REG_EDI"] by (simp_all add: t(1))
  have c: "unat (reg t REG_ECX) = unat (reg s REG_ECX) - 1"
    using pos Suc.prems(2) by (simp add: t(1) unat_sub word_le_nat_alt)
  have no: "\<forall>j < k. g_mem t (unat (reg t REG_EDI) + j) \<noteq> ucast (reg t REG_EAX)"
  proof (intro allI impI)
    fix j assume "j < k"
    with Suc.prems(7) [rule_format, of "Suc j"]
    show "g_mem t (unat (reg t REG_EDI) + j) \<noteq> ucast (reg t REG_EAX)" by (simp add: t(2) e)
  qed
  have "get_zf t = 0" using Suc.prems(7) [rule_format, of 0] by (simp add: t(6))
  then have "repne_scasb_loop n s = repne_scasb_loop m t"
    using pos by (simp add: n t_def [symmetric] Let_def)
  moreover have "k < unat (reg t REG_ECX)" "k < m" "unat (reg t REG_EDI) + k < g_size t"
    "g_mem t (unat (reg t REG_EDI) + k) = ucast (reg t REG_EAX)" "g_size t < 2 ^ 32"
    using Suc.prems(2-6) n c e by (simp_all add: t(2,3))
  ultimately show ?case
    using Suc.IH [of t m] no t(4) by (simp add: t(1,2,5))
qed

section \<open>Properties\<close>

text \<open>C30. REP STOSB fills ECX bytes at EDI with AL, as \<open>memset\<close> does, when the area lies inside guest
  memory: nothing else is written, EDI ends behind the area, ECX is 0 and no other register
  changes.\<close>

theorem rep_stosb_memset:
  fixes s :: "'a ops_state_scheme" and op :: u8
  assumes "length (regs s) = 8" and "mem_read8 (eip s) s = 0xAA" and "g_size s < 2 ^ 32"
    and "unat (reg s REG_EDI) + unat (reg s REG_ECX) \<le> g_size s"
  defines "t \<equiv> op_rep op s"
  shows "g_mem t = store_bytes (unat (reg s REG_EDI))
      (replicate (unat (reg s REG_ECX)) (ucast (reg s REG_EAX))) (g_mem s) \<and>
    reg t REG_ECX = 0 \<and> reg t REG_EDI = reg s REG_EDI + reg s REG_ECX \<and> eip t = eip s + 1 \<and>
    (\<forall>i. i \<noteq> REG_ECX \<longrightarrow> i \<noteq> REG_EDI \<longrightarrow> reg t i = reg s i)"
proof -
  let ?n = "unat (reg s REG_ECX)" and ?u = "s\<lparr>eip := eip s + 1\<rparr>"
  have u: "reg ?u i = reg s i" for i by (simp add: reg_def)
  have "t = add_cycles (reg s REG_ECX + 1) (rep_loop ?n rep_stosb_body ?u)"
    using assms(2) by (simp add: t_def op_rep_def fetch8_def Let_def u)
  then show ?thesis
    using stosb_loop [of ?u ?n] rep_stosb.rep_loop_done [of ?u ?n, THEN conjunct1] assms(1,3,4) u by simp
qed

theorem rep_stosb_memset_witness:
  "g_mem (op_rep 0xF3 (sample [0xAA] [7, 3, 0, 0, 0, 0, 0, 100])) 102 = 7"
  using rep_stosb_memset [of "sample [0xAA] [7, 3, 0, 0, 0, 0, 0, 100]" "0xF3"]
  by (simp add: sample_eval store_bytes_def)

text \<open>C29. REP MOVSB copies ECX bytes from ESI to EDI, as \<open>memcpy\<close> does, when both areas lie inside
  guest memory and the destination does not start inside the source: the destination gets the
  bytes the source had, nothing else is written, both pointers end behind their area.\<close>

theorem rep_movsb_memcpy:
  fixes s :: "'a ops_state_scheme" and op :: u8
  assumes "length (regs s) = 8" and "mem_read8 (eip s) s = 0xA4" and "g_size s < 2 ^ 32"
    and "unat (reg s REG_EDI) + unat (reg s REG_ECX) \<le> g_size s"
    and "unat (reg s REG_ESI) + unat (reg s REG_ECX) \<le> g_size s"
    and "unat (reg s REG_EDI) \<le> unat (reg s REG_ESI) \<or>
      unat (reg s REG_ESI) + unat (reg s REG_ECX) \<le> unat (reg s REG_EDI)"
  defines "t \<equiv> op_rep op s"
  shows "g_mem t = store_bytes (unat (reg s REG_EDI))
      (load_bytes (unat (reg s REG_ESI)) (unat (reg s REG_ECX)) (g_mem s)) (g_mem s) \<and>
    reg t REG_ECX = 0 \<and> reg t REG_EDI = reg s REG_EDI + reg s REG_ECX \<and>
    reg t REG_ESI = reg s REG_ESI + reg s REG_ECX \<and> eip t = eip s + 1"
proof -
  let ?n = "unat (reg s REG_ECX)" and ?u = "s\<lparr>eip := eip s + 1\<rparr>"
  have u: "reg ?u i = reg s i" for i by (simp add: reg_def)
  have "t = add_cycles (reg s REG_ECX + 1) (rep_loop ?n rep_movsb_body ?u)"
    using assms(2) by (simp add: t_def op_rep_def fetch8_def Let_def u)
  then show ?thesis
    using movsb_loop [of ?u ?n] rep_movsb.rep_loop_done [of ?u ?n, THEN conjunct1] assms(1,3-6) u by simp
qed

theorem rep_movsb_memcpy_witness:
  "g_mem (op_rep 0xF3 (sample [0xA4, 5, 6] [0, 2, 0, 0, 0, 0, 1, 100])) 101 = 6"
  using rep_movsb_memcpy [of "sample [0xA4, 5, 6] [0, 2, 0, 0, 0, 0, 1, 100]" "0xF3"]
  by (simp add: sample_eval store_bytes_def)

text \<open>C31. REPNE SCASB finds the first byte equal to AL, as \<open>memchr\<close> and \<open>strlen\<close> use it: if that byte is
  \<open>k\<close> bytes above EDI and the count reaches it, EDI ends one behind it, ECX is \<open>k + 1\<close> lower, ZF
  is set and memory is unchanged.\<close>

theorem repne_scasb_search:
  fixes s :: "'a ops_state_scheme" and op :: u8
  assumes "length (regs s) = 8" and "mem_read8 (eip s) s = 0xAE" and "g_size s < 2 ^ 32"
    and "k < unat (reg s REG_ECX)" and "unat (reg s REG_EDI) + k < g_size s"
    and "g_mem s (unat (reg s REG_EDI) + k) = ucast (reg s REG_EAX)"
    and "\<forall>j < k. g_mem s (unat (reg s REG_EDI) + j) \<noteq> ucast (reg s REG_EAX)"
  defines "t \<equiv> op_repne op s"
  shows "reg t REG_EDI = reg s REG_EDI + of_nat (k + 1) \<and> reg t REG_ECX = reg s REG_ECX - of_nat (k + 1) \<and>
    get_zf t = 1 \<and> g_mem t = g_mem s \<and> eip t = eip s + 1"
proof -
  let ?n = "unat (reg s REG_ECX)" and ?u = "s\<lparr>eip := eip s + 1\<rparr>"
  have u: "reg ?u i = reg s i" for i by (simp add: reg_def)
  let ?v = "repne_scasb_loop ?n ?u"
  have "t = add_cycles (reg ?v REG_ECX + 1) ?v"
    using assms(2) by (simp add: t_def op_repne_def fetch8_def Let_def u)
  then show ?thesis
    using scasb_loop [of ?u k ?n] assms(1,3-7) u by (simp add: get_zf_def)
qed

theorem repne_scasb_search_witness:
  "reg (op_repne 0xF2 (sample [0xAE, 5, 0] [0, 0xFFFFFFFF, 0, 0, 0, 0, 0, 1])) REG_ECX = 0xFFFFFFFD"
  using repne_scasb_search [of "sample [0xAE, 5, 0] [0, 0xFFFFFFFF, 0, 0, 0, 0, 0, 1]" 1 "0xF2"]
  by (simp add: sample_eval)

end
