(* ===== verification/Simd_Fpu_Correct.thy ===== *)
theory Simd_Fpu_Correct
  imports Ops_Simd Ops_Fpu Sample
begin

text \<open>
  Packed bytes and the x87 register stack: the byte loops of the MMX instructions by the bits of
  their results, and the ring of eight registers as the list of ST(0) to ST(7).
\<close>

section \<open>Packed bytes\<close>

definition byte :: "nat \<Rightarrow> u64 \<Rightarrow> u8" where
  "byte i w = ucast (drop_bit (8 * i) w)"

lemma bit_pack:
  assumes "k \<le> 8"
  shows "bit (fold (\<lambda>i r. r OR push_bit (i * 8) (ucast (f i :: u8))) [0..<k] (0 :: u64)) n \<longleftrightarrow>
    n < 8 * k \<and> bit (f (n div 8)) (n mod 8)"
  using assms
proof (induction k)
  case (Suc k)
  have "bit (push_bit (k * 8) (ucast (f k) :: u64)) n \<longleftrightarrow> n div 8 = k \<and> bit (f (n div 8)) (n mod 8)"
  proof (cases "n div 8 = k")
    case True
    have "n < 64" "k * 8 \<le> n" "n - k * 8 = n mod 8" "n mod 8 < 64"
      using True Suc.prems by (auto simp: minus_mult_div_eq_mod [symmetric] mult.commute)
    then show ?thesis using True by (simp add: bit_simps)
  next
    case False
    have "\<not> bit (f k) (n - k * 8)" if "k * 8 \<le> n"
      using False that by (auto dest!: bit_imp_le_length simp: div_nat_eqI)
    then show ?thesis using False by (auto simp: bit_simps)
  qed
  moreover have "n < 8 * Suc k \<longleftrightarrow> n < 8 * k \<or> n div 8 = k" by auto
  ultimately show ?case using Suc by (auto simp: bit_or_iff)
qed simp

lemma bit_byte: "bit (byte i w) n \<longleftrightarrow> n < 8 \<and> bit w (8 * i + n)"
  by (auto simp: byte_def bit_simps)

lemma byte_eq_loop: "ucast (drop_bit (i * 8) w) = byte i w"
  by (simp add: byte_def mult.commute)

lemma byte_pcmpeqb:
  assumes "i < 8"
  shows "byte i (pcmpeqb_loop d v) = (if byte i d = byte i v then 0xFF else 0)"
proof (rule bit_word_eqI)
  fix n assume n: "n < LENGTH(8)"
  have "(8 * i + n) div 8 = i" "(8 * i + n) mod 8 = n" using n by auto
  then show "bit (byte i (pcmpeqb_loop d v)) n \<longleftrightarrow> bit (if byte i d = byte i v then 0xFF else 0 :: u8) n"
    using n assms
      bit_pack [of 8 "\<lambda>i. if byte i d = byte i v then 0xFF else 0" "8 * i + n"]
    by (simp add: pcmpeqb_loop_def Let_def byte_eq_loop bit_byte)
qed

lemma bit_pmovmskb: "bit (pmovmskb_loop v) n \<longleftrightarrow> n < 8 \<and> bit v (8 * n + 7)"
proof -
  have "bit (fold (\<lambda>i m. if drop_bit (i * 8 + 7) v AND 1 \<noteq> 0 then m OR push_bit i 1 else m) [0..<k] (0 :: u32)) n \<longleftrightarrow>
      n < k \<and> bit v (8 * n + 7)" if "k \<le> 8" for k
    using that
    by (induction k) (auto simp: bit_simps and_1_bit mult.commute less_Suc_eq)
  then show ?thesis by (simp add: pmovmskb_loop_def)
qed

section \<open>The register stack\<close>

definition fpu_list :: "'a ops_state_scheme \<Rightarrow> u64 list" where
  "fpu_list s = map (\<lambda>i. fpu_st (of_nat i) s) [0..<8]"

lemma unat_and_7: "unat (w AND 7 :: u32) = unat w mod 8"
proof -
  have "(7 :: u32) = mask 3" by (simp add: mask_eq_exp_minus_1)
  then have "unat (w AND 7) = unat (take_bit 3 w)" by (simp only: take_bit_eq_mask)
  also have "\<dots> = take_bit 3 (unat w)" by (rule unsigned_take_bit_eq)
  finally show ?thesis by (simp add: take_bit_eq_mod)
qed

lemma st_index:
  fixes t :: u32
  assumes "t < 8" and "i < 9"
  shows "unat ((t + of_nat i) AND 7) = (unat t + i) mod 8"
proof -
  have "unat t < 8" using assms(1) by (simp add: word_less_nat_alt)
  then have "unat (t + of_nat i) = unat t + i" using assms(2) by (intro unat_add_small) simp
  then show ?thesis by (simp add: unat_and_7)
qed

lemma top_down:
  fixes t :: u32
  assumes "t < 8"
  shows "unat ((t - 1) AND 7) = (unat t + 7) mod 8" "(t - 1) AND 7 < 8" "(t + 1) AND 7 < 8"
proof -
  have t: "unat t < 8" using assms by (simp add: word_less_nat_alt)
  show "(t - 1) AND 7 < 8" "(t + 1) AND 7 < 8"
    by (simp_all add: word_less_nat_alt unat_and_7)
  show "unat ((t - 1) AND 7) = (unat t + 7) mod 8"
  proof (cases "t = 0")
    case False
    then have "unat (t - 1) = unat t - 1" by (simp add: unat_sub word_le_nat_alt unat_gt_0 Suc_le_eq)
    moreover have "0 < unat t" using False by (simp add: unat_gt_0)
    ultimately show ?thesis using t by (simp add: unat_and_7 mod_if)
  qed simp
qed

definition fpu_wf :: "'a ops_state_scheme \<Rightarrow> bool" where
  "fpu_wf s \<longleftrightarrow> length (fpu_stack s) = 8 \<and> fpu_top s < 8"

lemma length_fpu_list [simp]: "length (fpu_list s) = 8"
  by (simp add: fpu_list_def)

lemma nth_fpu_list:
  "fpu_wf s \<Longrightarrow> i < 8 \<Longrightarrow> fpu_list s ! i = fpu_stack s ! ((unat (fpu_top s) + i) mod 8)"
  by (simp add: fpu_list_def fpu_st_def st_index fpu_wf_def)

lemma fpu_wf_push: "fpu_wf s \<Longrightarrow> fpu_wf (fpu_push v s)"
  by (simp add: fpu_wf_def fpu_push_def set_fpu_st0_def Let_def top_down)

lemma fpu_wf_pop: "fpu_wf s \<Longrightarrow> fpu_wf (fpu_pop s)"
  by (simp add: fpu_wf_def fpu_pop_def top_down)

lemma fpu_list_push:
  assumes "fpu_wf s"
  shows "fpu_list (fpu_push v s) = v # take 7 (fpu_list s)"
proof (rule nth_equalityI)
  fix i assume "i < length (fpu_list (fpu_push v s))"
  then have i: "i < 8" by simp
  let ?t = "unat (fpu_top s)"
  have t: "?t < 8" using assms by (simp add: fpu_wf_def word_less_nat_alt)
  have top: "unat (fpu_top (fpu_push v s)) = (?t + 7) mod 8"
    using assms by (simp add: fpu_push_def set_fpu_st0_def Let_def top_down fpu_wf_def)
  have st: "fpu_stack (fpu_push v s) = (fpu_stack s)[(?t + 7) mod 8 := v]"
    using assms by (simp add: fpu_push_def set_fpu_st0_def Let_def top_down fpu_wf_def)
  have idx: "((?t + 7) mod 8 + Suc j) mod 8 = (?t + j) mod 8" for j
  proof -
    have "((?t + 7) mod 8 + Suc j) mod 8 = (?t + 7 + Suc j) mod 8" by (rule mod_add_left_eq)
    also have "?t + 7 + Suc j = ?t + j + 8" by simp
    finally show ?thesis by simp
  qed
  have ne: "(?t + 7) mod 8 \<noteq> (?t + j) mod 8" if "j < 7" for j
    using that t by (auto simp: mod_if)
  show "fpu_list (fpu_push v s) ! i = (v # take 7 (fpu_list s)) ! i"
    using i idx ne t assms [unfolded fpu_wf_def]
    by (cases i) (auto simp: nth_fpu_list [OF fpu_wf_push [OF assms]] nth_fpu_list [OF assms] top st)
qed simp

lemma fpu_list_pop:
  assumes "fpu_wf s"
  shows "fpu_list (fpu_pop s) = tl (fpu_list s) @ [hd (fpu_list s)]"
proof (rule nth_equalityI)
  fix i assume "i < length (fpu_list (fpu_pop s))"
  then have i: "i < 8" by simp
  let ?t = "unat (fpu_top s)"
  have top: "unat (fpu_top (fpu_pop s)) = (?t + 1) mod 8"
    using st_index [of "fpu_top s" 1] assms by (simp add: fpu_pop_def fpu_wf_def)
  have idx: "((?t + 1) mod 8 + j) mod 8 = (?t + Suc j) mod 8" "(?t + 8) mod 8 = ?t mod 8" for j by presburger+
  have st: "fpu_stack (fpu_pop s) = fpu_stack s" by (simp add: fpu_pop_def)
  have hd: "hd (fpu_list s) = fpu_list s ! 0" by (rule hd_conv_nth) (auto simp: fpu_list_def)
  show "fpu_list (fpu_pop s) ! i = (tl (fpu_list s) @ [hd (fpu_list s)]) ! i"
    using i assms idx fpu_wf_pop [OF assms]
    by (cases "i = 7") (auto simp: nth_fpu_list top nth_append nth_tl hd st)
qed simp

lemma fpu_list_cong: "fpu_stack t = fpu_stack s \<Longrightarrow> fpu_top t = fpu_top s \<Longrightarrow> fpu_list t = fpu_list s"
  by (simp add: fpu_list_def fpu_st_def)

lemma hd_fpu_list: "fpu_wf s \<Longrightarrow> hd (fpu_list s) = fpu_st0 s"
  using nth_fpu_list [of s 0]
  by (simp add: hd_conv_nth fpu_st0_def fpu_wf_def word_less_nat_alt flip: length_greater_0_conv)

section \<open>Properties\<close>

text \<open>C38. PCMPEQB followed by PMOVMSKB, as a search compares eight bytes at once: each byte of the
  destination becomes 0xFF where it equals the byte of the source and 0 elsewhere, and the mask
  has bit \<open>i\<close> set exactly when the sign bit of byte \<open>i\<close> is; so the mask of a comparison shows the
  equal bytes.\<close>

theorem pcmpeqb_pmovmskb:
  fixes s t :: "'a ops_state_scheme" and op :: u8
  assumes "length (mmx_regs s) = 8" and "length (regs t) = 8"
  defines "d \<equiv> modrm_reg s" and "v \<equiv> fst (read_mm64 (fst (parse_modrm s)) (snd (parse_modrm s)))"
  shows "(\<forall>i < 8. byte i (mmx_regs (op_pcmpeqb op s) ! d) =
      (if byte i (mmx_regs s ! d) = byte i v then 0xFF else 0)) \<and>
    (\<forall>i. bit (reg (op_pmovmskb op' t) (modrm_reg t)) i \<longleftrightarrow>
      i < 8 \<and> bit (byte i (mmx_regs t ! unat (mrm_rm (fst (parse_modrm t))))) 7)"
  using assms(1,2)
  by (auto simp: op_pcmpeqb_def op_pmovmskb_def Let_def split_beta set_mm_def reg_set_reg byte_pcmpeqb
      bit_pmovmskb bit_byte d_def v_def read_mm64_def)

theorem pcmpeqb_pmovmskb_witness:
  "bit (reg (op_pmovmskb 0xD7 ((sample [0xC1] (replicate 8 0))\<lparr>mmx_regs := replicate 8 0xFF00\<rparr>)) 0) 1 \<and>
   \<not> bit (reg (op_pmovmskb 0xD7 ((sample [0xC1] (replicate 8 0))\<lparr>mmx_regs := replicate 8 0xFF00\<rparr>)) 0) 0"
proof -
  have "bit (byte 1 0xFF00) 7" "\<not> bit (byte 0 0xFF00) 7" by (simp_all add: byte_def)
  then show ?thesis
    using pcmpeqb_pmovmskb [of "(sample [0xC1] (replicate 8 0))\<lparr>mmx_regs := replicate 8 0xFF00\<rparr>"
        "(sample [0xC1] (replicate 8 0))\<lparr>mmx_regs := replicate 8 0xFF00\<rparr>" "0x74" "0xD7"]
    by (simp add: parse_modrm_def sample_eval)
qed

text \<open>C39. The x87 registers as a stack: FLD m64 puts the 64 bits at its address in front of ST(0) to ST(6),
  and FSTP m64 stores ST(0) and takes it away, the eight registers being a ring.\<close>

theorem fpu_stack_refines:
  fixes s :: "'a ops_state_scheme" and op :: u8
  assumes "length (fpu_stack s) = 8" and "fpu_top s < 8" and "mrm_mod (fst (parse_modrm s)) \<noteq> 3"
  defines "a \<equiv> fst (resolve_rm_addr (fst (parse_modrm s)) (snd (parse_modrm s)))"
  shows "(mrm_reg (fst (parse_modrm s)) = 0 \<longrightarrow> fpu_list (op_dd op s) = mem_read64 a s # take 7 (fpu_list s)) \<and>
    (mrm_reg (fst (parse_modrm s)) = 3 \<longrightarrow> fpu_list (op_dd op s) = tl (fpu_list s) @ [hd (fpu_list s)] \<and>
       g_mem (op_dd op s) = g_mem (mem_write64 a (hd (fpu_list s)) s))"
proof -
  define u where "u = snd (resolve_rm_addr (fst (parse_modrm s)) (snd (parse_modrm s)))"
  have u: "fpu_stack u = fpu_stack s" "fpu_top u = fpu_top s" "g_mem u = g_mem s" "g_size u = g_size s"
    by (simp_all add: u_def)
  have wf: "fpu_wf u" using assms(1,2) u by (simp add: fpu_wf_def)
  have lst: "fpu_list u = fpu_list s" using u by (intro fpu_list_cong)
  have rd: "mem_read64 a u = mem_read64 a s"
    using u by (simp add: mem_read64_def mem_read32_def check_bounds_def)
  have "fpu_list (op_dd op s) = mem_read64 a s # take 7 (fpu_list s)" if "mrm_reg (fst (parse_modrm s)) = 0"
  proof -
    have "op_dd op s = add_cycles 3 (fpu_push (mem_read64 a u) u)"
      using that assms(3) by (simp add: op_dd_def split_beta Let_def a_def u_def)
    then have "fpu_list (op_dd op s) = fpu_list (fpu_push (mem_read64 a s) u)"
      by (intro fpu_list_cong) (simp_all add: rd)
    then show ?thesis using fpu_list_push [OF wf] lst by simp
  qed
  moreover have "fpu_list (op_dd op s) = tl (fpu_list s) @ [hd (fpu_list s)] \<and>
      g_mem (op_dd op s) = g_mem (mem_write64 a (hd (fpu_list s)) s)" if "mrm_reg (fst (parse_modrm s)) = 3"
  proof -
    define w where "w = mem_write64 a (fpu_st0 u) u"
    have op: "op_dd op s = add_cycles 3 (fpu_pop w)"
      using that assms(3) by (simp add: op_dd_def split_beta Let_def a_def u_def w_def)
    have w: "fpu_stack w = fpu_stack u" "fpu_top w = fpu_top u" by (simp_all add: w_def mem_write64_def Let_def)
    then have wf_w: "fpu_wf w" and lst_w: "fpu_list w = fpu_list s"
      using wf lst fpu_list_cong [of w u] by (simp_all add: fpu_wf_def)
    have "fpu_list (op_dd op s) = fpu_list (fpu_pop w)"
      unfolding op by (intro fpu_list_cong) simp_all
    moreover have "g_mem (op_dd op s) = g_mem w" by (simp add: op fpu_pop_def)
    moreover have "g_mem w = g_mem (mem_write64 a (hd (fpu_list s)) s)"
      unfolding w_def lst [symmetric] hd_fpu_list [OF wf] using u
      by (simp add: mem_write64_def Let_def mem_write32_def check_bounds_def)
    ultimately show ?thesis using fpu_list_pop [OF wf_w] lst_w by simp
  qed
  ultimately show ?thesis by blast
qed

theorem fpu_stack_refines_witness:
  "fpu_list (op_dd 0xDD (sample [0x05, 0, 0, 0, 0, 1] [])) ! 0 = 0x0000010000000005"
proof -
  let ?s = "sample [0x05, 0, 0, 0, 0, 1] []"
  have m: "fst (parse_modrm ?s) = \<lparr>mrm_mod = 0, mrm_reg = 0, mrm_rm = 5, has_sib = False, has_disp = True,
      disp = 0, sib_base = 0, sib_index = 0, sib_scale = 0\<rparr>"
    by (simp add: parse_modrm_def sample_eval)
  have "length (fpu_stack ?s) = 8" "fpu_top ?s < 8" by (simp_all add: sample_def)
  then show ?thesis
    using fpu_stack_refines [of ?s "0xDD"]
    by (simp add: m resolve_rm_addr_def mem_read64_def sample_eval)
qed

end
