(* ===== verification/Prefix_Correct.thy ===== *)
theory Prefix_Correct
  imports Emulator_Correct Decode_Correct
begin

text \<open>
  The GS prefix in a whole round: the handler of the prefix, the instruction it runs, and the
  state that passes between them. Guest programs reach their thread-local block this way.
\<close>

lemma gs_lookup:
  "opcode_table fp os ex 0x65 = op_prefix_gs ex" "opcode_table fp os ex 0xA1 = pure_op op_mov_eax_mem"
  "opcode_table fp os ex 0xA3 = pure_op op_mov_mem_eax" "opcode_table fp os ex 0x8B = pure_op op_mov_r32_rm32"
  "opcode_table fp os ex 0x89 = pure_op op_mov_rm32_r32"
  by (simp_all add: opcode_table_def opcode_entries_def fill_table_def set_entry_def)

text \<open>The state in which the instruction after the prefix byte runs.\<close>

definition gs_state :: "'w machine \<Rightarrow> 'w machine" where
  "gs_state s = s\<lparr>g_last_eip := eip s, g_seg_override := g_gs_base s, eip := eip s + 2\<rparr>"

lemma gs_state_simps [simp]:
  "regs (gs_state s) = regs s" "g_mem (gs_state s) = g_mem s" "g_size (gs_state s) = g_size s"
  "g_operand_size_16 (gs_state s) = g_operand_size_16 s" "g_seg_override (gs_state s) = g_gs_base s"
  "eip (gs_state s) = eip s + 2"
  by (simp_all add: gs_state_def)

text \<open>The round of an instruction with the prefix: the instruction runs with the override set, and
  the override is gone afterwards.\<close>

lemma gs_round:
  fixes s :: "'w machine"
  assumes code: "code_at (0x65 # op # bs) s" and h: "\<And>ex. opcode_table fp os ex op = pure_op h"
  shows "emulate_step fp os s = Inr (add_cycles 1 ((h op (gs_state s))\<lparr>g_seg_override := 0\<rparr>))"
    and "code_at bs (gs_state s)"
proof -
  note c = fetch8_code [OF code]
  note c2 = fetch8_code [OF c(2)]
  have b: "mem_read8 (eip s) s = 0x65" "mem_read8 (eip s + 1) s = op"
    using c(1) c2(1) by (simp_all add: fetch8_def mem_read8_def check_bounds_def split: if_splits)
  have rd: "mem_read8 a (s\<lparr>g_last_eip := x\<rparr>) = mem_read8 a s"
    "mem_read8 a (s\<lparr>g_last_eip := x, eip := y, g_seg_override := z\<rparr>) = mem_read8 a s" for a x y z
    by (simp_all add: mem_read8_def check_bounds_def)
  have fuel: "g_size s + 2 = Suc (Suc (g_size s))" by simp
  show "emulate_step fp os s = Inr (add_cycles 1 ((h op (gs_state s))\<lparr>g_seg_override := 0\<rparr>))"
    by (simp add: emulate_step_def Let_def fuel rd b gs_lookup(1) op_prefix_gs_def fetch8_def h pure_op_def
        gs_state_def add.commute [of 2] del: add_2_eq_Suc')
  show "code_at bs (gs_state s)"
    using c2(2) by (simp add: code_at_def gs_state_def add.commute [of 2])
qed

lemma effective_address_regs: "regs t = regs s \<Longrightarrow> effective_address x t = effective_address x s"
  by (cases x) (auto simp: reg_def split: option.split)

text \<open>Decoding does not read the override; it is added to the address.\<close>

lemma parse_modrm_override:
  "fst (parse_modrm (s\<lparr>g_seg_override := v\<rparr>)) = fst (parse_modrm s)"
  "snd (parse_modrm (s\<lparr>g_seg_override := v\<rparr>)) = (snd (parse_modrm s))\<lparr>g_seg_override := v\<rparr>"
  by (simp_all add: parse_modrm_def Let_def split_beta fetch8_def fetch32_def mem_read8_def mem_read32_def check_bounds_def)

lemma resolve_override:
  "mrm_mod m \<noteq> 3 \<Longrightarrow>
   resolve_rm_addr m s = (g_seg_override s + fst (resolve_rm_addr m (s\<lparr>g_seg_override := 0\<rparr>)), s\<lparr>g_seg_override := 0\<rparr>)"
  by (simp add: resolve_rm_addr_def Let_def reg_def)

lemma gs_operand:
  assumes "code_at (encode_operand r (AtMem b i d)) s" and "r < 8" and "operand_wf (AtMem b i d)"
  shows "mrm_reg (fst (parse_modrm s)) = r" "mrm_mod (fst (parse_modrm s)) \<noteq> 3"
    "snd (parse_modrm s) = s\<lparr>eip := eip s + of_nat (length (encode_operand r (AtMem b i d)))\<rparr>"
    "resolve_rm_addr (fst (parse_modrm s)) (snd (parse_modrm s)) =
       (g_seg_override s + effective_address (AtMem b i d) s,
        s\<lparr>eip := eip s + of_nat (length (encode_operand r (AtMem b i d))), g_seg_override := 0\<rparr>)"
proof -
  let ?s = "s\<lparr>g_seg_override := 0\<rparr>"
  have "code_at (encode_operand r (AtMem b i d)) ?s" using assms(1) by (simp add: code_at_def)
  from decodes_operand [OF assms(2,3) this] have dec: "decodes r (AtMem b i d) ?s" by simp
  then show "mrm_reg (fst (parse_modrm s)) = r" and m: "mrm_mod (fst (parse_modrm s)) \<noteq> 3"
    by (simp_all add: decodes_def parse_modrm_override)
  show e: "snd (parse_modrm s) = s\<lparr>eip := eip s + of_nat (length (encode_operand r (AtMem b i d)))\<rparr>"
    using dec parse_modrm_state [of s] by (simp add: decodes_def parse_modrm_override)
  have "effective_address (AtMem b i d) ?s = effective_address (AtMem b i d) s"
    by (rule effective_address_regs) simp
  then have "fst (resolve_rm_addr (fst (parse_modrm s)) ((snd (parse_modrm s))\<lparr>g_seg_override := 0\<rparr>)) =
      effective_address (AtMem b i d) s"
    using dec by (simp add: decodes_def parse_modrm_override del: effective_address.simps)
  then show "resolve_rm_addr (fst (parse_modrm s)) (snd (parse_modrm s)) =
       (g_seg_override s + effective_address (AtMem b i d) s,
        s\<lparr>eip := eip s + of_nat (length (encode_operand r (AtMem b i d))), g_seg_override := 0\<rparr>)"
    using resolve_override [OF m, of "snd (parse_modrm s)"] by (simp add: e del: effective_address.simps)
qed

text \<open>C4. Moves with the GS prefix, as whole rounds of \<open>emulate\<close>: when the bytes at EIP are the
  prefix and MOV in one of its 32-bit forms with a memory operand (8B and 89 with any assembled
  operand, A1 and A3 with an absolute address), the word is loaded from or stored at the operand's address plus the GS base; EIP
  is behind the instruction, no other register and no other memory changes, and the override does
  not reach the next instruction.\<close>

theorem gs_override:
  fixes s :: "'w machine" and b i d
  defines "x \<equiv> AtMem b i d"
  defines "a \<equiv> g_gs_base s + effective_address x s"
  assumes "length (regs s) = 8" and "\<not> g_operand_size_16 s" and "r < 8" and "operand_wf x"
  shows "(code_at (0x65 # 0x8B # encode_operand r x) s \<longrightarrow>
      (\<exists>t. emulate_step fp os s = Inr t \<and> regs t = (regs s)[unat r := mem_read32 a s] \<and> g_mem t = g_mem s \<and>
           eip t = eip s + 2 + of_nat (length (encode_operand r x)) \<and> g_seg_override t = 0)) \<and>
    (code_at (0x65 # 0x89 # encode_operand r x) s \<longrightarrow>
      (\<exists>t. emulate_step fp os s = Inr t \<and> regs t = regs s \<and> g_mem t = g_mem (mem_write32 a (reg s (unat r)) s) \<and>
           eip t = eip s + 2 + of_nat (length (encode_operand r x)) \<and> g_seg_override t = 0)) \<and>
    (code_at (0x65 # 0xA1 # enc32 d) s \<longrightarrow>
      (\<exists>t. emulate_step fp os s = Inr t \<and> regs t = (regs s)[REG_EAX := mem_read32 (g_gs_base s + d) s] \<and>
           g_mem t = g_mem s \<and> eip t = eip s + 6 \<and> g_seg_override t = 0)) \<and>
    (code_at (0x65 # 0xA3 # enc32 d) s \<longrightarrow>
      (\<exists>t. emulate_step fp os s = Inr t \<and> regs t = regs s \<and>
           g_mem t = g_mem (mem_write32 (g_gs_base s + d) (reg s REG_EAX) s) \<and> eip t = eip s + 6 \<and> g_seg_override t = 0))"
proof (intro conjI impI)
  note st = reg_def set_reg_def mem_read32_def mem_write32_def check_bounds_def
  have ea: "effective_address x (gs_state s) = effective_address x s"
    by (rule effective_address_regs) simp
  note operand = gs_operand [of r b i d "gs_state s", folded x_def, OF _ assms(5,6)]
  {
    assume c: "code_at (0x65 # 0x8B # encode_operand r x) s"
    note o = operand [OF gs_round(2) [OF c gs_lookup(4)]]
    show "\<exists>t. emulate_step fp os s = Inr t \<and> regs t = (regs s)[unat r := mem_read32 a s] \<and> g_mem t = g_mem s \<and>
           eip t = eip s + 2 + of_nat (length (encode_operand r x)) \<and> g_seg_override t = 0"
      using gs_round(1) [OF c gs_lookup(4)] o assms(3,4)
      by (simp add: op_mov_r32_rm32_def Let_def split_beta read_rm32_def ea a_def st)
  next
    assume c: "code_at (0x65 # 0x89 # encode_operand r x) s"
    note o = operand [OF gs_round(2) [OF c gs_lookup(5)]]
    show "\<exists>t. emulate_step fp os s = Inr t \<and> regs t = regs s \<and> g_mem t = g_mem (mem_write32 a (reg s (unat r)) s) \<and>
           eip t = eip s + 2 + of_nat (length (encode_operand r x)) \<and> g_seg_override t = 0"
      using gs_round(1) [OF c gs_lookup(5)] o assms(3,4)
      by (simp add: op_mov_rm32_r32_def Let_def split_beta write_rm32_def ea a_def st)
  next
    assume c: "code_at (0x65 # 0xA1 # enc32 d) s"
    show "\<exists>t. emulate_step fp os s = Inr t \<and> regs t = (regs s)[REG_EAX := mem_read32 (g_gs_base s + d) s] \<and>
           g_mem t = g_mem s \<and> eip t = eip s + 6 \<and> g_seg_override t = 0"
      using gs_round(1) [OF c gs_lookup(2)] fetch32_code_end [OF gs_round(2) [OF c gs_lookup(2)]]
      by (simp add: op_mov_eax_mem_def Let_def st add.commute [of d])
  next
    assume c: "code_at (0x65 # 0xA3 # enc32 d) s"
    show "\<exists>t. emulate_step fp os s = Inr t \<and> regs t = regs s \<and>
           g_mem t = g_mem (mem_write32 (g_gs_base s + d) (reg s REG_EAX) s) \<and> eip t = eip s + 6 \<and> g_seg_override t = 0"
      using gs_round(1) [OF c gs_lookup(3)] fetch32_code_end [OF gs_round(2) [OF c gs_lookup(3)]]
      by (simp add: op_mov_mem_eax_def Let_def st add.commute [of d])
  }
qed

text \<open>\<open>mov eax, gs:[ebx + 0x14]\<close> with EBX 0 reads the word at GS:0x14.\<close>

theorem gs_override_witness:
  "\<exists>t. emulate_step null_fp mute_host
     ((boot_state mute_host ())\<lparr>g_mem := store_bytes 0 [0x65, 0x8B, 0x43, 0x14] ((\<lambda>_. 0)(0x2014 := 7)), g_gs_base := 0x2000\<rparr>) = Inr t \<and>
     reg t REG_EAX = 7 \<and> eip t = 4 \<and> g_seg_override t = 0"
proof -
  let ?s = "(boot_state mute_host ())\<lparr>g_mem := store_bytes 0 [0x65, 0x8B, 0x43, 0x14] ((\<lambda>_. 0)(0x2014 := 7)), g_gs_base := 0x2000\<rparr>"
  let ?x = "AtMem (Some 3) None 0x14"
  let ?b = "boot_state mute_host ()"
  have s: "regs ?b = replicate 8 0" "\<not> g_operand_size_16 ?b" "eip ?b = 0" "g_size ?b = 0x20000000"
    by (simp_all add: boot_state_def init_cpu_def init_fd_table_def static_state_def)
  have e: "encode_operand 0 ?x = [0x43, 0x14]"
    by (simp add: disp_mode_def disp_bytes_def short_disp_def mrm_fields_def)
  have c: "code_at (0x65 # 0x8B # encode_operand 0 ?x) ?s"
    by (simp add: e code_at_def s load_bytes_def store_bytes_def del: encode_operand.simps)
  show ?thesis
    using conjunct1 [OF gs_override [of ?s 0 "Some 3" None "0x14" null_fp mute_host]] c s
    by (auto simp: e reg_def mem_read32_def check_bounds_def store_bytes_def simp del: encode_operand.simps)
qed

end
