(* ===== verification/Stops.thy ===== *)
theory Stops
  imports Emulator_Correct
begin

text \<open>
  How a round of \<open>emulate\<close> can end the program. An instruction other than \<open>int 0x80\<close> only does
  so where C leaves an arithmetic operation undefined; everything else comes from a system call,
  made with the registers and the memory the round started with.
\<close>

section \<open>Which stops an instruction can give\<close>

definition stops_in :: "stop set \<Rightarrow> 'a result \<Rightarrow> bool" where
  "stops_in S r \<longleftrightarrow> (\<forall>e. r = Inl e \<longrightarrow> e \<in> S)"

definition arith_stops :: "stop set" where
  "arith_stops = {UB ShiftRange, UB SignedOverflow, UB DivOverflow, UB FloatRange}"

lemma stops_in_simps [simp]: "stops_in S (Inr x)" "stops_in S (Inl e) \<longleftrightarrow> e \<in> S"
  by (simp_all add: stops_in_def)

lemma stops_in_bind:
  "stops_in S r \<Longrightarrow> (\<And>x. r = Inr x \<Longrightarrow> stops_in S (f x)) \<Longrightarrow> stops_in S (bind_result r f)"
  by (cases r) auto

lemma stops_in_if: "(b \<Longrightarrow> stops_in S x) \<Longrightarrow> (\<not> b \<Longrightarrow> stops_in S y) \<Longrightarrow> stops_in S (if b then x else y)"
  by simp

lemma arith_stops_arith:
  "stops_in arith_stops (op_imul_r32_rm32 op s)" "stops_in arith_stops (op_imul_r32_rm32_imm32 op s)"
  "stops_in arith_stops (op_imul_r32_rm32_imm8 op s)" "stops_in arith_stops (op_f7_group op s)"
  by (simp_all add: op_imul_r32_rm32_def op_imul_r32_rm32_imm32_def op_imul_r32_rm32_imm8_def
      op_f7_group_def imul_finish_def Let_def split_beta arith_stops_def)

lemma arith_stops_shift:
  "stops_in arith_stops (op_c0_group op s)" "stops_in arith_stops (op_c1_group op s)"
  "stops_in arith_stops (op_d2_group op s)" "stops_in arith_stops (op_d3_group op s)"
  by (simp_all add: op_c0_group_def op_c1_group_def op_d2_group_def op_d3_group_def
      shift_group8_def shift_group32_def Let_def split_beta arith_stops_def)

lemma arith_stops_f_to_sint: "stops_in arith_stops (f_to_sint fp n x)"
  by (simp add: f_to_sint_def arith_stops_def split: option.split)

lemma arith_stops_fpu:
  "stops_in arith_stops (op_d9 fp op s)" "stops_in arith_stops (op_db fp op s)"
  "stops_in arith_stops (op_df fp op s)"
  by (auto simp: op_d9_def op_d9_reg_def op_db_def op_df_def Let_def split_beta
      intro!: stops_in_bind arith_stops_f_to_sint)

lemma arith_stops_0f: "stops_in arith_stops (opcode_table_0f i op s)"
proof -
  have "\<forall>op s. stops_in arith_stops (opcode_table_0f i op s)"
    unfolding opcode_table_0f_def
    by (rule fill_table_all [where Q = "\<lambda>h. \<forall>op s. stops_in arith_stops (h op s)"])
      (simp_all add: entries_0f_def pure_op_def arith_stops_arith)
  then show ?thesis by blast
qed

section \<open>System calls are made by \<open>int 0x80\<close> only\<close>

abbreviation prefix_bytes :: "u8 set" where
  "prefix_bytes \<equiv> {0x26, 0x2E, 0x36, 0x3E, 0x64, 0x65, 0x66, 0x67, 0xF0}"

text \<open>The byte \<open>op\<close> and the bytes from \<open>a\<close> on are \<open>k\<close> prefixes and \<open>int 0x80\<close>.\<close>

primrec int80_after :: "nat \<Rightarrow> u8 \<Rightarrow> u32 \<Rightarrow> 'a mem_state_scheme \<Rightarrow> bool" where
  "int80_after 0 op a s \<longleftrightarrow> op = 0xCD \<and> mem_read8 a s = 0x80"
| "int80_after (Suc k) op a s \<longleftrightarrow> op \<in> prefix_bytes \<and> int80_after k (mem_read8 a s) (a + 1) s"

definition at_int80 :: "'a i386_scheme \<Rightarrow> bool" where
  "at_int80 s \<longleftrightarrow> (\<exists>k. int80_after k (mem_read8 (eip s) s) (eip s + 1) s)"

lemma int80_after_cong:
  "g_mem t = g_mem s \<Longrightarrow> g_size t = g_size s \<Longrightarrow> int80_after k op a t = int80_after k op a s"
  by (induction k arbitrary: op a) (simp_all add: mem_read8_def check_bounds_def)

text \<open>States that differ in nothing a system call looks at.\<close>

definition same_guest :: "'w machine \<Rightarrow> 'w machine \<Rightarrow> bool" where
  "same_guest t s \<longleftrightarrow> regs t = regs s \<and> g_mem t = g_mem s \<and> g_size t = g_size s \<and>
     fd_table t = fd_table s \<and> g_mmap_ptr t = g_mmap_ptr s \<and> g_sigactions t = g_sigactions s"

definition call_stops :: "'w host \<Rightarrow> u8 \<Rightarrow> 'w machine \<Rightarrow> stop \<Rightarrow> bool" where
  "call_stops os op s e \<longleftrightarrow> e = OutOfFuel \<or> e \<in> arith_stops \<or>
     (\<exists>k t. int80_after k op (eip s) s \<and> same_guest t s \<and> dispatch_syscall os t = Inl e)"

abbreviation stops_by_call :: "'w host \<Rightarrow> u8 \<Rightarrow> 'w handler \<Rightarrow> bool" where
  "stops_by_call os i h \<equiv> \<forall>op s e. h op s = Inl e \<longrightarrow> call_stops os i s e"

lemmas arith_stops_all = arith_stops_0f arith_stops_arith arith_stops_shift arith_stops_fpu

lemma arith_handlers_stop:
  "stops_by_call os i op_prefix_0f" "stops_by_call os i op_imul_r32_rm32_imm32"
  "stops_by_call os i op_imul_r32_rm32_imm8" "stops_by_call os i op_f7_group"
  "stops_by_call os i op_c0_group" "stops_by_call os i op_c1_group" "stops_by_call os i op_d2_group"
  "stops_by_call os i op_d3_group" "stops_by_call os i (op_d9 fp)" "stops_by_call os i (op_db fp)"
  "stops_by_call os i (op_df fp)"
  by (auto simp: op_prefix_0f_def split_beta call_stops_def
      dest: arith_stops_all [unfolded stops_in_def, rule_format])

lemma op_int_stops: "stops_by_call os 0xCD (op_int os)"
proof (intro allI impI)
  fix op s e
  assume e: "op_int os op s = Inl e"
  let ?t = "s\<lparr>eip := eip s + 1\<rparr>"
  have "mem_read8 (eip s) s = 0x80" "dispatch_syscall os ?t = Inl e"
    using e by (cases "dispatch_syscall os ?t"; simp add: op_int_def fetch8_def split: if_splits)+
  moreover have "same_guest ?t s" by (simp add: same_guest_def)
  ultimately show "call_stops os 0xCD s e"
    unfolding call_stops_def by (intro disjI2 exI [of _ 0] exI [of _ ?t]) simp
qed

lemma call_stops_prefix:
  assumes "call_stops os (mem_read8 (eip s) s) t e" and "i \<in> prefix_bytes"
    and "same_guest t s" and "eip t = eip s + 1"
  shows "call_stops os i s e"
proof -
  have "int80_after (Suc k) i (eip s) s" if "int80_after k (mem_read8 (eip s) s) (eip t) t" for k
    using that assms(2-4) int80_after_cong [of t s] by (simp add: same_guest_def)
  moreover have "same_guest u s" if "same_guest u t" for u
    using that assms(3) by (simp add: same_guest_def)
  ultimately show ?thesis using assms(1) unfolding call_stops_def by meson
qed

lemma read_same:
  "mem_read8 a (s\<lparr>g_seg_override := v\<rparr>) = mem_read8 a s"
  "mem_read8 a (s\<lparr>g_operand_size_16 := b\<rparr>) = mem_read8 a s"
  by (simp_all add: mem_read8_def check_bounds_def)

lemma prefix_stops:
  assumes ex: "\<And>op s e. ex op s = Inl e \<Longrightarrow> call_stops os op s e" and i: "i \<in> prefix_bytes"
  shows "stops_by_call os i (op_prefix_cs ex)" "stops_by_call os i (op_prefix_gs ex)"
    "stops_by_call os i (op_prefix_66 ex)" "stops_by_call os i (op_prefix_67 ex)"
    "stops_by_call os i (op_prefix_lock ex)"
proof -
  have next_op: "bind_result (ex (mem_read8 (eip s) s) t) k = Inl e \<Longrightarrow> (\<And>x. \<exists>y. k x = Inr y) \<Longrightarrow>
      same_guest t s \<Longrightarrow> eip t = eip s + 1 \<Longrightarrow> call_stops os i s e" for s t k e
    using call_stops_prefix [OF ex i, of s t] by (cases "ex (mem_read8 (eip s) s) t") (auto, metis Inl_Inr_False)
  show "stops_by_call os i (op_prefix_cs ex)" "stops_by_call os i (op_prefix_gs ex)"
    "stops_by_call os i (op_prefix_66 ex)" "stops_by_call os i (op_prefix_67 ex)"
    "stops_by_call os i (op_prefix_lock ex)"
    by (auto simp: op_prefix_cs_def op_prefix_gs_def op_prefix_66_def op_prefix_67_def op_prefix_lock_def
        fetch8_def Let_def same_guest_def read_same dest!: next_op)
qed

text \<open>What the handler at an index of a table satisfies.\<close>

lemma fill_table_at:
  assumes "Q i h" and "\<forall>(a, b, g) \<in> set es. a \<le> i \<and> i \<le> b \<longrightarrow> Q i g"
  shows "Q i (fill_table h es i)"
proof -
  have "Q i (t i) \<Longrightarrow> \<forall>(a, b, g) \<in> set es. a \<le> i \<and> i \<le> b \<longrightarrow> Q i g \<Longrightarrow> Q i (foldl set_entry t es i)" for t
  proof (induction es arbitrary: t)
    case (Cons e es)
    have "Q i (set_entry t e i)"
      using Cons.prems by (auto simp: set_entry_def split: prod.splits)
    with Cons show ?case by simp
  qed simp
  with assms show ?thesis by (simp add: fill_table_def)
qed

lemma word_between_same: "(a :: u8) \<le> i \<and> i \<le> a \<longleftrightarrow> i = a"
  by auto

lemma opcode_table_stops:
  assumes ex: "\<And>op s e. ex op s = Inl e \<Longrightarrow> call_stops os op s e"
  shows "stops_by_call os i (opcode_table fp os ex i)"
  unfolding opcode_table_def
  by (rule fill_table_at [where Q = "\<lambda>i h. stops_by_call os i h"])
    (simp_all add: opcode_entries_def pure_op_def word_between_same op_int_stops prefix_stops [OF ex]
      arith_handlers_stop)

lemma execute_opcode_stops: "execute_opcode n fp os op s = Inl e \<Longrightarrow> call_stops os op s e"
proof (induction n arbitrary: op s e)
  case 0
  then show ?case by (simp add: call_stops_def)
next
  case (Suc n)
  then show ?case using opcode_table_stops [where ex = "\<lambda>op s. execute_opcode n fp os op s"] by simp
qed

lemma emulate_step_stops:
  fixes s :: "'w machine"
  assumes "emulate_step fp os s = Inl e" and "g_size s < 2 ^ 32"
  shows "e \<in> arith_stops \<or> (\<exists>t. at_int80 s \<and> same_guest t s \<and> dispatch_syscall os t = Inl e)"
proof -
  let ?s = "s\<lparr>g_last_eip := eip s, eip := eip s + 1\<rparr>"
  have "mem_read8 (eip s) (s\<lparr>g_last_eip := eip s\<rparr>) = mem_read8 (eip s) s"
    by (simp add: mem_read8_def check_bounds_def)
  then have "execute_opcode (g_size s + 2) fp os (mem_read8 (eip s) s) ?s = Inl e"
    using assms(1) by (simp add: emulate_step_def Let_def del: execute_opcode.simps)
  then have "call_stops os (mem_read8 (eip s) s) ?s e" by (rule execute_opcode_stops)
  moreover have "e \<noteq> OutOfFuel"
    using emulate_step_terminates [OF assms(2), of fp os] assms(1) by (auto simp: terminates_def)
  moreover have "int80_after k op a ?s = int80_after k op a s" for k op a
    by (rule int80_after_cong) simp_all
  ultimately show ?thesis by (auto simp: call_stops_def at_int80_def same_guest_def)
qed

section \<open>Which stops a system call can give\<close>

definition host_stops :: "stop set" where
  "host_stops = {UB HostOOB, UB SignedOverflow}"

lemma host_stops_iff [simp]: "UB k \<in> host_stops \<longleftrightarrow> k = HostOOB \<or> k = SignedOverflow"
  by (auto simp: host_stops_def)

lemma host_stops_access:
  "stops_in host_stops (host_store p bs s)" "stops_in host_stops (host_memset p b n s)"
  "stops_in host_stops (host_load p n s)" "stops_in host_stops (host_cstring p s)"
  "stops_in host_stops (strncpy p str n s)"
  by (simp_all add: host_store_def host_memset_def host_load_def host_cstring_def strncpy_def Let_def)

lemma host_stops_members: "stops_in host_stops (store_members p ms s)"
  by (induction ms arbitrary: s) (auto intro!: stops_in_bind host_stops_access)

lemma host_stops_file:
  "stops_in host_stops (sys_write os fd a n s)" "stops_in host_stops (sys_read os fd a n s)"
  "stops_in host_stops (sys_close os fd s)" "stops_in host_stops (sys_lseek os fd a n s)"
  "stops_in host_stops (sys_open os a n w s)"
  by (auto simp: sys_write_def sys_read_def sys_close_def sys_lseek_def sys_open_def Let_def
      split: option.split prod.split sum.split intro!: stops_in_bind host_stops_access)

lemma host_stops_fstat64: "stops_in host_stops (sys_fstat64 os fd a s)"
  by (auto simp: sys_fstat64_def fstat_win32_def fstat_posix_def Let_def
      split: option.split prod.split sum.split host.split
      intro!: stops_in_bind host_stops_access host_stops_members)

lemma host_stops_misc:
  "stops_in host_stops (sys_mmap2 a n p fl fd off s)" "stops_in host_stops (sys_rt_sigaction sig a b n s)"
  "stops_in host_stops (sys_rt_sigprocmask h a b n s)" "stops_in host_stops (sys_set_tid_address a s)"
  "stops_in host_stops (sys_set_thread_area a s)" "stops_in host_stops (uname_case a s)"
  by (auto simp: sys_mmap2_def mmap2_map_def sys_rt_sigaction_def sys_rt_sigprocmask_def
      sys_set_tid_address_def sys_set_thread_area_def uname_case_def ret_const_def Let_def
      split: option.split intro!: stops_in_bind host_stops_access)

lemma host_stops_writev: "stops_in host_stops (writev_loop os fd a n i t s)"
  by (induction n arbitrary: i t s)
    (auto split: option.split intro!: stops_in_bind host_stops_access host_stops_file)

lemma host_stops_ret:
  "stops_in host_stops (ret_const v s)" "stops_in host_stops r \<Longrightarrow> stops_in host_stops (ret_eax r)"
  by (auto simp: ret_const_def ret_eax_def intro!: stops_in_bind)

lemma host_stops_llseek: "stops_in host_stops (llseek_case os fd h n a w s)"
  by (auto simp: llseek_case_def Let_def intro!: stops_in_bind host_stops_file host_stops_ret)

lemmas host_stops_all = host_stops_access host_stops_file host_stops_fstat64 host_stops_misc
  host_stops_writev host_stops_ret host_stops_llseek

text \<open>The calls that end the program: \<open>exit\<close>, \<open>exit_group\<close>, and \<open>tgkill\<close> with SIGABRT.\<close>

definition exit_request :: "'w machine \<Rightarrow> u32 option" where
  "exit_request s =
     (if reg s REG_EAX = 1 \<or> reg s REG_EAX = 252 then Some (reg s REG_EBX)
      else if reg s REG_EAX = 270 \<and> reg s REG_EDX = 6 then Some 1
      else None)"

lemma dispatch_syscall_stops:
  "if exit_request s = None then stops_in host_stops (dispatch_syscall os s)
   else dispatch_syscall os s = Inl (Exit (the (exit_request s)))"
proof (cases "exit_request s = None")
  case True
  then have "stops_in host_stops (dispatch_syscall os s)"
    unfolding dispatch_syscall_def Let_def
    by (intro stops_in_if host_stops_all stops_in_bind)
      (auto simp: exit_request_def sys_exit_def sys_munmap_def sys_mprotect_def sys_writev_def host_stops_all
        split: option.split if_splits)
  then show ?thesis using True by simp
next
  case False
  then consider "reg s REG_EAX = 1" | "reg s REG_EAX = 252" | "reg s REG_EAX = 270" "reg s REG_EDX = 6"
    by (auto simp: exit_request_def split: if_splits)
  then show ?thesis
    by cases (simp_all add: exit_request_def dispatch_syscall_def Let_def sys_exit_def)
qed


section \<open>A prefix chain that ends in an exit call\<close>

lemma prefix_lookup:
  "opcode_table fp os ex 0x26 = op_prefix_cs ex" "opcode_table fp os ex 0x2E = op_prefix_cs ex"
  "opcode_table fp os ex 0x36 = op_prefix_cs ex" "opcode_table fp os ex 0x3E = op_prefix_cs ex"
  "opcode_table fp os ex 0x64 = op_prefix_cs ex" "opcode_table fp os ex 0x65 = op_prefix_gs ex"
  "opcode_table fp os ex 0x66 = op_prefix_66 ex" "opcode_table fp os ex 0x67 = op_prefix_67 ex"
  "opcode_table fp os ex 0xF0 = op_prefix_lock ex"
  by (simp_all add: opcode_table_def opcode_entries_def fill_table_def set_entry_def)

lemma exit_request_cong: "same_guest t s \<Longrightarrow> exit_request t = exit_request s"
  by (simp add: exit_request_def same_guest_def reg_def)

lemma exit_dispatch: "exit_request s = Some v \<Longrightarrow> dispatch_syscall os s = Inl (Exit v)"
  using dispatch_syscall_stops [of s os] by simp

lemma exit_chain:
  fixes s :: "'w machine"
  assumes "int80_after k op (eip s) s" and "exit_request s = Some v" and "k < n"
  shows "execute_opcode n fp os op s = Inl (Exit v)"
  using assms
proof (induction k arbitrary: n op s)
  case 0
  then obtain m where n: "n = Suc m" by (cases n) auto
  have "dispatch_syscall os (s\<lparr>eip := eip s + 1\<rparr>) = Inl (Exit v)"
    using 0 exit_request_cong [of "s\<lparr>eip := eip s + 1\<rparr>" s]
    by (intro exit_dispatch) (simp add: same_guest_def)
  with 0 show ?case by (simp add: n opcode_lookup op_int_def fetch8_def)
next
  case (Suc k)
  then obtain m where n: "n = Suc m" "k < m" by (cases n) auto
  have next_op: "execute_opcode m fp os (mem_read8 (eip s) s) t = Inl (Exit v)"
    if "same_guest t s" "eip t = eip s + 1" for t
    using Suc.IH [of "mem_read8 (eip s) s" t m] Suc.prems n(2) that exit_request_cong [OF that(1)]
      int80_after_cong [of t s] by (simp add: same_guest_def)
  have "op \<in> prefix_bytes" using Suc.prems(1) by simp
  then show ?case
    using next_op
    by (auto simp: n(1) prefix_lookup op_prefix_cs_def op_prefix_gs_def op_prefix_66_def op_prefix_67_def
        op_prefix_lock_def fetch8_def Let_def read_same same_guest_def)
qed

lemma emulate_step_exit:
  fixes s :: "'w machine"
  assumes "g_size s < 2 ^ 32"
  shows "emulate_step fp os s = Inl (Exit v) \<longleftrightarrow> at_int80 s \<and> exit_request s = Some v"
proof
  assume "emulate_step fp os s = Inl (Exit v)"
  from emulate_step_stops [OF this assms] obtain t
    where t: "at_int80 s" "same_guest t s" "dispatch_syscall os t = Inl (Exit v)"
    by (auto simp: arith_stops_def)
  with dispatch_syscall_stops [of t os] have "exit_request t = Some v"
    by (auto simp: stops_in_def host_stops_def split: if_splits)
  with t exit_request_cong [OF t(2)] show "at_int80 s \<and> exit_request s = Some v" by simp
next
  assume exit: "at_int80 s \<and> exit_request s = Some v"
  let ?s = "s\<lparr>g_last_eip := eip s, eip := eip s + 1\<rparr>"
  have op: "mem_read8 (eip s) (s\<lparr>g_last_eip := eip s\<rparr>) = mem_read8 (eip s) s"
    by (simp add: mem_read8_def check_bounds_def)
  obtain k where k: "int80_after k (mem_read8 (eip s) s) (eip ?s) ?s"
    using exit int80_after_cong [of ?s s] by (auto simp: at_int80_def)
  have room: "prefix_room ?s + 1 < g_size s + 2" by (simp add: prefix_room_def)
  have "execute_opcode (g_size s + 2 + k) fp os (mem_read8 (eip s) s) ?s = Inl (Exit v)"
    using exit exit_request_cong [of ?s s] by (intro exit_chain [OF k]) (simp_all add: same_guest_def)
  then show "emulate_step fp os s = Inl (Exit v)"
    using execute_opcode_fuel [OF _ room, of "g_size s + 2 + k" fp os] assms
    by (simp add: emulate_step_def Let_def op del: execute_opcode.simps)
qed

end
