(* ===== verification/Syscall_Correct.thy ===== *)
theory Syscall_Correct
  imports Syscall Sample_Run
begin

text \<open>
  What the system calls promise the guest: the break, the mmap arena, the descriptor table, the
  signal table, and reads into guest buffers.
\<close>

section \<open>Concrete machines\<close>

text \<open>A machine of 2 MB with the break at 4096, the arena at 8192 and nothing open but the standard
  descriptors.\<close>

definition small_machine :: "unit machine" where
  "small_machine = (boot_state mute_host ())
     \<lparr>g_size := 0x200000, g_brk := 4096, g_mmap_base := 8192, g_mmap_ptr := 8192\<rparr>"

lemma small_machine_simps [simp]:
  "g_size small_machine = 0x200000" "g_brk small_machine = 4096" "g_mmap_ptr small_machine = 8192"
  "g_mem small_machine = (\<lambda>_. 0)" "world small_machine = ()"
  "fd_table small_machine = (replicate MAX_FDS \<lparr>used = False, handle = 0\<rparr>)
     [0 := \<lparr>used = True, handle = ucast (- 10 :: u32)\<rparr>, 1 := \<lparr>used = True, handle = ucast (- 11 :: u32)\<rparr>,
      2 := \<lparr>used = True, handle = ucast (- 12 :: u32)\<rparr>]"
  "g_sigactions small_machine = replicate SIGMAX (replicate 20 0)"
  by (simp_all add: small_machine_def boot_state_def init_cpu_def init_fd_table_def static_state_def
      mute_host_def std_handle_def)

text \<open>A POSIX host that opens every file as descriptor 77, reads the byte 5 at most twice and reports files of
  five bytes.\<close>

definition five_bytes :: host_stat where
  "five_bytes =
     \<lparr>h_dev = 1, h_ino = 2, h_mode = 0x81A4, h_nlink = 1, h_uid = 0, h_gid = 0, h_rdev = 0, h_size = 5,
      h_blksize = 4096, h_blocks = 8, h_atime = 0, h_mtime = 0, h_ctime = 0\<rparr>"

definition open_host :: "unit host" where
  "open_host = Posix
     \<lparr>posix_write = (\<lambda>h bs w. (Inr (of_nat (length bs)), w)), posix_read = (\<lambda>h n w. (Inr (take (unat n) [5, 5]), w)),
      posix_open = (\<lambda>str f m w. (Inr 77, w)), posix_close = (\<lambda>h w. w),
      posix_lseek = (\<lambda>h o' m w. (Inl 29, w)), posix_fstat = (\<lambda>h w. (Inr five_bytes, w)),
      O_RDONLY = 0, O_WRONLY = 1, O_RDWR = 2, O_CREAT = 0x40, O_TRUNC = 0x200, O_APPEND = 0x400\<rparr>"

lemma host_cstring_empty:
  assumes "p < g_size s" and "g_mem s p = 0"
  shows "host_cstring p s = Inr []"
proof -
  have "g_size s - p = Suc (g_size s - Suc p)" using assms(1) by simp
  then have "load_bytes p (g_size s - p) (g_mem s) = 0 # load_bytes (Suc p) (g_size s - Suc p) (g_mem s)"
    using assms(2) by (simp add: load_bytes_Suc)
  then show ?thesis by (simp add: host_cstring_def Let_def)
qed

section \<open>The break\<close>

definition brk_ok :: "u32 \<Rightarrow> 'w machine \<Rightarrow> bool" where
  "brk_ok n s \<longleftrightarrow> n \<noteq> 0 \<and> g_brk s \<le> n \<and> unat n < g_size s"

lemma sys_brk_refused: "\<not> brk_ok n s \<Longrightarrow> sys_brk n s = (g_brk s, s)"
  by (auto simp: brk_ok_def sys_brk_def mem_size_def)

lemma sys_brk_grown:
  assumes "brk_ok n s"
  shows "sys_brk n s = (n, (if n - g_brk s \<ge> 8
      then mem_write32 (g_brk s + 4) ((n - g_brk s) OR 1) (mem_write32 (g_brk s) 0 s) else s)\<lparr>g_brk := n\<rparr>)"
proof -
  have "n \<noteq> 0" "\<not> n < g_brk s" "\<not> g_size s \<le> unat n"
    using assms by (auto simp: brk_ok_def)
  then show ?thesis by (simp add: sys_brk_def mem_size_def Let_def)
qed

section \<open>The arena\<close>

text \<open>An anonymous mapping that is not at a fixed address.\<close>

definition anonymous :: "u32 \<Rightarrow> bool" where
  "anonymous flags \<longleftrightarrow> flags AND 0x20 \<noteq> 0 \<and> flags AND 0x10 = 0"

text \<open>The length rounded up to whole pages.\<close>

definition pages :: "u32 \<Rightarrow> nat" where
  "pages len = (unat len + 4095) div 4096 * 4096"

lemma aligned_len:
  assumes "unat len + 4095 < 2 ^ 32"
  shows "unat ((len + 0xFFF) AND NOT 0xFFF) = pages len"
proof -
  have "unat (len + 0xFFF) = unat len + 4095" using assms unat_add_small [of len 4095] by simp
  then show ?thesis
    unfolding unat_align_down [of "len + 0xFFF" 12, folded align_masks(2)] by (simp add: pages_def)
qed

lemma mmap2_map_in:
  assumes "unat a + unat n \<le> g_size s" and "0 < unat n"
  shows "mmap2_map a n s = Inr (a, s\<lparr>g_mem := store_bytes (unat a) (replicate (unat n) 0) (g_mem s)\<rparr>)"
  using assms
  by (simp add: mmap2_map_def guest_to_host_def check_bounds_def host_memset_store host_store_def)

lemma mmap2_anonymous:
  assumes "anonymous flags" and "len \<noteq> 0" and "g_mmap_ptr s \<noteq> 0"
    and "n = (len + 0xFFF) AND NOT 0xFFF" and "0x100000 \<le> g_size s" and "g_size s \<le> 2 ^ 32"
  shows "sys_mmap2 addr len prot flags fd off s =
    (if g_size s - 0x100000 < unat (g_mmap_ptr s + n) then Inr (- ENOMEM, s)
     else mmap2_map (g_mmap_ptr s) n (s\<lparr>g_mmap_ptr := g_mmap_ptr s + n\<rparr>))"
proof -
  have m: "(int (g_size s) - 0x100000) mod 2 ^ 64 = int (g_size s - 0x100000)"
    using assms(5,6) by (simp add: of_nat_diff)
  show ?thesis
    unfolding sys_mmap2_def Let_def assms(4) [symmetric] mem_size_def m of_nat_less_iff
    using assms(1-3) by (simp add: anonymous_def)
qed

section \<open>Descriptors\<close>

lemma alloc_fd_from_spec:
  "alloc_fd_from k fs = Some i \<longleftrightarrow>
     k \<le> i \<and> i < k + length fs \<and> \<not> used (fs ! (i - k)) \<and> (\<forall>j < i - k. used (fs ! j))"
proof (induction fs arbitrary: k)
  case (Cons f fs)
  show ?case
  proof (cases "used f")
    case True
    have "(\<forall>j < i - k. used ((f # fs) ! j)) \<longleftrightarrow> (\<forall>j < i - Suc k. used (fs ! j))" if "Suc k \<le> i"
      using that True by (auto simp: nth_Cons' less_diff_conv) 
    then show ?thesis
      using Cons [of "Suc k"] True by (cases "i = k") (auto simp: nth_Cons' Suc_diff_Suc)
  next
    case False
    then show ?thesis by (cases "i = k") (auto intro: exI [of _ 0])
  qed
qed simp

section \<open>Properties\<close>

text \<open>C22. The break moves to the requested address exactly when that is not null, not below the present
  break and inside guest memory; otherwise nothing changes, and in both cases the result is the
  break afterwards. When it moves by 8 bytes or more, a chunk header of size and in-use bit is
  written at the old break, and no byte outside that header changes.\<close>

theorem brk_contract:
  fixes s :: "'w machine" and n :: u32
  assumes "g_size s \<le> 2 ^ 32"
  defines "t \<equiv> snd (sys_brk n s)"
  shows "fst (sys_brk n s) = g_brk t \<and> g_brk t = (if brk_ok n s then n else g_brk s) \<and>
    (brk_ok n s \<and> 8 \<le> n - g_brk s \<longrightarrow>
       mem_read32 (g_brk s) t = 0 \<and> mem_read32 (g_brk s + 4) t = (n - g_brk s) OR 1) \<and>
    (\<forall>i. i < unat (g_brk s) \<or> unat (g_brk s) + 8 \<le> i \<longrightarrow> g_mem t i = g_mem s i)"
proof (cases "brk_ok n s \<and> 8 \<le> n - g_brk s")
  case True
  let ?b = "g_brk s" and ?v = "(n - g_brk s) OR 1"
  let ?u = "mem_write32 (?b + 4) ?v (mem_write32 ?b 0 s)"
  have t: "t = ?u\<lparr>g_brk := n\<rparr>" "fst (sys_brk n s) = n"
    using True sys_brk_grown [of n s] by (simp_all add: t_def)
  have "unat (n - ?b) = unat n - unat ?b" "unat ?b \<le> unat n"
    using True by (simp_all add: brk_ok_def unat_sub word_le_nat_alt)
  then have room: "unat ?b + 8 \<le> unat n" "unat n < g_size s"
    using True by (auto simp: word_le_nat_alt brk_ok_def)
  have b4: "unat (?b + 4) = unat ?b + 4"
    using room assms(1) unat_add_small [of ?b 4] by simp
  have r: "mem_read32 a t = mem_read32 a ?u" for a
    by (simp add: t mem_read32_def check_bounds_def)
  have "mem_read32 ?b ?u = 0"
    using room assms(1) b4 acc32_32.rd_wr_disjoint [of "mem_write32 ?b 0 s" "?b + 4" ?b ?v]
      acc32.rd_wr_same [of s ?b 0] by simp
  moreover have "mem_read32 (?b + 4) ?u = ?v"
    using room assms(1) b4 by (intro acc32.rd_wr_same) simp_all
  moreover have "g_mem ?u i = g_mem s i" if "i < unat ?b \<or> unat ?b + 8 \<le> i" for i
    using that b4 assms(1) acc32.wr_outside [of "mem_write32 ?b 0 s" i "?b + 4" ?v]
      acc32.wr_outside [of s i ?b 0] by auto
  ultimately show ?thesis using True r t by simp
next
  case False
  then show ?thesis
    using sys_brk_refused [of n s] sys_brk_grown [of n s] by (cases "brk_ok n s") (auto simp: t_def)
qed

theorem brk_contract_witness:
  "mem_read32 4100 (snd (sys_brk 8192 small_machine)) = 4097"
  using brk_contract [of small_machine 8192] by (simp add: brk_ok_def)

text \<open>C23. An anonymous mapping, when rounding its length and adding it to the arena pointer does not
  wrap: it succeeds exactly when the pages fit below the last megabyte of guest memory; then the
  result is the arena pointer, which moves past the pages, so mappings never overlap, and exactly
  the pages are cleared. Otherwise the result is ENOMEM and nothing changes.\<close>

theorem mmap2_arena:
  fixes s :: "'w machine"
  assumes "anonymous flags" and "len \<noteq> 0" and "g_mmap_ptr s \<noteq> 0"
    and "unat (g_mmap_ptr s) + unat len + 4095 < 2 ^ 32"
    and "0x100000 \<le> g_size s" and "g_size s \<le> 2 ^ 32"
  defines "p \<equiv> g_mmap_ptr s"
  shows "sys_mmap2 addr len prot flags fd off s =
    (if unat p + pages len \<le> g_size s - 0x100000
     then Inr (p, s\<lparr>g_mmap_ptr := p + of_nat (pages len),
       g_mem := store_bytes (unat p) (replicate (pages len) 0) (g_mem s)\<rparr>)
     else Inr (- ENOMEM, s))"
proof -
  define n where "n = (len + 0xFFF) AND NOT 0xFFF"
  have n: "unat n = pages len" unfolding n_def using assms(4) by (intro aligned_len) simp
  have le: "pages len \<le> unat len + 4095" "0 < pages len"
    using assms(2) unat_gt_0 [of len]
    by (auto simp: pages_def div_times_less_eq_dividend div_greater_zero_iff Suc_le_eq)
  have pn: "unat (p + n) = unat p + pages len"
    using assms(4) le(1) by (simp add: p_def unat_word_ariths n)
  have word: "p + of_nat (pages len) = p + n" by (simp add: n [symmetric])
  show ?thesis
    using assms(5) le(2) n mmap2_map_in [of p n "s\<lparr>g_mmap_ptr := p + n\<rparr>"]
    by (simp add: mmap2_anonymous [OF assms(1-3) n_def assms(5,6)] p_def [symmetric] pn word)
qed

theorem mmap2_arena_witness:
  "sys_mmap2 0 5000 3 0x22 (- 1) 0 small_machine = Inr (8192, small_machine
     \<lparr>g_mmap_ptr := 16384, g_mem := store_bytes 8192 (replicate 8192 0) (g_mem small_machine)\<rparr>)"
  using mmap2_arena [of "0x22" 5000 small_machine 0 3 "- 1" 0]
  by (simp add: anonymous_def pages_def)

text \<open>A length in the last page below \<open>2 ^ 32\<close> is rounded to 0: the call succeeds, reserves nothing and
  the next mapping gets the same address.\<close>

theorem mmap2_wraps:
  fixes s :: "'w machine"
  assumes "anonymous flags" and "0xFFFFF000 < len" and "g_mmap_ptr s \<noteq> 0"
    and "unat (g_mmap_ptr s) \<le> g_size s - 0x100000" and "0x100000 \<le> g_size s" and "g_size s \<le> 2 ^ 32"
  shows "sys_mmap2 addr len prot flags fd off s = Inr (g_mmap_ptr s, s)"
proof -
  have "0xFFFFF000 < unat len" using assms(2) by (simp add: word_less_nat_alt)
  moreover have "unat len < 2 ^ 32" using unsigned_less [of len] by simp
  ultimately have "unat (len + 0xFFF) < 4096"
    by (simp add: unat_word_ariths mod_if) linarith
  then have "unat ((len + 0xFFF) AND NOT 0xFFF) = 0"
    unfolding unat_align_down [of "len + 0xFFF" 12, folded align_masks(2)] by simp
  then have n: "(len + 0xFFF) AND NOT 0xFFF = 0" by (simp add: unat_eq_zero)
  have "len \<noteq> 0" using assms(2) by auto
  moreover have "unat (g_mmap_ptr s) < g_size s" using assms(4,5) by linarith
  ultimately show ?thesis
    using assms(4,5) mmap2_anonymous [OF assms(1) _ assms(3) n [symmetric] assms(5,6)]
    by (simp add: mmap2_map_def guest_to_host_def check_bounds_def host_memset_store host_store_def)
qed

text \<open>C24. Opening a file takes the lowest free descriptor from 3 on, when the path is a string inside guest
  memory and the host opens it: the result is that descriptor and only its entry of the table
  changes; closing it frees the entry again.\<close>

theorem open_close:
  fixes s :: "'w machine" and h :: u64
  assumes "length (fd_table s) = MAX_FDS"
    and "guest_to_host path s = Some p" and "host_cstring p s = Inr str" and "alloc_fd s = Some i"
    and "open_on_host os str flags mode (world s) = (Inr h, w)"
  shows "\<exists>t u. sys_open os path flags mode s = Inr (of_nat i, t) \<and>
    3 \<le> i \<and> i < MAX_FDS \<and> \<not> used (fd_table s ! i) \<and> (\<forall>j. 3 \<le> j \<and> j < i \<longrightarrow> used (fd_table s ! j)) \<and>
    fd_table t = (fd_table s)[i := \<lparr>used = True, handle = h\<rparr>] \<and>
    sys_close os (of_nat i) t = Inr (0, u) \<and> \<not> used (fd_table u ! i) \<and>
    (\<forall>j. j \<noteq> i \<longrightarrow> fd_table u ! j = fd_table s ! j)"
proof -
  have spec: "3 \<le> i" "i < MAX_FDS" "\<not> used (drop 3 (fd_table s) ! (i - 3))"
    "\<forall>j < i - 3. used (drop 3 (fd_table s) ! j)"
    using assms(1,4) unfolding alloc_fd_def alloc_fd_from_spec by auto
  have low: "used (fd_table s ! j)" if "3 \<le> j" "j < i" for j
    using spec(4) [rule_format, of "j - 3"] that assms(1) spec(2) by simp
  have free: "\<not> used (fd_table s ! i)" using spec assms(1) by simp
  have "\<exists>t. sys_open os path flags mode s = Inr (of_nat i, t) \<and>
      fd_table t = (fd_table s)[i := \<lparr>used = True, handle = h\<rparr>]"
    using assms(2-5) by (simp add: sys_open_def)
  then obtain t where t: "sys_open os path flags mode s = Inr (of_nat i, t)"
      "fd_table t = (fd_table s)[i := \<lparr>used = True, handle = h\<rparr>]"
    by blast
  have fd: "unat (of_nat i :: u32) = i" "sint (of_nat i :: u32) = int i"
    using spec(2) by (simp_all add: unat_of_nat signed_of_nat signed_take_bit_int_eq_self)
  have "\<not> bad_fd (of_nat i) t" "\<not> sint (of_nat i :: u32) \<le> 2"
    using spec(1,2) assms(1) fd t(2) by (simp_all add: bad_fd_def)
  then obtain u where "sys_close os (of_nat i) t = Inr (0, u)"
      "fd_table u = (fd_table t)[i := (fd_table t ! i)\<lparr>used := False\<rparr>]"
    by (simp add: sys_close_def Let_def fd)
  then show ?thesis using t spec low free assms(1) by (intro exI [of _ t] exI [of _ u]) simp
qed

theorem open_close_witness:
  "\<exists>t. sys_open open_host 100 0 0 small_machine = Inr (3, t) \<and> handle (fd_table t ! 3) = 77"
proof -
  have "alloc_fd small_machine = Some 3" by (simp add: alloc_fd_def alloc_fd_from_spec)
  moreover have "host_cstring 100 small_machine = Inr []" by (rule host_cstring_empty) simp_all
  moreover have "guest_to_host 100 small_machine = Some 100" by (simp add: guest_to_host_def check_bounds_def)
  ultimately show ?thesis
    using open_close [of small_machine 100 100 "[]" 3 open_host 0 0 77 "()"]
    by (fastforce simp: open_host_def open_on_host_def open_posix_def)
qed

text \<open>C25. The signal table is a store: after \<open>rt_sigaction\<close> has set an action from 20 bytes of guest
  memory, asking for the action of the same signal gives those 20 bytes back, for every signal
  number from 1 to 63; other numbers are EINVAL and change nothing.\<close>

theorem sigaction_roundtrip:
  fixes s :: "'w machine" and sig :: u32
  assumes "length (g_sigactions s) = SIGMAX" and "act \<noteq> 0" and "oact \<noteq> 0"
    and "unat act + 20 \<le> g_size s" and "unat oact + 20 \<le> g_size s"
  shows "if 1 \<le> sint sig \<and> sint sig < 64
    then \<exists>t u. sys_rt_sigaction sig act 0 n s = Inr (0, t) \<and> sys_rt_sigaction sig 0 oact n t = Inr (0, u) \<and>
      load_bytes (unat oact) 20 (g_mem u) = load_bytes (unat act) 20 (g_mem s)
    else sys_rt_sigaction sig act oact n s = Inr (- EINVAL, s)"
proof (cases "1 \<le> sint sig \<and> sint sig < 64")
  case False
  then show ?thesis by (auto simp: sys_rt_sigaction_def)
next
  case True
  let ?bs = "load_bytes (unat act) 20 (g_mem s)"
  have "uint sig = sint sig" using True sint_neg_bit31 [of sig] by (simp add: sint_u32)
  then have "int (unat sig) < 64" using True by (simp only: uint_nat)
  then have "unat sig < 64" by linarith
  define t where "t = s\<lparr>g_sigactions := (g_sigactions s)[unat sig := ?bs]\<rparr>"
  define u where "u = t\<lparr>g_mem := store_bytes (unat oact) ?bs (g_mem t)\<rparr>"
  have "sys_rt_sigaction sig act 0 n s = Inr (0, t)"
    using True assms(2,4)
    by (simp add: sys_rt_sigaction_def t_def guest_to_host_def check_bounds_def host_load_def)
  moreover have "sys_rt_sigaction sig 0 oact n t = Inr (0, u)"
    using True assms(1,3,5) \<open>unat sig < 64\<close>
    by (simp add: sys_rt_sigaction_def t_def u_def guest_to_host_def check_bounds_def host_store_def)
  moreover have "load_bytes (unat oact) 20 (g_mem u) = ?bs"
    using load_store_bytes [of "unat oact" ?bs "g_mem s"] by (simp add: u_def t_def)
  ultimately show ?thesis using True by auto
qed

theorem sigaction_roundtrip_witness:
  "\<exists>t u. sys_rt_sigaction 11 256 0 8 small_machine = Inr (0, t) \<and>
     sys_rt_sigaction 11 0 512 8 t = Inr (0, u)"
  using sigaction_roundtrip [of small_machine 256 512 11 8] by auto

text \<open>Only the first byte of a buffer is checked: two bytes read to the last byte of guest memory run
  past it.\<close>

theorem read_past_end: "sys_read open_host 0 0x1FFFFF 2 small_machine = Inl (UB HostOOB)"
  by (simp add: sys_read_def bad_fd_def guest_to_host_def check_bounds_def open_host_def read_host_def
      host_store_def)

end
