(* ===== verification/Files_Correct.thy ===== *)
theory Files_Correct
  imports Syscall_Correct Arith_Correct
begin

text \<open>
  Files through the system calls, in both configurations of the backend: the bytes of
  \<open>LinuxStat64\<close> that \<open>fstat64\<close> leaves in the guest's buffer, and the gathered output of \<open>writev\<close>.
\<close>

section \<open>The image of a struct\<close>

text \<open>The bytes of a \<open>LinuxStat64\<close>, member by member with the padding.\<close>

definition stat64_bytes :: "host_stat \<Rightarrow> u8 list" where
  "stat64_bytes st =
     enc64 (h_dev st) @ replicate 8 0 @ enc32 (ucast (h_mode st)) @ enc32 (ucast (h_nlink st)) @
     enc32 (ucast (h_uid st)) @ enc32 (ucast (h_gid st)) @ enc64 (h_rdev st) @ replicate 8 0 @
     enc64 (h_size st) @ enc32 (ucast (h_blksize st)) @ replicate 4 0 @ enc64 (h_blocks st) @
     enc32 (ucast (h_atime st)) @ replicate 4 0 @ enc32 (ucast (h_mtime st)) @ replicate 4 0 @
     enc32 (ucast (h_ctime st)) @ replicate 4 0 @ enc64 (h_ino st)"

text \<open>Assigning to the member at an offset.\<close>

definition splice :: "nat \<Rightarrow> u8 list \<Rightarrow> u8 list \<Rightarrow> u8 list" where
  "splice off bs l = take off l @ bs @ drop (off + length bs) l"

lemma length_splice: "off + length bs \<le> length l \<Longrightarrow> length (splice off bs l) = length l"
  by (simp add: splice_def)

lemma store_splice:
  assumes "off + length bs \<le> length l"
  shows "store_bytes (p + off) bs (store_bytes p l m) = store_bytes p (splice off bs l) m"
proof
  fix i
  show "store_bytes (p + off) bs (store_bytes p l m) i = store_bytes p (splice off bs l) m i"
    using assms by (auto simp: store_bytes_def splice_def nth_append)
qed

lemma store_members_image:
  fixes s :: "'a mem_state_scheme"
  assumes "\<forall>(off, bs) \<in> set ms. off + length bs \<le> length l" and "p + length l \<le> g_size s"
  shows "store_members p ms (s\<lparr>g_mem := store_bytes p l m\<rparr>) =
    Inr (s\<lparr>g_mem := store_bytes p (fold (\<lambda>(off, bs). splice off bs) ms l) m\<rparr>)"
  using assms
proof (induction ms arbitrary: l)
  case (Cons a ms)
  obtain off bs where a: "a = (off, bs)" by (cases a)
  then have fit: "off + length bs \<le> length l" using Cons.prems(1) by auto
  have "host_store (p + off) bs (s\<lparr>g_mem := store_bytes p l m\<rparr>) =
      Inr (s\<lparr>g_mem := store_bytes p (splice off bs l) m\<rparr>)"
    using fit Cons.prems(2) by (auto simp: host_store_def store_splice)
  with Cons.IH [of "splice off bs l"] Cons.prems show ?case
    by (auto simp: a length_splice [OF fit])
qed simp



lemma length_enc64 [simp]: "length (enc64 v) = 8"
  by (simp add: enc64_def)

lemma stat64_members_fit: "\<forall>(off, bs) \<in> set (stat64_members st). off + length bs \<le> 104"
  by (simp add: stat64_members_def)

lemma stat64_from_zero:
  "fold (\<lambda>(off, bs). splice off bs) (stat64_members st) (replicate 104 0) = stat64_bytes st"
  by (simp add: stat64_members_def stat64_bytes_def splice_def enc64_def enc32_def numeral_nat)

lemma length_stat64 [simp]: "length (stat64_bytes st) = 104"
  by (simp add: stat64_bytes_def)

text \<open>What the Win32 configuration reports: a regular file, or a character device, of one link.\<close>

definition file_size :: "u32 \<Rightarrow> u32 \<Rightarrow> u64" where
  "file_size high low = push_bit 32 (ucast high) OR ucast low"

definition win32_stat :: "u32 \<Rightarrow> u32 \<Rightarrow> bool \<Rightarrow> host_stat" where
  "win32_stat high low chr =
     \<lparr>h_dev = 0, h_ino = 0, h_mode = (if chr then 0x2190 else 0x81A4), h_nlink = 1, h_uid = 0,
      h_gid = 0, h_rdev = 0, h_size = file_size high low, h_blksize = 4096,
      h_blocks = word_of_int ((uint (file_size high low) + 511) div 512), h_atime = 0, h_mtime = 0,
      h_ctime = 0\<rparr>"

lemma world_before_mem: "s\<lparr>g_mem := m, world := w\<rparr> = s\<lparr>world := w, g_mem := m\<rparr>"
  by simp

lemma fstat_posix_image:
  fixes s :: "'w machine"
  assumes "p + 104 \<le> g_size s" and "posix_fstat px (ucast (handle (fd_table s ! unat fd))) (world s) = (Inr st, w)"
  shows "fstat_posix px fd p (s\<lparr>g_mem := store_bytes p (replicate 104 0) m\<rparr>) =
    Inr (0, s\<lparr>world := w, g_mem := store_bytes p (stat64_bytes st) m\<rparr>)"
  using store_members_image [where s = "s\<lparr>world := w\<rparr>" and l = "replicate 104 0" and ms = "stat64_members st" and p = p and m = m]
    stat64_members_fit [of st] assms
  by (simp add: fstat_posix_def stat64_from_zero world_before_mem)

lemma file_size_value:
  assumes "high < 0x7FFFFFFF"
  shows "sint (file_size high low) = uint (file_size high low)" "uint (file_size high low) + 511 < 2 ^ 63"
    "uint (file_size high low) = uint high * 2 ^ 32 + uint low"
proof -
  let ?n = "uint high * 2 ^ 32 + uint low"
  show u: "uint (file_size high low) = ?n" unfolding file_size_def by (rule pair_value)
  have "uint high < 0x7FFFFFFF" using assms by (simp add: word_less_def)
  then have r: "0 \<le> ?n" "?n + 511 < 2 ^ 63"
    using u32_bounds [of high] u32_bounds [of low] by auto
  then show "uint (file_size high low) + 511 < 2 ^ 63" using u by simp
  have "sint (file_size high low) = signed_take_bit 63 (uint (file_size high low))"
    by (simp add: sint_uint)
  then show "sint (file_size high low) = uint (file_size high low)"
    unfolding u by (simp only: signed_take_bit_int_eq_self_iff) (use r in linarith)
qed

lemma win32_from_zero:
  "fold (\<lambda>(off, bs). splice off bs)
     [(16, enc32 md), (20, enc32 nl), (48, enc64 v), (56, enc32 bk), (64, enc64 bl)] (replicate 104 0) =
   replicate 16 0 @ enc32 md @ enc32 nl @ replicate 24 0 @ enc64 v @ enc32 bk @ replicate 4 0 @ enc64 bl @
     replicate 32 0"
  "splice 16 (enc32 md') (replicate 16 0 @ enc32 md @ rest) = replicate 16 0 @ enc32 md' @ rest"
  by (simp_all add: splice_def enc64_def enc32_def numeral_nat)

lemma stat64_bytes_win32:
  "stat64_bytes (win32_stat high low chr) =
   replicate 16 0 @ enc32 (if chr then 0x2190 else 0x81A4) @ enc32 1 @ replicate 24 0 @
   enc64 (file_size high low) @ enc32 4096 @ replicate 4 0 @
   enc64 (word_of_int ((uint (file_size high low) + 511) div 512)) @ replicate 32 0"
proof -
  have zero: "enc32 0 = [0, 0, 0, 0]" "enc64 0 = [0, 0, 0, 0, 0, 0, 0, 0]"
    by (simp_all add: enc32_def enc64_def)
  have reps: "replicate 4 (0 :: u8) = [0, 0, 0, 0]" "replicate 8 (0 :: u8) = [0, 0, 0, 0, 0, 0, 0, 0]"
    "replicate 16 (0 :: u8) = replicate 8 0 @ replicate 8 0"
    "replicate 24 (0 :: u8) = replicate 16 0 @ replicate 8 0"
    "replicate 32 (0 :: u8) = replicate 24 0 @ replicate 8 0"
    by (simp_all add: numeral_nat)
  show ?thesis by (simp add: stat64_bytes_def win32_stat_def zero reps)
qed

lemma fstat_win32_image:
  fixes s :: "'w machine"
  assumes "p + 104 \<le> g_size s"
    and "GetFileInformationByHandle w32 (handle (fd_table s ! unat fd)) (world s) = (Some (high, low), w)"
    and "GetFileType w32 (handle (fd_table s ! unat fd)) w = (ty, w')" and "high < 0x7FFFFFFF"
  shows "fstat_win32 w32 fd p (s\<lparr>g_mem := store_bytes p (replicate 104 0) m\<rparr>) =
    Inr (0, s\<lparr>world := w', g_mem := store_bytes p (stat64_bytes (win32_stat high low (ty = 2))) m\<rparr>)"
proof -
  let ?v = "file_size high low"
  let ?ms = "[(16, enc32 0x81A4), (20, enc32 1), (48, enc64 ?v), (56, enc32 4096),
      (64, enc64 (word_of_int ((uint ?v + 511) div 512)))]"
  let ?m = "\<lambda>chr. store_bytes p (stat64_bytes (win32_stat high low chr)) m"
  have first: "store_members p ?ms (s\<lparr>world := w, g_mem := store_bytes p (replicate 104 0) m\<rparr>) =
      Inr (s\<lparr>world := w, g_mem := ?m False\<rparr>)"
    using store_members_image [where s = "s\<lparr>world := w\<rparr>" and l = "replicate 104 0" and ms = ?ms and p = p and m = m] assms(1)
    unfolding win32_from_zero(1) stat64_bytes_win32 by simp
  have second: "store_members p [(16, enc32 0x2190)] (s\<lparr>world := w', g_mem := ?m False\<rparr>) =
      Inr (s\<lparr>world := w', g_mem := ?m True\<rparr>)"
    using store_members_image [where s = "s\<lparr>world := w'\<rparr>" and l = "stat64_bytes (win32_stat high low False)"
        and ms = "[(16, enc32 0x2190)]" and p = p and m = m] assms(1)
    by (simp add: stat64_bytes_win32 win32_from_zero(2) del: store_members.simps)
  note size = file_size_value [OF assms(4), of low]
  have "0 \<le> uint ?v" "\<not> 2 ^ 63 \<le> uint ?v + 511" using size(2) by simp_all
  then show ?thesis
    using assms(2,3) first second size(1)
    by (simp add: fstat_win32_def Let_def world_before_mem file_size_def [symmetric] del: store_members.simps)
qed


text \<open>The host knows the open file and reports these values. On Windows the size is below
  \<open>2 ^ 63 - 2 ^ 32\<close>.\<close>

definition host_reports :: "'w host \<Rightarrow> u64 \<Rightarrow> 'w \<Rightarrow> host_stat \<Rightarrow> 'w \<Rightarrow> bool" where
  "host_reports os h w st w' =
     (case os of
        Win32 w32 \<Rightarrow>
          (\<exists>high low w1 ty. GetFileInformationByHandle w32 h w = (Some (high, low), w1) \<and>
             high < 0x7FFFFFFF \<and> GetFileType w32 h w1 = (ty, w') \<and> st = win32_stat high low (ty = 2))
      | Posix px \<Rightarrow> posix_fstat px (ucast h) w = (Inr st, w'))"

text \<open>C27. \<open>fstat64\<close> on an open descriptor, when the host reports the file: the 104 bytes at the buffer
  become the image of \<open>LinuxStat64\<close> with the reported values, all other members and the padding
  zero, nothing else changes and the result is 0; a buffer that starts inside guest memory and
  does not fit into it is written past the end.\<close>

theorem fstat64_struct:
  fixes s :: "'w machine"
  assumes "\<not> bad_fd fd s" and "unat buf < g_size s"
    and "host_reports os (handle (fd_table s ! unat fd)) (world s) st w"
  shows "sys_fstat64 os fd buf s =
    (if unat buf + 104 \<le> g_size s
     then Inr (0, s\<lparr>world := w, g_mem := store_bytes (unat buf) (stat64_bytes st) (g_mem s)\<rparr>)
     else Inl (UB HostOOB))"
proof (cases "unat buf + 104 \<le> g_size s")
  case fits: True
  have "host_memset (unat buf) 0 104 s = Inr (s\<lparr>g_mem := store_bytes (unat buf) (replicate 104 0) (g_mem s)\<rparr>)"
    using fits by (simp add: host_memset_store host_store_def)
  then show ?thesis
    using assms fits
    by (auto simp: sys_fstat64_def guest_to_host_def check_bounds_def host_reports_def fstat_win32_image
        fstat_posix_image split: host.splits)
next
  case False
  then have "host_memset (unat buf) 0 104 s = Inl (UB HostOOB)" by (simp add: host_memset_def)
  then show ?thesis
    using assms(1,2) False by (simp add: sys_fstat64_def guest_to_host_def check_bounds_def)
qed


theorem fstat64_struct_witness:
  "\<exists>t. sys_fstat64 open_host 1 256 small_machine = Inr (0, t) \<and> mem_read32 (256 + 48) t = 5 \<and>
     mem_read32 (256 + 104) t = 0"
  using fstat64_struct [of 1 small_machine 256 open_host five_bytes "()"]
  by (simp add: bad_fd_def host_reports_def open_host_def mem_read32_def check_bounds_def store_bytes_def
      stat64_bytes_def five_bytes_def enc32_def enc64_def nth_append)

section \<open>Gathered output\<close>

text \<open>The entries of the vector: base, length and the bytes they describe; an entry is good when it
  and its buffer lie in guest memory.\<close>

definition iov_base :: "u32 \<Rightarrow> 'a mem_state_scheme \<Rightarrow> nat \<Rightarrow> u32" where
  "iov_base iov s i = mem_read32 (iov + of_nat i * 8) s"

definition iov_len :: "u32 \<Rightarrow> 'a mem_state_scheme \<Rightarrow> nat \<Rightarrow> u32" where
  "iov_len iov s i = mem_read32 (iov + of_nat i * 8 + 4) s"

definition iov_bytes :: "u32 \<Rightarrow> 'a mem_state_scheme \<Rightarrow> nat \<Rightarrow> u8 list" where
  "iov_bytes iov s i = load_bytes (unat (iov_base iov s i)) (unat (iov_len iov s i)) (g_mem s)"

definition iov_ok :: "u32 \<Rightarrow> 'a mem_state_scheme \<Rightarrow> nat \<Rightarrow> bool" where
  "iov_ok iov s i \<longleftrightarrow> unat iov + 8 * i + 8 \<le> g_size s \<and>
     unat (iov_base iov s i) + unat (iov_len iov s i) \<le> g_size s"

text \<open>The host after it was given a buffer; empty ones are skipped.\<close>

definition send :: "'w host \<Rightarrow> u64 \<Rightarrow> u8 list \<Rightarrow> 'w \<Rightarrow> 'w" where
  "send os h bs w = (if bs = [] then w else snd (write_host os h bs w))"

lemma iov_loads:
  fixes s :: "'w machine"
  assumes "iov_ok iov s i" and "g_size s \<le> 2 ^ 32"
  shows "guest_to_host (iov + of_nat i * 8) s = Some (unat iov + 8 * i)"
    and "host_load (unat iov + 8 * i) 4 s = Inr (load_bytes (unat iov + 8 * i) 4 (g_mem s))"
    and "host_load (unat iov + 8 * i + 4) 4 s = Inr (load_bytes (unat iov + 8 * i + 4) 4 (g_mem s))"
    and "dec32 (load_bytes (unat iov + 8 * i) 4 (g_mem s)) = iov_base iov s i"
    and "dec32 (load_bytes (unat iov + 8 * i + 4) 4 (g_mem s)) = iov_len iov s i"
proof -
  have room: "unat iov + 8 * i + 8 \<le> g_size s" using assms(1) by (simp add: iov_ok_def)
  have a: "unat (iov + of_nat i * 8) = unat iov + 8 * i"
    using unat_add_small [of iov "8 * i"] room assms(2) by (simp add: mult.commute)
  have b: "unat (iov + of_nat i * 8 + 4) = unat iov + 8 * i + 4"
    using unat_add_small [of iov "8 * i + 4"] room assms(2) by (simp add: algebra_simps)
  show "guest_to_host (iov + of_nat i * 8) s = Some (unat iov + 8 * i)"
    using room by (simp add: guest_to_host_def check_bounds_def a)
  show "host_load (unat iov + 8 * i) 4 s = Inr (load_bytes (unat iov + 8 * i) 4 (g_mem s))"
    "host_load (unat iov + 8 * i + 4) 4 s = Inr (load_bytes (unat iov + 8 * i + 4) 4 (g_mem s))"
    using room by (simp_all add: host_load_def)
  show "dec32 (load_bytes (unat iov + 8 * i) 4 (g_mem s)) = iov_base iov s i"
    "dec32 (load_bytes (unat iov + 8 * i + 4) 4 (g_mem s)) = iov_len iov s i"
    using room assms(2) by (simp_all add: iov_base_def iov_len_def mem_access32_in a b)
qed

lemma iov_world [simp]:
  "iov_base iov (s\<lparr>world := w\<rparr>) i = iov_base iov s i" "iov_len iov (s\<lparr>world := w\<rparr>) i = iov_len iov s i"
  "iov_ok iov (s\<lparr>world := w\<rparr>) i = iov_ok iov s i" "bad_fd fd (s\<lparr>world := w\<rparr>) = bad_fd fd s"
  by (simp_all add: iov_base_def iov_len_def iov_ok_def bad_fd_def mem_read32_def check_bounds_def)

lemma sys_write_all:
  fixes s :: "'w machine"
  assumes "\<not> bad_fd fd s" and "len \<noteq> 0" and "unat base + unat len \<le> g_size s"
    and "\<And>bs w. fst (write_host os (handle (fd_table s ! unat fd)) bs w) = of_nat (length bs)"
  shows "sys_write os fd base len s =
    Inr (len, s\<lparr>world := snd (write_host os (handle (fd_table s ! unat fd)) (load_bytes (unat base) (unat len) (g_mem s)) (world s))\<rparr>)"
proof -
  have "unat len \<noteq> 0" using assms(2) by (simp add: unat_eq_zero)
  then have "guest_to_host base s = Some (unat base)"
    "host_load (unat base) (unat len) s = Inr (load_bytes (unat base) (unat len) (g_mem s))"
    using assms(3) by (auto simp: guest_to_host_def check_bounds_def host_load_def)
  then show ?thesis using assms(1,2,4) by (simp add: sys_write_def split_beta)
qed

lemma small_sint: "n < 2 ^ 31 \<Longrightarrow> sint (of_nat n :: u32) = int n"
  by (simp add: signed_of_nat signed_take_bit_int_eq_self)

lemma fits32_sum: "a + b < 2 ^ 31 \<Longrightarrow> fits32 (int a + int b)"
  by (simp add: fits32_def)

lemma writev_loop_gathers:
  fixes s :: "'w machine"
  assumes "\<not> bad_fd fd s" and "g_size s \<le> 2 ^ 32" and "\<forall>j < n. iov_ok iov s (i + j)"
    and "\<And>bs w. fst (write_host os (handle (fd_table s ! unat fd)) bs w) = of_nat (length bs)"
    and "k + (\<Sum>j \<leftarrow> [i..<i + n]. unat (iov_len iov s j)) < 2 ^ 31"
  shows "writev_loop os fd iov n (of_nat i) (of_nat k) (s\<lparr>world := w\<rparr>) =
    Inr (of_nat (k + (\<Sum>j \<leftarrow> [i..<i + n]. unat (iov_len iov s j))),
      s\<lparr>world := fold (send os (handle (fd_table s ! unat fd))) (map (iov_bytes iov s) [i..<i + n]) w\<rparr>)"
  using assms(3,5)
proof (induction n arbitrary: i k w)
  case (Suc n)
  let ?s = "s\<lparr>world := w\<rparr>" and ?l = "iov_len iov s i" and ?h = "handle (fd_table s ! unat fd)"
  have ok: "iov_ok iov s i" using Suc.prems(1) by force
  note loads = iov_loads [of iov ?s i, simplified, OF ok assms(2) [simplified]]
  have upt: "[i..<i + Suc n] = i # [Suc i..<Suc i + n]" by (simp add: upt_conv_Cons del: upt_Suc)
  have IH: "writev_loop os fd iov n (of_nat i + 1) (of_nat k') (s\<lparr>world := w'\<rparr>) =
    Inr (of_nat (k' + (\<Sum>j \<leftarrow> [Suc i..<Suc i + n]. unat (iov_len iov s j))),
      s\<lparr>world := fold (send os ?h) (map (iov_bytes iov s) [Suc i..<Suc i + n]) w'\<rparr>)"
    if "k' + (\<Sum>j \<leftarrow> [Suc i..<Suc i + n]. unat (iov_len iov s j)) < 2 ^ 31" for k' w'
    using Suc.IH [of "Suc i" k' w'] Suc.prems(1) that by (force simp: add.commute)
  have total: "k + unat ?l + (\<Sum>j \<leftarrow> [Suc i..<Suc i + n]. unat (iov_len iov s j)) < 2 ^ 31"
    using Suc.prems(2) unfolding upt by simp
  then have small: "k + unat ?l < 2 ^ 31" by linarith
  show ?case
  proof (cases "?l = 0")
    case True
    then have "iov_bytes iov s i = []" by (simp add: iov_bytes_def load_bytes_def)
    moreover have "send os ?h [] w = w" by (simp add: send_def)
    ultimately show ?thesis
      using IH [of k w] total True unfolding upt by (simp add: loads del: upt_Suc)
  next
    case False
    have fits: "unat (iov_base iov s i) + unat ?l \<le> g_size s" using ok by (simp add: iov_ok_def)
    have sints: "sint ?l = int (unat ?l)" "sint (of_nat k :: u32) = int k"
      using small small_sint [of "unat ?l"] small_sint [of k] by simp_all
    have sum: "of_nat k + ?l = of_nat (k + unat ?l)" by simp
    have nonempty: "iov_bytes iov s i \<noteq> []"
      using False by (simp add: iov_bytes_def load_bytes_def unat_eq_zero)
    have wrote: "sys_write os fd (iov_base iov s i) ?l ?s =
        Inr (?l, s\<lparr>world := send os ?h (iov_bytes iov s i) w\<rparr>)"
      using sys_write_all [of fd ?s ?l "iov_base iov s i" os] assms(1,4) False fits nonempty
      by (simp add: send_def iov_bytes_def)
    have "fits32 (sint (of_nat k :: u32) + sint ?l)" "\<not> sint ?l < 0"
      unfolding sints using fits32_sum [OF small] by simp_all
    then show ?thesis
      using IH [of "k + unat ?l" "send os ?h (iov_bytes iov s i) w"] total False
      unfolding upt
      by (simp add: loads wrote sum add.assoc [of k] del: of_nat_add upt_Suc)
  qed
qed simp


text \<open>C28. \<open>writev\<close> writes the buffers of its vector in order, the empty ones skipped, and returns the
  number of bytes in all of them, when the descriptor is open, the vector and its buffers lie in
  guest memory, together have less than 2 GB, and the host writes what it is given.\<close>

theorem writev_gathers:
  fixes s :: "'w machine" and fd :: u32
  defines "h \<equiv> handle (fd_table s ! unat fd)"
  assumes "\<not> bad_fd fd s" and "g_size s \<le> 2 ^ 32" and "n < 2 ^ 31" and "\<forall>j < n. iov_ok iov s j"
    and "\<And>bs w. fst (write_host os h bs w) = of_nat (length bs)"
    and "(\<Sum>j \<leftarrow> [0..<n]. unat (iov_len iov s j)) < 2 ^ 31"
  shows "sys_writev os fd iov (of_nat n) s =
    Inr (of_nat (\<Sum>j \<leftarrow> [0..<n]. unat (iov_len iov s j)),
      s\<lparr>world := fold (send os h) (map (iov_bytes iov s) [0..<n]) (world s)\<rparr>)"
  using writev_loop_gathers [of fd s n iov 0 os 0 "world s"] assms
  by (simp add: sys_writev_def small_sint)


text \<open>A POSIX host that records what is written, and a machine with a vector of two buffers.\<close>

definition log_host :: "u8 list host" where
  "log_host = Posix
     \<lparr>posix_write = (\<lambda>h bs w. (Inr (of_nat (length bs)), w @ bs)), posix_read = (\<lambda>h n w. (Inr [], w)),
      posix_open = (\<lambda>str f m w. (Inl 2, w)), posix_close = (\<lambda>h w. w),
      posix_lseek = (\<lambda>h o' m w. (Inl 29, w)), posix_fstat = (\<lambda>h w. (Inl 9, w)),
      O_RDONLY = 0, O_WRONLY = 1, O_RDWR = 2, O_CREAT = 0x40, O_TRUNC = 0x200, O_APPEND = 0x400\<rparr>"

definition log_machine :: "u8 list machine" where
  "log_machine = (boot_state log_host [])
     \<lparr>g_mem := store_bytes 256 [16, 1, 0, 0, 3, 0, 0, 0, 20, 1, 0, 0, 1, 0, 0, 0, 72, 105, 33, 0, 10] (\<lambda>_. 0)\<rparr>"

lemma log_host_writes: "fst (write_host log_host h bs w) = of_nat (length bs)"
proof -
  have "ucast (of_nat n :: u64) = (of_nat n :: u32)" for n
    by (intro bit_word_eqI) (simp add: bit_simps)
  then show ?thesis by (simp add: write_host_def log_host_def)
qed

theorem writev_gathers_witness:
  "\<exists>t. sys_writev log_host 1 256 2 log_machine = Inr (4, t) \<and> world t = [72, 105, 33, 10]"
proof -
  have m: "g_size log_machine = 0x20000000" "world log_machine = []"
    "\<not> bad_fd 1 log_machine"
    "g_mem log_machine = store_bytes 256
       [16, 1, 0, 0, 3, 0, 0, 0, 20, 1, 0, 0, 1, 0, 0, 0, 72, 105, 33, 0, 10] (\<lambda>_. 0)"
    by (simp_all add: log_machine_def boot_state_def init_cpu_def init_fd_table_def static_state_def bad_fd_def)
  have two: "[0..<2] = [0, Suc 0]" "\<And>P. (\<forall>j < 2. P j) \<longleftrightarrow> P 0 \<and> P (Suc 0)"
    by (auto simp: upt_rec All_less_Suc numeral_2_eq_2)
  have three: "[0..<3] = [0, 1, 2 :: nat]" by (simp add: upt_rec)
  have reads: "iov_base 256 log_machine 0 = 272" "iov_len 256 log_machine 0 = 3"
    "iov_base 256 log_machine (Suc 0) = 276" "iov_len 256 log_machine (Suc 0) = 1"
    by (simp_all add: iov_base_def iov_len_def mem_read32_def check_bounds_def m store_bytes_def)
  have bytes: "iov_bytes 256 log_machine 0 = [72, 105, 33]" "iov_bytes 256 log_machine (Suc 0) = [10]"
    by (simp_all add: iov_bytes_def reads m load_bytes_def store_bytes_def three)
  show ?thesis
    using writev_gathers [of 1 log_machine 2 256 log_host] m(1-3) log_host_writes
    by (simp add: two iov_ok_def reads bytes send_def) (simp add: write_host_def log_host_def)
qed

end
