(* ===== verification/Call_Safety.thy ===== *)
theory Call_Safety
  imports Stops Files_Correct
begin

text \<open>
  Memory safety of the system calls. The backend checks the first byte of a buffer and then hands
  a host pointer to the host, so it is the guest that has to keep its buffers inside guest memory;
  here is what it has to respect, call by call, and that nothing else is needed.
\<close>

section \<open>System calls whose buffers fit\<close>

text \<open>A buffer is good when the call refuses its address or all of it lies in guest memory, a path
  when it is refused or ends in guest memory.\<close>

definition buffer_ok :: "u32 \<Rightarrow> nat \<Rightarrow> 'a mem_state_scheme \<Rightarrow> bool" where
  "buffer_ok a n s \<longleftrightarrow> g_size s \<le> unat a \<or> unat a + n \<le> g_size s"

definition path_ok :: "u32 \<Rightarrow> 'a mem_state_scheme \<Rightarrow> bool" where
  "path_ok a s \<longleftrightarrow> g_size s \<le> unat a \<or> (\<exists>i. unat a \<le> i \<and> i < g_size s \<and> g_mem s i = 0)"

definition iovec_ok :: "u32 \<Rightarrow> u32 \<Rightarrow> nat \<Rightarrow> 'w machine \<Rightarrow> bool" where
  "iovec_ok fd iov i s \<longleftrightarrow> buffer_ok (iov + of_nat i * 8) 8 s \<and>
     (bad_fd fd s \<or> buffer_ok (iov_base iov s i) (unat (iov_len iov s i)) s)"

text \<open>
  What the program has to respect when it makes a system call, by the number in EAX. The
  other calls, among them \<open>brk\<close>, \<open>lseek\<close>, \<open>clock_gettime\<close> and \<open>mmap2\<close> with \<open>MAP_FIXED\<close>, need
  nothing: what they are given is checked by the code. The length of a mapping
  from the arena has to be one that does not wrap in 32 bits.
\<close>

definition call_fits :: "'w machine \<Rightarrow> bool" where
  "call_fits s =
     (let nr = reg s REG_EAX; ebx = reg s REG_EBX; ecx = reg s REG_ECX; edx = reg s REG_EDX;
          esi = reg s REG_ESI
      in (nr = 3 \<or> nr = 4 \<longrightarrow> bad_fd ebx s \<or> buffer_ok ecx (unat edx) s) \<and>
         (nr = 5 \<longrightarrow> path_ok ebx s) \<and> (nr = 295 \<longrightarrow> path_ok ecx s) \<and>
         (nr = 122 \<longrightarrow> buffer_ok ebx 389 s) \<and>
         (nr = 146 \<longrightarrow> (\<forall>i < nat (sint edx). iovec_ok ebx ecx i s)) \<and>
         (nr = 174 \<longrightarrow> sint ebx < 1 \<or> 64 \<le> sint ebx \<or>
            (edx = 0 \<or> buffer_ok edx 20 s) \<and> (ecx = 0 \<or> buffer_ok ecx 20 s)) \<and>
         (nr = 175 \<longrightarrow> edx = 0 \<or> buffer_ok edx (min (unat esi) 8) s) \<and>
         (nr = 192 \<longrightarrow> esi AND 0x10 \<noteq> 0 \<or>
            unat (g_mmap_ptr s) + unat ((ecx + 0xFFF) AND NOT 0xFFF) < 2 ^ 32) \<and>
         (nr = 197 \<longrightarrow> bad_fd ebx s \<or> buffer_ok ecx 104 s) \<and>
         (nr = 243 \<longrightarrow> buffer_ok ebx 8 s) \<and>
         (nr = 258 \<longrightarrow> ebx = 0 \<or> buffer_ok ebx 4 s) \<and>
         (nr = 355 \<longrightarrow> ebx = 0 \<or> buffer_ok ebx (unat ecx) s))"

text \<open>The documented promise of \<open>ReadFile\<close> and \<open>read\<close>: no more bytes than asked for.\<close>

definition reads_bounded :: "'w host \<Rightarrow> bool" where
  "reads_bounded os \<longleftrightarrow>
     (case os of
        Win32 w32 \<Rightarrow> (\<forall>h n w bs w'. ReadFile w32 h n w = (Inr bs, w') \<longrightarrow> length bs \<le> unat n)
      | Posix px \<Rightarrow> (\<forall>h n w bs w'. posix_read px h n w = (Inr bs, w') \<longrightarrow> length bs \<le> unat n))"

definition safe_stops :: "stop set" where
  "safe_stops = {e. e \<noteq> UB HostOOB}"

lemma safe_stops_iff [simp]: "e \<in> safe_stops \<longleftrightarrow> e \<noteq> UB HostOOB"
  by (simp add: safe_stops_def)

lemma guest_to_host_Some: "guest_to_host a s = Some p \<longleftrightarrow> p = unat a \<and> unat a < g_size s"
  by (auto simp: guest_to_host_def check_bounds_def)

lemma host_access_safe:
  "p + length bs \<le> g_size s \<Longrightarrow> stops_in safe_stops (host_store p bs s)"
  "p + n \<le> g_size s \<Longrightarrow> stops_in safe_stops (host_memset p b n s)"
  "p + n \<le> g_size s \<Longrightarrow> stops_in safe_stops (host_load p n s)"
  by (auto simp: host_store_def host_memset_def host_load_def)

lemma host_access_size:
  "host_store p bs s = Inr t \<Longrightarrow> g_size t = g_size s" "host_memset p b n s = Inr t \<Longrightarrow> g_size t = g_size s"
  by (auto simp: host_store_def host_memset_def split: if_splits)

lemma read_host_bounded:
  "reads_bounded os \<Longrightarrow> read_host os h n w = (Inr bs, w') \<Longrightarrow> length bs \<le> unat n"
  by (auto simp: reads_bounded_def read_host_def split: host.splits sum.splits prod.splits if_splits) blast+

lemma safe_read_write:
  assumes "bad_fd fd s \<or> buffer_ok a (unat n) s"
  shows "reads_bounded os \<Longrightarrow> stops_in safe_stops (sys_read os fd a n s)"
    and "stops_in safe_stops (sys_write os fd a n s)"
proof -
  show "stops_in safe_stops (sys_write os fd a n s)"
    using assms
    by (auto simp: sys_write_def buffer_ok_def guest_to_host_Some
        split: option.split prod.split intro!: stops_in_bind host_access_safe)
  assume os: "reads_bounded os"
  show "stops_in safe_stops (sys_read os fd a n s)"
    using assms
    by (auto simp: sys_read_def buffer_ok_def guest_to_host_Some split: option.split prod.split sum.split
        intro!: stops_in_bind host_access_safe dest!: read_host_bounded [OF os])
qed

lemma host_cstring_safe:
  assumes "p \<le> i" and "i < g_size s" and "g_mem s i = 0"
  shows "stops_in safe_stops (host_cstring p s)"
proof -
  let ?bs = "load_bytes p (g_size s - p) (g_mem s)"
  have "?bs ! (i - p) = 0" "i - p < length ?bs" using assms by simp_all
  then have "0 \<in> set ?bs" by (metis nth_mem)
  then have "takeWhile (\<lambda>b. b \<noteq> 0) ?bs \<noteq> ?bs" using takeWhile_eq_all_conv [of "\<lambda>b. b \<noteq> 0" ?bs] by blast
  then have "length (takeWhile (\<lambda>b. b \<noteq> 0) ?bs) \<noteq> length ?bs"
    by (metis takeWhile_eq_take take_all_iff order_refl)
  then show ?thesis by (simp add: host_cstring_def Let_def)
qed

lemma safe_open: "path_ok a s \<Longrightarrow> stops_in safe_stops (sys_open os a n w s)"
  by (auto simp: sys_open_def path_ok_def guest_to_host_Some split: option.split prod.split sum.split
      intro!: stops_in_bind host_cstring_safe)


lemma strncpy_safe: "p + n \<le> g_size s \<Longrightarrow> stops_in safe_stops (strncpy p str n s)"
  by (auto simp: strncpy_def strncpy_bytes_def intro!: host_access_safe)

lemma strncpy_size: "strncpy p str n s = Inr t \<Longrightarrow> g_size t = g_size s"
  by (simp add: strncpy_def host_access_size)

lemma safe_uname: "buffer_ok a 389 s \<Longrightarrow> stops_in safe_stops (uname_case a s)"
  by (auto simp: strncpy_size uname_case_def buffer_ok_def guest_to_host_Some ret_const_def split: option.split
      intro!: stops_in_bind strncpy_safe)

lemma safe_sigaction:
  fixes s :: "'w machine"
  assumes "\<forall>bs \<in> set (g_sigactions s). length bs = 20" and "length (g_sigactions s) = SIGMAX"
    and "sint sig < 1 \<or> 64 \<le> sint sig \<or> (b = 0 \<or> buffer_ok b 20 s) \<and> (a = 0 \<or> buffer_ok a 20 s)"
  shows "stops_in safe_stops (sys_rt_sigaction sig a b n s)"
proof (cases "sint sig < 1 \<or> int SIGMAX \<le> sint sig")
  case True
  then show ?thesis by (auto simp: sys_rt_sigaction_def)
next
  case False
  then have "uint sig = sint sig" using sint_neg_bit31 [of sig] by (simp add: sint_u32)
  then have "int (unat sig) < 64" using False by (simp only: uint_nat) linarith
  then have "unat sig < 64" by linarith
  then have len: "length (g_sigactions s ! unat sig) = 20" using assms(1,2) by simp
  have fits: "b = 0 \<or> buffer_ok b 20 s" "a = 0 \<or> buffer_ok a 20 s"
    using assms(3) False by simp_all
  show ?thesis
    unfolding sys_rt_sigaction_def if_not_P [OF False]
  proof (rule stops_in_bind, goal_cases)
    case 1
    show ?case
      using fits(1) len
      by (auto simp: buffer_ok_def guest_to_host_Some split: option.split intro!: stops_in_bind host_access_safe)
  next
    case (2 x)
    then have "g_size (snd x) = g_size s"
      by (auto simp: bind_result_Inr_iff host_access_size split: if_splits option.splits)
    then have "a = 0 \<or> buffer_ok a 20 (snd x)" using fits(2) by (simp add: buffer_ok_def)
    then show ?case
      by (cases x) (auto simp: buffer_ok_def guest_to_host_Some split: option.split
          intro!: stops_in_bind host_access_safe)
  qed
qed

lemma safe_sigprocmask:
  "edx = 0 \<or> buffer_ok edx (min (unat n) 8) s \<Longrightarrow> stops_in safe_stops (sys_rt_sigprocmask h a edx n s)"
  by (auto simp: sys_rt_sigprocmask_def buffer_ok_def guest_to_host_Some min_def word_less_nat_alt
      split: option.split if_splits intro!: stops_in_bind host_access_safe)

lemma safe_tid: "a = 0 \<or> buffer_ok a 4 s \<Longrightarrow> stops_in safe_stops (sys_set_tid_address a s)"
  by (auto simp: sys_set_tid_address_def buffer_ok_def guest_to_host_Some
      split: option.split intro!: stops_in_bind host_access_safe)

lemma safe_thread_area: "buffer_ok a 8 s \<Longrightarrow> stops_in safe_stops (sys_set_thread_area a s)"
  by (auto simp: host_access_size sys_set_thread_area_def buffer_ok_def guest_to_host_Some Let_def set_gs_base_def
      split: option.split if_splits intro!: stops_in_bind host_access_safe)

lemma safe_members:
  "\<forall>(off, bs) \<in> set ms. p + off + length bs \<le> g_size s \<Longrightarrow> stops_in safe_stops (store_members p ms s)"
  by (induction ms arbitrary: s) (auto simp: host_access_size intro!: stops_in_bind host_access_safe)

lemma members_size: "store_members p ms s = Inr t \<Longrightarrow> g_size t = g_size s"
  by (induction ms arbitrary: s) (auto simp: bind_result_Inr_iff host_access_size)

lemma safe_fstat64:
  assumes "bad_fd fd s \<or> buffer_ok a 104 s"
  shows "stops_in safe_stops (sys_fstat64 os fd a s)"
proof -
  have posix: "stops_in safe_stops (store_members p (stat64_members st) t)" if "p + 104 \<le> g_size t" for p st t
    using that stat64_members_fit [of st] by (intro safe_members) fastforce
  show ?thesis
    using assms
    by (auto simp: host_access_size members_size sys_fstat64_def fstat_win32_def fstat_posix_def Let_def buffer_ok_def guest_to_host_Some
        split: option.split prod.split sum.split host.split
        intro!: stops_in_bind host_access_safe safe_members posix simp del: store_members.simps)
qed

lemma safe_mmap2:
  fixes s :: "'w machine"
  assumes "0x100000 \<le> g_size s" and "g_size s < 2 ^ 32"
    and "fl AND 0x10 \<noteq> 0 \<or> unat (g_mmap_ptr s) + unat ((n + 0xFFF) AND NOT 0xFFF) < 2 ^ 32"
  shows "stops_in safe_stops (sys_mmap2 a n p fl fd off s)"
proof -
  define m where "m = (n + 0xFFF) AND NOT 0xFFF"
  have map: "stops_in safe_stops (mmap2_map q k t)" if "unat q + unat k \<le> g_size t" for q k and t :: "'w machine"
    using that by (auto simp: mmap2_map_def guest_to_host_Some split: option.split
        intro!: stops_in_bind host_access_safe)
  have "(int (g_size s) - 0x100000) mod 2 ^ 64 = int (g_size s) - 0x100000"
    using assms(1,2) by simp
  moreover have "unat (g_mmap_ptr s + m) = unat (g_mmap_ptr s) + unat m" if "fl AND 0x10 = 0"
    using assms(3) that unfolding m_def [symmetric] by (simp add: unat_word_ariths)
  ultimately have arena: "unat (g_mmap_ptr s) + unat m \<le> g_size s"
    if "fl AND 0x10 = 0" "\<not> int (unat (g_mmap_ptr s + m)) > (int (g_size s) - 0x100000) mod 2 ^ 64"
    using that by linarith
  show ?thesis
    unfolding sys_mmap2_def Let_def mem_size_def m_def [symmetric]
    by (intro stops_in_if map) (use arena in auto)
qed


lemma self_world: "\<exists>w. s = s\<lparr>world := w\<rparr>"
  by (rule exI [of _ "world s"]) simp

lemma sys_write_world: "sys_write os fd a n s = Inr (r, t) \<Longrightarrow> \<exists>w. t = s\<lparr>world := w\<rparr>"
  using self_world [of s]
  by (auto simp: sys_write_def bind_result_Inr_iff split_beta split: if_splits option.splits)

lemma iovec_ok_world [simp]: "iovec_ok fd iov i (s\<lparr>world := w\<rparr>) = iovec_ok fd iov i s"
  by (simp add: iovec_ok_def buffer_ok_def)

lemma safe_writev:
  fixes s :: "'w machine"
  assumes "\<forall>j < n. iovec_ok fd iov (i + j) s" and "g_size s \<le> 2 ^ 32"
  shows "stops_in safe_stops (writev_loop os fd iov n (of_nat i) k s)"
  using assms
proof (induction n arbitrary: i k s)
  case (Suc n)
  let ?a = "iov + of_nat i * 8"
  have ok: "iovec_ok fd iov i s" using Suc.prems(1) by force
  have IH: "stops_in safe_stops (writev_loop os fd iov n (of_nat i + 1) k' (s\<lparr>world := w\<rparr>))" for k' w
    using Suc.IH [of "Suc i" "s\<lparr>world := w\<rparr>" k'] Suc.prems by (force simp: add.commute)
  show ?case
  proof (cases "unat ?a < g_size s")
    case True
    then have fits: "unat ?a + 8 \<le> g_size s" using ok by (auto simp: iovec_ok_def buffer_ok_def)
    have b: "unat (?a + 4) = unat ?a + 4"
      using unat_add_small [of ?a 4] fits Suc.prems(2) by simp
    have words: "dec32 (load_bytes (unat ?a) 4 (g_mem s)) = iov_base iov s i"
      "dec32 (load_bytes (unat ?a + 4) 4 (g_mem s)) = iov_len iov s i"
      using fits Suc.prems(2) by (simp_all add: iov_base_def iov_len_def mem_access32_in b)
    have loads: "host_load (unat ?a) 4 s = Inr (load_bytes (unat ?a) 4 (g_mem s))"
      "host_load (unat ?a + 4) 4 s = Inr (load_bytes (unat ?a + 4) 4 (g_mem s))"
      using fits by (simp_all add: host_load_def)
    have "stops_in safe_stops (sys_write os fd (iov_base iov s i) (iov_len iov s i) s)"
      using ok by (intro safe_read_write(2)) (auto simp: iovec_ok_def)
    then show ?thesis
      using True IH [of k "world s"] IH
      by (auto simp: guest_to_host_def check_bounds_def loads words intro!: stops_in_bind dest!: sys_write_world)
  next
    case False
    then show ?thesis by (simp add: guest_to_host_def check_bounds_def)
  qed
qed simp

lemma safe_ret: "stops_in S (ret_const v s)" "stops_in S r \<Longrightarrow> stops_in S (ret_eax r)"
  by (auto simp: ret_const_def ret_eax_def intro!: stops_in_bind)

lemma safe_close_seek: "stops_in S (sys_close os fd s)" "stops_in S (sys_lseek os fd a n s)"
  by (simp_all add: sys_close_def sys_lseek_def Let_def split: prod.split)

lemma safe_llseek: "stops_in S (llseek_case os fd h n a w s)"
  by (auto simp: llseek_case_def Let_def intro!: stops_in_bind safe_close_seek safe_ret)

lemma safe_getrandom:
  "a = 0 \<or> buffer_ok a n s \<Longrightarrow> a \<noteq> 0 \<Longrightarrow>
   stops_in safe_stops (case guest_to_host a s of None \<Rightarrow> Inr s | Some q \<Rightarrow> host_memset q c n s)"
  by (auto simp: buffer_ok_def guest_to_host_Some split: option.split intro!: host_access_safe)

lemma safe_dispatch:
  fixes s :: "'w machine"
  assumes "call_fits s" and "reads_bounded os"
    and sigs: "\<forall>bs \<in> set (g_sigactions s). length bs = 20" "length (g_sigactions s) = SIGMAX"
    and size: "0x100000 \<le> g_size s" "g_size s < 2 ^ 32"
  shows "stops_in safe_stops (dispatch_syscall os s)"
proof -
  have writev: "\<forall>i < nat (sint n). iovec_ok fd iov i s \<Longrightarrow> stops_in safe_stops (sys_writev os fd iov n s)" for fd iov n
    using safe_writev [of "nat (sint n)" fd iov 0 s os 0] size(2) by (simp add: sys_writev_def)
  show ?thesis
    using assms(1)
    unfolding dispatch_syscall_def call_fits_def Let_def
    by (intro stops_in_if safe_ret stops_in_bind safe_close_seek safe_llseek safe_read_write safe_open
        safe_uname safe_sigaction [OF sigs] safe_sigprocmask safe_tid safe_thread_area safe_fstat64
        safe_mmap2 [OF size] writev safe_getrandom assms(2))
      (simp_all add: sys_exit_def sys_munmap_def sys_mprotect_def)
qed


lemma call_fits_cong: "same_guest t s \<Longrightarrow> call_fits t = call_fits s"
proof -
  assume "same_guest t s"
  then have eqs: "regs t = regs s" "g_mem t = g_mem s" "g_size t = g_size s" "fd_table t = fd_table s"
    "g_mmap_ptr t = g_mmap_ptr s" by (simp_all add: same_guest_def)
  have "mem_read32 a t = mem_read32 a s" for a using eqs by (intro mem_read_cong) simp_all
  then have "iov_base iov t i = iov_base iov s i" "iov_len iov t i = iov_len iov s i" for iov i
    by (simp_all add: iov_base_def iov_len_def)
  then show ?thesis
    using eqs
    by (simp add: call_fits_def reg_def buffer_ok_def path_ok_def iovec_ok_def bad_fd_def Let_def)
qed

text \<open>A round does not touch host memory outside the block when the call it makes, if any, fits.\<close>

lemma round_in_bounds:
  fixes s :: "'w machine"
  assumes "reads_bounded os" and "at_int80 s \<Longrightarrow> call_fits s" and "wf_machine s"
    and "0x100000 \<le> g_size s" and "g_size s < 2 ^ 32"
  shows "emulate_step fp os s \<noteq> Inl (UB HostOOB)"
proof
  assume "emulate_step fp os s = Inl (UB HostOOB)"
  from emulate_step_stops [OF this assms(5)] obtain t
    where t: "at_int80 s" "same_guest t s" "dispatch_syscall os t = Inl (UB HostOOB)"
    by (auto simp: arith_stops_def)
  have "call_fits t" using assms(2) t(1) call_fits_cong [OF t(2)] by simp
  then have "stops_in safe_stops (dispatch_syscall os t)"
    using assms t(2) by (intro safe_dispatch) (auto simp: same_guest_def wf_machine_def)
  with t(3) show False by simp
qed

section \<open>Reading\<close>

lemma set_reg_machine_frame [simp, frame]:
  "fd_table (set_reg i v s) = fd_table s" "world (set_reg i v s) = world s"
  "reg (s\<lparr>world := w\<rparr>) i = reg s i" "reg (s\<lparr>g_mem := m\<rparr>) i = reg s i"
  by (simp_all add: set_reg_def reg_def)

text \<open>C26. The system call \<open>read\<close>, as the guest sees it: with a buffer that is refused or lies in
  guest memory it returns, it changes no register but EAX, no descriptor and no byte outside the
  buffer, and EAX says what happened. A count of 0 gives 0 and a descriptor that is not open
  EBADF, whatever the buffer is; an address outside guest memory gives EFAULT, in each
  case without asking the host; otherwise EAX is the host's error, with memory unchanged, or the
  number of bytes the host delivered, at most the count, and they are at the buffer.\<close>

theorem read_call:
  fixes s :: "'w machine"
  defines "fd \<equiv> reg s REG_EBX" and "buf \<equiv> reg s REG_ECX" and "count \<equiv> reg s REG_EDX"
  assumes "length (regs s) = 8" and "reg s REG_EAX = 3" and "reads_bounded os"
    and "bad_fd fd s \<or> buffer_ok buf (unat count) s"
  shows "\<exists>t. dispatch_syscall os s = Inr t \<and> fd_table t = fd_table s \<and>
    (\<forall>i. i \<noteq> REG_EAX \<longrightarrow> reg t i = reg s i) \<and>
    (\<forall>i. i < unat buf \<or> unat buf + unat count \<le> i \<longrightarrow> g_mem t i = g_mem s i) \<and>
    (if count = 0 then reg t REG_EAX = 0 \<and> g_mem t = g_mem s \<and> world t = world s
     else if bad_fd fd s then reg t REG_EAX = - EBADF \<and> g_mem t = g_mem s \<and> world t = world s
     else if g_size s \<le> unat buf then reg t REG_EAX = - EFAULT \<and> g_mem t = g_mem s \<and> world t = world s
     else case read_host os (handle (fd_table s ! unat fd)) count (world s) of
         (Inl r, w) \<Rightarrow> reg t REG_EAX = r \<and> g_mem t = g_mem s \<and> world t = w
       | (Inr bs, w) \<Rightarrow> reg t REG_EAX = of_nat (length bs) \<and> length bs \<le> unat count \<and>
           load_bytes (unat buf) (length bs) (g_mem t) = bs \<and> world t = w)"
proof -
  have call: "dispatch_syscall os s = ret_eax (sys_read os fd buf count s)"
    using assms(5) by (simp add: dispatch_syscall_def fd_def buf_def count_def)
  show ?thesis
  proof (cases "count = 0 \<or> bad_fd fd s \<or> g_size s \<le> unat buf")
    case True
    then show ?thesis
      using assms(4)
      by (auto simp: call sys_read_def ret_eax_def reg_set_reg guest_to_host_def check_bounds_def)
  next
    case False
    then have fits: "unat buf + unat count \<le> g_size s" using assms(7) by (auto simp: buffer_ok_def)
    have ptr: "guest_to_host buf s = Some (unat buf)"
      using False by (simp add: guest_to_host_def check_bounds_def)
    obtain r w where host: "read_host os (handle (fd_table s ! unat fd)) count (world s) = (r, w)"
      by fastforce
    show ?thesis
    proof (cases r)
      case (Inl e)
      then show ?thesis
        using assms(4) False host ptr by (simp add: call sys_read_def ret_eax_def reg_set_reg)
    next
      case (Inr bs)
      have len: "length bs \<le> unat count" using read_host_bounded [OF assms(6)] host Inr by simp
      let ?t = "s\<lparr>world := w, g_mem := store_bytes (unat buf) bs (g_mem s)\<rparr>"
      have "host_store (unat buf) bs (s\<lparr>world := w\<rparr>) = Inr ?t"
        using fits len by (simp add: host_store_def)
      then have run: "dispatch_syscall os s = Inr (set_reg REG_EAX (of_nat (length bs)) ?t)"
        using False host ptr Inr by (simp add: call sys_read_def ret_eax_def)
      have "store_bytes (unat buf) bs (g_mem s) i = g_mem s i"
        if "i < unat buf \<or> unat buf + unat count \<le> i" for i
        using that len by (auto simp: store_bytes_def)
      then show ?thesis
        unfolding run using assms(4) False host Inr len load_store_bytes [of "unat buf" bs "g_mem s"]
        by (simp add: reg_set_reg)
    qed
  qed
qed

theorem read_call_witness:
  "\<exists>t. dispatch_syscall open_host (small_machine\<lparr>regs := [3, 256, 2, 0, 0, 0, 0, 0]\<rparr>) = Inr t \<and>
     reg t REG_EAX = 2 \<and> load_bytes 256 2 (g_mem t) = [5, 5] \<and> reg t REG_EDX = 2"
proof -
  define m where "m = small_machine\<lparr>regs := [3, 256, 2, 0, 0, 0, 0, 0]\<rparr>"
  have r: "reg m 0 = 3" "reg m 3 = 0" "reg m (Suc 0) = 256" "reg m 2 = 2" "length (regs m) = 8"
    by (simp_all add: reg_def m_def)
  have fits: "\<not> bad_fd 0 m" "buffer_ok 256 2 m" "\<not> g_size m \<le> 256"
    by (simp_all add: bad_fd_def buffer_ok_def m_def)
  have host: "reads_bounded open_host" "read_host open_host x 2 w = (Inr [5, 5], w)" for x w
    by (simp_all add: reads_bounded_def open_host_def read_host_def)
  show ?thesis
    unfolding m_def [symmetric] using read_call [of m open_host]
    by (auto simp: r fits host simp flip: numeral_2_eq_2)
qed

end
