(* ===== verification/Spec2Isabelle.thy ===== *)
theory Spec2Isabelle
  imports Setup Emulator_Correct Decode_Correct Alu_Correct Arith_Correct Shift_Correct Stack_Correct
    Rep_Correct Simd_Fpu_Correct Prefix_Correct Call_Safety
begin

text \<open>
  A verification of \<open>emu\<close>, the emulator in this repository that runs statically linked Linux i386
  executables on Windows (and, in a second configuration, on POSIX hosts).

  \<^bold>\<open>The program.\<close> \<open>main\<close> (\<open>src/main.c\<close>) allocates 512 MB of guest memory (\<open>src/mem/mem.c\<close>), sets up
  the descriptor table and the processor, loads the ELF file (\<open>src/loader/loader.c\<close>), builds a fake
  thread-local block above the image and the mmap arena, and calls \<open>emulate\<close> (\<open>src/cpu/cpu.c\<close>). That
  loop fetches a byte at EIP and calls its entry of a table of handlers (\<open>src/cpu/ops.c\<close>); prefix
  handlers call the dispatcher again for the next byte; \<open>int 0x80\<close> enters \<open>dispatch_syscall\<close>
  (\<open>src/syscall/syscall.c\<close>), which calls the backend (\<open>src/syscall/backend_win32.c\<close>). All parts
  share one state: the C globals and the \<open>i386\<close> struct are fields of the records \<open>mem_state\<close>,
  \<open>i386\<close>, \<open>ops_state\<close> and \<open>machine\<close>, each extending the one before, and every function takes the
  state and returns it updated.

  \<^bold>\<open>Conventions.\<close> C integers are words of their width. What does not return is a value of
  \<open>stop\<close>: \<open>Exit n\<close> for \<open>exit(n)\<close>; \<open>UB k\<close> where the C program has undefined behaviour, that is, a host
  pointer used past the guest memory, a shift count out of range, a signed overflow, a signed
  quotient or a conversion from floating point that does not fit; \<open>OutOfFuel\<close> for the bound below.
  So a theorem that a function returns also says that this behaviour does not occur, and a
  theorem about reachable states is about runs before it occurs. Definitions have the names of the
  C functions; an inlined C idiom that many functions share (\<open>fetch8\<close>, \<open>read_rm8\<close>, \<open>fpu_push\<close>) has a
  name of its own.

  \<^bold>\<open>The model, theory by theory.\<close>
  \<^item> \<open>Prelude\<close>: words, results, byte lists in memory, little-endian encodings.
  \<^item> \<open>Mem\<close>: \<open>mem.c\<close>. The block is a function from offsets to bytes with a size; the pointer
    that \<open>guest_to_host\<close> returns is an offset, and \<open>host_store\<close>, \<open>host_memset\<close>, \<open>host_load\<close> are what
    host code does with it. The locale \<open>sized_access\<close> is the contract of the three access widths.
  \<^item> \<open>Cpu\<close>: the \<open>i386\<close> struct of \<open>cpu.h\<close>, the statics of \<open>ops.c\<close>, \<open>init_cpu\<close>, the flags.
  \<^item> \<open>Decode\<close>: \<open>parse_modrm\<close>, \<open>resolve_rm_addr\<close> and the operand accesses of \<open>ops.c\<close>.
  \<^item> \<open>Ops_Alu\<close>, \<open>Ops_Move\<close>, \<open>Ops_Ctl\<close>, \<open>Ops_Arith\<close>, \<open>Ops_Shift\<close>, \<open>Ops_Simd\<close>, \<open>Ops_Rep\<close>, \<open>Ops_Fpu\<close>: the
    handlers of \<open>ops.c\<close>, one definition each.
  \<^item> \<open>Backend\<close>: the system calls, in both configurations. \<open>Syscall\<close>: \<open>dispatch_syscall\<close>.
  \<^item> \<open>Dispatch\<close>: \<open>init_opcode_table\<close> as the list of its assignments, the prefixes, \<open>op_int\<close>,
    \<open>execute_opcode\<close>, and \<open>emulate\<close> as a partial function, \<open>None\<close> when it runs for ever.
  \<^item> \<open>Loader\<close>: \<open>load_elf\<close>, with the file as the list of its bytes. \<open>Emulator\<close>: \<open>main\<close>.

  \<^bold>\<open>Parameters.\<close> Code outside the repository is an argument of the definitions: the Win32 and POSIX
  functions (records \<open>win32\<close> and \<open>posix\<close>, acting on an arbitrary \<open>world\<close>), floating-point arithmetic
  and \<open>math.h\<close> (\<open>fp_ops\<close>), whether \<open>calloc\<close> succeeds, and the files. No theorem assumes anything of
  them beyond what its own hypotheses say.

  \<^bold>\<open>Bounds.\<close> The dispatcher and the prefix handlers call each other once per prefix byte. The
  model bounds that recursion by \<open>g_size s + 2\<close>: every prefix advances EIP, and from the end of guest
  memory on a fetch gives 0, which is no prefix, so at most that many calls are open
  (\<open>round_bound_irrelevant\<close>; the argument, with addresses that wrap, is in \<open>Reach\<close>). The loops of \<open>op_rep\<close> and \<open>op_repne\<close> run ECX rounds at most, since each decrements it; the
  loops of the loader run over the segment sizes.

  \<^bold>\<open>What is shown.\<close>
  \<^item> \<open>Invariant\<close>, \<open>Reach\<close>, \<open>Setup\<close> and this theory: a predicate that the primitive updates keep is
    kept by every handler, system call and round, and so by every run (locales \<open>ops_invariant\<close>,
    \<open>machine_invariant\<close>, \<open>raw_invariant\<close>, \<open>setup_invariant\<close>); instances give confinement to guest
    memory, the lengths of all arrays, the shape of EFLAGS, the standard descriptors and the
    growing break. The relation \<open>steps\<close> is a notion of the proofs: the states a run goes through.
    The sample executable of \<open>Sample_Elf\<close> is run by the whole program to its exit status.
  \<^item> \<open>Stops\<close>: by which instructions a round can end the program, and that each kind of undefined
    behaviour comes either from an arithmetic instruction or from a system call; with it
    \<open>run_status\<close> says which exit status a run has.
  \<^item> \<open>Call_Safety\<close>: memory safety of the system calls. The C program passes a pointer to the host
    after it has checked the first byte only; \<open>host_store\<close> and its relatives turn an access past the
    block into \<open>UB HostOOB\<close>, so confinement of the bytes alone would say nothing of these calls.
    \<open>call_fits\<close> is what the guest has to respect, call by call, and \<open>run_memory_safe\<close> shows that then,
    and with a host that reads no more than it is asked for, \<open>UB HostOOB\<close> does not occur; that rests
    on the checks the code does make, the one of \<open>MAP_FIXED\<close> among them.
  \<^item> \<open>Prefix_Correct\<close>: moves with the GS prefix as whole rounds.
  \<^item> \<open>Decode_Correct\<close>: the decoder inverts an assembler of operands; memory round trips.
  \<^item> \<open>Loader_Correct\<close>, \<open>Loader_Stack\<close>, \<open>Emulator_Correct\<close>: which files are accepted, the image in
    memory, the initial stack, the thread-local block.
  \<^item> \<open>Alu_Correct\<close>, \<open>Arith_Correct\<close>, \<open>Shift_Correct\<close>: results and flags against arithmetic on integers;
    the locales \<open>alu_r32\<close> and \<open>alu_rm32\<close> are the contracts the handlers share.
  \<^item> \<open>Stack_Correct\<close>: pushes and pops refine operations on the list of stack words (locales \<open>pusher\<close>
    and \<open>popper\<close>). \<open>Rep_Correct\<close>: the repeated string instructions are \<open>memcpy\<close>, \<open>memset\<close> and a
    search (locale \<open>counted_body\<close>). \<open>Simd_Fpu_Correct\<close>: packed bytes, and the x87 stack as a list.
  \<^item> \<open>Syscall_Correct\<close>, \<open>Files_Correct\<close>: the break, the arena, descriptors, signal actions,
    \<open>fstat64\<close> and \<open>writev\<close>; \<open>read\<close> is in \<open>Call_Safety\<close>.
  \<^item> \<open>Sample\<close>, \<open>Sample_Elf\<close>, \<open>Sample_Run\<close>: the concrete states, file and hosts of the examples.

  Where the code differs from the processor or from its own comments the model follows the code,
  and the theorems say what it does: \<open>logic_r32\<close>, \<open>cmp_al_signed\<close>, \<open>push_refines\<close> and
  \<open>pop_refines\<close> at ESP, \<open>rotate_by_zero\<close>, \<open>f7_div_zero\<close>, \<open>mmap2_wraps\<close>, \<open>read_past_end\<close>, \<open>tls_block\<close>,
  \<open>stack_layout\<close>.

  \<^bold>\<open>Not modelled.\<close> Messages on stdout and stderr and the trace of \<open>emulate\<close>, which nothing reads;
  \<open>g_watch_addr\<close>, which is never used; the depth of the host's own stack, which a long chain of
  prefix bytes can exhaust; the overflow of the \<open>int\<close> cycle counter, which wraps here; a POSIX
  host whose error numbers are not Linux's or that aligns 64-bit members to 4; a \<open>long\<close> of 64 bits in
  \<open>fseek\<close>, whose offset has 32 bits here in both configurations, as on Windows, which differs from
  offset \<open>2 ^ 31\<close> on only; the transfer of bytes by a host call that then fails.
  \<open>README.md\<close> and \<open>info.md\<close> are prose.
\<close>

section \<open>Runs of the whole program\<close>

text \<open>How the loop ends, in terms of its rounds.\<close>

lemma emulate_status:
  "(case emulate fp os s of None \<Rightarrow> None | Some (Inl e) \<Rightarrow> Some e | Some (Inr s) \<Rightarrow> Some (Exit 0)) = Some (Exit v) \<longleftrightarrow>
   (\<exists>t. steps fp os s t \<and> (if halted t then v = 0 else emulate_step fp os t = Inl (Exit v)))"
  (is "?l \<longleftrightarrow> ?r")
proof
  assume l: ?l
  then obtain r where "emulate fp os s = Some r" by (auto split: option.splits)
  with l emulate_steps [OF this] show ?r by (cases r) auto
next
  assume ?r
  then obtain t where "steps fp os s t" "if halted t then v = 0 else emulate_step fp os t = Inl (Exit v)" by blast
  then show ?l using steps_emulate [of fp os s t] by (simp add: emulate_simps split: if_splits)
qed

text \<open>C1. Memory safety of a whole run, for every executable and arguments: in every state the emulation reaches from a
  successful setup the guest memory still has 512 MB and no byte outside it has been written, and
  the next round does not use a host pointer past it either, provided that a system call it makes, if it makes one, is given
  buffers and paths that lie in guest memory (\<open>call_fits\<close>: a length that does not wrap for a mapping from the
  arena; \<open>brk\<close>, \<open>MAP_FIXED\<close> and the calls not named there are checked by the code and need nothing), and that the
  host's read delivers no more bytes than it is asked for. Without the proviso it is false:
  \<open>read_past_end\<close> and \<open>mmap2_wraps\<close> are runs past the end.\<close>

theorem run_memory_safe:
  assumes "main_setup calloc_ok os files argv w = Inr s" and "steps fp os s t"
    and "reads_bounded os" and "at_int80 t \<longrightarrow> call_fits t"
  shows "g_size t = 0x20000000 \<and> (\<forall>i. 0x20000000 \<le> i \<longrightarrow> g_mem t i = 0) \<and>
    emulate_step fp os t \<noteq> Inl (UB HostOOB)"
proof -
  have conf: "g_size t = 0x20000000" "\<forall>i. 0x20000000 \<le> i \<longrightarrow> g_mem t i = 0"
    using conf_setup.inv_main_run [OF boot_state_confined assms(1,2)] by (simp_all add: confined_def)
  have "wf_machine t" by (rule wf_setup.inv_main_run [OF boot_state_wf assms(1,2)])
  then show ?thesis using conf round_in_bounds [OF assms(3), of t fp] assms(4) by simp
qed

text \<open>The sample executable up to its system call, and that call.\<close>

theorem run_memory_safe_witness:
  "\<exists>s t. main_setup True mute_host exit_files exit_argv () = Inr s \<and> steps null_fp mute_host s t \<and>
     eip t = 0x0804800A \<and> emulate_step null_fp mute_host t \<noteq> Inl (UB HostOOB)"
proof -
  obtain s where s: "main_setup True mute_host exit_files exit_argv () = Inr s" "eip s = 0x08048000"
      "\<not> halted s" "length (regs s) = 8" "g_size s = 0x20000000"
      "\<forall>k < 12. g_mem s (0x08048000 + k) = exit_elf ! (84 + k)"
    using exit_setup by blast
  obtain t where t: "steps null_fp mute_host s t" "eip t = 0x0804800A" "reg t REG_EAX = 1"
    using exit_run [OF s] by blast
  have "reads_bounded mute_host" by (simp add: reads_bounded_def mute_host_def)
  moreover have "call_fits t" using t(3) by (simp add: call_fits_def)
  ultimately show ?thesis using run_memory_safe [OF s(1) t(1)] s(1) t by blast
qed

text \<open>C2. Every array keeps its length in every reachable state: 8 registers, 8 FPU slots with the top
  index below 8, 8 MMX and 8 XMM registers, 256 descriptors and 64 signal actions of 20 bytes; so
  no index the handlers compute from an instruction is out of range.\<close>

theorem run_arrays:
  assumes "main_setup calloc_ok os files argv w = Inr s" and "steps fp os s s'"
  shows "wf_machine s'"
  using wf_setup.inv_main_run [OF boot_state_wf assms] .

theorem run_arrays_witness:
  "\<exists>s. main_setup True mute_host exit_files exit_argv () = Inr s \<and> length (regs s) = 8"
proof -
  obtain s where "main_setup True mute_host exit_files exit_argv () = Inr s"
    using exit_setup by blast
  with run_arrays [OF this steps_refl] show ?thesis by (auto simp: wf_machine_def)
qed

text \<open>C6. EFLAGS keeps its shape in every reachable state: only CF, PF, ZF, SF and OF can be set, and
  bit 1 always is.\<close>

theorem run_eflags:
  assumes "main_setup calloc_ok os files argv w = Inr s" and "steps fp os s s'"
  shows "eflags s' AND NOT FLAGS_ALL = 2"
  using flags_setup.inv_main_run [OF boot_state_flags assms] by (simp add: flags_shape_def)

theorem run_eflags_witness:
  "\<exists>s. main_setup True mute_host exit_files exit_argv () = Inr s \<and> eflags s AND NOT FLAGS_ALL = 2"
proof -
  obtain s where "main_setup True mute_host exit_files exit_argv () = Inr s"
    using exit_setup by blast
  with run_eflags [OF this steps_refl] show ?thesis by auto
qed

text \<open>C7. What the kernel side keeps while the program runs: the three standard descriptors never change
  (closing them is ignored and opening starts at 3), and the break never falls.\<close>

theorem run_descriptors_break:
  assumes "main_setup calloc_ok os files argv w = Inr s" and "steps fp os s s'"
  shows "take 3 (fd_table s') = take 3 (fd_table s) \<and> g_brk s \<le> g_brk s'"
proof -
  have "wf_machine s" using wf_setup.inv_main_setup [OF boot_state_wf assms(1)] .
  then have "os_kept (take 3 (fd_table s)) (g_brk s) s" by (simp add: os_kept_def wf_machine_def)
  from kept.inv_steps [OF assms(2) this] show ?thesis by (simp add: os_kept_def)
qed

theorem run_descriptors_break_witness:
  "\<exists>s t. main_setup True mute_host exit_files exit_argv () = Inr s \<and> eip t \<noteq> eip s \<and>
     steps null_fp mute_host s t \<and> g_brk s \<le> g_brk t"
proof -
  obtain s where s: "main_setup True mute_host exit_files exit_argv () = Inr s" "eip s = 0x08048000"
      "\<not> halted s" "length (regs s) = 8" "g_size s = 0x20000000"
      "\<forall>k < 12. g_mem s (0x08048000 + k) = exit_elf ! (84 + k)"
    using exit_setup by blast
  obtain t where "steps null_fp mute_host s t" "eip t = 0x0804800A"
    using exit_run [OF s] by blast
  with run_descriptors_break [OF s(1) this(1)] s show ?thesis by (intro exI [of _ s] exI [of _ t]) simp
qed

text \<open>C3. The exit status of the program, for every file, argument list and host: it exits with \<open>v\<close>
  exactly when the setup fails and \<open>v\<close> is 1, or an instruction has halted the processor and
  \<open>v\<close> is 0, or a state is reached whose next instruction is \<open>int 0x80\<close>, possibly behind prefix
  bytes, with the registers of \<open>exit\<close> or \<open>exit_group\<close> and EBX equal to \<open>v\<close>, or of \<open>tgkill\<close> with SIGABRT and \<open>v\<close>
  equal to 1. No other instruction or system call ends the program.\<close>

theorem run_status:
  "main_prog calloc_ok fp os files argv w = Some (Exit v) \<longleftrightarrow>
   ((\<nexists>s. main_setup calloc_ok os files argv w = Inr s) \<and> v = 1) \<or>
   (\<exists>s t. main_setup calloc_ok os files argv w = Inr s \<and> steps fp os s t \<and>
      (if halted t then v = 0
       else at_int80 t \<and>
         ((reg t REG_EAX = 1 \<or> reg t REG_EAX = 252) \<and> v = reg t REG_EBX \<or>
          reg t REG_EAX = 270 \<and> reg t REG_EDX = 6 \<and> v = 1)))"
proof (cases "main_setup calloc_ok os files argv w")
  case (Inl e)
  then have "e = Exit 1"
    by (auto simp: main_setup_def init_mem_def Let_def split: if_splits sum.splits)
  with Inl show ?thesis by (auto simp: main_prog_def)
next
  case (Inr s)
  have size: "g_size t < 2 ^ 32" if "steps fp os s t" for t
    using conf_setup.inv_main_run [OF boot_state_confined Inr that] by (simp add: confined_def)
  have step: "emulate_step fp os t = Inl (Exit v) \<longleftrightarrow> at_int80 t \<and>
      ((reg t REG_EAX = 1 \<or> reg t REG_EAX = 252) \<and> v = reg t REG_EBX \<or>
       reg t REG_EAX = 270 \<and> reg t REG_EDX = 6 \<and> v = 1)" if "steps fp os s t" for t
    unfolding emulate_step_exit [OF size [OF that]] by (auto simp: exit_request_def)
  have "main_prog calloc_ok fp os files argv w = Some (Exit v) \<longleftrightarrow>
      (\<exists>t. steps fp os s t \<and> (if halted t then v = 0 else emulate_step fp os t = Inl (Exit v)))"
    unfolding main_prog_def Inr sum.case by (rule emulate_status)
  then show ?thesis by (simp add: Inr step cong: conj_cong)
qed

text \<open>The sample executable: the state of its system call is reached, so its status is 42.\<close>

theorem run_status_witness:
  "main_prog True null_fp mute_host exit_files exit_argv () = Some (Exit 42) \<and>
   main_prog True null_fp mute_host exit_files [] () = Some (Exit 1)"
proof -
  obtain s where s: "main_setup True mute_host exit_files exit_argv () = Inr s" "eip s = 0x08048000"
      "\<not> halted s" "length (regs s) = 8" "g_size s = 0x20000000"
      "\<forall>k < 12. g_mem s (0x08048000 + k) = exit_elf ! (84 + k)"
    using exit_setup by blast
  obtain t where t: "steps null_fp mute_host s t" "\<not> halted t" "eip t = 0x0804800A" "g_mem t = g_mem s"
      "g_size t = 0x20000000" "reg t REG_EAX = 1" "reg t REG_EBX = 42"
    using exit_run [OF s] by blast
  have "g_mem s 0x0804800A = 0xCD" "g_mem s 0x0804800B = 0x80"
    using s(6) [rule_format, of 10] s(6) [rule_format, of 11] by (simp_all add: exit_elf_def)
  then have "int80_after 0 (mem_read8 (eip t) t) (eip t + 1) t"
    using t by (simp add: mem_read8_def check_bounds_def)
  then have "at_int80 t" unfolding at_int80_def by blast
  then show ?thesis
    using run_status [of True null_fp mute_host exit_files exit_argv "()" 42]
      run_status [of True null_fp mute_host exit_files "[]" "()" 1] s(1) t
    by (auto simp: main_setup_def)
qed

text \<open>C8. One round of \<open>emulate\<close> does not depend on the bound given to \<open>execute_opcode\<close>: every bound
  from \<open>g_size s + 2\<close> on gives the same result.\<close>

theorem round_bound_irrelevant:
  assumes "g_size s < 2 ^ 32" and "g_size s + 2 \<le> n"
  shows "execute_opcode n fp os op s = execute_opcode (g_size s + 2) fp os op s \<and>
    execute_opcode n fp os op s \<noteq> Inl OutOfFuel"
proof -
  have room: "prefix_room s + 1 < g_size s + 2" by (simp add: prefix_room_def)
  have "prefix_room s + 1 < n" using room assms(2) by linarith
  then show ?thesis
    using execute_opcode_fuel [OF assms(1) room assms(2), of fp os op]
      execute_opcode_terminates [OF assms(1), of n fp os op]
    by (simp add: terminates_def del: execute_opcode.simps)
qed

theorem round_bound_irrelevant_witness:
  "execute_opcode 0x20000003 null_fp mute_host 0x66 (boot_state mute_host ()) =
   execute_opcode 0x20000002 null_fp mute_host 0x66 (boot_state mute_host ())"
proof -
  have size: "g_size (boot_state mute_host ()) = 0x20000000"
    using boot_state_confined [of mute_host "()"] by (simp add: confined_def)
  then have "(0x20000002 :: nat) = g_size (boot_state mute_host ()) + 2" by simp
  then show ?thesis
    using round_bound_irrelevant [of "boot_state mute_host ()" "0x20000003" null_fp mute_host "0x66"] size
    by (simp del: execute_opcode.simps)
qed

text \<open>C5. The exit system calls: when the program is at \<open>int 0x80\<close> with EAX 1 or 252, the emulation
  ends there and the status is EBX.\<close>

theorem exit_call:
  assumes "\<not> halted s" and "mem_read8 (eip s) s = 0xCD" and "mem_read8 (eip s + 1) s = 0x80"
    and "reg s REG_EAX \<in> {1, 252}"
  shows "emulate fp os s = Some (Inl (Exit (reg s REG_EBX)))"
proof -
  have "emulate_step fp os s = Inl (Exit (reg s REG_EBX))"
    using assms(2-4)
    by (auto simp: emulate_step_def Let_def opcode_lookup op_int_def fetch8_def dispatch_syscall_def
        sys_exit_def reg_def mem_read8_def check_bounds_def)
  then show ?thesis using assms(1) by (simp add: emulate_simps)
qed

text \<open>The whole program on the sample executable ends with status 42.\<close>

theorem exit_call_witness:
  "main_prog True null_fp mute_host exit_files exit_argv () = Some (Exit 42)"
proof -
  obtain s where s: "main_setup True mute_host exit_files exit_argv () = Inr s" "eip s = 0x08048000"
      "\<not> halted s" "length (regs s) = 8" "g_size s = 0x20000000"
      "\<forall>k < 12. g_mem s (0x08048000 + k) = exit_elf ! (84 + k)"
    using exit_setup by blast
  obtain t where t: "steps null_fp mute_host s t" "\<not> halted t" "eip t = 0x0804800A" "g_mem t = g_mem s"
      "g_size t = 0x20000000" "reg t REG_EAX = 1" "reg t REG_EBX = 42"
    using exit_run [OF s] by blast
  have "g_mem s 0x0804800A = 0xCD" "g_mem s 0x0804800B = 0x80"
    using s(6) [rule_format, of 10] s(6) [rule_format, of 11] by (simp_all add: exit_elf_def)
  then have "emulate null_fp mute_host t = Some (Inl (Exit 42))"
    using exit_call [OF t(2), of null_fp mute_host] t by (simp add: mem_read8_def check_bounds_def)
  then show ?thesis using s(1) steps_emulate [OF t(1)] by (simp add: main_prog_def)
qed

end
